(* ===== verification/Prelude.thy ===== *)
theory Prelude
  imports Main "HOL-Library.Word" "HOL-Library.Char_ord" "HOL-Library.List_Lexorder"
begin

text \<open>
  What every component of the model shares: the Go values the structs are made of (slices,
  string maps, 64-bit integers, durations), the outcome of a Go call (it returns, or it panics),
  programs over an explicit state, and an effect calculus that says which events a program can
  append to its log.

  A Go slice is a list under an option, because the code and \<^verbatim>\<open>encoding/json\<close> both tell a nil
  slice from an empty one; a Go map is a partial function under an option for the same reason.
\<close>

section \<open>Collections of facts\<close>

named_theorems effect_intros \<open>introduction rules of the effect calculus\<close>
named_theorems prog_simps \<open>evaluation of programs\<close>

section \<open>Go values\<close>

type_synonym goint = "64 word"
type_synonym 'a slice = "'a list option"
type_synonym 'v strmap = "(string \<rightharpoonup> 'v) option"

text \<open>The elements a \<^verbatim>\<open>range\<close> loop visits: none for a nil slice.\<close>

definition elems :: "'a slice \<Rightarrow> 'a list" where
  "elems s = (case s of None \<Rightarrow> [] | Some xs \<Rightarrow> xs)"

text \<open>Indexing a (possibly nil) map of strings: the zero value where the key is missing.\<close>

definition mapget :: "string strmap \<Rightarrow> string \<Rightarrow> string" where
  "mapget m k = (case m of None \<Rightarrow> [] | Some f \<Rightarrow> (case f k of None \<Rightarrow> [] | Some v \<Rightarrow> v))"

text \<open>\<^verbatim>\<open>append\<close> in a loop that starts from a nil slice: nil exactly when nothing was appended.\<close>

definition appended :: "'a list \<Rightarrow> 'a slice" where
  "appended xs = (if xs = [] then None else Some xs)"

lemma elems_simps [simp]: "elems None = []" "elems (Some xs) = xs"
  by (simp_all add: elems_def)

lemma elems_appended [simp]: "elems (appended xs) = xs"
  by (simp add: appended_def)

lemma appended_simps [simp]: "appended [] = None" "appended (x # xs) = Some (x # xs)"
  by (simp_all add: appended_def)

lemma mapget_simps [simp]:
  "mapget None k = []"
  "f k = None \<Longrightarrow> mapget (Some f) k = []"
  "f k = Some v \<Longrightarrow> mapget (Some f) k = v"
  by (simp_all add: mapget_def)

section \<open>Outcomes and programs\<close>

datatype 'a outcome = Returned 'a | Panicked string

primrec bindO :: "'a outcome \<Rightarrow> ('a \<Rightarrow> 'b outcome) \<Rightarrow> 'b outcome" where
  "bindO (Returned a) f = f a"
| "bindO (Panicked p) f = Panicked p"

text \<open>The run-time panics the code can meet.\<close>

definition nil_deref :: string where
  "nil_deref = ''invalid memory address or nil pointer dereference''"

definition index_out_of_range :: string where
  "index_out_of_range = ''index out of range''"

definition bad_assertion :: string where
  "bad_assertion = ''interface conversion''"

fun mapO :: "('a \<Rightarrow> 'b outcome) \<Rightarrow> 'a list \<Rightarrow> 'b list outcome" where
  "mapO f [] = Returned []"
| "mapO f (x # xs) = bindO (f x) (\<lambda>y. bindO (mapO f xs) (\<lambda>ys. Returned (y # ys)))"

lemma bindO_Returned_iff: "bindO m f = Returned b \<longleftrightarrow> (\<exists>a. m = Returned a \<and> f a = Returned b)"
  by (cases m) auto

lemma bindO_Panicked_iff:
  "bindO m f = Panicked p \<longleftrightarrow> m = Panicked p \<or> (\<exists>a. m = Returned a \<and> f a = Panicked p)"
  by (cases m) auto

lemma mapO_total: "(\<And>x. x \<in> set xs \<Longrightarrow> f x = Returned (g x)) \<Longrightarrow> mapO f xs = Returned (map g xs)"
  by (induction xs) auto

lemma mapO_panics:
  "x \<in> set xs \<Longrightarrow> f x = Panicked p \<Longrightarrow> \<exists>q. mapO f xs = Panicked q"
proof (induction xs)
  case Nil
  then show ?case by simp
next
  case (Cons y ys)
  show ?case
  proof (cases "f y")
    case (Returned b)
    with Cons.prems have "x \<in> set ys" by auto
    with Cons.IH Cons.prems obtain q where "mapO f ys = Panicked q" by blast
    with Returned show ?thesis by simp
  next
    case (Panicked q)
    then show ?thesis by simp
  qed
qed

text \<open>A program maps a state to an outcome and the state it leaves.\<close>

type_synonym ('s, 'a) prog = "'s \<Rightarrow> 'a outcome \<times> 's"

definition ret :: "'a \<Rightarrow> ('s, 'a) prog" where
  "ret a s = (Returned a, s)"

definition lift_outcome :: "'a outcome \<Rightarrow> ('s, 'a) prog" where
  "lift_outcome r s = (r, s)"

definition bind :: "('s, 'a) prog \<Rightarrow> ('a \<Rightarrow> ('s, 'b) prog) \<Rightarrow> ('s, 'b) prog" where
  "bind m f s = (case m s of (Returned a, s') \<Rightarrow> f a s' | (Panicked p, s') \<Rightarrow> (Panicked p, s'))"

lemma ret_apply [simp, prog_simps]: "ret a s = (Returned a, s)"
  by (simp add: ret_def)

lemma lift_outcome_apply [simp, prog_simps]: "lift_outcome r s = (r, s)"
  by (simp add: lift_outcome_def)

lemma bind_Returned [simp, prog_simps]: "m s = (Returned a, s') \<Longrightarrow> bind m f s = f a s'"
  by (simp add: bind_def)

lemma bind_Panicked [simp, prog_simps]: "m s = (Panicked p, s') \<Longrightarrow> bind m f s = (Panicked p, s')"
  by (simp add: bind_def)

lemma bind_ret [simp]: "bind (ret a) f = f a"
  by (rule ext) (simp add: bind_def)

lemma bind_assoc: "bind (bind m f) g = bind m (\<lambda>x. bind (f x) g)"
  by (rule ext) (simp add: bind_def split: prod.split outcome.split)

lemma bind_cases:
  assumes "bind m f s = (r, t)"
  obtains (ok) a s' where "m s = (Returned a, s')" "f a s' = (r, t)"
  | (panic) p where "m s = (Panicked p, t)" "r = Panicked p"
  using assms by (auto simp: bind_def split: prod.splits outcome.splits)

section \<open>Result of a Go call that returns an error\<close>

text \<open>\<^verbatim>\<open>(T, error)\<close> is a sum: \<open>Inl\<close> the error's text, \<open>Inr\<close> the value.\<close>

type_synonym 'a result = "string + 'a"

end
