(* ===== verification/GoStrings.thy ===== *)
theory GoStrings
  imports Prelude
begin

text \<open>
  The part of Go's string library the source uses. A Go string is a sequence of bytes, which is
  what a HOL \<^typ>\<open>string\<close> is. Modelled: the UTF-8 decoding loop of \<^verbatim>\<open>range\<close> and \<^verbatim>\<open>utf8.DecodeRune\<close>
  (with \<^verbatim>\<open>RuneError\<close> of width 1 for an invalid byte), \<^verbatim>\<open>strings.TrimSpace\<close>, \<^verbatim>\<open>strings.Index\<close>,
  \<^verbatim>\<open>strings.IndexAny\<close>, \<^verbatim>\<open>strings.LastIndex\<close>, \<^verbatim>\<open>strings.Join\<close>, \<^verbatim>\<open>strings.Split\<close>, \<^verbatim>\<open>strings.ToLower\<close>
  and the decimal formatting of integers.
\<close>

section \<open>UTF-8\<close>

definition byte :: "char \<Rightarrow> nat" where
  "byte c = of_char c"

definition rune_error :: nat where
  "rune_error = 65533"

definition is_cont :: "nat \<Rightarrow> bool" where
  "is_cont b \<longleftrightarrow> 128 \<le> b \<and> b < 192"

text \<open>
  \<^verbatim>\<open>utf8.DecodeRune\<close>: the rune at the front of a non-empty string and the bytes it takes. The
  ranges of the second byte exclude overlong forms, surrogates and runes above U+10FFFF.
\<close>

definition second_range :: "nat \<Rightarrow> nat \<times> nat" where
  "second_range b0 =
     (if b0 = 224 then (160, 192) else if b0 = 237 then (128, 160)
      else if b0 = 240 then (144, 192) else if b0 = 244 then (128, 144)
      else (128, 192))"

definition rune_width :: "nat \<Rightarrow> nat" where
  "rune_width b0 =
     (if b0 < 128 then 1 else if b0 < 194 then 0 else if b0 < 224 then 2
      else if b0 < 240 then 3 else if b0 < 245 then 4 else 0)"

definition in_second :: "nat \<Rightarrow> nat \<Rightarrow> bool" where
  "in_second b0 b1 \<longleftrightarrow> fst (second_range b0) \<le> b1 \<and> b1 < snd (second_range b0)"

fun decode_bytes :: "nat list \<Rightarrow> nat \<times> nat" where
  "decode_bytes [] = (rune_error, 1)"
| "decode_bytes (b0 # bs) =
     (if rune_width b0 = 1 then (b0, 1)
      else if rune_width b0 = 2 then
        (case bs of b1 # _ \<Rightarrow>
           if in_second b0 b1 then ((b0 - 192) * 64 + (b1 - 128), 2) else (rune_error, 1)
         | _ \<Rightarrow> (rune_error, 1))
      else if rune_width b0 = 3 then
        (case bs of b1 # b2 # _ \<Rightarrow>
           if in_second b0 b1 \<and> is_cont b2
           then ((b0 - 224) * 4096 + (b1 - 128) * 64 + (b2 - 128), 3) else (rune_error, 1)
         | _ \<Rightarrow> (rune_error, 1))
      else if rune_width b0 = 4 then
        (case bs of b1 # b2 # b3 # _ \<Rightarrow>
           if in_second b0 b1 \<and> is_cont b2 \<and> is_cont b3
           then ((b0 - 240) * 262144 + (b1 - 128) * 4096 + (b2 - 128) * 64 + (b3 - 128), 4)
           else (rune_error, 1)
         | _ \<Rightarrow> (rune_error, 1))
      else (rune_error, 1))"

definition decodeRune :: "string \<Rightarrow> nat \<times> nat" where
  "decodeRune s = decode_bytes (map byte (take 4 s))"

lemma decode_bytes_pos: "0 < snd (decode_bytes bs)"
  by (cases bs) (auto split: list.splits)

lemma decodeRune_pos: "0 < snd (decodeRune s)"
  by (simp add: decodeRune_def decode_bytes_pos)

text \<open>A string as its runes, each with the bytes it was decoded from.\<close>

function runes :: "string \<Rightarrow> (nat \<times> string) list" where
  "runes [] = []"
| "runes (c # s) =
     (let (r, n) = decodeRune (c # s)
      in (r, take n (c # s)) # runes (drop n (c # s)))"
  by pat_completeness auto
termination
proof (relation "measure length")
  show "wf (measure (length :: string \<Rightarrow> nat))" by simp
next
  fix c :: char and s :: string and x r n
  assume "x = decodeRune (c # s)" "(r, n) = x"
  with decodeRune_pos [of "c # s"] have "0 < n" by (metis snd_conv)
  then show "(drop n (c # s), c # s) \<in> measure length" by simp
qed

lemma concat_runes: "concat (map snd (runes s)) = s"
proof (induction s rule: runes.induct)
  case 1
  then show ?case by simp
next
  case (2 c s)
  obtain r n where d: "decodeRune (c # s) = (r, n)" by force
  have "concat (map snd (runes (drop n (c # s)))) = drop n (c # s)"
    using "2.IH" [OF d [symmetric] refl] .
  then show ?case by (simp only: runes.simps Let_def d prod.case list.map concat.simps snd_conv
      append_take_drop_id)
qed

definition bad_rune :: "nat \<times> string \<Rightarrow> bool" where
  "bad_rune p \<longleftrightarrow> fst p = rune_error \<and> length (snd p) = 1"

definition valid_utf8 :: "string \<Rightarrow> bool" where
  "valid_utf8 s \<longleftrightarrow> list_all (\<lambda>p. \<not> bad_rune p) (runes s)"

section \<open>Searching and cutting\<close>

text \<open>\<^verbatim>\<open>strings.Index\<close>; the negative result of a failed search is \<open>None\<close>.\<close>

fun index :: "string \<Rightarrow> string \<Rightarrow> nat option" where
  "index [] p = (if p = [] then Some 0 else None)"
| "index (c # s) p = (if take (length p) (c # s) = p then Some 0 else map_option Suc (index s p))"

fun indexAny :: "string \<Rightarrow> string \<Rightarrow> nat option" where
  "indexAny [] cs = None"
| "indexAny (c # s) cs = (if c \<in> set cs then Some 0 else map_option Suc (indexAny s cs))"

fun lastIndexByte :: "string \<Rightarrow> char \<Rightarrow> nat option" where
  "lastIndexByte [] b = None"
| "lastIndexByte (c # s) b =
     (case lastIndexByte s b of Some i \<Rightarrow> Some (Suc i) | None \<Rightarrow> if c = b then Some 0 else None)"

fun join :: "string \<Rightarrow> string list \<Rightarrow> string" where
  "join sep [] = []"
| "join sep [x] = x"
| "join sep (x # y # ys) = x @ sep @ join sep (y # ys)"

text \<open>\<^verbatim>\<open>strings.Split\<close> on a one-byte separator: the empty string gives one empty piece.\<close>

fun split_byte :: "char \<Rightarrow> string \<Rightarrow> string list" where
  "split_byte b [] = [[]]"
| "split_byte b (c # s) =
     (if c = b then [] # split_byte b s
      else (case split_byte b s of [] \<Rightarrow> [[c]] | w # ws \<Rightarrow> (c # w) # ws))"

text \<open>
  \<^verbatim>\<open>strings.TrimSpace\<close>: the white space of \<^verbatim>\<open>unicode.IsSpace\<close>, removed at both ends.
\<close>

definition isSpaceRune :: "nat \<Rightarrow> bool" where
  "isSpaceRune r \<longleftrightarrow> r \<in> {9, 10, 11, 12, 13, 32, 133, 160, 5760, 8232, 8233, 8239, 8287, 12288}
     \<or> 8192 \<le> r \<and> r \<le> 8202"

definition isSpace :: "nat \<times> string \<Rightarrow> bool" where
  "isSpace p = isSpaceRune (fst p)"

definition trimSpace :: "string \<Rightarrow> string" where
  "trimSpace s =
     concat (map snd (rev (dropWhile isSpace (rev (dropWhile isSpace (runes s))))))"

text \<open>
  \<^verbatim>\<open>strings.ToLower\<close> as far as a comparison with an ASCII string can see: the ASCII letters, and
  the two other runes whose lower case is an ASCII letter (U+0130 and U+212A). Every other rune
  has a non-ASCII lower case and is kept.
\<close>

definition lowerByte :: "char \<Rightarrow> char" where
  "lowerByte c = (if 65 \<le> byte c \<and> byte c \<le> 90 then char_of (byte c + 32) else c)"

definition lowerRune :: "nat \<times> string \<Rightarrow> string" where
  "lowerRune p = (if fst p = 304 then ''i'' else if fst p = 8490 then ''k'' else map lowerByte (snd p))"

definition toLower :: "string \<Rightarrow> string" where
  "toLower s = concat (map lowerRune (runes s))"

section \<open>Formatting\<close>

definition digit :: "nat \<Rightarrow> char" where
  "digit n = char_of (48 + n)"

fun show_nat :: "nat \<Rightarrow> string" where
  "show_nat n = (if n < 10 then [digit n] else show_nat (n div 10) @ [digit (n mod 10)])"

declare show_nat.simps [simp del]

definition show_int :: "int \<Rightarrow> string" where
  "show_int i = (if i < 0 then CHR ''-'' # show_nat (nat (- i)) else show_nat (nat i))"

definition show_goint :: "goint \<Rightarrow> string" where
  "show_goint w = show_int (sint w)"

definition hexDigit :: "nat \<Rightarrow> char" where
  "hexDigit n = (if n < 10 then char_of (48 + n) else char_of (87 + n))"

definition hexByte :: "nat \<Rightarrow> string" where
  "hexByte n = [hexDigit (n div 16 mod 16), hexDigit (n mod 16)]"

text \<open>
  \<^verbatim>\<open>fmt\<close>'s \<^verbatim>\<open>%q\<close>: exact on ASCII; a byte above it is copied, as \<^verbatim>\<open>strconv.Quote\<close> does for the
  printable runes of a valid string.
\<close>

definition quoteByte :: "char \<Rightarrow> string" where
  "quoteByte c =
     (if c = CHR 0x22 then [CHR 0x5C, CHR 0x22] else if c = CHR 0x5C then [CHR 0x5C, CHR 0x5C]
      else if byte c = 7 then CHR 0x5C # ''a'' else if byte c = 8 then CHR 0x5C # ''b''
      else if byte c = 12 then CHR 0x5C # ''f'' else if byte c = 10 then CHR 0x5C # ''n''
      else if byte c = 13 then CHR 0x5C # ''r'' else if byte c = 9 then CHR 0x5C # ''t''
      else if byte c = 11 then CHR 0x5C # ''v''
      else if byte c < 32 \<or> byte c = 127 then CHR 0x5C # CHR ''x'' # hexByte (byte c)
      else [c])"

definition quote :: "string \<Rightarrow> string" where
  "quote s = CHR 0x22 # concat (map quoteByte s) @ [CHR 0x22]"

section \<open>Facts\<close>

lemma indexAny_Some_iff:
  "indexAny s cs = Some i \<longleftrightarrow> i < length s \<and> s ! i \<in> set cs \<and> (\<forall>j < i. s ! j \<notin> set cs)"
proof (induction s arbitrary: i)
  case Nil
  then show ?case by simp
next
  case (Cons c s)
  show ?case
    by (cases i) (auto simp: Cons.IH less_Suc_eq_0_disj)
qed

lemma indexAny_None_iff: "indexAny s cs = None \<longleftrightarrow> set s \<inter> set cs = {}"
  by (induction s) auto

lemma lastIndexByte_None_iff: "lastIndexByte s b = None \<longleftrightarrow> b \<notin> set s"
  by (induction s) (auto split: option.splits)

lemma lastIndexByte_less: "lastIndexByte s b = Some i \<Longrightarrow> i < length s"
  by (induction s arbitrary: i) (auto split: option.splits if_splits)

lemma index_bound: "index s p = Some i \<Longrightarrow> i + length p \<le> length s"
proof (induction s arbitrary: i)
  case Nil
  then show ?case by (simp split: if_splits)
next
  case (Cons c s)
  show ?case
  proof (cases "take (length p) (c # s) = p")
    case True
    then have "length p \<le> length (c # s)" by (metis length_take min.cobounded2 min.commute)
    with True Cons.prems show ?thesis by simp
  next
    case False
    with Cons show ?thesis by (auto simp del: take_Suc_Cons)
  qed
qed

lemma split_byte_not_Nil [simp]: "split_byte b s \<noteq> []"
  by (induction s) (auto split: list.splits)

lemma split_byte_no_sep: "b \<notin> set w \<Longrightarrow> split_byte b w = [w]"
  by (induction w) auto

lemma split_byte_append:
  "b \<notin> set w \<Longrightarrow> split_byte b (w @ b # s) = w # split_byte b s"
  by (induction w) auto

text \<open>\<^verbatim>\<open>Split\<close> undoes \<^verbatim>\<open>Join\<close> on a non-empty list of words free of the separator.\<close>

lemma split_join:
  assumes "ws \<noteq> []" and "\<And>w. w \<in> set ws \<Longrightarrow> b \<notin> set w"
  shows "split_byte b (join [b] ws) = ws"
  using assms
proof (induction "[b]" ws rule: join.induct)
  case (3 x y ys)
  then show ?case by (simp add: split_byte_append)
qed (simp_all add: split_byte_no_sep)

text \<open>The decimal text of an integer determines it.\<close>

definition digits_value :: "string \<Rightarrow> nat" where
  "digits_value s = foldl (\<lambda>a c. a * 10 + (byte c - 48)) 0 s"

lemma byte_digit: "n < 10 \<Longrightarrow> byte (digit n) = 48 + n"
  by (simp add: byte_def digit_def)

lemma digits_value_show_nat: "digits_value (show_nat n) = n"
proof (induction n rule: show_nat.induct)
  case (1 n)
  show ?case
  proof (cases "n < 10")
    case True
    then show ?thesis by (subst show_nat.simps) (simp add: digits_value_def byte_digit)
  next
    case False
    with 1 have "foldl (\<lambda>a c. a * 10 + (byte c - 48)) 0 (show_nat (n div 10)) = n div 10"
      by (simp add: digits_value_def)
    with False show ?thesis
      by (subst show_nat.simps) (simp add: digits_value_def byte_digit)
  qed
qed

lemma show_nat_digits: "c \<in> set (show_nat n) \<Longrightarrow> 48 \<le> byte c \<and> byte c < 58"
proof (induction n rule: show_nat.induct)
  case (1 n)
  show ?case
  proof (cases "n < 10")
    case True
    with "1.prems" show ?thesis by (subst (asm) show_nat.simps) (simp add: byte_digit)
  next
    case False
    with "1.prems" have "c \<in> set (show_nat (n div 10)) \<or> c = digit (n mod 10)"
      by (subst (asm) show_nat.simps) auto
    with "1.IH" [OF False] show ?thesis by (auto simp: byte_digit)
  qed
qed

lemma show_nat_not_Nil: "show_nat n \<noteq> []"
  by (subst show_nat.simps) simp

lemma show_int_inject: "show_int i = show_int j \<longleftrightarrow> i = j"
proof
  assume eq: "show_int i = show_int j"
  have neg: "CHR ''-'' \<notin> set (show_nat n)" for n
    using show_nat_digits [of "CHR ''-''" n] by (auto simp: byte_def)
  have "i < 0 \<longleftrightarrow> j < 0"
    using eq neg show_nat_not_Nil by (auto simp: show_int_def split: if_splits)
      (metis list.set_intros(1))+
  with eq have "show_nat (nat \<bar>i\<bar>) = show_nat (nat \<bar>j\<bar>)"
    by (auto simp: show_int_def split: if_splits)
  then have "nat \<bar>i\<bar> = nat \<bar>j\<bar>"
    by (metis digits_value_show_nat)
  with \<open>i < 0 \<longleftrightarrow> j < 0\<close> show "i = j" by linarith
qed simp

lemma show_goint_inject: "show_goint v = show_goint w \<longleftrightarrow> v = w"
  by (simp add: show_goint_def show_int_inject flip: word_eq_iff_signed)

end
