(* ===== verification/GoJson.thy ===== *)
theory GoJson
  imports GoStrings
begin

text \<open>
  \<^verbatim>\<open>encoding/json\<close> as the source uses it: JSON values, the compact text that \<^verbatim>\<open>json.Marshal\<close>
  writes for them (HTML-safe string escapes, U+2028 and U+2029 escaped, an invalid byte replaced
  by U+FFFD), and the rule that a Go map is written with its keys sorted. The main result is that
  the text determines the value when every string in it is valid UTF-8, which is what makes a
  comparison of marshalled texts a comparison of values.
\<close>

section \<open>Values and their text\<close>

datatype json =
    JNull
  | JBool bool
  | JNum string
  | JStr string
  | JArr "json list"
  | JObj "(string \<times> json) list"

definition jsonEscRune :: "nat \<times> string \<Rightarrow> string" where
  "jsonEscRune p =
     (let r = fst p in
      if r < 128 then
        (if r = 34 \<or> r = 92 then [CHR 0x5C, char_of r]
         else if r = 8 then CHR 0x5C # ''b''
         else if r = 12 then CHR 0x5C # ''f''
         else if r = 10 then CHR 0x5C # ''n''
         else if r = 13 then CHR 0x5C # ''r''
         else if r = 9 then CHR 0x5C # ''t''
         else if r < 32 \<or> r = 60 \<or> r = 62 \<or> r = 38 then CHR 0x5C # ''u00'' @ hexByte r
         else snd p)
      else if bad_rune p then CHR 0x5C # ''ufffd''
      else if r = 8232 \<or> r = 8233 then CHR 0x5C # ''u202'' @ [hexDigit (r mod 16)]
      else snd p)"

definition jsonString :: "string \<Rightarrow> string" where
  "jsonString s = CHR 0x22 # concat (map jsonEscRune (runes s)) @ [CHR 0x22]"

fun jsonText :: "json \<Rightarrow> string" where
  "jsonText JNull = ''null''"
| "jsonText (JBool b) = (if b then ''true'' else ''false'')"
| "jsonText (JNum w) = w"
| "jsonText (JStr s) = jsonString s"
| "jsonText (JArr xs) = CHR ''['' # join '','' (map jsonText xs) @ '']''"
| "jsonText (JObj kvs) =
     CHR ''{'' # join '','' (map (\<lambda>kv. jsonString (fst kv) @ CHR '':'' # jsonText (snd kv)) kvs) @ ''}''"

text \<open>How struct fields are written: \<open>fld\<close> always, the others only when not the empty value.\<close>

type_synonym field = "(string \<times> json) list"

definition fld :: "string \<Rightarrow> json \<Rightarrow> field" where
  "fld k v = [(k, v)]"

definition omitStr :: "string \<Rightarrow> string \<Rightarrow> field" where
  "omitStr k s = (if s = [] then [] else [(k, JStr s)])"

definition omitBool :: "string \<Rightarrow> bool \<Rightarrow> field" where
  "omitBool k b = (if b then [(k, JBool True)] else [])"

definition jsonInt :: "goint \<Rightarrow> json" where
  "jsonInt w = JNum (show_goint w)"

definition omitInt :: "string \<Rightarrow> goint \<Rightarrow> field" where
  "omitInt k w = (if w = 0 then [] else [(k, jsonInt w)])"

definition jsonSlice :: "('a \<Rightarrow> json) \<Rightarrow> 'a slice \<Rightarrow> json" where
  "jsonSlice f s = (case s of None \<Rightarrow> JNull | Some xs \<Rightarrow> JArr (map f xs))"

definition omitSlice :: "string \<Rightarrow> ('a \<Rightarrow> json) \<Rightarrow> 'a slice \<Rightarrow> field" where
  "omitSlice k f s = (if elems s = [] then [] else [(k, JArr (map f (elems s)))])"

definition jsonPtr :: "('a \<Rightarrow> json) \<Rightarrow> 'a option \<Rightarrow> json" where
  "jsonPtr f p = (case p of None \<Rightarrow> JNull | Some x \<Rightarrow> f x)"

text \<open>A Go map: its entries in the order of their keys.\<close>

definition jsonMap :: "(string \<times> json) list \<Rightarrow> json" where
  "jsonMap kvs = JObj (sort_key fst kvs)"

section \<open>Well-formed values\<close>

definition numChars :: string where
  "numChars = ''0123456789-+.eE''"

definition num_ok :: "string \<Rightarrow> bool" where
  "num_ok w \<longleftrightarrow> w \<noteq> [] \<and> list_all (\<lambda>c. c \<in> set numChars) w \<and> hd w \<in> set ''0123456789-''"

fun json_ok :: "json \<Rightarrow> bool" where
  "json_ok JNull = True"
| "json_ok (JBool b) = True"
| "json_ok (JNum w) = num_ok w"
| "json_ok (JStr s) = valid_utf8 s"
| "json_ok (JArr xs) = list_all json_ok xs"
| "json_ok (JObj kvs) = list_all (\<lambda>kv. valid_utf8 (fst kv) \<and> json_ok (snd kv)) kvs"

section \<open>The text of a string determines the string\<close>

text \<open>A segment that decoding produced: an ASCII byte, a bad byte or a well-formed sequence.\<close>

definition seg_ok :: "nat \<times> string \<Rightarrow> bool" where
  "seg_ok p \<longleftrightarrow>
     (\<exists>c. snd p = [c] \<and> byte c < 128 \<and> fst p = byte c) \<or> bad_rune p
     \<or> (\<exists>c cs. snd p = c # cs \<and> 128 \<le> byte c \<and> Suc (length cs) = rune_width (byte c)
           \<and> 128 \<le> fst p
           \<and> (fst p = 8232 \<longrightarrow> snd p = [CHR 0xE2, CHR 0x80, CHR 0xA8])
           \<and> (fst p = 8233 \<longrightarrow> snd p = [CHR 0xE2, CHR 0x80, CHR 0xA9]))"

lemma byte_less: "byte c < 256"
  by (simp add: byte_def)

lemma byte_inject: "byte c = byte d \<longleftrightarrow> c = d"
  by (simp add: byte_def)

lemma byte_char_of [simp]: "n < 256 \<Longrightarrow> byte (char_of n) = n"
  by (simp add: byte_def)

lemma char_of_byte [simp]: "char_of (byte c) = c"
  by (simp add: byte_def)

lemma rune_width_cases:
  "rune_width b = Suc 0 \<longleftrightarrow> b < 128" "rune_width b = 2 \<longleftrightarrow> 194 \<le> b \<and> b < 224"
  "rune_width b = 3 \<longleftrightarrow> 224 \<le> b \<and> b < 240" "rune_width b = 4 \<longleftrightarrow> 240 \<le> b \<and> b < 245"
  by (auto simp: rune_width_def)

lemma second_range_bounds:
  "in_second b0 b1 \<Longrightarrow> 128 \<le> b1 \<and> b1 < 192"
  by (auto simp: in_second_def second_range_def split: if_splits)

lemma in_second_240: "in_second 240 b1 \<Longrightarrow> 144 \<le> b1"
  by (simp add: in_second_def second_range_def)

text \<open>Each byte sequence is matched to the char it starts with, one width at a time.\<close>

lemma decode_one: "decodeRune (c # s) = (r, n) \<Longrightarrow> byte c < 128 \<Longrightarrow> r = byte c \<and> n = 1"
  by (simp add: decodeRune_def rune_width_cases)

lemma decode_two:
  assumes "decodeRune (c # s) = (r, n)" "194 \<le> byte c" "byte c < 224"
  shows "(r, n) = (rune_error, 1) \<or>
    (\<exists>d s'. s = d # s' \<and> n = 2 \<and> r = (byte c - 192) * 64 + (byte d - 128) \<and> in_second (byte c) (byte d))"
proof (cases s)
  case Nil
  with assms show ?thesis by (simp add: decodeRune_def rune_width_cases)
next
  case (Cons d s')
  with assms show ?thesis
    by (auto simp: decodeRune_def rune_width_cases split: if_splits)
qed

lemma decode_three:
  assumes "decodeRune (c # s) = (r, n)" "224 \<le> byte c" "byte c < 240"
  shows "(r, n) = (rune_error, 1) \<or>
    (\<exists>d e s'. s = d # e # s' \<and> n = 3
       \<and> r = (byte c - 224) * 4096 + (byte d - 128) * 64 + (byte e - 128)
       \<and> in_second (byte c) (byte d) \<and> is_cont (byte e))"
proof -
  consider "s = []" | d where "s = [d]" | d e s' where "s = d # e # s'"
    by (metis list.exhaust)
  then show ?thesis
    using assms by cases (auto simp: decodeRune_def rune_width_cases split: if_splits)
qed

lemma decode_four:
  assumes "decodeRune (c # s) = (r, n)" "240 \<le> byte c" "byte c < 245"
  shows "(r, n) = (rune_error, 1) \<or>
    (\<exists>d e f s'. s = d # e # f # s' \<and> n = 4
       \<and> r = (byte c - 240) * 262144 + (byte d - 128) * 4096 + (byte e - 128) * 64 + (byte f - 128)
       \<and> in_second (byte c) (byte d) \<and> is_cont (byte e) \<and> is_cont (byte f))"
proof -
  consider "s = []" | d where "s = [d]" | d e where "s = [d, e]" | d e f s' where "s = d # e # f # s'"
    by (metis list.exhaust)
  then show ?thesis
    using assms by cases (auto simp: decodeRune_def rune_width_cases split: if_splits)
qed

lemma decode_other:
  "decodeRune (c # s) = (r, n) \<Longrightarrow> 128 \<le> byte c \<and> byte c < 194 \<or> 245 \<le> byte c \<Longrightarrow>
   (r, n) = (rune_error, 1)"
  by (auto simp: decodeRune_def rune_width_def)

lemma three_byte_separators:
  assumes "(a - 224) * 4096 + (b - 128) * 64 + (d - 128) = (8192 + k :: nat)" "k = 40 \<or> k = 41"
    and "224 \<le> a" "128 \<le> b" "b < 192" "128 \<le> d" "d < 192"
  shows "a = 226 \<and> b = 128 \<and> d = 128 + k"
proof -
  have "a - 224 = 2" using assms by linarith
  moreover from this have "b - 128 = 0" using assms by linarith
  ultimately show ?thesis using assms by linarith
qed

lemma seg_ok_decode:
  assumes "decodeRune (c # s) = (r, n)"
  shows "seg_ok (r, take n (c # s))"
proof -
  note w = byte_less [of c]
  have bad: "(r, n) = (rune_error, 1) \<Longrightarrow> ?thesis"
    by (simp add: seg_ok_def bad_rune_def)
  consider "byte c < 128" | "194 \<le> byte c" "byte c < 224" | "224 \<le> byte c" "byte c < 240"
    | "240 \<le> byte c" "byte c < 245" | "128 \<le> byte c \<and> byte c < 194 \<or> 245 \<le> byte c"
    by linarith
  then show ?thesis
  proof cases
    case 1
    with decode_one [OF assms] show ?thesis by (simp add: seg_ok_def)
  next
    case 2
    from decode_two [OF assms 2] show ?thesis
    proof
      assume "\<exists>d s'. s = d # s' \<and> n = 2 \<and> r = (byte c - 192) * 64 + (byte d - 128)
        \<and> in_second (byte c) (byte d)"
      then obtain d s' where d: "s = d # s'" "n = 2" "r = (byte c - 192) * 64 + (byte d - 128)"
        "in_second (byte c) (byte d)" by blast
      then have "128 \<le> byte d" "byte d < 192" using second_range_bounds by blast+
      then have "128 \<le> r" "r < 8232" using d(3) 2 by linarith+
      then show ?thesis using 2 d by (simp add: seg_ok_def rune_width_def)
    qed (rule bad)
  next
    case 3
    from decode_three [OF assms 3] show ?thesis
    proof
      assume "\<exists>d e s'. s = d # e # s' \<and> n = 3
       \<and> r = (byte c - 224) * 4096 + (byte d - 128) * 64 + (byte e - 128)
       \<and> in_second (byte c) (byte d) \<and> is_cont (byte e)"
      then obtain d e s' where d: "s = d # e # s'" "n = 3"
        "r = (byte c - 224) * 4096 + (byte d - 128) * 64 + (byte e - 128)"
        "in_second (byte c) (byte d)" "is_cont (byte e)" by blast
      then have b: "128 \<le> byte d" "byte d < 192" "128 \<le> byte e" "byte e < 192"
        using second_range_bounds by (auto simp: is_cont_def)
      have "byte c = 224 \<Longrightarrow> 160 \<le> byte d"
        using d(4) by (simp add: in_second_def second_range_def)
      then have r: "128 \<le> r" using d(3) b 3 by linarith
      have k: "byte c = 226 \<and> byte d = 128 \<and> byte e = 128 + k"
        if "r = 8192 + k" "k = 40 \<or> k = 41" for k :: nat
        using three_byte_separators [of "byte c" "byte d" "byte e" k] that d(3) b 3 by metis
      have q: "byte (CHR 0xE2) = 226" "byte (CHR 0x80) = 128" "byte (CHR 0xA8) = 168"
        "byte (CHR 0xA9) = 169" by (simp_all add: byte_def)
      from k [of 40] k [of 41] q
      have "r = 8232 \<Longrightarrow> [c, d, e] = [CHR 0xE2, CHR 0x80, CHR 0xA8]"
        "r = 8233 \<Longrightarrow> [c, d, e] = [CHR 0xE2, CHR 0x80, CHR 0xA9]"
        by (simp_all flip: byte_inject)
      then show ?thesis using 3 d r by (simp add: seg_ok_def rune_width_def)
    qed (rule bad)
  next
    case 4
    from decode_four [OF assms 4] show ?thesis
    proof
      assume "\<exists>d e f s'. s = d # e # f # s' \<and> n = 4
       \<and> r = (byte c - 240) * 262144 + (byte d - 128) * 4096 + (byte e - 128) * 64 + (byte f - 128)
       \<and> in_second (byte c) (byte d) \<and> is_cont (byte e) \<and> is_cont (byte f)"
      then obtain d e f s' where d: "s = d # e # f # s'" "n = 4"
        "r = (byte c - 240) * 262144 + (byte d - 128) * 4096 + (byte e - 128) * 64 + (byte f - 128)"
        "in_second (byte c) (byte d)" by blast
      have "byte c = 240 \<Longrightarrow> 144 \<le> byte d" using d(4) in_second_240 by simp
      then have "8233 < r" using d(3) 4 by linarith
      then show ?thesis using 4 d by (simp add: seg_ok_def rune_width_def)
    qed (rule bad)
  next
    case 5
    with decode_other [OF assms] show ?thesis using bad by blast
  qed
qed

lemma seg_ok_runes: "p \<in> set (runes s) \<Longrightarrow> seg_ok p"
proof (induction s rule: runes.induct)
  case 1
  then show ?case by simp
next
  case (2 c s)
  obtain r n where d: "decodeRune (c # s) = (r, n)" by force
  with "2.prems" have "p = (r, take n (c # s)) \<or> p \<in> set (runes (drop n (c # s)))" by simp
  then show ?case
    using "2.IH" [OF d [symmetric] refl] seg_ok_decode [OF d] by blast
qed

text \<open>Reading one escaped rune back from the front of a text; \<open>None\<close> at the closing quote.\<close>

definition unhexDigit :: "char \<Rightarrow> nat" where
  "unhexDigit c = (if byte c < 58 then byte c - 48 else byte c - 87)"

definition unescByte :: "char \<Rightarrow> char" where
  "unescByte e = (if e = CHR ''b'' then char_of (8::nat) else if e = CHR ''f'' then char_of (12::nat)
     else if e = CHR ''n'' then char_of (10::nat) else if e = CHR ''r'' then char_of (13::nat)
     else if e = CHR ''t'' then char_of (9::nat) else e)"

definition unescHex :: "string \<Rightarrow> string" where
  "unescHex h = (if hd h = CHR ''0''
     then [char_of (unhexDigit (h ! 2) * 16 + unhexDigit (h ! 3))]
     else [CHR 0xE2, CHR 0x80, if h ! 3 = CHR ''8'' then CHR 0xA8 else CHR 0xA9])"

definition nextSeg :: "string \<Rightarrow> (string \<times> string) option" where
  "nextSeg s =
     (case s of [] \<Rightarrow> None
      | c # s' \<Rightarrow>
         if c = CHR 0x22 then None
         else if c = CHR 0x5C then
           (case s' of [] \<Rightarrow> None
            | e # s'' \<Rightarrow> if e = CHR ''u'' then Some (unescHex (take 4 s''), drop 4 s'')
                       else Some ([unescByte e], s''))
         else Some (take (rune_width (byte c)) s, drop (rune_width (byte c)) s))"

lemma unhex_hexDigit: "n < 16 \<Longrightarrow> unhexDigit (hexDigit n) = n"
  by (auto simp: unhexDigit_def hexDigit_def)

lemma byte_consts:
  "byte CHR 0x22 = 34" "byte CHR 0x5C = 92" "byte CHR ''u'' = 117" "byte CHR ''b'' = 98"
  "byte CHR ''f'' = 102" "byte CHR ''n'' = 110" "byte CHR ''r'' = 114" "byte CHR ''t'' = 116"
  by (simp_all add: byte_def)

lemma byte_is:
  "byte c = 34 \<Longrightarrow> c = CHR 0x22" "byte c = 92 \<Longrightarrow> c = CHR 0x5C" "byte c = 8 \<Longrightarrow> c = CHR 0x08"
  "byte c = 12 \<Longrightarrow> c = CHR 0x0C" "byte c = 10 \<Longrightarrow> c = CHR 0x0A" "byte c = 13 \<Longrightarrow> c = CHR 0x0D"
  "byte c = 9 \<Longrightarrow> c = CHR 0x09"
  by (rule iffD1 [OF byte_inject], simp add: byte_def)+

lemma char_of_consts:
  "char_of (34::nat) = CHR 0x22" "char_of (92::nat) = CHR 0x5C" "char_of (8::nat) = CHR 0x08"
  "char_of (12::nat) = CHR 0x0C" "char_of (10::nat) = CHR 0x0A" "char_of (13::nat) = CHR 0x0D"
  "char_of (9::nat) = CHR 0x09" "char_of (56::nat) = CHR ''8''" "char_of (57::nat) = CHR ''9''"
  by (rule iffD1 [OF byte_inject], simp add: byte_def)+

text \<open>The ASCII bytes escaped by a letter, by their code, or not at all.\<close>

lemma nextSeg_letter:
  assumes "c \<in> {CHR 0x22, CHR 0x5C, CHR 0x08, CHR 0x0C, CHR 0x0A, CHR 0x0D, CHR 0x09}"
  shows "nextSeg (jsonEscRune (byte c, [c]) @ rest) = Some ([c], rest)"
  using assms
  by (elim insertE emptyE) (simp_all add: jsonEscRune_def nextSeg_def unescByte_def byte_def char_of_consts)

lemma nextSeg_hex:
  assumes "byte c \<notin> {8, 9, 10, 12, 13, 34, 92}" "byte c < 32 \<or> byte c = 60 \<or> byte c = 62 \<or> byte c = 38"
  shows "nextSeg (jsonEscRune (byte c, [c]) @ rest) = Some ([c], rest)"
proof -
  have "byte c < 128" using assms(2) by auto
  then have code: "byte c div 16 mod 16 * 16 + byte c mod 16 = byte c" by simp
  have "jsonEscRune (byte c, [c]) = CHR 0x5C # ''u00'' @ hexByte (byte c)"
    using assms \<open>byte c < 128\<close> by (auto simp: jsonEscRune_def)
  moreover have "unescHex (''00'' @ hexByte (byte c)) = [c]"
    using code by (simp add: unescHex_def hexByte_def unhex_hexDigit)
  ultimately show ?thesis by (simp add: nextSeg_def hexByte_def numeral_2_eq_2)
qed

lemma nextSeg_plain:
  assumes "byte c \<notin> {8, 9, 10, 12, 13, 34, 92}" "\<not> (byte c < 32 \<or> byte c = 60 \<or> byte c = 62 \<or> byte c = 38)"
    and "byte c < 128"
  shows "nextSeg (jsonEscRune (byte c, [c]) @ rest) = Some ([c], rest)"
proof -
  have "jsonEscRune (byte c, [c]) = [c]"
    using assms by (simp add: jsonEscRune_def)
  moreover have "c \<noteq> CHR 0x22" "c \<noteq> CHR 0x5C" using assms(1) by (auto simp: byte_consts)
  ultimately show ?thesis using assms(3) by (simp add: nextSeg_def rune_width_def)
qed

lemma nextSeg_ascii:
  assumes "byte c < 128"
  shows "nextSeg (jsonEscRune (byte c, [c]) @ rest) = Some ([c], rest)"
proof (cases "byte c \<in> {8, 9, 10, 12, 13, 34, 92}")
  case True
  then have "c \<in> {CHR 0x22, CHR 0x5C, CHR 0x08, CHR 0x0C, CHR 0x0A, CHR 0x0D, CHR 0x09}"
    using byte_is [of c] by blast
  then show ?thesis by (rule nextSeg_letter)
next
  case False
  then show ?thesis using nextSeg_hex nextSeg_plain assms by blast
qed

lemma nextSeg_multi:
  assumes "128 \<le> byte c" "Suc (length cs) = rune_width (byte c)" "128 \<le> r" "\<not> bad_rune (r, c # cs)"
    and "r = 8232 \<longrightarrow> c # cs = [CHR 0xE2, CHR 0x80, CHR 0xA8]"
    and "r = 8233 \<longrightarrow> c # cs = [CHR 0xE2, CHR 0x80, CHR 0xA9]"
  shows "nextSeg (jsonEscRune (r, c # cs) @ rest) = Some (c # cs, rest)"
proof (cases "r = 8232 \<or> r = 8233")
  case True
  with assms(4) have "jsonEscRune (r, c # cs) = CHR 0x5C # ''u202'' @ [hexDigit (r mod 16)]"
    by (auto simp: jsonEscRune_def)
  moreover have "unescHex (''202'' @ [hexDigit (r mod 16)]) = c # cs"
    using True assms(5,6) by (auto simp: unescHex_def hexDigit_def char_of_consts)
  ultimately show ?thesis by (simp add: nextSeg_def)
next
  case False
  with assms(3,4) have "jsonEscRune (r, c # cs) = c # cs"
    by (simp add: jsonEscRune_def)
  moreover have "c \<noteq> CHR 0x22" "c \<noteq> CHR 0x5C" using assms(1) by (auto simp: byte_consts)
  ultimately show ?thesis by (simp add: nextSeg_def flip: assms(2))
qed

lemma nextSeg_esc:
  assumes "seg_ok p" "\<not> bad_rune p"
  shows "nextSeg (jsonEscRune p @ rest) = Some (snd p, rest)"
proof (cases p)
  case (Pair r bs)
  from assms consider (ascii) c where "bs = [c]" "byte c < 128" "r = byte c"
    | (multi) c cs where "bs = c # cs" "128 \<le> byte c" "Suc (length cs) = rune_width (byte c)"
        "128 \<le> r" "r = 8232 \<longrightarrow> bs = [CHR 0xE2, CHR 0x80, CHR 0xA8]"
        "r = 8233 \<longrightarrow> bs = [CHR 0xE2, CHR 0x80, CHR 0xA9]"
    unfolding seg_ok_def Pair by auto
  then show ?thesis
  proof cases
    case ascii
    then show ?thesis using nextSeg_ascii Pair by simp
  next
    case multi
    then show ?thesis using nextSeg_multi assms(2) Pair by simp
  qed
qed

lemma escaped_prefix:
  assumes "\<And>p. p \<in> set ps \<Longrightarrow> seg_ok p \<and> \<not> bad_rune p"
    and "\<And>p. p \<in> set qs \<Longrightarrow> seg_ok p \<and> \<not> bad_rune p"
    and "concat (map jsonEscRune ps) @ CHR 0x22 # r = concat (map jsonEscRune qs) @ CHR 0x22 # r'"
  shows "concat (map snd ps) = concat (map snd qs) \<and> r = r'"
  using assms
proof (induction ps arbitrary: qs)
  case Nil
  have stop: "nextSeg (CHR 0x22 # r) = None" by (simp add: nextSeg_def)
  show ?case
  proof (cases qs)
    case Nil
    with Nil.prems show ?thesis by simp
  next
    case (Cons q qs')
    then have "nextSeg (concat (map jsonEscRune qs) @ CHR 0x22 # r') \<noteq> None"
      using nextSeg_esc [of q] Nil.prems(2) by simp
    with Nil.prems stop show ?thesis by simp
  qed
next
  case (Cons p ps)
  have p: "nextSeg (concat (map jsonEscRune (p # ps)) @ CHR 0x22 # r)
      = Some (snd p, concat (map jsonEscRune ps) @ CHR 0x22 # r)"
    using nextSeg_esc [of p] Cons.prems(1) by simp
  show ?case
  proof (cases qs)
    case Nil
    with p Cons.prems(3) show ?thesis by (simp add: nextSeg_def)
  next
    case (Cons q qs')
    then have "nextSeg (concat (map jsonEscRune qs) @ CHR 0x22 # r')
      = Some (snd q, concat (map jsonEscRune qs') @ CHR 0x22 # r')"
      using nextSeg_esc [of q] Cons.prems(2) by simp
    with p Cons.prems(3) have "snd p = snd q"
      "concat (map jsonEscRune ps) @ CHR 0x22 # r = concat (map jsonEscRune qs') @ CHR 0x22 # r'"
      by simp_all
    then show ?thesis using Cons.IH [of qs'] Cons.prems(1,2) Cons by simp
  qed
qed

lemma jsonString_prefix:
  assumes "valid_utf8 s" "valid_utf8 t" "jsonString s @ r = jsonString t @ r'"
  shows "s = t \<and> r = r'"
proof -
  have ok: "valid_utf8 u \<Longrightarrow> p \<in> set (runes u) \<Longrightarrow> seg_ok p \<and> \<not> bad_rune p" for u p
    by (auto simp: valid_utf8_def list_all_iff seg_ok_runes)
  have "concat (map snd (runes s)) = concat (map snd (runes t)) \<and> r = r'"
  proof (rule escaped_prefix)
    show "concat (map jsonEscRune (runes s)) @ CHR 0x22 # r
        = concat (map jsonEscRune (runes t)) @ CHR 0x22 # r'"
      using assms(3) by (simp add: jsonString_def)
  qed (use ok assms(1,2) in blast)+
  then show ?thesis by (simp only: concat_runes)
qed

section \<open>The text of a value determines the value\<close>

text \<open>What may follow a value in a larger text: nothing, a comma or a closing bracket.\<close>

definition delim :: "string \<Rightarrow> bool" where
  "delim r \<longleftrightarrow> r = [] \<or> hd r \<in> {CHR '','', CHR '']'', CHR ''}''}"

lemma num_prefix:
  assumes "num_ok w" "num_ok w'" "delim r" "delim r'" "w @ r = w' @ r'"
  shows "w = w' \<and> r = r'"
proof -
  have "takeWhile (\<lambda>c. c \<in> set numChars) (u @ q) = u" if "num_ok u" "delim q" for u q
  proof -
    from that(2) have "takeWhile (\<lambda>c. c \<in> set numChars) q = []"
      by (cases q) (auto simp: delim_def numChars_def)
    with that(1) show ?thesis
      by (simp add: num_ok_def list_all_iff takeWhile_append2)
  qed
  from this [of w r] this [of w' r'] assms have "w = w'" by metis
  with assms(5) show ?thesis by simp
qed

definition jsonKind :: "json \<Rightarrow> char set" where
  "jsonKind j = (case j of JNull \<Rightarrow> {CHR ''n''} | JBool b \<Rightarrow> (if b then {CHR ''t''} else {CHR ''f''})
     | JNum w \<Rightarrow> set ''0123456789-'' | JStr s \<Rightarrow> {CHR 0x22} | JArr xs \<Rightarrow> {CHR ''[''} | JObj kvs \<Rightarrow> {CHR ''{''})"

lemma jsonText_head:
  "json_ok j \<Longrightarrow> \<exists>c cs. jsonText j = c # cs \<and> c \<in> jsonKind j"
proof (cases j)
  case (JNum w)
  moreover assume "json_ok j"
  ultimately show ?thesis by (cases w) (auto simp: jsonKind_def num_ok_def)
qed (auto simp: jsonKind_def jsonString_def)

text \<open>
  Comma-separated items up to a closing bracket: if every item determines itself before a
  delimiter and starts with none of \<^verbatim>\<open>,]}\<close>, the whole sequence determines its items.
\<close>

lemma items_prefix:
  assumes "\<And>x y q q'. x \<in> set xs \<Longrightarrow> y \<in> set ys \<Longrightarrow> delim q \<Longrightarrow> delim q' \<Longrightarrow>
      f x @ q = f y @ q' \<Longrightarrow> x = y \<and> q = q'"
    and "\<And>x. x \<in> set xs \<union> set ys \<Longrightarrow> \<exists>c cs. f x = c # cs \<and> c \<noteq> b"
    and "b \<in> {CHR '']'', CHR ''}''}"
    and "join '','' (map f xs) @ b # r = join '','' (map f ys) @ b # r'"
  shows "xs = ys \<and> r = r'"
  using assms
proof (induction xs arbitrary: ys)
  case Nil
  show ?case
  proof (cases ys)
    case (Cons y ys')
    obtain c cs where "f y = c # cs" "c \<noteq> b" using Nil.prems(2) [of y] Cons by auto
    moreover have "join '','' (map f ys) @ b # r' = f y @ tl (b # join '','' (map f ys) @ b # r') \<or> True"
      by simp
    moreover have "\<exists>z. join '','' (map f ys) = f y @ z"
      using Cons by (cases ys') auto
    ultimately show ?thesis using Nil.prems(4) by auto
  qed (use Nil in simp)
next
  case (Cons x xs)
  have split: "\<exists>q. join '','' (map f (z # zs)) @ b # p = f z @ q \<and> delim q
      \<and> q = (if zs = [] then b # p else CHR '','' # join '','' (map f zs) @ b # p)" for z zs p
    using Cons.prems(3) by (cases zs) (auto simp: delim_def)
  show ?case
  proof (cases ys)
    case Nil
    obtain c cs where "f x = c # cs" "c \<noteq> b" using Cons.prems(2) [of x] by auto
    with split [of x xs r] Cons.prems(4) Nil show ?thesis by auto
  next
    case ys: (Cons y ys')
    from split [of x xs r] obtain q where q: "join '','' (map f (x # xs)) @ b # r = f x @ q" "delim q"
      "q = (if xs = [] then b # r else CHR '','' # join '','' (map f xs) @ b # r)" by blast
    from split [of y ys' r'] obtain q' where q': "join '','' (map f (y # ys')) @ b # r' = f y @ q'" "delim q'"
      "q' = (if ys' = [] then b # r' else CHR '','' # join '','' (map f ys') @ b # r')" by blast
    have eq: "x = y" "q = q'"
      using Cons.prems(1) [of x y q q'] q q' Cons.prems(4) ys by simp_all
    have "xs = [] \<longleftrightarrow> ys' = []" using eq(2) q(3) q'(3) Cons.prems(3) by (auto split: if_splits)
    then show ?thesis
    proof (cases "xs = []")
      case False
      with eq(2) q(3) q'(3) \<open>xs = [] \<longleftrightarrow> ys' = []\<close>
      have "join '','' (map f xs) @ b # r = join '','' (map f ys') @ b # r'" by simp
      then have "xs = ys' \<and> r = r'"
        using Cons.prems(1,2,3) ys by (intro Cons.IH) auto
      with eq ys show ?thesis by simp
    qed (use eq q(3) q'(3) ys in simp)
  qed
qed

lemma jsonKind_disjoint:
  assumes "json_ok j" "json_ok k" "jsonText j @ r = jsonText k @ r'"
  shows "jsonKind j \<inter> jsonKind k \<noteq> {}"
  using jsonText_head [OF assms(1)] jsonText_head [OF assms(2)] assms(3) by auto

text \<open>Two values whose texts start alike have the same constructor.\<close>

lemma jsonKind_inv:
  "jsonKind JNull \<inter> jsonKind k \<noteq> {} \<Longrightarrow> k = JNull"
  "jsonKind (JBool b) \<inter> jsonKind k \<noteq> {} \<Longrightarrow> k = JBool b"
  "jsonKind (JNum w) \<inter> jsonKind k \<noteq> {} \<Longrightarrow> \<exists>w'. k = JNum w'"
  "jsonKind (JStr s) \<inter> jsonKind k \<noteq> {} \<Longrightarrow> \<exists>s'. k = JStr s'"
  "jsonKind (JArr xs) \<inter> jsonKind k \<noteq> {} \<Longrightarrow> \<exists>ys. k = JArr ys"
  "jsonKind (JObj kvs) \<inter> jsonKind k \<noteq> {} \<Longrightarrow> \<exists>kws. k = JObj kws"
  by (cases k; simp add: jsonKind_def split: if_splits)+

lemma jsonText_prefix:
  assumes "json_ok j" "json_ok k" "delim r" "delim r'" "jsonText j @ r = jsonText k @ r'"
  shows "j = k \<and> r = r'"
  using assms
proof (induction j arbitrary: k r r' rule: jsonText.induct)
  case 1
  then have "k = JNull" using jsonKind_inv(1) jsonKind_disjoint by blast
  with "1.prems" show ?case by simp
next
  case (2 b)
  then have "k = JBool b" using jsonKind_inv(2) jsonKind_disjoint by blast
  with "2.prems" show ?case by simp
next
  case (3 w)
  then obtain w' where k: "k = JNum w'" using jsonKind_inv(3) jsonKind_disjoint by blast
  with num_prefix [of w w' r r'] "3.prems" show ?case by simp
next
  case (4 s)
  then obtain s' where k: "k = JStr s'" using jsonKind_inv(4) jsonKind_disjoint by blast
  with jsonString_prefix [of s s' r r'] "4.prems" show ?case by simp
next
  case (5 xs)
  from jsonKind_inv(5) [OF jsonKind_disjoint [OF "5.prems"(1,2,5)]] obtain ys where k: "k = JArr ys" ..
  have "xs = ys \<and> r = r'"
  proof (rule items_prefix [of xs ys jsonText "CHR '']''"])
    show "\<exists>c cs. jsonText x = c # cs \<and> c \<noteq> CHR '']''" if "x \<in> set xs \<union> set ys" for x
    proof -
      have "json_ok x" using that "5.prems"(1,2) k by (auto simp: list_all_iff)
      moreover have "CHR '']'' \<notin> jsonKind x" by (cases x) (auto simp: jsonKind_def)
      ultimately show ?thesis using jsonText_head [of x] by blast
    qed
    show "x = y \<and> q = q'" if "x \<in> set xs" "y \<in> set ys" "delim q" "delim q'"
      "jsonText x @ q = jsonText y @ q'" for x y q q'
      using "5.IH" [of x y q q'] that "5.prems"(1,2) k by (simp add: list_all_iff)
  qed (use "5.prems"(5) k in simp_all)
  with k show ?case by simp
next
  case (6 kvs)
  from jsonKind_inv(6) [OF jsonKind_disjoint [OF "6.prems"(1,2,5)]] obtain kws where k: "k = JObj kws" ..
  let ?f = "\<lambda>kv. jsonString (fst kv) @ CHR '':'' # jsonText (snd kv)"
  have "kvs = kws \<and> r = r'"
  proof (rule items_prefix [of kvs kws ?f "CHR ''}''"])
    show "\<exists>c cs. ?f x = c # cs \<and> c \<noteq> CHR ''}''" if "x \<in> set kvs \<union> set kws" for x
      by (simp add: jsonString_def)
    show "x = y \<and> q = q'" if xy: "x \<in> set kvs" "y \<in> set kws" "delim q" "delim q'"
      "?f x @ q = ?f y @ q'" for x y q q'
    proof -
      have ok: "valid_utf8 (fst x)" "valid_utf8 (fst y)" "json_ok (snd x)" "json_ok (snd y)"
        using "6.prems"(1,2) xy(1,2) k by (simp_all add: list_all_iff)
      with jsonString_prefix [of "fst x" "fst y" "CHR '':'' # jsonText (snd x) @ q"
          "CHR '':'' # jsonText (snd y) @ q'"] xy(5)
      have 1: "fst x = fst y" "jsonText (snd x) @ q = jsonText (snd y) @ q'" by simp_all
      with "6.IH" [of x "snd y" q q'] xy ok have "snd x = snd y \<and> q = q'" by simp
      with 1 show ?thesis by (simp add: prod_eq_iff)
    qed
  qed (use "6.prems"(5) k in simp_all)
  with k show ?case by simp
qed

theorem jsonText_inject:
  assumes "json_ok j" "json_ok k" "jsonText j = jsonText k"
  shows "j = k"
  using jsonText_prefix [of j k "[]" "[]"] assms by (simp add: delim_def)

end
