(* ===== verification/Wso2Types.thy ===== *)
theory Wso2Types
  imports GoJson
begin

text \<open>
  The operator's own view of a WSO2 application, from \<^verbatim>\<open>internal/wso2/application.go\<close>, and the
  SCIM messages of \<^verbatim>\<open>internal/wso2/scim.go\<close>, each with the JSON value \<^verbatim>\<open>json.Marshal\<close> makes of it
  by the struct's tags (names, order, \<^verbatim>\<open>omitempty\<close>). The JSON of an application is what the change
  detection hashes, so the lemmas say which fields it determines.
\<close>

section \<open>Application\<close>

record Claim =
  claim_URI :: string
  claim_Mandatory :: bool

record OAuth2Config =
  oauth_Enabled :: bool
  oauth_CallbackURL :: string
  oauth_GrantTypes :: "string slice"
  oauth_PKCEMandatory :: bool
  oauth_PKCEPlain :: bool
  oauth_PublicClient :: bool
  oauth_TokenBinding :: string
  oauth_Audiences :: "string slice"
  oauth_ScopeValidators :: "string slice"
  oauth_RefreshTokenExpiry :: goint
  oauth_AccessTokenExpiry :: goint
  oauth_OAuthConsumerKey :: string
  oauth_OAuthConsumerSecret :: string

record SAMLConfig =
  saml_Enabled :: bool
  saml_ACSURLs :: "string slice"
  saml_RequestedAudiences :: "string slice"
  saml_RequestedRecipients :: "string slice"
  saml_IdpInitSLOReturnToURLs :: "string slice"
  saml_Issuer :: string
  saml_IssuerQualifier :: string
  saml_DefaultAssertionConsumerURL :: string
  saml_NameIDFormat :: string
  saml_NameIDClaimURI :: string
  saml_CertAlias :: string
  saml_CertificateContent :: string
  saml_LoginPageURL :: string
  saml_IdpEntityIDAlias :: string
  saml_SigningAlgorithmURI :: string
  saml_DigestAlgorithmURI :: string
  saml_AssertionEncryptionAlgorithmURI :: string
  saml_KeyEncryptionAlgorithmURI :: string
  saml_SloRequestURL :: string
  saml_SloResponseURL :: string
  saml_FrontChannelLogoutBinding :: string
  saml_AttributeConsumingServiceIndex :: string
  saml_SupportedAssertionQueryRequestTypes :: string
  saml_DoSignAssertions :: bool
  saml_DoSignResponse :: bool
  saml_DoSingleLogout :: bool
  saml_DoFrontChannelLogout :: bool
  saml_DoEnableEncryptedAssertion :: bool
  saml_DoValidateSignatureInRequests :: bool
  saml_DoValidateSignatureInArtifactResolve :: bool
  saml_EnableAttributeProfile :: bool
  saml_EnableAttributesByDefault :: bool
  saml_EnableSAML2ArtifactBinding :: bool
  saml_AssertionQueryRequestProfileEnabled :: bool
  saml_IDPInitSSOEnabled :: bool
  saml_IDPInitSLOEnabled :: bool
  saml_SamlECP :: bool

record AuthenticationStep =
  step_Step :: goint
  step_LocalAuthenticators :: "string slice"
  step_FederatedIDP :: string
  step_FederatedAuthenticator :: string

record Application =
  app_ID :: goint
  app_ResourceID :: string
  app_Name :: string
  app_Description :: string
  app_Claims :: "Claim slice"
  app_SubjectClaimURI :: string
  app_OAuth2 :: "OAuth2Config option"
  app_SAML :: "SAMLConfig option"
  app_AuthenticationSteps :: "AuthenticationStep slice"
  app_AuthenticationScript :: string
  app_AlwaysSendBackAuthenticatedListOfIDPs :: bool
  app_EnableAuthorization :: bool
  app_SkipConsent :: bool
  app_SkipLogoutConsent :: bool
  app_UseTenantInSub :: bool
  app_UseUserstoreInSub :: bool
  app_UseUserstoreInRoles :: bool
  app_StepForSubject :: goint
  app_StepForAttributes :: goint

text \<open>The zero values that composite literals start from.\<close>

definition zeroOAuth2Config :: OAuth2Config where
  "zeroOAuth2Config = \<lparr>oauth_Enabled = False, oauth_CallbackURL = [], oauth_GrantTypes = None,
     oauth_PKCEMandatory = False, oauth_PKCEPlain = False, oauth_PublicClient = False,
     oauth_TokenBinding = [], oauth_Audiences = None, oauth_ScopeValidators = None,
     oauth_RefreshTokenExpiry = 0, oauth_AccessTokenExpiry = 0, oauth_OAuthConsumerKey = [],
     oauth_OAuthConsumerSecret = []\<rparr>"

definition zeroSAMLConfig :: SAMLConfig where
  "zeroSAMLConfig = \<lparr>saml_Enabled = False, saml_ACSURLs = None, saml_RequestedAudiences = None,
     saml_RequestedRecipients = None, saml_IdpInitSLOReturnToURLs = None, saml_Issuer = [],
     saml_IssuerQualifier = [], saml_DefaultAssertionConsumerURL = [], saml_NameIDFormat = [],
     saml_NameIDClaimURI = [], saml_CertAlias = [], saml_CertificateContent = [],
     saml_LoginPageURL = [], saml_IdpEntityIDAlias = [], saml_SigningAlgorithmURI = [],
     saml_DigestAlgorithmURI = [], saml_AssertionEncryptionAlgorithmURI = [],
     saml_KeyEncryptionAlgorithmURI = [], saml_SloRequestURL = [], saml_SloResponseURL = [],
     saml_FrontChannelLogoutBinding = [], saml_AttributeConsumingServiceIndex = [],
     saml_SupportedAssertionQueryRequestTypes = [], saml_DoSignAssertions = False,
     saml_DoSignResponse = False, saml_DoSingleLogout = False, saml_DoFrontChannelLogout = False,
     saml_DoEnableEncryptedAssertion = False, saml_DoValidateSignatureInRequests = False,
     saml_DoValidateSignatureInArtifactResolve = False, saml_EnableAttributeProfile = False,
     saml_EnableAttributesByDefault = False, saml_EnableSAML2ArtifactBinding = False,
     saml_AssertionQueryRequestProfileEnabled = False, saml_IDPInitSSOEnabled = False,
     saml_IDPInitSLOEnabled = False, saml_SamlECP = False\<rparr>"

section \<open>JSON of an application\<close>

definition json_Claim :: "Claim \<Rightarrow> json" where
  "json_Claim c = JObj [(''uri'', JStr (claim_URI c)), (''mandatory'', JBool (claim_Mandatory c))]"

definition json_OAuth2Config :: "OAuth2Config \<Rightarrow> json" where
  "json_OAuth2Config c = JObj (
     fld ''enabled'' (JBool (oauth_Enabled c)) @
     fld ''callbackURL'' (JStr (oauth_CallbackURL c)) @
     fld ''grantTypes'' (jsonSlice JStr (oauth_GrantTypes c)) @
     omitBool ''pkceMandatory'' (oauth_PKCEMandatory c) @
     omitBool ''pkcePlain'' (oauth_PKCEPlain c) @
     omitBool ''publicClient'' (oauth_PublicClient c) @
     omitStr ''tokenBinding'' (oauth_TokenBinding c) @
     omitSlice ''audiences'' JStr (oauth_Audiences c) @
     omitSlice ''scopeValidators'' JStr (oauth_ScopeValidators c) @
     omitInt ''refreshTokenExpiry'' (oauth_RefreshTokenExpiry c) @
     omitInt ''accessTokenExpiry'' (oauth_AccessTokenExpiry c) @
     omitStr ''oauthConsumerKey'' (oauth_OAuthConsumerKey c) @
     omitStr ''oauthConsumerSecret'' (oauth_OAuthConsumerSecret c))"

definition json_SAMLConfig :: "SAMLConfig \<Rightarrow> json" where
  "json_SAMLConfig c = JObj (
     fld ''enabled'' (JBool (saml_Enabled c)) @
     omitSlice ''acsURLs'' JStr (saml_ACSURLs c) @
     omitSlice ''requestedAudiences'' JStr (saml_RequestedAudiences c) @
     omitSlice ''requestedRecipients'' JStr (saml_RequestedRecipients c) @
     omitSlice ''idpInitSLOReturnToURLs'' JStr (saml_IdpInitSLOReturnToURLs c) @
     omitStr ''issuer'' (saml_Issuer c) @
     omitStr ''issuerQualifier'' (saml_IssuerQualifier c) @
     omitStr ''defaultAssertionConsumerURL'' (saml_DefaultAssertionConsumerURL c) @
     omitStr ''nameIDFormat'' (saml_NameIDFormat c) @
     omitStr ''nameIDClaimUri'' (saml_NameIDClaimURI c) @
     omitStr ''certAlias'' (saml_CertAlias c) @
     omitStr ''certificateContent'' (saml_CertificateContent c) @
     omitStr ''loginPageURL'' (saml_LoginPageURL c) @
     omitStr ''idpEntityIDAlias'' (saml_IdpEntityIDAlias c) @
     omitStr ''signingAlgorithmURI'' (saml_SigningAlgorithmURI c) @
     omitStr ''digestAlgorithmURI'' (saml_DigestAlgorithmURI c) @
     omitStr ''assertionEncryptionAlgorithmURI'' (saml_AssertionEncryptionAlgorithmURI c) @
     omitStr ''keyEncryptionAlgorithmURI'' (saml_KeyEncryptionAlgorithmURI c) @
     omitStr ''sloRequestURL'' (saml_SloRequestURL c) @
     omitStr ''sloResponseURL'' (saml_SloResponseURL c) @
     omitStr ''frontChannelLogoutBinding'' (saml_FrontChannelLogoutBinding c) @
     omitStr ''attributeConsumingServiceIndex'' (saml_AttributeConsumingServiceIndex c) @
     omitStr ''supportedAssertionQueryRequestTypes'' (saml_SupportedAssertionQueryRequestTypes c) @
     omitBool ''doSignAssertions'' (saml_DoSignAssertions c) @
     omitBool ''doSignResponse'' (saml_DoSignResponse c) @
     omitBool ''doSingleLogout'' (saml_DoSingleLogout c) @
     omitBool ''doFrontChannelLogout'' (saml_DoFrontChannelLogout c) @
     omitBool ''doEnableEncryptedAssertion'' (saml_DoEnableEncryptedAssertion c) @
     omitBool ''doValidateSignatureInRequests'' (saml_DoValidateSignatureInRequests c) @
     omitBool ''doValidateSignatureInArtifactResolve'' (saml_DoValidateSignatureInArtifactResolve c) @
     omitBool ''enableAttributeProfile'' (saml_EnableAttributeProfile c) @
     omitBool ''enableAttributesByDefault'' (saml_EnableAttributesByDefault c) @
     omitBool ''enableSAML2ArtifactBinding'' (saml_EnableSAML2ArtifactBinding c) @
     omitBool ''assertionQueryRequestProfileEnabled'' (saml_AssertionQueryRequestProfileEnabled c) @
     omitBool ''iDPInitSSOEnabled'' (saml_IDPInitSSOEnabled c) @
     omitBool ''iDPInitSLOEnabled'' (saml_IDPInitSLOEnabled c) @
     omitBool ''samlECP'' (saml_SamlECP c))"

definition json_AuthenticationStep :: "AuthenticationStep \<Rightarrow> json" where
  "json_AuthenticationStep st = JObj (
     fld ''step'' (jsonInt (step_Step st)) @
     omitSlice ''localAuthenticators'' JStr (step_LocalAuthenticators st) @
     omitStr ''federatedIDP'' (step_FederatedIDP st) @
     omitStr ''FederatedAuthenticator'' (step_FederatedAuthenticator st))"

definition json_Application :: "Application \<Rightarrow> json" where
  "json_Application a = JObj (
     fld ''id'' (jsonInt (app_ID a)) @
     fld ''resourceID'' (JStr (app_ResourceID a)) @
     fld ''name'' (JStr (app_Name a)) @
     fld ''description'' (JStr (app_Description a)) @
     omitSlice ''claims'' json_Claim (app_Claims a) @
     omitStr ''subjectURI'' (app_SubjectClaimURI a) @
     fld ''oauth2'' (jsonPtr json_OAuth2Config (app_OAuth2 a)) @
     fld ''saml'' (jsonPtr json_SAMLConfig (app_SAML a)) @
     fld ''authenticationStep'' (jsonSlice json_AuthenticationStep (app_AuthenticationSteps a)) @
     fld ''authenticationScript'' (JStr (app_AuthenticationScript a)) @
     omitBool ''alwaysSendBackAuthenticatedListOfIDPs'' (app_AlwaysSendBackAuthenticatedListOfIDPs a) @
     fld ''enableAuthorization'' (JBool (app_EnableAuthorization a)) @
     fld ''skipConsent'' (JBool (app_SkipConsent a)) @
     fld ''skipLogoutConsent'' (JBool (app_SkipLogoutConsent a)) @
     fld ''useTenantInSub'' (JBool (app_UseTenantInSub a)) @
     fld ''useUserstoreInSub'' (JBool (app_UseUserstoreInSub a)) @
     fld ''useUserstoreInRoles'' (JBool (app_UseUserstoreInRoles a)) @
     omitInt ''stepForSubject'' (app_StepForSubject a) @
     omitInt ''stepForAttr'' (app_StepForAttributes a))"

section \<open>SCIM messages\<close>

record SCIMUserSearch =
  us_Schemas :: "string slice"
  us_Attributes :: "string slice"
  us_Domain :: string
  us_Filter :: string
  us_StartIndex :: goint
  us_Count :: goint

record SCIMGroupMember =
  gm_Display :: string
  gm_Value :: string
  gm_Ref :: string

record SCIMGroup =
  group_ID :: string
  group_DisplayName :: string
  group_Members :: "SCIMGroupMember slice"

record SCIMUser =
  user_ID :: string
  user_Username :: string

record 'a SCIMListResponse =
  lr_TotalResults :: goint
  lr_StartIndex :: goint
  lr_ItemsPerPage :: goint
  lr_Resources :: "'a slice"

record SCIMGroupSearch =
  gs_Schemas :: "string slice"
  gs_StartIndex :: goint
  gs_Filter :: string

record SCIMPatchMember =
  pm_Display :: string
  pm_Value :: string

record SCIMPatchMembers =
  pms_Members :: "SCIMPatchMember slice"

record SCIMPatchOperation =
  po_Op :: string
  po_Value :: SCIMPatchMembers

record SCIMGroupPatch =
  gp_Schemas :: "string slice"
  gp_Operations :: "SCIMPatchOperation slice"

definition json_SCIMUserSearch :: "SCIMUserSearch \<Rightarrow> json" where
  "json_SCIMUserSearch r = JObj [
     (''schemas'', jsonSlice JStr (us_Schemas r)),
     (''attributes'', jsonSlice JStr (us_Attributes r)),
     (''domain'', JStr (us_Domain r)),
     (''filter'', JStr (us_Filter r)),
     (''startIndex'', jsonInt (us_StartIndex r)),
     (''count'', jsonInt (us_Count r))]"

definition json_SCIMGroupSearch :: "SCIMGroupSearch \<Rightarrow> json" where
  "json_SCIMGroupSearch r = JObj [
     (''schemas'', jsonSlice JStr (gs_Schemas r)),
     (''startIndex'', jsonInt (gs_StartIndex r)),
     (''filter'', JStr (gs_Filter r))]"

definition json_SCIMPatchMember :: "SCIMPatchMember \<Rightarrow> json" where
  "json_SCIMPatchMember m = JObj [(''display'', JStr (pm_Display m)), (''value'', JStr (pm_Value m))]"

definition json_SCIMPatchMembers :: "SCIMPatchMembers \<Rightarrow> json" where
  "json_SCIMPatchMembers m = JObj [(''members'', jsonSlice json_SCIMPatchMember (pms_Members m))]"

definition json_SCIMPatchOperation :: "SCIMPatchOperation \<Rightarrow> json" where
  "json_SCIMPatchOperation p = JObj [
     (''op'', JStr (po_Op p)), (''value'', json_SCIMPatchMembers (po_Value p))]"

definition json_SCIMGroupPatch :: "SCIMGroupPatch \<Rightarrow> json" where
  "json_SCIMGroupPatch p = JObj [
     (''schemas'', jsonSlice JStr (gp_Schemas p)),
     (''Operations'', jsonSlice json_SCIMPatchOperation (gp_Operations p))]"

end
