(* ===== verification/JsonViews.thy ===== *)
theory JsonViews
  imports Wso2Types
begin

text \<open>
  What the JSON of a configuration determines. The object of a struct is the list of its fields
  with the omitted ones left out; because the keys are distinct, two objects are equal exactly if
  every field is, so two configurations with the same JSON agree up to what \<^verbatim>\<open>omitempty\<close>
  forgets: whether an empty slice is nil (\<open>norm_T\<close>).
\<close>

section \<open>Objects with optional fields\<close>

fun flds :: "(string \<times> json option) list \<Rightarrow> (string \<times> json) list" where
  "flds [] = []"
| "flds ((k, None) # ps) = flds ps"
| "flds ((k, Some v) # ps) = (k, v) # flds ps"

lemma keys_flds: "(k, v) \<in> set (flds ps) \<Longrightarrow> k \<in> set (map fst ps)"
  by (induction ps rule: flds.induct) auto

lemma flds_inject:
  "map fst ps = map fst qs \<Longrightarrow> distinct (map fst ps) \<Longrightarrow> flds ps = flds qs \<Longrightarrow> ps = qs"
proof (induction ps arbitrary: qs)
  case Nil
  then show ?case by simp
next
  case (Cons p ps)
  obtain k a b qs' where p: "p = (k, a)" and qs: "qs = (k, b) # qs'" and keys: "map fst ps = map fst qs'"
    using Cons.prems(1) by (cases p; cases qs) auto
  have new: "(k, v) \<notin> set (flds ps)" "(k, v) \<notin> set (flds qs')" for v
    using keys_flds [of k v ps] keys_flds [of k v qs'] Cons.prems(2) p keys by auto
  have "flds ((k, a) # ps) = flds ((k, b) # qs')" using Cons.prems(3) p qs by simp
  moreover have "(k, v) # xs \<noteq> flds ps" "(k, v) # xs \<noteq> flds qs'" for v xs
    using new by (metis list.set_intros(1))+
  ultimately have "a = b \<and> flds ps = flds qs'"
    by (cases a; cases b) (auto simp: eq_commute)
  with Cons.IH [OF keys] Cons.prems(2) p qs show ?case by simp
qed

lemma flds_eq_iff:
  "map fst ps = map fst qs \<Longrightarrow> distinct (map fst ps) \<Longrightarrow> flds ps = flds qs \<longleftrightarrow> ps = qs"
  using flds_inject by blast

definition optStr :: "string \<Rightarrow> json option" where
  "optStr s = (if s = [] then None else Some (JStr s))"

definition optBool :: "bool \<Rightarrow> json option" where
  "optBool b = (if b then Some (JBool True) else None)"

definition optInt :: "goint \<Rightarrow> json option" where
  "optInt i = (if i = 0 then None else Some (jsonInt i))"

definition optSlice :: "('a \<Rightarrow> json) \<Rightarrow> 'a slice \<Rightarrow> json option" where
  "optSlice f xs = (if elems xs = [] then None else Some (JArr (map f (elems xs))))"

lemma flds_opt:
  "flds ((k, optStr s) # ps) = omitStr k s @ flds ps"
  "flds ((k, optBool b) # ps) = omitBool k b @ flds ps"
  "flds ((k, optInt i) # ps) = omitInt k i @ flds ps"
  "flds ((k, optSlice f xs) # ps) = omitSlice k f xs @ flds ps"
  "flds ((k, Some v) # ps) = fld k v @ flds ps"
  by (simp_all add: optStr_def optBool_def optInt_def optSlice_def omitStr_def omitBool_def omitInt_def
        omitSlice_def fld_def)

lemma jsonInt_inject [simp]: "jsonInt i = jsonInt j \<longleftrightarrow> i = j"
  by (simp add: jsonInt_def show_goint_inject)

lemma map_JStr_inject [simp]: "map JStr xs = map JStr ys \<longleftrightarrow> xs = ys"
  by (simp add: inj_map_eq_map inj_def)

lemma opt_inject [simp]:
  "optStr s = optStr t \<longleftrightarrow> s = t"
  "optBool b = optBool c \<longleftrightarrow> b = c"
  "optInt i = optInt j \<longleftrightarrow> i = j"
  "optSlice f xs = optSlice g ys \<longleftrightarrow> map f (elems xs) = map g (elems ys)"
  by (auto simp: optStr_def optBool_def optInt_def optSlice_def)

lemma jsonSlice_inject [simp]:
  "jsonSlice f xs = jsonSlice f ys \<longleftrightarrow> map_option (map f) xs = map_option (map f) ys"
  by (simp add: jsonSlice_def split: option.split)

lemma appended_elems_inject [simp]: "appended xs = appended ys \<longleftrightarrow> xs = ys"
  by (simp add: appended_def)

lemma map_congruent:
  "(\<And>x y. f x = f y \<longleftrightarrow> g x = g y) \<Longrightarrow> map f xs = map f ys \<longleftrightarrow> map g xs = map g ys"
proof (induction xs arbitrary: ys)
  case Nil
  show ?case by auto
next
  case (Cons x xs)
  show ?case using Cons.IH [OF Cons.prems] Cons.prems by (cases ys) auto
qed

lemma map_option_congruent:
  "(\<And>x y. f x = f y \<longleftrightarrow> g x = g y) \<Longrightarrow> map_option f p = map_option f q \<longleftrightarrow> map_option g p = map_option g q"
  by (cases p; cases q) auto

section \<open>Fields of the configurations\<close>

definition view_OAuth2Config :: "OAuth2Config \<Rightarrow> (string \<times> json option) list" where
  "view_OAuth2Config c = [
     (''enabled'', Some (JBool (oauth_Enabled c))),
     (''callbackURL'', Some (JStr (oauth_CallbackURL c))),
     (''grantTypes'', Some (jsonSlice JStr (oauth_GrantTypes c))),
     (''pkceMandatory'', optBool (oauth_PKCEMandatory c)),
     (''pkcePlain'', optBool (oauth_PKCEPlain c)),
     (''publicClient'', optBool (oauth_PublicClient c)),
     (''tokenBinding'', optStr (oauth_TokenBinding c)),
     (''audiences'', optSlice JStr (oauth_Audiences c)),
     (''scopeValidators'', optSlice JStr (oauth_ScopeValidators c)),
     (''refreshTokenExpiry'', optInt (oauth_RefreshTokenExpiry c)),
     (''accessTokenExpiry'', optInt (oauth_AccessTokenExpiry c)),
     (''oauthConsumerKey'', optStr (oauth_OAuthConsumerKey c)),
     (''oauthConsumerSecret'', optStr (oauth_OAuthConsumerSecret c))]"

definition view_SAMLConfig :: "SAMLConfig \<Rightarrow> (string \<times> json option) list" where
  "view_SAMLConfig c = [
     (''enabled'', Some (JBool (saml_Enabled c))),
     (''acsURLs'', optSlice JStr (saml_ACSURLs c)),
     (''requestedAudiences'', optSlice JStr (saml_RequestedAudiences c)),
     (''requestedRecipients'', optSlice JStr (saml_RequestedRecipients c)),
     (''idpInitSLOReturnToURLs'', optSlice JStr (saml_IdpInitSLOReturnToURLs c)),
     (''issuer'', optStr (saml_Issuer c)),
     (''issuerQualifier'', optStr (saml_IssuerQualifier c)),
     (''defaultAssertionConsumerURL'', optStr (saml_DefaultAssertionConsumerURL c)),
     (''nameIDFormat'', optStr (saml_NameIDFormat c)),
     (''nameIDClaimUri'', optStr (saml_NameIDClaimURI c)),
     (''certAlias'', optStr (saml_CertAlias c)),
     (''certificateContent'', optStr (saml_CertificateContent c)),
     (''loginPageURL'', optStr (saml_LoginPageURL c)),
     (''idpEntityIDAlias'', optStr (saml_IdpEntityIDAlias c)),
     (''signingAlgorithmURI'', optStr (saml_SigningAlgorithmURI c)),
     (''digestAlgorithmURI'', optStr (saml_DigestAlgorithmURI c)),
     (''assertionEncryptionAlgorithmURI'', optStr (saml_AssertionEncryptionAlgorithmURI c)),
     (''keyEncryptionAlgorithmURI'', optStr (saml_KeyEncryptionAlgorithmURI c)),
     (''sloRequestURL'', optStr (saml_SloRequestURL c)),
     (''sloResponseURL'', optStr (saml_SloResponseURL c)),
     (''frontChannelLogoutBinding'', optStr (saml_FrontChannelLogoutBinding c)),
     (''attributeConsumingServiceIndex'', optStr (saml_AttributeConsumingServiceIndex c)),
     (''supportedAssertionQueryRequestTypes'', optStr (saml_SupportedAssertionQueryRequestTypes c)),
     (''doSignAssertions'', optBool (saml_DoSignAssertions c)),
     (''doSignResponse'', optBool (saml_DoSignResponse c)),
     (''doSingleLogout'', optBool (saml_DoSingleLogout c)),
     (''doFrontChannelLogout'', optBool (saml_DoFrontChannelLogout c)),
     (''doEnableEncryptedAssertion'', optBool (saml_DoEnableEncryptedAssertion c)),
     (''doValidateSignatureInRequests'', optBool (saml_DoValidateSignatureInRequests c)),
     (''doValidateSignatureInArtifactResolve'', optBool (saml_DoValidateSignatureInArtifactResolve c)),
     (''enableAttributeProfile'', optBool (saml_EnableAttributeProfile c)),
     (''enableAttributesByDefault'', optBool (saml_EnableAttributesByDefault c)),
     (''enableSAML2ArtifactBinding'', optBool (saml_EnableSAML2ArtifactBinding c)),
     (''assertionQueryRequestProfileEnabled'', optBool (saml_AssertionQueryRequestProfileEnabled c)),
     (''iDPInitSSOEnabled'', optBool (saml_IDPInitSSOEnabled c)),
     (''iDPInitSLOEnabled'', optBool (saml_IDPInitSLOEnabled c)),
     (''samlECP'', optBool (saml_SamlECP c))]"

definition view_AuthenticationStep :: "AuthenticationStep \<Rightarrow> (string \<times> json option) list" where
  "view_AuthenticationStep st = [
     (''step'', Some (jsonInt (step_Step st))),
     (''localAuthenticators'', optSlice JStr (step_LocalAuthenticators st)),
     (''federatedIDP'', optStr (step_FederatedIDP st)),
     (''FederatedAuthenticator'', optStr (step_FederatedAuthenticator st))]"

definition view_Application :: "Application \<Rightarrow> (string \<times> json option) list" where
  "view_Application a = [
     (''id'', Some (jsonInt (app_ID a))),
     (''resourceID'', Some (JStr (app_ResourceID a))),
     (''name'', Some (JStr (app_Name a))),
     (''description'', Some (JStr (app_Description a))),
     (''claims'', optSlice json_Claim (app_Claims a)),
     (''subjectURI'', optStr (app_SubjectClaimURI a)),
     (''oauth2'', Some (jsonPtr json_OAuth2Config (app_OAuth2 a))),
     (''saml'', Some (jsonPtr json_SAMLConfig (app_SAML a))),
     (''authenticationStep'', Some (jsonSlice json_AuthenticationStep (app_AuthenticationSteps a))),
     (''authenticationScript'', Some (JStr (app_AuthenticationScript a))),
     (''alwaysSendBackAuthenticatedListOfIDPs'', optBool (app_AlwaysSendBackAuthenticatedListOfIDPs a)),
     (''enableAuthorization'', Some (JBool (app_EnableAuthorization a))),
     (''skipConsent'', Some (JBool (app_SkipConsent a))),
     (''skipLogoutConsent'', Some (JBool (app_SkipLogoutConsent a))),
     (''useTenantInSub'', Some (JBool (app_UseTenantInSub a))),
     (''useUserstoreInSub'', Some (JBool (app_UseUserstoreInSub a))),
     (''useUserstoreInRoles'', Some (JBool (app_UseUserstoreInRoles a))),
     (''stepForSubject'', optInt (app_StepForSubject a)),
     (''stepForAttr'', optInt (app_StepForAttributes a))]"

lemma json_views:
  "json_OAuth2Config c = JObj (flds (view_OAuth2Config c))"
  "json_SAMLConfig d = JObj (flds (view_SAMLConfig d))"
  "json_AuthenticationStep st = JObj (flds (view_AuthenticationStep st))"
  "json_Application a = JObj (flds (view_Application a))"
  by (simp_all only: json_OAuth2Config_def view_OAuth2Config_def json_SAMLConfig_def view_SAMLConfig_def
        json_AuthenticationStep_def view_AuthenticationStep_def json_Application_def view_Application_def
        flds_opt flds.simps(1) append_Nil2)

lemma distinct_views:
  "distinct (map fst (view_OAuth2Config c))"
  "distinct (map fst (view_SAMLConfig d))"
  "distinct (map fst (view_AuthenticationStep st))"
  "distinct (map fst (view_Application a))"
  by (simp_all add: view_OAuth2Config_def view_SAMLConfig_def view_AuthenticationStep_def
        view_Application_def)

lemma keys_views:
  "map fst (view_OAuth2Config c) = map fst (view_OAuth2Config c')"
  "map fst (view_SAMLConfig d) = map fst (view_SAMLConfig d')"
  "map fst (view_AuthenticationStep st) = map fst (view_AuthenticationStep st')"
  "map fst (view_Application a) = map fst (view_Application a')"
  by (simp_all add: view_OAuth2Config_def view_SAMLConfig_def view_AuthenticationStep_def
        view_Application_def)

text \<open>So equality of objects is equality of their fields.\<close>

lemma json_view_eq:
  "json_OAuth2Config c = json_OAuth2Config c' \<longleftrightarrow> view_OAuth2Config c = view_OAuth2Config c'"
  "json_SAMLConfig d = json_SAMLConfig d' \<longleftrightarrow> view_SAMLConfig d = view_SAMLConfig d'"
  "json_AuthenticationStep st = json_AuthenticationStep st' \<longleftrightarrow>
     view_AuthenticationStep st = view_AuthenticationStep st'"
  "json_Application a = json_Application a' \<longleftrightarrow> view_Application a = view_Application a'"
  by (simp_all only: json_views json.inject flds_eq_iff [OF keys_views(1) distinct_views(1)]
        flds_eq_iff [OF keys_views(2) distinct_views(2)] flds_eq_iff [OF keys_views(3) distinct_views(3)]
        flds_eq_iff [OF keys_views(4) distinct_views(4)])

section \<open>What JSON determines\<close>

definition norm_OAuth2Config :: "OAuth2Config \<Rightarrow> OAuth2Config" where
  "norm_OAuth2Config c = c\<lparr>oauth_Audiences := appended (elems (oauth_Audiences c)),
     oauth_ScopeValidators := appended (elems (oauth_ScopeValidators c))\<rparr>"

definition norm_SAMLConfig :: "SAMLConfig \<Rightarrow> SAMLConfig" where
  "norm_SAMLConfig c = c\<lparr>saml_ACSURLs := appended (elems (saml_ACSURLs c)),
     saml_RequestedAudiences := appended (elems (saml_RequestedAudiences c)),
     saml_RequestedRecipients := appended (elems (saml_RequestedRecipients c)),
     saml_IdpInitSLOReturnToURLs := appended (elems (saml_IdpInitSLOReturnToURLs c))\<rparr>"

definition norm_AuthenticationStep :: "AuthenticationStep \<Rightarrow> AuthenticationStep" where
  "norm_AuthenticationStep st =
     st\<lparr>step_LocalAuthenticators := appended (elems (step_LocalAuthenticators st))\<rparr>"

definition norm_Application :: "Application \<Rightarrow> Application" where
  "norm_Application a = a\<lparr>app_Claims := appended (elems (app_Claims a)),
     app_OAuth2 := map_option norm_OAuth2Config (app_OAuth2 a),
     app_SAML := map_option norm_SAMLConfig (app_SAML a),
     app_AuthenticationSteps := map_option (map norm_AuthenticationStep) (app_AuthenticationSteps a)\<rparr>"

lemma json_Claim_eq [simp]: "json_Claim c = json_Claim d \<longleftrightarrow> c = d"
  by (cases c; cases d) (simp add: json_Claim_def)

lemma map_json_Claim_eq [simp]: "map json_Claim xs = map json_Claim ys \<longleftrightarrow> xs = ys"
  by (simp add: inj_map_eq_map inj_def)

lemma map_option_map_JStr_eq [simp]: "map_option (map JStr) p = map_option (map JStr) q \<longleftrightarrow> p = q"
  by (cases p; cases q) auto

lemma json_OAuth2Config_eq:
  "json_OAuth2Config c = json_OAuth2Config d \<longleftrightarrow> norm_OAuth2Config c = norm_OAuth2Config d"
  unfolding json_view_eq by (cases c; cases d) (auto simp: view_OAuth2Config_def norm_OAuth2Config_def)

lemma json_SAMLConfig_eq:
  "json_SAMLConfig c = json_SAMLConfig d \<longleftrightarrow> norm_SAMLConfig c = norm_SAMLConfig d"
  unfolding json_view_eq by (cases c; cases d) (simp add: view_SAMLConfig_def norm_SAMLConfig_def conj_ac)

lemma json_AuthenticationStep_eq:
  "json_AuthenticationStep c = json_AuthenticationStep d \<longleftrightarrow>
     norm_AuthenticationStep c = norm_AuthenticationStep d"
  unfolding json_view_eq
  by (cases c; cases d) (auto simp: view_AuthenticationStep_def norm_AuthenticationStep_def)

lemma jsonPtr_eq:
  "jsonPtr json_OAuth2Config p = jsonPtr json_OAuth2Config q \<longleftrightarrow>
     map_option norm_OAuth2Config p = map_option norm_OAuth2Config q"
  "jsonPtr json_SAMLConfig r = jsonPtr json_SAMLConfig s \<longleftrightarrow>
     map_option norm_SAMLConfig r = map_option norm_SAMLConfig s"
proof -
  have "json_OAuth2Config c \<noteq> JNull" "JNull \<noteq> json_OAuth2Config c" for c
    by (simp_all add: json_OAuth2Config_def)
  then show "jsonPtr json_OAuth2Config p = jsonPtr json_OAuth2Config q \<longleftrightarrow>
      map_option norm_OAuth2Config p = map_option norm_OAuth2Config q"
    by (cases p; cases q) (simp_all add: jsonPtr_def json_OAuth2Config_eq)
  have "json_SAMLConfig c \<noteq> JNull" "JNull \<noteq> json_SAMLConfig c" for c
    by (simp_all add: json_SAMLConfig_def)
  then show "jsonPtr json_SAMLConfig r = jsonPtr json_SAMLConfig s \<longleftrightarrow>
      map_option norm_SAMLConfig r = map_option norm_SAMLConfig s"
    by (cases r; cases s) (simp_all add: jsonPtr_def json_SAMLConfig_eq)
qed

lemma json_steps_eq:
  "map_option (map json_AuthenticationStep) p = map_option (map json_AuthenticationStep) q \<longleftrightarrow>
   map_option (map norm_AuthenticationStep) p = map_option (map norm_AuthenticationStep) q"
  by (intro map_option_congruent map_congruent json_AuthenticationStep_eq)

text \<open>Two applications have the same JSON exactly if they differ in nothing but nil and empty slices.\<close>

lemma json_Application_eq:
  "json_Application a = json_Application b \<longleftrightarrow> norm_Application a = norm_Application b"
  unfolding json_view_eq
  by (cases a; cases b)
    (simp add: view_Application_def norm_Application_def jsonPtr_eq json_steps_eq conj_ac)

end
