(* ===== verification/GoHash.thy ===== *)
theory GoHash
  imports GoStrings
begin

text \<open>
  \<^verbatim>\<open>crypto/sha256\<close> (FIPS 180-4) and \<^verbatim>\<open>encoding/hex\<close>, on 32-bit words: the padding of the
  message to whole blocks of 64 bytes, the message schedule of 64 words, the 64 rounds of the
  compression function, and the digest as lower-case hexadecimal digits. The function is computed,
  not assumed: the statements about change detection say \<open>sha256 x = sha256 y\<close> of it where they
  depend on the absence of a collision.
\<close>

unbundle bit_operations_syntax

type_synonym u32 = "32 word"

definition rotr :: "nat \<Rightarrow> u32 \<Rightarrow> u32" where
  "rotr n x = word_rotr n x"

definition bsig0 :: "u32 \<Rightarrow> u32" where
  "bsig0 x = (rotr 2 x) XOR (rotr 13 x) XOR (rotr 22 x)"

definition bsig1 :: "u32 \<Rightarrow> u32" where
  "bsig1 x = (rotr 6 x) XOR (rotr 11 x) XOR (rotr 25 x)"

definition ssig0 :: "u32 \<Rightarrow> u32" where
  "ssig0 x = (rotr 7 x) XOR (rotr 18 x) XOR (drop_bit 3 x)"

definition ssig1 :: "u32 \<Rightarrow> u32" where
  "ssig1 x = (rotr 17 x) XOR (rotr 19 x) XOR (drop_bit 10 x)"

definition shaCh :: "u32 \<Rightarrow> u32 \<Rightarrow> u32 \<Rightarrow> u32" where
  "shaCh x y z = (x AND y) XOR ((NOT x) AND z)"

definition shaMaj :: "u32 \<Rightarrow> u32 \<Rightarrow> u32 \<Rightarrow> u32" where
  "shaMaj x y z = (x AND y) XOR (x AND z) XOR (y AND z)"

definition shaK :: "u32 list" where
  "shaK =
   [1116352408, 1899447441, 3049323471, 3921009573, 961987163, 1508970993, 2453635748, 2870763221,
    3624381080, 310598401, 607225278, 1426881987, 1925078388, 2162078206, 2614888103, 3248222580,
    3835390401, 4022224774, 264347078, 604807628, 770255983, 1249150122, 1555081692, 1996064986,
    2554220882, 2821834349, 2952996808, 3210313671, 3336571891, 3584528711, 113926993, 338241895,
    666307205, 773529912, 1294757372, 1396182291, 1695183700, 1986661051, 2177026350, 2456956037,
    2730485921, 2820302411, 3259730800, 3345764771, 3516065817, 3600352804, 4094571909, 275423344,
    430227734, 506948616, 659060556, 883997877, 958139571, 1322822218, 1537002063, 1747873779,
    1955562222, 2024104815, 2227730452, 2361852424, 2428436474, 2756734187, 3204031479, 3329325298]"

definition shaInit :: "u32 list" where
  "shaInit = [1779033703, 3144134277, 1013904242, 2773480762, 1359893119, 2600822924, 528734635, 1541459225]"

text \<open>Padding: a one bit, zeros up to 56 bytes modulo 64, and the length in bits as 8 bytes.\<close>

fun le_bytes :: "nat \<Rightarrow> nat \<Rightarrow> nat list" where
  "le_bytes 0 n = []"
| "le_bytes (Suc k) n = n mod 256 # le_bytes k (n div 256)"

definition shaPad :: "nat list \<Rightarrow> nat list" where
  "shaPad m = m @ [128] @ replicate ((119 - length m mod 64) mod 64) 0 @ rev (le_bytes 8 (8 * length m))"

fun be_words :: "nat list \<Rightarrow> u32 list" where
  "be_words (a # b # c # d # bs) =
     (push_bit 24 (of_nat a) OR push_bit 16 (of_nat b) OR push_bit 8 (of_nat c) OR of_nat d) # be_words bs"
| "be_words _ = []"

definition word_bytes :: "u32 \<Rightarrow> nat list" where
  "word_bytes w = map (\<lambda>k. unat (drop_bit k w AND 255)) [24, 16, 8, 0]"

text \<open>The schedule is built backwards: the newest word first.\<close>

fun shaExtend :: "nat \<Rightarrow> u32 list \<Rightarrow> u32 list" where
  "shaExtend 0 ws = ws"
| "shaExtend (Suc n) ws =
     shaExtend n ((ssig1 (ws ! 1) + ws ! 6 + ssig0 (ws ! 14) + ws ! 15) # ws)"

definition shaSchedule :: "u32 list \<Rightarrow> u32 list" where
  "shaSchedule blk = rev (shaExtend 48 (rev blk))"

fun shaRounds :: "(u32 \<times> u32) list \<Rightarrow> u32 list \<Rightarrow> u32 list" where
  "shaRounds ((k, w) # kws) [a, b, c, d, e, f, g, h] =
     (let t1 = h + bsig1 e + shaCh e f g + k + w;
          t2 = bsig0 a + shaMaj a b c
      in shaRounds kws [t1 + t2, a, b, c, d + t1, e, f, g])"
| "shaRounds _ st = st"

definition shaBlock :: "u32 list \<Rightarrow> u32 list \<Rightarrow> u32 list" where
  "shaBlock hs blk = map2 (+) hs (shaRounds (zip shaK (shaSchedule blk)) hs)"

fun shaBlocks :: "nat \<Rightarrow> u32 list \<Rightarrow> u32 list \<Rightarrow> u32 list" where
  "shaBlocks 0 hs ws = hs"
| "shaBlocks (Suc n) hs ws = shaBlocks n (shaBlock hs (take 16 ws)) (drop 16 ws)"

definition sha256 :: "string \<Rightarrow> nat list" where
  "sha256 s =
     (let ws = be_words (shaPad (map byte s))
      in concat (map word_bytes (shaBlocks (length ws div 16) shaInit ws)))"

definition hexEncode :: "nat list \<Rightarrow> string" where
  "hexEncode bs = concat (map hexByte bs)"

text \<open>The padded message is a whole number of blocks.\<close>

lemma shaPad_length: "64 dvd length (shaPad m)"
proof -
  have aux: "(64 * q + r + 1 + (119 - r) mod 64 + 8) mod 64 = 0" if r: "r < 64" for q r :: nat
  proof (cases "r \<le> 55")
    case True
    then have "119 - r = 55 - r + 64" by simp
    then have "(119 - r) mod 64 = 55 - r" using True by (metis le_trans less_le_trans
      mod_add_self2 mod_less diff_le_self not_le numeral_le_iff semiring_norm(69,70,71,72))
    with True have "64 * q + r + 1 + (119 - r) mod 64 + 8 = 64 * (q + 1)" by simp
    then show ?thesis by (simp only: mod_mult_self1_is_0)
  next
    case False
    then have "(119 - r) mod 64 = 119 - r" using r by (intro mod_less) linarith
    with False r have "64 * q + r + 1 + (119 - r) mod 64 + 8 = 64 * (q + 2)" by simp
    then show ?thesis by (simp only: mod_mult_self1_is_0)
  qed
  have "(n + 1 + (119 - n mod 64) mod 64 + 8) mod 64 = 0" for n :: nat
    using aux [of "n mod 64" "n div 64"] by (simp only: mult_div_mod_eq mod_less_divisor zero_less_numeral)
  moreover have "length (le_bytes k n) = k" for k n by (induction k n rule: le_bytes.induct) simp_all
  then have "length (shaPad m) = length m + 1 + (119 - length m mod 64) mod 64 + 8"
    by (simp add: shaPad_def del: le_bytes.simps)
  ultimately show ?thesis by (simp only: dvd_eq_mod_eq_0)
qed

lemma hexDigit_inject: "m < 16 \<Longrightarrow> n < 16 \<Longrightarrow> hexDigit m = hexDigit n \<longleftrightarrow> m = n"
proof
  assume "m < 16" "n < 16" "hexDigit m = hexDigit n"
  then have "byte (hexDigit m) = byte (hexDigit n)" by simp
  with \<open>m < 16\<close> \<open>n < 16\<close> show "m = n"
    by (auto simp: hexDigit_def byte_def split: if_splits)
qed simp

lemma hexByte_inject: "m < 256 \<Longrightarrow> n < 256 \<Longrightarrow> hexByte m = hexByte n \<longleftrightarrow> m = n"
proof
  assume "m < 256" "n < 256" "hexByte m = hexByte n"
  then have "m div 16 mod 16 = n div 16 mod 16" "m mod 16 = n mod 16"
    by (simp_all add: hexByte_def hexDigit_inject)
  moreover from \<open>m < 256\<close> \<open>n < 256\<close> have "m div 16 < 16" "n div 16 < 16" by simp_all
  ultimately have "m div 16 = n div 16" "m mod 16 = n mod 16" by simp_all
  then show "m = n" by (metis div_mult_mod_eq)
qed simp

lemma hexEncode_inject:
  "list_all (\<lambda>b. b < 256) xs \<Longrightarrow> list_all (\<lambda>b. b < 256) ys \<Longrightarrow>
   hexEncode xs = hexEncode ys \<longleftrightarrow> xs = ys"
proof (induction xs arbitrary: ys)
  case Nil
  then show ?case by (cases ys) (simp_all add: hexEncode_def hexByte_def)
next
  case (Cons x xs)
  show ?case
  proof (cases ys)
    case (Cons y ys')
    have "hexEncode (x # xs) = hexEncode (y # ys') \<longleftrightarrow> hexByte x = hexByte y \<and> hexEncode xs = hexEncode ys'"
      by (auto simp: hexEncode_def hexByte_def)
    with Cons.IH [of ys'] Cons.prems Cons show ?thesis by (simp add: hexByte_inject)
  qed (simp add: hexEncode_def hexByte_def)
qed

lemma sha256_bytes: "list_all (\<lambda>b. b < 256) (sha256 s)"
proof -
  have "unat (w AND 255) < 256" for w :: u32
    using word_and_le1 [of w 255] by (simp add: word_le_nat_alt)
  then show ?thesis by (auto simp: sha256_def Let_def list_all_iff word_bytes_def)
qed

text \<open>The test vector of FIPS 180-4, evaluated in the kernel.\<close>

lemma sha256_abc:
  "hexEncode (sha256 ''abc'') = ''ba7816bf8f01cfea414140de5dae2223b00361a396177a9cb410ff61f20015ad''"
  by code_simp

end
