(* ===== verification/GoXml.thy ===== *)
theory GoXml
  imports GoStrings
begin

text \<open>
  \<^verbatim>\<open>encoding/xml\<close> as the source uses it. Writing: the tree that struct tags describe and the text
  that \<^verbatim>\<open>xml.MarshalIndent(v, "", " ")\<close> makes of it, with its escapes. Reading: the tree of
  namespace-resolved elements that the tokenizer delivers (the tokenizer itself is an argument of
  the model) and the rules of \<^verbatim>\<open>xml.Unmarshal\<close>: an element is matched to the field with its name,
  and name space where the tag has one, unknown elements are skipped, a repeated element
  overwrites a scalar, extends a slice and continues a struct, a nil pointer is allocated on
  first use, and a value that does not parse ends the decoding with an error.
\<close>

section \<open>Writing\<close>

datatype xout =
    XLeaf string "(string \<times> string) list" string
  | XNode string "(string \<times> string) list" "xout list"

definition inXmlRange :: "nat \<Rightarrow> bool" where
  "inXmlRange r \<longleftrightarrow> r = 9 \<or> r = 10 \<or> r = 13 \<or> 32 \<le> r \<and> r \<le> 55295
     \<or> 57344 \<le> r \<and> r \<le> 65533 \<or> 65536 \<le> r \<and> r \<le> 1114111"

definition xmlEscRune :: "nat \<times> string \<Rightarrow> string" where
  "xmlEscRune p =
     (let r = fst p in
      if r = 34 then ''&#34;'' else if r = 39 then ''&#39;'' else if r = 38 then ''&amp;''
      else if r = 60 then ''&lt;'' else if r = 62 then ''&gt;'' else if r = 9 then ''&#x9;''
      else if r = 10 then ''&#xA;'' else if r = 13 then ''&#xD;''
      else if \<not> inXmlRange r \<or> bad_rune p then [CHR 0xEF, CHR 0xBF, CHR 0xBD]
      else snd p)"

definition xmlEscape :: "string \<Rightarrow> string" where
  "xmlEscape s = concat (map xmlEscRune (runes s))"

definition xmlAttrs :: "(string \<times> string) list \<Rightarrow> string" where
  "xmlAttrs as =
     concat (map (\<lambda>a. CHR '' '' # fst a @ CHR ''='' # CHR 0x22 # xmlEscape (snd a) @ [CHR 0x22]) as)"

definition newline :: "nat \<Rightarrow> string" where
  "newline d = CHR 0x0A # replicate d CHR '' ''"

definition openTag :: "string \<Rightarrow> (string \<times> string) list \<Rightarrow> string" where
  "openTag n as = ''<'' @ n @ xmlAttrs as @ ''>''"

definition closeTag :: "string \<Rightarrow> string" where
  "closeTag n = ''</'' @ n @ ''>''"

text \<open>An element with child elements puts each on a line of its own, one blank deeper.\<close>

fun xmlText :: "nat \<Rightarrow> xout \<Rightarrow> string" where
  "xmlText d (XLeaf n as t) = openTag n as @ xmlEscape t @ closeTag n"
| "xmlText d (XNode n as []) = openTag n as @ closeTag n"
| "xmlText d (XNode n as (k # ks)) =
     openTag n as @ concat (map (\<lambda>x. newline (Suc d) @ xmlText (Suc d) x) (k # ks))
     @ newline d @ closeTag n"

definition xmlHeader :: string where
  "xmlHeader = ''<?xml version='' @ CHR 0x22 # ''1.0'' @ CHR 0x22 # '' encoding='' @ CHR 0x22 # ''UTF-8''
     @ CHR 0x22 # ''?>'' @ [CHR 0x0A]"

text \<open>The fields of a struct by kind of field; the \<open>O\<close> variants carry \<^verbatim>\<open>omitempty\<close>.\<close>

definition xStr :: "string \<Rightarrow> string \<Rightarrow> xout list" where
  "xStr n s = [XLeaf n [] s]"

definition xStrO :: "string \<Rightarrow> string \<Rightarrow> xout list" where
  "xStrO n s = (if s = [] then [] else [XLeaf n [] s])"

definition boolText :: "bool \<Rightarrow> string" where
  "boolText b = (if b then ''true'' else ''false'')"

definition xBool :: "string \<Rightarrow> bool \<Rightarrow> xout list" where
  "xBool n b = [XLeaf n [] (boolText b)]"

definition xBoolO :: "string \<Rightarrow> bool \<Rightarrow> xout list" where
  "xBoolO n b = (if b then [XLeaf n [] ''true''] else [])"

definition xInt :: "string \<Rightarrow> goint \<Rightarrow> xout list" where
  "xInt n w = [XLeaf n [] (show_goint w)]"

definition xIntO :: "string \<Rightarrow> goint \<Rightarrow> xout list" where
  "xIntO n w = (if w = 0 then [] else [XLeaf n [] (show_goint w)])"

definition xStrs :: "string \<Rightarrow> string slice \<Rightarrow> xout list" where
  "xStrs n ss = map (XLeaf n []) (elems ss)"

text \<open>A tag with a name space declares it on the element.\<close>

definition xStrsNS :: "string \<Rightarrow> string \<Rightarrow> string slice \<Rightarrow> xout list" where
  "xStrsNS ns n ss = map (XLeaf n [(''xmlns'', ns)]) (elems ss)"

definition xStruct :: "string \<Rightarrow> xout list \<Rightarrow> xout list" where
  "xStruct n kids = [XNode n [] kids]"

definition xPtr :: "string \<Rightarrow> ('a \<Rightarrow> xout list) \<Rightarrow> 'a option \<Rightarrow> xout list" where
  "xPtr n f p = (case p of None \<Rightarrow> [] | Some v \<Rightarrow> [XNode n [] (f v)])"

definition xSlice :: "string \<Rightarrow> ('a \<Rightarrow> xout list) \<Rightarrow> 'a slice \<Rightarrow> xout list" where
  "xSlice n f s = map (\<lambda>v. XNode n [] (f v)) (elems s)"

section \<open>Reading\<close>

text \<open>Name space and local name of an element; an attribute likewise, with its value.\<close>

datatype xtree =
    XElem string string "(string \<times> string \<times> string) list" "xtree list"
  | XChars string

fun charsOf :: "xtree list \<Rightarrow> string" where
  "charsOf [] = []"
| "charsOf (XChars s # ks) = s @ charsOf ks"
| "charsOf (XElem ns n as kids # ks) = charsOf ks"

fun textOf :: "xtree \<Rightarrow> string" where
  "textOf (XElem ns n as kids) = charsOf kids"
| "textOf (XChars s) = s"

fun kidsOf :: "xtree \<Rightarrow> xtree list" where
  "kidsOf (XElem ns n as kids) = kids"
| "kidsOf (XChars s) = []"

text \<open>\<^verbatim>\<open>strconv.ParseBool\<close> and \<^verbatim>\<open>strconv.ParseInt(s, 10, 64)\<close> with the texts of their errors.\<close>

definition numError :: "string \<Rightarrow> string \<Rightarrow> string \<Rightarrow> string" where
  "numError fn s e = ''strconv.'' @ fn @ '': parsing '' @ quote s @ '': '' @ e"

definition parseBool :: "string \<Rightarrow> bool result" where
  "parseBool s =
     (if s \<in> {''1'', ''t'', ''T'', ''TRUE'', ''true'', ''True''} then Inr True
      else if s \<in> {''0'', ''f'', ''F'', ''FALSE'', ''false'', ''False''} then Inr False
      else Inl (numError ''ParseBool'' s ''invalid syntax''))"

definition isDigits :: "string \<Rightarrow> bool" where
  "isDigits s \<longleftrightarrow> s \<noteq> [] \<and> list_all (\<lambda>c. 48 \<le> byte c \<and> byte c < 58) s"

definition parseInt :: "string \<Rightarrow> goint result" where
  "parseInt s =
     (let neg = (s \<noteq> [] \<and> hd s = CHR ''-'');
          body = (if s \<noteq> [] \<and> (hd s = CHR ''-'' \<or> hd s = CHR ''+'') then tl s else s)
      in if \<not> isDigits body then Inl (numError ''ParseInt'' s ''invalid syntax'')
         else let v = int (digits_value body); i = (if neg then - v else v)
              in if i < - (2 ^ 63) \<or> 2 ^ 63 \<le> i then Inl (numError ''ParseInt'' s ''value out of range'')
                 else Inr (of_int i))"

text \<open>\<^verbatim>\<open>copyValue\<close>: empty text is the zero value, otherwise blanks around it are ignored.\<close>

definition boolField :: "string \<Rightarrow> bool result" where
  "boolField s = (if s = [] then Inr False else parseBool (trimSpace s))"

definition intField :: "string \<Rightarrow> goint result" where
  "intField s = (if s = [] then Inr 0 else parseInt (trimSpace s))"

text \<open>A field: its name space (empty: any), its local name, and what an element does to the struct.\<close>

type_synonym 'a xfield = "string \<times> string \<times> (xtree \<Rightarrow> 'a \<Rightarrow> 'a result)"

fun matches :: "'a xfield \<Rightarrow> xtree \<Rightarrow> bool" where
  "matches (ns, n, f) (XElem ns' n' as kids) \<longleftrightarrow> n = n' \<and> (ns = [] \<or> ns = ns')"
| "matches (ns, n, f) (XChars s) \<longleftrightarrow> False"

fun applyField :: "'a xfield list \<Rightarrow> xtree \<Rightarrow> 'a \<Rightarrow> 'a result" where
  "applyField [] x a = Inr a"
| "applyField ((ns, n, f) # fs) x a =
     (if matches (ns, n, f) x then f x a else applyField fs x a)"

fun decodeKids :: "'a xfield list \<Rightarrow> xtree list \<Rightarrow> 'a \<Rightarrow> 'a result" where
  "decodeKids fs [] a = Inr a"
| "decodeKids fs (k # ks) a =
     (case applyField fs k a of Inl e \<Rightarrow> Inl e | Inr a' \<Rightarrow> decodeKids fs ks a')"

definition decodeElem :: "'a xfield list \<Rightarrow> xtree \<Rightarrow> 'a \<Rightarrow> 'a result" where
  "decodeElem fs x a = decodeKids fs (kidsOf x) a"

definition fStr :: "string \<Rightarrow> string \<Rightarrow> ((string \<Rightarrow> string) \<Rightarrow> 'a \<Rightarrow> 'a) \<Rightarrow> 'a xfield" where
  "fStr ns n upd = (ns, n, \<lambda>x a. Inr (upd (\<lambda>_. textOf x) a))"

definition fBool :: "string \<Rightarrow> string \<Rightarrow> ((bool \<Rightarrow> bool) \<Rightarrow> 'a \<Rightarrow> 'a) \<Rightarrow> 'a xfield" where
  "fBool ns n upd =
     (ns, n, \<lambda>x a. case boolField (textOf x) of Inl e \<Rightarrow> Inl e | Inr b \<Rightarrow> Inr (upd (\<lambda>_. b) a))"

definition fInt :: "string \<Rightarrow> string \<Rightarrow> ((goint \<Rightarrow> goint) \<Rightarrow> 'a \<Rightarrow> 'a) \<Rightarrow> 'a xfield" where
  "fInt ns n upd =
     (ns, n, \<lambda>x a. case intField (textOf x) of Inl e \<Rightarrow> Inl e | Inr b \<Rightarrow> Inr (upd (\<lambda>_. b) a))"

definition fStrs :: "string \<Rightarrow> string \<Rightarrow> ((string slice \<Rightarrow> string slice) \<Rightarrow> 'a \<Rightarrow> 'a) \<Rightarrow> 'a xfield" where
  "fStrs ns n upd = (ns, n, \<lambda>x a. Inr (upd (\<lambda>s. Some (elems s @ [textOf x])) a))"

definition fStruct :: "string \<Rightarrow> string \<Rightarrow> (xtree \<Rightarrow> 'b \<Rightarrow> 'b result) \<Rightarrow> ('a \<Rightarrow> 'b)
    \<Rightarrow> (('b \<Rightarrow> 'b) \<Rightarrow> 'a \<Rightarrow> 'a) \<Rightarrow> 'a xfield" where
  "fStruct ns n dec get upd =
     (ns, n, \<lambda>x a. case dec x (get a) of Inl e \<Rightarrow> Inl e | Inr v \<Rightarrow> Inr (upd (\<lambda>_. v) a))"

definition fPtr :: "string \<Rightarrow> string \<Rightarrow> 'b \<Rightarrow> (xtree \<Rightarrow> 'b \<Rightarrow> 'b result) \<Rightarrow> ('a \<Rightarrow> 'b option)
    \<Rightarrow> (('b option \<Rightarrow> 'b option) \<Rightarrow> 'a \<Rightarrow> 'a) \<Rightarrow> 'a xfield" where
  "fPtr ns n zero dec get upd =
     (ns, n, \<lambda>x a. case dec x (case get a of None \<Rightarrow> zero | Some v \<Rightarrow> v) of
                     Inl e \<Rightarrow> Inl e | Inr v \<Rightarrow> Inr (upd (\<lambda>_. Some v) a))"

definition fSlice :: "string \<Rightarrow> string \<Rightarrow> 'b \<Rightarrow> (xtree \<Rightarrow> 'b \<Rightarrow> 'b result)
    \<Rightarrow> (('b slice \<Rightarrow> 'b slice) \<Rightarrow> 'a \<Rightarrow> 'a) \<Rightarrow> 'a xfield" where
  "fSlice ns n zero dec upd =
     (ns, n, \<lambda>x a. case dec x zero of Inl e \<Rightarrow> Inl e | Inr v \<Rightarrow> Inr (upd (\<lambda>s. Some (elems s @ [v])) a))"

text \<open>The root element must have the name (and name space) of the \<^verbatim>\<open>XMLName\<close> field's tag.\<close>

fun checkRoot :: "string \<Rightarrow> string \<Rightarrow> xtree \<Rightarrow> unit result" where
  "checkRoot ns n (XElem ns' n' as kids) =
     (if n \<noteq> n' then Inl (''expected element type <'' @ n @ ''> but have <'' @ n' @ ''>'')
      else if ns \<noteq> [] \<and> ns \<noteq> ns'
      then Inl (''expected element <'' @ n @ ''> in name space '' @ ns @ '' but have ''
             @ (if ns' = [] then ''no name space'' else ns'))
      else Inr ())"
| "checkRoot ns n (XChars s) = Inl ''EOF''"

section \<open>Facts\<close>

lemma textOf_elem: "textOf (XElem ns n as [XChars s]) = s"
  by simp

lemma parseBool_boolText: "parseBool (boolText b) = Inr b"
  by (simp add: parseBool_def boolText_def)

lemma isDigits_show_nat: "isDigits (show_nat n)"
  using show_nat_digits [of _ n] by (auto simp: isDigits_def list_all_iff show_nat_not_Nil)

lemma show_nat_hd: "hd (show_nat n) \<noteq> CHR ''-'' \<and> hd (show_nat n) \<noteq> CHR ''+''"
proof -
  have "hd (show_nat n) \<in> set (show_nat n)" by (simp add: show_nat_not_Nil)
  then have "48 \<le> byte (hd (show_nat n))" using show_nat_digits by blast
  moreover have "byte CHR ''-'' = 45" "byte CHR ''+'' = 43" by (simp_all add: byte_def)
  ultimately show ?thesis by auto
qed

lemma parseInt_show_int:
  assumes "- (2 ^ 63) \<le> i" "i < 2 ^ 63"
  shows "parseInt (show_int i) = Inr (of_int i)"
  using assms show_nat_hd [of "nat i"]
  by (auto simp: parseInt_def show_int_def isDigits_show_nat digits_value_show_nat show_nat_not_Nil Let_def)

text \<open>Every 64-bit integer is read back from the text it is written as.\<close>

lemma parseInt_show_goint: "parseInt (show_goint w) = Inr w"
proof -
  have "- (2 ^ 63) \<le> sint w" "sint w < 2 ^ 63"
    using sint_greater_eq [of w] sint_less [of w] by simp_all
  then show ?thesis by (simp add: show_goint_def parseInt_show_int)
qed

end
