(* ===== verification/SoapTypes.thy ===== *)
theory SoapTypes
  imports GoXml
begin

text \<open>
  The SOAP messages of \<^verbatim>\<open>internal/wso2/soap.go\<close>: one record per struct, with the source's field
  names behind a prefix of the type; a pointer is an option, a slice a \<^typ>\<open>'a slice\<close>, and an
  \<^verbatim>\<open>int\<close> or \<^verbatim>\<open>int64\<close> a 64-bit word. How the struct tags write and read them is in the theory
  of the codec.
\<close>

section \<open>Name spaces and constants\<close>

definition soapEnvNS :: string where
  "soapEnvNS = ''http://schemas.xmlsoap.org/soap/envelope/''"

definition axisNS :: string where
  "axisNS = ''http://org.apache.axis2/xsd''"

definition commonNS :: string where
  "commonNS = ''http://model.common.application.identity.carbon.wso2.org/xsd''"

definition oAuthNS :: string where
  "oAuthNS = ''http://dto.oauth.identity.carbon.wso2.org/xsd''"

definition samlNS :: string where
  "samlNS = ''http://dto.saml.sso.identity.carbon.wso2.org/xsd''"

type_synonym ScopeValidator = string
type_synonym TokenBindingType = string

definition xACMLValidator :: ScopeValidator where
  "xACMLValidator = ''Role based scope validator''"

definition roleValidator :: ScopeValidator where
  "roleValidator = ''XACML Scope Validator''"

definition sessionBinding :: TokenBindingType where
  "sessionBinding = ''sso-session''"

definition cookieBinding :: TokenBindingType where
  "cookieBinding = ''cookie''"

section \<open>Requests\<close>

record 'a RequestEnvelope =
  re_SoapEnv :: string
  re_XSD :: string
  re_XSD1 :: string
  re_Body :: 'a

record ClaimRequest =
  clr_ClaimURI :: string

record ClaimMappingRequest =
  cmr_LocalClaim :: ClaimRequest
  cmr_RemoteClaim :: ClaimRequest
  cmr_Mandatory :: bool
  cmr_Requested :: bool

record ClaimConfigRequest =
  ccr_AlwaysSendMappedLocalSubjectID :: string
  ccr_LocalClaimDialect :: bool
  ccr_ClaimMappings :: "ClaimMappingRequest slice"
  ccr_UserClaimURI :: string

record PropertyRequest =
  pr_Name :: string
  pr_Value :: string

record InboundAuthenticationRequestConfigRequest =
  iarc_InboundAuthKey :: string
  iarc_InboundAuthType :: string
  iarc_Properties :: "PropertyRequest slice"

record InboundAuthenticationConfigRequest =
  iac_InboundAuthenticationRequestConfigs :: "InboundAuthenticationRequestConfigRequest slice"

record AuthenticationScriptConfigRequest =
  ascr_Content :: string
  ascr_Enabled :: bool
  ascr_Language :: string

record FederatedAuthenticatiorConfigRequest =
  facr_DisplayName :: string
  facr_Name :: string
  facr_Valid :: bool

record FederatedIdentityProvidersRequest =
  fipr_FederatedAuthenticatiorConfig :: "FederatedAuthenticatiorConfigRequest slice"
  fipr_IdentityProviderName :: string

record LocalAuthenticatorConfigRequest =
  lacr_DisplayName :: string
  lacr_Name :: string
  lacr_Valid :: bool

record AuthenticationStepRequest =
  asr_FederatedIdentityProviders :: "FederatedIdentityProvidersRequest slice option"
  asr_LocalAuthenticatorConfigs :: "LocalAuthenticatorConfigRequest slice"
  asr_StepOrder :: goint
  asr_SubjectStep :: bool
  asr_AttributeStep :: bool

record LocalAndOutboundAuthenticationConfigRequest =
  loac_AlwaysSendBackAuthenticatedListOfIDPs :: bool
  loac_AuthenticationScriptConfig :: AuthenticationScriptConfigRequest
  loac_AuthenticationSteps :: "AuthenticationStepRequest slice"
  loac_AuthenticationType :: string
  loac_SubjectClaimURI :: string
  loac_AuthenticationScript :: string
  loac_EnableAuthorization :: bool
  loac_SkipConsent :: bool
  loac_SkipLogoutConsent :: bool
  loac_UseTenantDomainInLocalSubjectIdentifier :: bool
  loac_UseUserstoreDomainInLocalSubjectIdentifier :: bool
  loac_UseUserstoreDomainInRoles :: bool

record ServiceProviderRequest =
  spr_ApplicationID :: goint
  spr_ApplicationResourceID :: string
  spr_ApplicationName :: string
  spr_Description :: string
  spr_ClaimConfig :: "ClaimConfigRequest option"
  spr_InboundAuthenticationConfig :: "InboundAuthenticationConfigRequest option"
  spr_LocalAndOutboundAuthenticationConfig :: "LocalAndOutboundAuthenticationConfigRequest option"

record CreateApplicationRequest =
  car_ServiceProvider :: ServiceProviderRequest

record CreateApplicationBody =
  cab_CreateApplication :: CreateApplicationRequest

record GetApplicationRequest =
  gar_ApplicationName :: string

record GetApplicationBody =
  gab_GetApplication :: GetApplicationRequest

record UpdateApplicationRequest =
  uar_ServiceProvider :: ServiceProviderRequest

record UpdateApplicationBody =
  uab_UpdateApplication :: UpdateApplicationRequest

record DeleteApplicationRequest =
  dar_ApplicationName :: string

record DeleteApplicationBody =
  dab_DeleteApplication :: DeleteApplicationRequest

record OAuthApplication =
  oa_OAuthVersion :: string
  oa_ApplicationAccessTokenExpiryTime :: goint
  oa_ApplicationName :: string
  oa_Audiences :: "string slice"
  oa_BypassClientCredentials :: bool
  oa_CallbackURL :: string
  oa_GrantTypes :: string
  oa_OAuthConsumerKey :: string
  oa_OAuthConsumerSecret :: string
  oa_PKCEMandatory :: bool
  oa_PKCESupportPlain :: bool
  oa_RefreshTokenExpiryTime :: goint
  oa_ScopeValidators :: "ScopeValidator slice"
  oa_TokenBindingType :: TokenBindingType
  oa_UserAccessTokenExpiryTime :: goint
  oa_IDTokenExpiryTime :: goint

record RegisterOAuthApplicationDataRequest =
  roadr_Application :: OAuthApplication

record RegisterOAuthBody =
  rob_RegisterOAuthApplicationData :: RegisterOAuthApplicationDataRequest

record GetOAuthApplicationDataByAppNameRequest =
  goar_AppName :: string

record GetOAuthBody =
  gob_GetOAuthApplicationDataByAppName :: GetOAuthApplicationDataByAppNameRequest

record UpdateConsumerApplicationRequest =
  ucar_ConsumerAppDTO :: OAuthApplication

record UpdateOAuthBody =
  uob_UpdateConsumerApplication :: UpdateConsumerApplicationRequest

record SAMLSSOServiceProviderDTORequest =
  dto_AssertionConsumerUrls :: "string slice"
  dto_RequestedAudiences :: "string slice"
  dto_RequestedRecipients :: "string slice"
  dto_IdpInitSLOReturnToURLs :: "string slice"
  dto_Issuer :: string
  dto_IssuerQualifier :: string
  dto_DefaultAssertionConsumerURL :: string
  dto_NameIDFormat :: string
  dto_NameIdClaimUri :: string
  dto_CertAlias :: string
  dto_CertificateContent :: string
  dto_LoginPageURL :: string
  dto_IdpEntityIDAlias :: string
  dto_SigningAlgorithmURI :: string
  dto_DigestAlgorithmURI :: string
  dto_AssertionEncryptionAlgorithmURI :: string
  dto_KeyEncryptionAlgorithmURI :: string
  dto_SloRequestURL :: string
  dto_SloResponseURL :: string
  dto_FrontChannelLogoutBinding :: string
  dto_AttributeConsumingServiceIndex :: string
  dto_SupportedAssertionQueryRequestTypes :: string
  dto_DoSignAssertions :: bool
  dto_DoSignResponse :: bool
  dto_DoSingleLogout :: bool
  dto_DoFrontChannelLogout :: bool
  dto_DoEnableEncryptedAssertion :: bool
  dto_DoValidateSignatureInRequests :: bool
  dto_DoValidateSignatureInArtifactResolve :: bool
  dto_EnableAttributeProfile :: bool
  dto_EnableAttributesByDefault :: bool
  dto_EnableSAML2ArtifactBinding :: bool
  dto_AssertionQueryRequestProfileEnabled :: bool
  dto_IDPInitSSOEnabled :: bool
  dto_IDPInitSLOEnabled :: bool
  dto_SamlECP :: bool

record CreateSAMLApplicationRequest =
  csar_SpDto :: SAMLSSOServiceProviderDTORequest

record CreateSAMLApplicationBody =
  csab_CreateSAMLApplicationRequest :: CreateSAMLApplicationRequest

record UpdateRPServiceProviderRequest =
  urspr_SpDto :: SAMLSSOServiceProviderDTORequest

record UpdateSAMLSPBody =
  usb_UpdateRPServiceProvider :: UpdateRPServiceProviderRequest

record GetServiceProviderRequest =
  gspr_Issuer :: string

record GetServiceProviderBody =
  gspb_GetServiceProvider :: GetServiceProviderRequest

record RemoveServiceProviderRequest =
  rspr_Issuer :: string

record RemoveSAMLSPBody =
  rsb_RemoveServiceProvider :: RemoveServiceProviderRequest

section \<open>Responses\<close>

record 'a ResponseEnvelope =
  rse_Body :: 'a

record ClaimResponse =
  rcl_ClaimURI :: string

record ClaimMappingResponse =
  rcm_LocalClaim :: ClaimResponse
  rcm_RemoteClaim :: ClaimResponse
  rcm_Mandatory :: bool
  rcm_Requested :: bool

record ClaimConfigResponse =
  rcc_AlwaysSendMappedLocalSubjectID :: string
  rcc_LocalClaimDialect :: string
  rcc_ClaimMappings :: "ClaimMappingResponse slice"
  rcc_UserClaimURI :: string

record PropertyResponse =
  rpr_Name :: string
  rpr_Value :: string

record InboundAuthenticationRequestConfigResponse =
  riarc_InboundAuthKey :: string
  riarc_InboundAuthType :: string
  riarc_Properties :: "PropertyResponse slice"

record InboundAuthenticationConfigResponse =
  riac_InboundAuthenticationRequestConfigs :: "InboundAuthenticationRequestConfigResponse slice"

record FederatedAuthenticatiorConfigResponse =
  rfac_DisplayName :: string
  rfac_Name :: string
  rfac_Valid :: bool

record FederatedIdentityProvidersResponse =
  rfip_FederatedAuthenticatiorConfig :: "FederatedAuthenticatiorConfigResponse slice"
  rfip_IdentityProviderName :: string

record LocalAuthenticatorConfigResponse =
  rlac_DisplayName :: string
  rlac_Name :: string
  rlac_Valid :: bool

record AuthenticationStepResponse =
  ras_FederatedIdentityProviders :: "FederatedIdentityProvidersResponse slice"
  ras_LocalAuthenticatorConfigs :: "LocalAuthenticatorConfigResponse slice"
  ras_StepOrder :: goint
  ras_SubjectStep :: bool
  ras_AttributeStep :: bool

record AuthenticationScriptConfigResponse =
  rasc_Content :: string
  rasc_Enabled :: bool
  rasc_Language :: string

record LocalAndOutboundAuthenticationConfigResponse =
  rloac_AlwaysSendBackAuthenticatedListOfIDPs :: bool
  rloac_AuthenticationSteps :: "AuthenticationStepResponse slice"
  rloac_AuthenticationScriptConfig :: AuthenticationScriptConfigResponse
  rloac_AuthenticationType :: string
  rloac_SubjectClaimURI :: string
  rloac_AuthenticationScript :: string
  rloac_EnableAuthorization :: bool
  rloac_SkipConsent :: bool
  rloac_SkipLogoutConsent :: bool
  rloac_UseTenantDomainInLocalSubjectIdentifier :: bool
  rloac_UseUserstoreDomainInLocalSubjectIdentifier :: bool
  rloac_UseUserstoreDomainInRoles :: bool

record ServiceProviderResponse =
  rsp_ApplicationID :: goint
  rsp_ApplicationResourceID :: string
  rsp_ApplicationName :: string
  rsp_Description :: string
  rsp_ClaimConfig :: "ClaimConfigResponse option"
  rsp_InboundAuthenticationConfig :: "InboundAuthenticationConfigResponse option"
  rsp_LocalAndOutboundAuthenticationConfig :: "LocalAndOutboundAuthenticationConfigResponse option"

record GetApplicationResponse =
  gares_ServiceProvider :: ServiceProviderResponse

record GetApplicationResponseBody =
  garb_GetApplicationResponse :: GetApplicationResponse

record OAuthApplicationResponse =
  roa_OAuthVersion :: string
  roa_ApplicationAccessTokenExpiryTime :: goint
  roa_ApplicationName :: string
  roa_Audiences :: "string slice"
  roa_BypassClientCredentials :: bool
  roa_CallbackURL :: string
  roa_GrantTypes :: string
  roa_IDTokenExpiryTime :: goint
  roa_OAuthConsumerKey :: string
  roa_OAuthConsumerSecret :: string
  roa_PKCEMandatory :: bool
  roa_PKCESupportPlain :: bool
  roa_RefreshTokenExpiryTime :: goint
  roa_ScopeValidators :: "ScopeValidator slice"
  roa_TokenBindingType :: TokenBindingType
  roa_TokenType :: string
  roa_UserAccessTokenExpiryTime :: goint
  roa_Username :: string

record GetOAuthApplicationDataByAppNameResponse =
  goares_OAuthApplication :: OAuthApplicationResponse

record GetOAuthApplicationDataByAppNameResponseBody =
  goarb_GetOAuthApplicationDataByAppNameResponse :: GetOAuthApplicationDataByAppNameResponse

record SAMLSSOServiceProviderDTOResponse =
  rdto_AssertionConsumerUrls :: "string slice"
  rdto_RequestedAudiences :: "string slice"
  rdto_RequestedRecipients :: "string slice"
  rdto_IdpInitSLOReturnToURLs :: "string slice"
  rdto_Issuer :: string
  rdto_IssuerQualifier :: string
  rdto_DefaultAssertionConsumerURL :: string
  rdto_NameIDFormat :: string
  rdto_NameIDClaimURI :: string
  rdto_CertAlias :: string
  rdto_CertificateContent :: string
  rdto_LoginPageURL :: string
  rdto_IdpEntityIDAlias :: string
  rdto_SigningAlgorithmURI :: string
  rdto_DigestAlgorithmURI :: string
  rdto_AssertionEncryptionAlgorithmURI :: string
  rdto_KeyEncryptionAlgorithmURI :: string
  rdto_SloRequestURL :: string
  rdto_SloResponseURL :: string
  rdto_FrontChannelLogoutBinding :: string
  rdto_AttributeConsumingServiceIndex :: string
  rdto_SupportedAssertionQueryRequestTypes :: string
  rdto_DoSignAssertions :: bool
  rdto_DoSignResponse :: bool
  rdto_DoSingleLogout :: bool
  rdto_DoFrontChannelLogout :: bool
  rdto_DoEnableEncryptedAssertion :: bool
  rdto_DoValidateSignatureInRequests :: bool
  rdto_DoValidateSignatureInArtifactResolve :: bool
  rdto_EnableAttributeProfile :: bool
  rdto_EnableAttributesByDefault :: bool
  rdto_EnableSAML2ArtifactBinding :: bool
  rdto_AssertionQueryRequestProfileEnabled :: bool
  rdto_IDPInitSSOEnabled :: bool
  rdto_IDPInitSLOEnabled :: bool
  rdto_SamlECP :: bool

record GetSAMLSPResponse =
  gsres_Return :: "SAMLSSOServiceProviderDTOResponse option"

record GetSAMLSPResponseBody =
  gsrb_Response :: GetSAMLSPResponse

end
