(* ===== verification/SoapCodec.thy ===== *)
theory SoapCodec
  imports SoapTypes
begin

text \<open>
  What the struct tags of \<^verbatim>\<open>internal/wso2/soap.go\<close> make \<^verbatim>\<open>encoding/xml\<close> do: for every request
  struct \<open>T\<close> the elements its fields are written as (\<open>xml_T\<close>, in field order), for every response
  struct its zero value, the fields of its elements and the decoder (\<open>zero_T\<close>, \<open>fields_T\<close>,
  \<open>dec_T\<close>). An envelope is written
  with its name space declarations as attributes, the last of them only when set.
\<close>

definition scriptNS :: string where
  "scriptNS = ''http://script.model.common.application.identity.carbon.wso2.org/xsd''"

text \<open>A pointer to a slice: nothing for nil, otherwise its elements.\<close>

definition xPtrSlice :: "string \<Rightarrow> ('a \<Rightarrow> xout list) \<Rightarrow> 'a slice option \<Rightarrow> xout list" where
  "xPtrSlice n f p = (case p of None \<Rightarrow> [] | Some s \<Rightarrow> xSlice n f s)"

section \<open>Requests\<close>

definition xml_RequestEnvelope :: "('a \<Rightarrow> xout list) \<Rightarrow> 'a RequestEnvelope \<Rightarrow> xout" where
  "xml_RequestEnvelope f x =
     XNode ''soapenv:Envelope''
       ([(''xmlns:soapenv'', re_SoapEnv x), (''xmlns:xsd'', re_XSD x)]
        @ (if re_XSD1 x = [] then [] else [(''xmlns:xsd1'', re_XSD1 x)]))
       (xStruct ''soapenv:Body'' (f (re_Body x)))"

definition xml_ClaimRequest :: "ClaimRequest \<Rightarrow> xout list" where
  "xml_ClaimRequest x =
     xStr ''xsd1:claimUri'' (clr_ClaimURI x)"

definition xml_ClaimMappingRequest :: "ClaimMappingRequest \<Rightarrow> xout list" where
  "xml_ClaimMappingRequest x =
     xStruct ''xsd1:localClaim'' (xml_ClaimRequest (cmr_LocalClaim x)) @
     xStruct ''xsd1:remoteClaim'' (xml_ClaimRequest (cmr_RemoteClaim x)) @
     xBool ''xsd1:mandatory'' (cmr_Mandatory x) @
     xBool ''xsd1:requested'' (cmr_Requested x)"

definition xml_ClaimConfigRequest :: "ClaimConfigRequest \<Rightarrow> xout list" where
  "xml_ClaimConfigRequest x =
     xStr ''xsd1:alwaysSendMappedLocalSubjectId'' (ccr_AlwaysSendMappedLocalSubjectID x) @
     xBool ''xsd1:localClaimDialect'' (ccr_LocalClaimDialect x) @
     xSlice ''xsd1:claimMappings'' xml_ClaimMappingRequest (ccr_ClaimMappings x) @
     xStrO ''xsd1:userClaimURI'' (ccr_UserClaimURI x)"

definition xml_PropertyRequest :: "PropertyRequest \<Rightarrow> xout list" where
  "xml_PropertyRequest x =
     xStr ''xsd1:name'' (pr_Name x) @
     xStr ''xsd1:value'' (pr_Value x)"

definition xml_InboundAuthenticationRequestConfigRequest :: "InboundAuthenticationRequestConfigRequest \<Rightarrow> xout list" where
  "xml_InboundAuthenticationRequestConfigRequest x =
     xStr ''xsd1:inboundAuthKey'' (iarc_InboundAuthKey x) @
     xStr ''xsd1:inboundAuthType'' (iarc_InboundAuthType x) @
     xSlice ''xsd1:properties'' xml_PropertyRequest (iarc_Properties x)"

definition xml_InboundAuthenticationConfigRequest :: "InboundAuthenticationConfigRequest \<Rightarrow> xout list" where
  "xml_InboundAuthenticationConfigRequest x =
     xSlice ''xsd1:inboundAuthenticationRequestConfigs'' xml_InboundAuthenticationRequestConfigRequest (iac_InboundAuthenticationRequestConfigs x)"

definition xml_AuthenticationScriptConfigRequest :: "AuthenticationScriptConfigRequest \<Rightarrow> xout list" where
  "xml_AuthenticationScriptConfigRequest x =
     xStr ''xsd1:content'' (ascr_Content x) @
     xBool ''xsd1:enabled'' (ascr_Enabled x) @
     xStr ''xsd1:language'' (ascr_Language x)"

definition xml_FederatedAuthenticatiorConfigRequest :: "FederatedAuthenticatiorConfigRequest \<Rightarrow> xout list" where
  "xml_FederatedAuthenticatiorConfigRequest x =
     xStr ''xsd1:displayName'' (facr_DisplayName x) @
     xStr ''xsd1:name'' (facr_Name x) @
     xBoolO ''xsd1:valid'' (facr_Valid x)"

definition xml_FederatedIdentityProvidersRequest :: "FederatedIdentityProvidersRequest \<Rightarrow> xout list" where
  "xml_FederatedIdentityProvidersRequest x =
     xSlice ''xsd1:federatedAuthenticatorConfigs'' xml_FederatedAuthenticatiorConfigRequest (fipr_FederatedAuthenticatiorConfig x) @
     xStrO ''xsd1:identityProviderName'' (fipr_IdentityProviderName x)"

definition xml_LocalAuthenticatorConfigRequest :: "LocalAuthenticatorConfigRequest \<Rightarrow> xout list" where
  "xml_LocalAuthenticatorConfigRequest x =
     xStr ''xsd1:displayName'' (lacr_DisplayName x) @
     xStr ''xsd1:name'' (lacr_Name x) @
     xBool ''xsd1:valid'' (lacr_Valid x)"

definition xml_AuthenticationStepRequest :: "AuthenticationStepRequest \<Rightarrow> xout list" where
  "xml_AuthenticationStepRequest x =
     xPtrSlice ''xsd1:federatedIdentityProviders'' xml_FederatedIdentityProvidersRequest (asr_FederatedIdentityProviders x) @
     xSlice ''xsd1:localAuthenticatorConfigs'' xml_LocalAuthenticatorConfigRequest (asr_LocalAuthenticatorConfigs x) @
     xInt ''xsd1:stepOrder'' (asr_StepOrder x) @
     xBool ''xsd1:subjectStep'' (asr_SubjectStep x) @
     xBool ''xsd1:attributeStep'' (asr_AttributeStep x)"

definition xml_LocalAndOutboundAuthenticationConfigRequest :: "LocalAndOutboundAuthenticationConfigRequest \<Rightarrow> xout list" where
  "xml_LocalAndOutboundAuthenticationConfigRequest x =
     xBool ''xsd1:alwaysSendBackAuthenticatedListOfIdPs'' (loac_AlwaysSendBackAuthenticatedListOfIDPs x) @
     xStruct ''xsd1:authenticationScriptConfig'' (xml_AuthenticationScriptConfigRequest (loac_AuthenticationScriptConfig x)) @
     xSlice ''xsd1:authenticationSteps'' xml_AuthenticationStepRequest (loac_AuthenticationSteps x) @
     xStrO ''xsd1:authenticationType'' (loac_AuthenticationType x) @
     xStrO ''xsd1:subjectClaimUri'' (loac_SubjectClaimURI x) @
     xStrO ''xsd1:authenticationScript'' (loac_AuthenticationScript x) @
     xBool ''xsd1:enableAuthorization'' (loac_EnableAuthorization x) @
     xBool ''xsd1:skipConsent'' (loac_SkipConsent x) @
     xBool ''xsd1:skipLogoutConsent'' (loac_SkipLogoutConsent x) @
     xBool ''xsd1:useTenantDomainInLocalSubjectIdentifier'' (loac_UseTenantDomainInLocalSubjectIdentifier x) @
     xBool ''xsd1:useUserstoreDomainInLocalSubjectIdentifier'' (loac_UseUserstoreDomainInLocalSubjectIdentifier x) @
     xBool ''xsd1:useUserstoreDomainInRoles'' (loac_UseUserstoreDomainInRoles x)"

definition xml_ServiceProviderRequest :: "ServiceProviderRequest \<Rightarrow> xout list" where
  "xml_ServiceProviderRequest x =
     xIntO ''xsd1:applicationID'' (spr_ApplicationID x) @
     xStrO ''xsd1:applicationResourceID'' (spr_ApplicationResourceID x) @
     xStr ''xsd1:applicationName'' (spr_ApplicationName x) @
     xStrO ''xsd1:description'' (spr_Description x) @
     xPtr ''xsd1:claimConfig'' xml_ClaimConfigRequest (spr_ClaimConfig x) @
     xPtr ''xsd1:inboundAuthenticationConfig'' xml_InboundAuthenticationConfigRequest (spr_InboundAuthenticationConfig x) @
     xPtr ''xsd1:localAndOutBoundAuthenticationConfig'' xml_LocalAndOutboundAuthenticationConfigRequest (spr_LocalAndOutboundAuthenticationConfig x)"

definition xml_CreateApplicationRequest :: "CreateApplicationRequest \<Rightarrow> xout list" where
  "xml_CreateApplicationRequest x =
     xStruct ''xsd:serviceProvider'' (xml_ServiceProviderRequest (car_ServiceProvider x))"

definition xml_CreateApplicationBody :: "CreateApplicationBody \<Rightarrow> xout list" where
  "xml_CreateApplicationBody x =
     xStruct ''xsd:createApplication'' (xml_CreateApplicationRequest (cab_CreateApplication x))"

definition xml_GetApplicationRequest :: "GetApplicationRequest \<Rightarrow> xout list" where
  "xml_GetApplicationRequest x =
     xStr ''xsd:applicationName'' (gar_ApplicationName x)"

definition xml_GetApplicationBody :: "GetApplicationBody \<Rightarrow> xout list" where
  "xml_GetApplicationBody x =
     xStruct ''xsd:getApplication'' (xml_GetApplicationRequest (gab_GetApplication x))"

definition xml_UpdateApplicationRequest :: "UpdateApplicationRequest \<Rightarrow> xout list" where
  "xml_UpdateApplicationRequest x =
     xStruct ''xsd:serviceProvider'' (xml_ServiceProviderRequest (uar_ServiceProvider x))"

definition xml_UpdateApplicationBody :: "UpdateApplicationBody \<Rightarrow> xout list" where
  "xml_UpdateApplicationBody x =
     xStruct ''xsd:updateApplication'' (xml_UpdateApplicationRequest (uab_UpdateApplication x))"

definition xml_DeleteApplicationRequest :: "DeleteApplicationRequest \<Rightarrow> xout list" where
  "xml_DeleteApplicationRequest x =
     xStr ''xsd:applicationName'' (dar_ApplicationName x)"

definition xml_DeleteApplicationBody :: "DeleteApplicationBody \<Rightarrow> xout list" where
  "xml_DeleteApplicationBody x =
     xStruct ''xsd:deleteApplication'' (xml_DeleteApplicationRequest (dab_DeleteApplication x))"

definition xml_OAuthApplication :: "OAuthApplication \<Rightarrow> xout list" where
  "xml_OAuthApplication x =
     xStr ''xsd1:OAuthVersion'' (oa_OAuthVersion x) @
     xInt ''xsd1:applicationAccessTokenExpiryTime'' (oa_ApplicationAccessTokenExpiryTime x) @
     xStr ''xsd1:applicationName'' (oa_ApplicationName x) @
     xStrsNS ''http://dto.oauth.identity.carbon.wso2.org/xsd'' ''audiences'' (oa_Audiences x) @
     xBool ''xsd1:bypassClientCredentials'' (oa_BypassClientCredentials x) @
     xStr ''xsd1:callbackUrl'' (oa_CallbackURL x) @
     xStr ''xsd1:grantTypes'' (oa_GrantTypes x) @
     xStrO ''xsd1:oauthConsumerKey'' (oa_OAuthConsumerKey x) @
     xStrO ''xsd1:oauthConsumerSecret'' (oa_OAuthConsumerSecret x) @
     xBool ''xsd1:pkceMandatory'' (oa_PKCEMandatory x) @
     xBool ''xsd1:pkceSupportPlain'' (oa_PKCESupportPlain x) @
     xInt ''xsd1:refreshTokenExpiryTime'' (oa_RefreshTokenExpiryTime x) @
     xStrs ''xsd1:scopeValidators'' (oa_ScopeValidators x) @
     xStr ''xsd1:tokenBindingType'' (oa_TokenBindingType x) @
     xInt ''xsd1:userAccessTokenExpiryTime'' (oa_UserAccessTokenExpiryTime x) @
     xInt ''xsd1:idTokenExpiryTime'' (oa_IDTokenExpiryTime x)"

definition xml_RegisterOAuthApplicationDataRequest :: "RegisterOAuthApplicationDataRequest \<Rightarrow> xout list" where
  "xml_RegisterOAuthApplicationDataRequest x =
     xStruct ''xsd:application'' (xml_OAuthApplication (roadr_Application x))"

definition xml_RegisterOAuthBody :: "RegisterOAuthBody \<Rightarrow> xout list" where
  "xml_RegisterOAuthBody x =
     xStruct ''xsd:registerOAuthApplicationData'' (xml_RegisterOAuthApplicationDataRequest (rob_RegisterOAuthApplicationData x))"

definition xml_GetOAuthApplicationDataByAppNameRequest :: "GetOAuthApplicationDataByAppNameRequest \<Rightarrow> xout list" where
  "xml_GetOAuthApplicationDataByAppNameRequest x =
     xStr ''xsd:appName'' (goar_AppName x)"

definition xml_GetOAuthBody :: "GetOAuthBody \<Rightarrow> xout list" where
  "xml_GetOAuthBody x =
     xStruct ''xsd:getOAuthApplicationDataByAppName'' (xml_GetOAuthApplicationDataByAppNameRequest (gob_GetOAuthApplicationDataByAppName x))"

definition xml_UpdateConsumerApplicationRequest :: "UpdateConsumerApplicationRequest \<Rightarrow> xout list" where
  "xml_UpdateConsumerApplicationRequest x =
     xStruct ''xsd:consumerAppDTO'' (xml_OAuthApplication (ucar_ConsumerAppDTO x))"

definition xml_UpdateOAuthBody :: "UpdateOAuthBody \<Rightarrow> xout list" where
  "xml_UpdateOAuthBody x =
     xStruct ''xsd:updateConsumerApplication'' (xml_UpdateConsumerApplicationRequest (uob_UpdateConsumerApplication x))"

definition xml_SAMLSSOServiceProviderDTORequest :: "SAMLSSOServiceProviderDTORequest \<Rightarrow> xout list" where
  "xml_SAMLSSOServiceProviderDTORequest x =
     xStrs ''xsd1:assertionConsumerUrls'' (dto_AssertionConsumerUrls x) @
     xStrs ''xsd1:requestedAudiences'' (dto_RequestedAudiences x) @
     xStrs ''xsd1:requestedRecipients'' (dto_RequestedRecipients x) @
     xStrs ''xsd1:idpInitSLOReturnToURLs'' (dto_IdpInitSLOReturnToURLs x) @
     xStr ''xsd1:issuer'' (dto_Issuer x) @
     xStrO ''xsd1:issuerQualifier'' (dto_IssuerQualifier x) @
     xStr ''xsd1:defaultAssertionConsumerUrl'' (dto_DefaultAssertionConsumerURL x) @
     xStrO ''xsd1:nameIDFormat'' (dto_NameIDFormat x) @
     xStrO ''xsd1:nameIdClaimUri'' (dto_NameIdClaimUri x) @
     xStrO ''xsd1:certAlias'' (dto_CertAlias x) @
     xStrO ''xsd1:certificateContent'' (dto_CertificateContent x) @
     xStrO ''xsd1:loginPageURL'' (dto_LoginPageURL x) @
     xStrO ''xsd1:idpEntityIDAlias'' (dto_IdpEntityIDAlias x) @
     xStrO ''xsd1:signingAlgorithmURI'' (dto_SigningAlgorithmURI x) @
     xStrO ''xsd1:digestAlgorithmURI'' (dto_DigestAlgorithmURI x) @
     xStrO ''xsd1:assertionEncryptionAlgorithmURI'' (dto_AssertionEncryptionAlgorithmURI x) @
     xStrO ''xsd1:keyEncryptionAlgorithmURI'' (dto_KeyEncryptionAlgorithmURI x) @
     xStrO ''xsd1:sloRequestURL'' (dto_SloRequestURL x) @
     xStrO ''xsd1:sloResponseURL'' (dto_SloResponseURL x) @
     xStrO ''xsd1:frontChannelLogoutBinding'' (dto_FrontChannelLogoutBinding x) @
     xStrO ''xsd1:attributeConsumingServiceIndex'' (dto_AttributeConsumingServiceIndex x) @
     xStrO ''xsd1:supportedAssertionQueryRequestTypes'' (dto_SupportedAssertionQueryRequestTypes x) @
     xBool ''xsd1:doSignAssertions'' (dto_DoSignAssertions x) @
     xBool ''xsd1:doSignResponse'' (dto_DoSignResponse x) @
     xBool ''xsd1:doSingleLogout'' (dto_DoSingleLogout x) @
     xBool ''xsd1:doFrontChannelLogout'' (dto_DoFrontChannelLogout x) @
     xBool ''xsd1:doEnableEncryptedAssertion'' (dto_DoEnableEncryptedAssertion x) @
     xBool ''xsd1:doValidateSignatureInRequests'' (dto_DoValidateSignatureInRequests x) @
     xBool ''xsd1:doValidateSignatureInArtifactResolve'' (dto_DoValidateSignatureInArtifactResolve x) @
     xBool ''xsd1:enableAttributeProfile'' (dto_EnableAttributeProfile x) @
     xBool ''xsd1:enableAttributesByDefault'' (dto_EnableAttributesByDefault x) @
     xBool ''xsd1:enableSAML2ArtifactBinding'' (dto_EnableSAML2ArtifactBinding x) @
     xBool ''xsd1:assertionQueryRequestProfileEnabled'' (dto_AssertionQueryRequestProfileEnabled x) @
     xBool ''xsd1:idPInitSSOEnabled'' (dto_IDPInitSSOEnabled x) @
     xBool ''xsd1:idPInitSLOEnabled'' (dto_IDPInitSLOEnabled x) @
     xBool ''xsd1:samlECP'' (dto_SamlECP x)"

definition xml_CreateSAMLApplicationRequest :: "CreateSAMLApplicationRequest \<Rightarrow> xout list" where
  "xml_CreateSAMLApplicationRequest x =
     xStruct ''xsd:spDto'' (xml_SAMLSSOServiceProviderDTORequest (csar_SpDto x))"

definition xml_CreateSAMLApplicationBody :: "CreateSAMLApplicationBody \<Rightarrow> xout list" where
  "xml_CreateSAMLApplicationBody x =
     xStruct ''xsd:addRPServiceProvider'' (xml_CreateSAMLApplicationRequest (csab_CreateSAMLApplicationRequest x))"

definition xml_UpdateRPServiceProviderRequest :: "UpdateRPServiceProviderRequest \<Rightarrow> xout list" where
  "xml_UpdateRPServiceProviderRequest x =
     xStruct ''xsd:spDto'' (xml_SAMLSSOServiceProviderDTORequest (urspr_SpDto x))"

definition xml_UpdateSAMLSPBody :: "UpdateSAMLSPBody \<Rightarrow> xout list" where
  "xml_UpdateSAMLSPBody x =
     xStruct ''xsd:updateRPServiceProvider'' (xml_UpdateRPServiceProviderRequest (usb_UpdateRPServiceProvider x))"

definition xml_GetServiceProviderRequest :: "GetServiceProviderRequest \<Rightarrow> xout list" where
  "xml_GetServiceProviderRequest x =
     xStr ''xsd:issuer'' (gspr_Issuer x)"

definition xml_GetServiceProviderBody :: "GetServiceProviderBody \<Rightarrow> xout list" where
  "xml_GetServiceProviderBody x =
     xStruct ''xsd:getServiceProvider'' (xml_GetServiceProviderRequest (gspb_GetServiceProvider x))"

definition xml_RemoveServiceProviderRequest :: "RemoveServiceProviderRequest \<Rightarrow> xout list" where
  "xml_RemoveServiceProviderRequest x =
     xStr ''xsd:issuer'' (rspr_Issuer x)"

definition xml_RemoveSAMLSPBody :: "RemoveSAMLSPBody \<Rightarrow> xout list" where
  "xml_RemoveSAMLSPBody x =
     xStruct ''xsd:removeServiceProvider'' (xml_RemoveServiceProviderRequest (rsb_RemoveServiceProvider x))"

section \<open>Responses\<close>

definition zero_ClaimResponse :: ClaimResponse where
  "zero_ClaimResponse = \<lparr>rcl_ClaimURI = []\<rparr>"

definition fields_ClaimResponse :: "ClaimResponse xfield list" where
  "fields_ClaimResponse = [
     fStr commonNS ''claimUri'' rcl_ClaimURI_update]"

definition dec_ClaimResponse :: "xtree \<Rightarrow> ClaimResponse \<Rightarrow> ClaimResponse result" where
  "dec_ClaimResponse = decodeElem fields_ClaimResponse"

definition zero_ClaimMappingResponse :: ClaimMappingResponse where
  "zero_ClaimMappingResponse = \<lparr>rcm_LocalClaim = zero_ClaimResponse, rcm_RemoteClaim = zero_ClaimResponse,
     rcm_Mandatory = False, rcm_Requested = False\<rparr>"

definition fields_ClaimMappingResponse :: "ClaimMappingResponse xfield list" where
  "fields_ClaimMappingResponse = [
     fStruct commonNS ''localClaim'' dec_ClaimResponse rcm_LocalClaim rcm_LocalClaim_update,
     fStruct commonNS ''remoteClaim'' dec_ClaimResponse rcm_RemoteClaim rcm_RemoteClaim_update,
     fBool commonNS ''mandatory'' rcm_Mandatory_update,
     fBool commonNS ''requested'' rcm_Requested_update]"

definition dec_ClaimMappingResponse :: "xtree \<Rightarrow> ClaimMappingResponse \<Rightarrow> ClaimMappingResponse result" where
  "dec_ClaimMappingResponse = decodeElem fields_ClaimMappingResponse"

definition zero_ClaimConfigResponse :: ClaimConfigResponse where
  "zero_ClaimConfigResponse = \<lparr>rcc_AlwaysSendMappedLocalSubjectID = [], rcc_LocalClaimDialect = [],
     rcc_ClaimMappings = None, rcc_UserClaimURI = []\<rparr>"

definition fields_ClaimConfigResponse :: "ClaimConfigResponse xfield list" where
  "fields_ClaimConfigResponse = [
     fStr commonNS ''alwaysSendMappedLocalSubjectId'' rcc_AlwaysSendMappedLocalSubjectID_update,
     fStr commonNS ''localClaimDialect'' rcc_LocalClaimDialect_update,
     fSlice commonNS ''claimMappings'' zero_ClaimMappingResponse dec_ClaimMappingResponse rcc_ClaimMappings_update,
     fStr commonNS ''userClaimURI'' rcc_UserClaimURI_update]"

definition dec_ClaimConfigResponse :: "xtree \<Rightarrow> ClaimConfigResponse \<Rightarrow> ClaimConfigResponse result" where
  "dec_ClaimConfigResponse = decodeElem fields_ClaimConfigResponse"

definition zero_PropertyResponse :: PropertyResponse where
  "zero_PropertyResponse = \<lparr>rpr_Name = [], rpr_Value = []\<rparr>"

definition fields_PropertyResponse :: "PropertyResponse xfield list" where
  "fields_PropertyResponse = [
     fStr commonNS ''name'' rpr_Name_update,
     fStr commonNS ''value'' rpr_Value_update]"

definition dec_PropertyResponse :: "xtree \<Rightarrow> PropertyResponse \<Rightarrow> PropertyResponse result" where
  "dec_PropertyResponse = decodeElem fields_PropertyResponse"

definition zero_InboundAuthenticationRequestConfigResponse :: InboundAuthenticationRequestConfigResponse where
  "zero_InboundAuthenticationRequestConfigResponse = \<lparr>riarc_InboundAuthKey = [], riarc_InboundAuthType = [], riarc_Properties = None\<rparr>"

definition fields_InboundAuthenticationRequestConfigResponse :: "InboundAuthenticationRequestConfigResponse xfield list" where
  "fields_InboundAuthenticationRequestConfigResponse = [
     fStr commonNS ''inboundAuthKey'' riarc_InboundAuthKey_update,
     fStr commonNS ''inboundAuthType'' riarc_InboundAuthType_update,
     fSlice commonNS ''properties'' zero_PropertyResponse dec_PropertyResponse riarc_Properties_update]"

definition dec_InboundAuthenticationRequestConfigResponse :: "xtree \<Rightarrow> InboundAuthenticationRequestConfigResponse \<Rightarrow> InboundAuthenticationRequestConfigResponse result" where
  "dec_InboundAuthenticationRequestConfigResponse = decodeElem fields_InboundAuthenticationRequestConfigResponse"

definition zero_InboundAuthenticationConfigResponse :: InboundAuthenticationConfigResponse where
  "zero_InboundAuthenticationConfigResponse = \<lparr>riac_InboundAuthenticationRequestConfigs = None\<rparr>"

definition fields_InboundAuthenticationConfigResponse :: "InboundAuthenticationConfigResponse xfield list" where
  "fields_InboundAuthenticationConfigResponse = [
     fSlice commonNS ''inboundAuthenticationRequestConfigs'' zero_InboundAuthenticationRequestConfigResponse dec_InboundAuthenticationRequestConfigResponse riac_InboundAuthenticationRequestConfigs_update]"

definition dec_InboundAuthenticationConfigResponse :: "xtree \<Rightarrow> InboundAuthenticationConfigResponse \<Rightarrow> InboundAuthenticationConfigResponse result" where
  "dec_InboundAuthenticationConfigResponse = decodeElem fields_InboundAuthenticationConfigResponse"

definition zero_FederatedAuthenticatiorConfigResponse :: FederatedAuthenticatiorConfigResponse where
  "zero_FederatedAuthenticatiorConfigResponse = \<lparr>rfac_DisplayName = [], rfac_Name = [], rfac_Valid = False\<rparr>"

definition fields_FederatedAuthenticatiorConfigResponse :: "FederatedAuthenticatiorConfigResponse xfield list" where
  "fields_FederatedAuthenticatiorConfigResponse = [
     fStr commonNS ''displayName'' rfac_DisplayName_update,
     fStr commonNS ''name'' rfac_Name_update,
     fBool commonNS ''valid'' rfac_Valid_update]"

definition dec_FederatedAuthenticatiorConfigResponse :: "xtree \<Rightarrow> FederatedAuthenticatiorConfigResponse \<Rightarrow> FederatedAuthenticatiorConfigResponse result" where
  "dec_FederatedAuthenticatiorConfigResponse = decodeElem fields_FederatedAuthenticatiorConfigResponse"

definition zero_FederatedIdentityProvidersResponse :: FederatedIdentityProvidersResponse where
  "zero_FederatedIdentityProvidersResponse = \<lparr>rfip_FederatedAuthenticatiorConfig = None, rfip_IdentityProviderName = []\<rparr>"

definition fields_FederatedIdentityProvidersResponse :: "FederatedIdentityProvidersResponse xfield list" where
  "fields_FederatedIdentityProvidersResponse = [
     fSlice commonNS ''federatedAuthenticatorConfigs'' zero_FederatedAuthenticatiorConfigResponse dec_FederatedAuthenticatiorConfigResponse rfip_FederatedAuthenticatiorConfig_update,
     fStr commonNS ''identityProviderName'' rfip_IdentityProviderName_update]"

definition dec_FederatedIdentityProvidersResponse :: "xtree \<Rightarrow> FederatedIdentityProvidersResponse \<Rightarrow> FederatedIdentityProvidersResponse result" where
  "dec_FederatedIdentityProvidersResponse = decodeElem fields_FederatedIdentityProvidersResponse"

definition zero_LocalAuthenticatorConfigResponse :: LocalAuthenticatorConfigResponse where
  "zero_LocalAuthenticatorConfigResponse = \<lparr>rlac_DisplayName = [], rlac_Name = [], rlac_Valid = False\<rparr>"

definition fields_LocalAuthenticatorConfigResponse :: "LocalAuthenticatorConfigResponse xfield list" where
  "fields_LocalAuthenticatorConfigResponse = [
     fStr commonNS ''displayName'' rlac_DisplayName_update,
     fStr commonNS ''name'' rlac_Name_update,
     fBool commonNS ''valid'' rlac_Valid_update]"

definition dec_LocalAuthenticatorConfigResponse :: "xtree \<Rightarrow> LocalAuthenticatorConfigResponse \<Rightarrow> LocalAuthenticatorConfigResponse result" where
  "dec_LocalAuthenticatorConfigResponse = decodeElem fields_LocalAuthenticatorConfigResponse"

definition zero_AuthenticationStepResponse :: AuthenticationStepResponse where
  "zero_AuthenticationStepResponse = \<lparr>ras_FederatedIdentityProviders = None, ras_LocalAuthenticatorConfigs = None,
     ras_StepOrder = 0, ras_SubjectStep = False, ras_AttributeStep = False\<rparr>"

definition fields_AuthenticationStepResponse :: "AuthenticationStepResponse xfield list" where
  "fields_AuthenticationStepResponse = [
     fSlice commonNS ''federatedIdentityProviders'' zero_FederatedIdentityProvidersResponse dec_FederatedIdentityProvidersResponse ras_FederatedIdentityProviders_update,
     fSlice commonNS ''localAuthenticatorConfigs'' zero_LocalAuthenticatorConfigResponse dec_LocalAuthenticatorConfigResponse ras_LocalAuthenticatorConfigs_update,
     fInt commonNS ''stepOrder'' ras_StepOrder_update,
     fBool commonNS ''subjectStep'' ras_SubjectStep_update,
     fBool commonNS ''attributeStep'' ras_AttributeStep_update]"

definition dec_AuthenticationStepResponse :: "xtree \<Rightarrow> AuthenticationStepResponse \<Rightarrow> AuthenticationStepResponse result" where
  "dec_AuthenticationStepResponse = decodeElem fields_AuthenticationStepResponse"

definition zero_AuthenticationScriptConfigResponse :: AuthenticationScriptConfigResponse where
  "zero_AuthenticationScriptConfigResponse = \<lparr>rasc_Content = [], rasc_Enabled = False, rasc_Language = []\<rparr>"

definition fields_AuthenticationScriptConfigResponse :: "AuthenticationScriptConfigResponse xfield list" where
  "fields_AuthenticationScriptConfigResponse = [
     fStr scriptNS ''content'' rasc_Content_update,
     fBool scriptNS ''enabled'' rasc_Enabled_update,
     fStr scriptNS ''language'' rasc_Language_update]"

definition dec_AuthenticationScriptConfigResponse :: "xtree \<Rightarrow> AuthenticationScriptConfigResponse \<Rightarrow> AuthenticationScriptConfigResponse result" where
  "dec_AuthenticationScriptConfigResponse = decodeElem fields_AuthenticationScriptConfigResponse"

definition zero_LocalAndOutboundAuthenticationConfigResponse :: LocalAndOutboundAuthenticationConfigResponse where
  "zero_LocalAndOutboundAuthenticationConfigResponse = \<lparr>rloac_AlwaysSendBackAuthenticatedListOfIDPs = False, rloac_AuthenticationSteps = None,
     rloac_AuthenticationScriptConfig = zero_AuthenticationScriptConfigResponse,
     rloac_AuthenticationType = [], rloac_SubjectClaimURI = [],
     rloac_AuthenticationScript = [], rloac_EnableAuthorization = False,
     rloac_SkipConsent = False, rloac_SkipLogoutConsent = False,
     rloac_UseTenantDomainInLocalSubjectIdentifier = False,
     rloac_UseUserstoreDomainInLocalSubjectIdentifier = False,
     rloac_UseUserstoreDomainInRoles = False\<rparr>"

definition fields_LocalAndOutboundAuthenticationConfigResponse :: "LocalAndOutboundAuthenticationConfigResponse xfield list" where
  "fields_LocalAndOutboundAuthenticationConfigResponse = [
     fBool commonNS ''alwaysSendBackAuthenticatedListOfIdPs'' rloac_AlwaysSendBackAuthenticatedListOfIDPs_update,
     fSlice commonNS ''authenticationSteps'' zero_AuthenticationStepResponse dec_AuthenticationStepResponse rloac_AuthenticationSteps_update,
     fStruct commonNS ''authenticationScriptConfig'' dec_AuthenticationScriptConfigResponse rloac_AuthenticationScriptConfig rloac_AuthenticationScriptConfig_update,
     fStr commonNS ''authenticationType'' rloac_AuthenticationType_update,
     fStr commonNS ''subjectClaimUri'' rloac_SubjectClaimURI_update,
     fStr commonNS ''authenticationScript'' rloac_AuthenticationScript_update,
     fBool commonNS ''enableAuthorization'' rloac_EnableAuthorization_update,
     fBool commonNS ''skipConsent'' rloac_SkipConsent_update,
     fBool commonNS ''skipLogoutConsent'' rloac_SkipLogoutConsent_update,
     fBool commonNS ''useTenantDomainInLocalSubjectIdentifier'' rloac_UseTenantDomainInLocalSubjectIdentifier_update,
     fBool commonNS ''useUserstoreDomainInLocalSubjectIdentifier'' rloac_UseUserstoreDomainInLocalSubjectIdentifier_update,
     fBool commonNS ''useUserstoreDomainInRoles'' rloac_UseUserstoreDomainInRoles_update]"

definition dec_LocalAndOutboundAuthenticationConfigResponse :: "xtree \<Rightarrow> LocalAndOutboundAuthenticationConfigResponse \<Rightarrow> LocalAndOutboundAuthenticationConfigResponse result" where
  "dec_LocalAndOutboundAuthenticationConfigResponse = decodeElem fields_LocalAndOutboundAuthenticationConfigResponse"

definition zero_ServiceProviderResponse :: ServiceProviderResponse where
  "zero_ServiceProviderResponse = \<lparr>rsp_ApplicationID = 0, rsp_ApplicationResourceID = [], rsp_ApplicationName = [],
     rsp_Description = [], rsp_ClaimConfig = None,
     rsp_InboundAuthenticationConfig = None,
     rsp_LocalAndOutboundAuthenticationConfig = None\<rparr>"

definition fields_ServiceProviderResponse :: "ServiceProviderResponse xfield list" where
  "fields_ServiceProviderResponse = [
     fInt commonNS ''applicationID'' rsp_ApplicationID_update,
     fStr commonNS ''applicationResourceId'' rsp_ApplicationResourceID_update,
     fStr commonNS ''applicationName'' rsp_ApplicationName_update,
     fStr commonNS ''description'' rsp_Description_update,
     fPtr commonNS ''claimConfig'' zero_ClaimConfigResponse dec_ClaimConfigResponse rsp_ClaimConfig rsp_ClaimConfig_update,
     fPtr commonNS ''inboundAuthenticationConfig'' zero_InboundAuthenticationConfigResponse dec_InboundAuthenticationConfigResponse rsp_InboundAuthenticationConfig rsp_InboundAuthenticationConfig_update,
     fPtr commonNS ''localAndOutBoundAuthenticationConfig'' zero_LocalAndOutboundAuthenticationConfigResponse dec_LocalAndOutboundAuthenticationConfigResponse rsp_LocalAndOutboundAuthenticationConfig rsp_LocalAndOutboundAuthenticationConfig_update]"

definition dec_ServiceProviderResponse :: "xtree \<Rightarrow> ServiceProviderResponse \<Rightarrow> ServiceProviderResponse result" where
  "dec_ServiceProviderResponse = decodeElem fields_ServiceProviderResponse"

definition zero_GetApplicationResponse :: GetApplicationResponse where
  "zero_GetApplicationResponse = \<lparr>gares_ServiceProvider = zero_ServiceProviderResponse\<rparr>"

definition fields_GetApplicationResponse :: "GetApplicationResponse xfield list" where
  "fields_GetApplicationResponse = [
     fStruct axisNS ''return'' dec_ServiceProviderResponse gares_ServiceProvider gares_ServiceProvider_update]"

definition dec_GetApplicationResponse :: "xtree \<Rightarrow> GetApplicationResponse \<Rightarrow> GetApplicationResponse result" where
  "dec_GetApplicationResponse = decodeElem fields_GetApplicationResponse"

definition zero_GetApplicationResponseBody :: GetApplicationResponseBody where
  "zero_GetApplicationResponseBody = \<lparr>garb_GetApplicationResponse = zero_GetApplicationResponse\<rparr>"

definition fields_GetApplicationResponseBody :: "GetApplicationResponseBody xfield list" where
  "fields_GetApplicationResponseBody = [
     fStruct axisNS ''getApplicationResponse'' dec_GetApplicationResponse garb_GetApplicationResponse garb_GetApplicationResponse_update]"

definition dec_GetApplicationResponseBody :: "xtree \<Rightarrow> GetApplicationResponseBody \<Rightarrow> GetApplicationResponseBody result" where
  "dec_GetApplicationResponseBody = decodeElem fields_GetApplicationResponseBody"

definition zero_OAuthApplicationResponse :: OAuthApplicationResponse where
  "zero_OAuthApplicationResponse = \<lparr>roa_OAuthVersion = [], roa_ApplicationAccessTokenExpiryTime = 0,
     roa_ApplicationName = [], roa_Audiences = None,
     roa_BypassClientCredentials = False, roa_CallbackURL = [], roa_GrantTypes = [],
     roa_IDTokenExpiryTime = 0, roa_OAuthConsumerKey = [],
     roa_OAuthConsumerSecret = [], roa_PKCEMandatory = False,
     roa_PKCESupportPlain = False, roa_RefreshTokenExpiryTime = 0,
     roa_ScopeValidators = None, roa_TokenBindingType = [], roa_TokenType = [],
     roa_UserAccessTokenExpiryTime = 0, roa_Username = []\<rparr>"

definition fields_OAuthApplicationResponse :: "OAuthApplicationResponse xfield list" where
  "fields_OAuthApplicationResponse = [
     fStr oAuthNS ''OAuthVersion'' roa_OAuthVersion_update,
     fInt oAuthNS ''applicationAccessTokenExpiryTime'' roa_ApplicationAccessTokenExpiryTime_update,
     fStr oAuthNS ''applicationName'' roa_ApplicationName_update,
     fStrs oAuthNS ''audiences'' roa_Audiences_update,
     fBool oAuthNS ''bypassClientCredentials'' roa_BypassClientCredentials_update,
     fStr oAuthNS ''callbackUrl'' roa_CallbackURL_update,
     fStr oAuthNS ''grantTypes'' roa_GrantTypes_update,
     fInt oAuthNS ''idTokenExpiryTime'' roa_IDTokenExpiryTime_update,
     fStr oAuthNS ''oauthConsumerKey'' roa_OAuthConsumerKey_update,
     fStr oAuthNS ''oauthConsumerSecret'' roa_OAuthConsumerSecret_update,
     fBool oAuthNS ''pkceMandatory'' roa_PKCEMandatory_update,
     fBool oAuthNS ''pkceSupportPlain'' roa_PKCESupportPlain_update,
     fInt oAuthNS ''refreshTokenExpiryTime'' roa_RefreshTokenExpiryTime_update,
     fStrs oAuthNS ''scopeValidators'' roa_ScopeValidators_update,
     fStr oAuthNS ''tokenBindingType'' roa_TokenBindingType_update,
     fStr oAuthNS ''tokenType'' roa_TokenType_update,
     fInt oAuthNS ''userAccessTokenExpiryTime'' roa_UserAccessTokenExpiryTime_update,
     fStr oAuthNS ''username'' roa_Username_update]"

definition dec_OAuthApplicationResponse :: "xtree \<Rightarrow> OAuthApplicationResponse \<Rightarrow> OAuthApplicationResponse result" where
  "dec_OAuthApplicationResponse = decodeElem fields_OAuthApplicationResponse"

definition zero_GetOAuthApplicationDataByAppNameResponse :: GetOAuthApplicationDataByAppNameResponse where
  "zero_GetOAuthApplicationDataByAppNameResponse = \<lparr>goares_OAuthApplication = zero_OAuthApplicationResponse\<rparr>"

definition fields_GetOAuthApplicationDataByAppNameResponse :: "GetOAuthApplicationDataByAppNameResponse xfield list" where
  "fields_GetOAuthApplicationDataByAppNameResponse = [
     fStruct axisNS ''return'' dec_OAuthApplicationResponse goares_OAuthApplication goares_OAuthApplication_update]"

definition dec_GetOAuthApplicationDataByAppNameResponse :: "xtree \<Rightarrow> GetOAuthApplicationDataByAppNameResponse \<Rightarrow> GetOAuthApplicationDataByAppNameResponse result" where
  "dec_GetOAuthApplicationDataByAppNameResponse = decodeElem fields_GetOAuthApplicationDataByAppNameResponse"

definition zero_GetOAuthApplicationDataByAppNameResponseBody :: GetOAuthApplicationDataByAppNameResponseBody where
  "zero_GetOAuthApplicationDataByAppNameResponseBody = \<lparr>
     goarb_GetOAuthApplicationDataByAppNameResponse = zero_GetOAuthApplicationDataByAppNameResponse\<rparr>"

definition fields_GetOAuthApplicationDataByAppNameResponseBody :: "GetOAuthApplicationDataByAppNameResponseBody xfield list" where
  "fields_GetOAuthApplicationDataByAppNameResponseBody = [
     fStruct axisNS ''getOAuthApplicationDataByAppNameResponse'' dec_GetOAuthApplicationDataByAppNameResponse goarb_GetOAuthApplicationDataByAppNameResponse goarb_GetOAuthApplicationDataByAppNameResponse_update]"

definition dec_GetOAuthApplicationDataByAppNameResponseBody :: "xtree \<Rightarrow> GetOAuthApplicationDataByAppNameResponseBody \<Rightarrow> GetOAuthApplicationDataByAppNameResponseBody result" where
  "dec_GetOAuthApplicationDataByAppNameResponseBody = decodeElem fields_GetOAuthApplicationDataByAppNameResponseBody"

definition zero_SAMLSSOServiceProviderDTOResponse :: SAMLSSOServiceProviderDTOResponse where
  "zero_SAMLSSOServiceProviderDTOResponse = \<lparr>rdto_AssertionConsumerUrls = None, rdto_RequestedAudiences = None,
     rdto_RequestedRecipients = None, rdto_IdpInitSLOReturnToURLs = None,
     rdto_Issuer = [], rdto_IssuerQualifier = [],
     rdto_DefaultAssertionConsumerURL = [], rdto_NameIDFormat = [],
     rdto_NameIDClaimURI = [], rdto_CertAlias = [], rdto_CertificateContent = [],
     rdto_LoginPageURL = [], rdto_IdpEntityIDAlias = [], rdto_SigningAlgorithmURI = [],
     rdto_DigestAlgorithmURI = [], rdto_AssertionEncryptionAlgorithmURI = [],
     rdto_KeyEncryptionAlgorithmURI = [], rdto_SloRequestURL = [],
     rdto_SloResponseURL = [], rdto_FrontChannelLogoutBinding = [],
     rdto_AttributeConsumingServiceIndex = [],
     rdto_SupportedAssertionQueryRequestTypes = [], rdto_DoSignAssertions = False,
     rdto_DoSignResponse = False, rdto_DoSingleLogout = False,
     rdto_DoFrontChannelLogout = False, rdto_DoEnableEncryptedAssertion = False,
     rdto_DoValidateSignatureInRequests = False,
     rdto_DoValidateSignatureInArtifactResolve = False,
     rdto_EnableAttributeProfile = False, rdto_EnableAttributesByDefault = False,
     rdto_EnableSAML2ArtifactBinding = False,
     rdto_AssertionQueryRequestProfileEnabled = False, rdto_IDPInitSSOEnabled = False,
     rdto_IDPInitSLOEnabled = False, rdto_SamlECP = False\<rparr>"

definition fields_SAMLSSOServiceProviderDTOResponse :: "SAMLSSOServiceProviderDTOResponse xfield list" where
  "fields_SAMLSSOServiceProviderDTOResponse = [
     fStrs samlNS ''assertionConsumerUrls'' rdto_AssertionConsumerUrls_update,
     fStrs samlNS ''requestedAudiences'' rdto_RequestedAudiences_update,
     fStrs samlNS ''requestedRecipients'' rdto_RequestedRecipients_update,
     fStrs samlNS ''idpInitSLOReturnToURLs'' rdto_IdpInitSLOReturnToURLs_update,
     fStr samlNS ''issuer'' rdto_Issuer_update,
     fStr samlNS ''issuerQualifier'' rdto_IssuerQualifier_update,
     fStr samlNS ''defaultAssertionConsumerUrl'' rdto_DefaultAssertionConsumerURL_update,
     fStr samlNS ''nameIDFormat'' rdto_NameIDFormat_update,
     fStr samlNS ''nameIdClaimUri'' rdto_NameIDClaimURI_update,
     fStr samlNS ''certAlias'' rdto_CertAlias_update,
     fStr samlNS ''certificateContent'' rdto_CertificateContent_update,
     fStr samlNS ''loginPageURL'' rdto_LoginPageURL_update,
     fStr samlNS ''idpEntityIDAlias'' rdto_IdpEntityIDAlias_update,
     fStr samlNS ''signingAlgorithmURI'' rdto_SigningAlgorithmURI_update,
     fStr samlNS ''digestAlgorithmURI'' rdto_DigestAlgorithmURI_update,
     fStr samlNS ''assertionEncryptionAlgorithmURI'' rdto_AssertionEncryptionAlgorithmURI_update,
     fStr samlNS ''keyEncryptionAlgorithmURI'' rdto_KeyEncryptionAlgorithmURI_update,
     fStr samlNS ''sloRequestURL'' rdto_SloRequestURL_update,
     fStr samlNS ''sloResponseURL'' rdto_SloResponseURL_update,
     fStr samlNS ''frontChannelLogoutBinding'' rdto_FrontChannelLogoutBinding_update,
     fStr samlNS ''attributeConsumingServiceIndex'' rdto_AttributeConsumingServiceIndex_update,
     fStr samlNS ''supportedAssertionQueryRequestTypes'' rdto_SupportedAssertionQueryRequestTypes_update,
     fBool samlNS ''doSignAssertions'' rdto_DoSignAssertions_update,
     fBool samlNS ''doSignResponse'' rdto_DoSignResponse_update,
     fBool samlNS ''doSingleLogout'' rdto_DoSingleLogout_update,
     fBool samlNS ''doFrontChannelLogout'' rdto_DoFrontChannelLogout_update,
     fBool samlNS ''doEnableEncryptedAssertion'' rdto_DoEnableEncryptedAssertion_update,
     fBool samlNS ''doValidateSignatureInRequests'' rdto_DoValidateSignatureInRequests_update,
     fBool samlNS ''doValidateSignatureInArtifactResolve'' rdto_DoValidateSignatureInArtifactResolve_update,
     fBool samlNS ''enableAttributeProfile'' rdto_EnableAttributeProfile_update,
     fBool samlNS ''enableAttributesByDefault'' rdto_EnableAttributesByDefault_update,
     fBool samlNS ''enableSAML2ArtifactBinding'' rdto_EnableSAML2ArtifactBinding_update,
     fBool samlNS ''assertionQueryRequestProfileEnabled'' rdto_AssertionQueryRequestProfileEnabled_update,
     fBool samlNS ''idPInitSSOEnabled'' rdto_IDPInitSSOEnabled_update,
     fBool samlNS ''idPInitSLOEnabled'' rdto_IDPInitSLOEnabled_update,
     fBool samlNS ''samlECP'' rdto_SamlECP_update]"

definition dec_SAMLSSOServiceProviderDTOResponse :: "xtree \<Rightarrow> SAMLSSOServiceProviderDTOResponse \<Rightarrow> SAMLSSOServiceProviderDTOResponse result" where
  "dec_SAMLSSOServiceProviderDTOResponse = decodeElem fields_SAMLSSOServiceProviderDTOResponse"

definition zero_GetSAMLSPResponse :: GetSAMLSPResponse where
  "zero_GetSAMLSPResponse = \<lparr>gsres_Return = None\<rparr>"

definition fields_GetSAMLSPResponse :: "GetSAMLSPResponse xfield list" where
  "fields_GetSAMLSPResponse = [
     fPtr axisNS ''return'' zero_SAMLSSOServiceProviderDTOResponse dec_SAMLSSOServiceProviderDTOResponse gsres_Return gsres_Return_update]"

definition dec_GetSAMLSPResponse :: "xtree \<Rightarrow> GetSAMLSPResponse \<Rightarrow> GetSAMLSPResponse result" where
  "dec_GetSAMLSPResponse = decodeElem fields_GetSAMLSPResponse"

definition zero_GetSAMLSPResponseBody :: GetSAMLSPResponseBody where
  "zero_GetSAMLSPResponseBody = \<lparr>gsrb_Response = zero_GetSAMLSPResponse\<rparr>"

definition fields_GetSAMLSPResponseBody :: "GetSAMLSPResponseBody xfield list" where
  "fields_GetSAMLSPResponseBody = [
     fStruct axisNS ''getServiceProviderResponse'' dec_GetSAMLSPResponse gsrb_Response gsrb_Response_update]"

definition dec_GetSAMLSPResponseBody :: "xtree \<Rightarrow> GetSAMLSPResponseBody \<Rightarrow> GetSAMLSPResponseBody result" where
  "dec_GetSAMLSPResponseBody = decodeElem fields_GetSAMLSPResponseBody"

definition dec_ResponseEnvelope ::
  "'a \<Rightarrow> (xtree \<Rightarrow> 'a \<Rightarrow> 'a result) \<Rightarrow> xtree \<Rightarrow> 'a ResponseEnvelope result" where
  "dec_ResponseEnvelope zero dec x =
     (case checkRoot soapEnvNS ''Envelope'' x of
        Inl e \<Rightarrow> Inl e
      | Inr _ \<Rightarrow> decodeElem [fStruct soapEnvNS ''Body'' dec rse_Body rse_Body_update] x \<lparr>rse_Body = zero\<rparr>)"

end
