(* ===== verification/Builder.thy ===== *)
theory Builder
  imports SoapCodec Wso2Types
begin

text \<open>
  \<^verbatim>\<open>internal/wso2/builder.go\<close>: the SOAP and SCIM requests made from the operator's own view of an
  application. Every \<open>build\<close> function is total; what they lose on the way (an unknown scope
  validator or token binding, the consumer-side flags the SOAP message has no field for) is stated
  with the mapper, which reads the answers back.
\<close>

section \<open>Parts of a service provider\<close>

definition buildClaimConfig :: "Claim slice \<Rightarrow> ClaimMappingRequest slice" where
  "buildClaimConfig claims =
     (if elems claims = [] then None
      else Some (map (\<lambda>c. \<lparr>cmr_LocalClaim = \<lparr>clr_ClaimURI = claim_URI c\<rparr>,
                             cmr_RemoteClaim = \<lparr>clr_ClaimURI = claim_URI c\<rparr>,
                             cmr_Mandatory = claim_Mandatory c, cmr_Requested = True\<rparr>) (elems claims)))"

definition buildScopeValidator :: "string \<Rightarrow> ScopeValidator list" where
  "buildScopeValidator c =
     (if c = ''xacml'' then [xACMLValidator] else if c = ''role'' then [roleValidator] else [])"

definition buildScopeValidators :: "string slice \<Rightarrow> ScopeValidator slice" where
  "buildScopeValidators ins = appended (concat (map buildScopeValidator (elems ins)))"

definition buildTokenBindingType :: "string \<Rightarrow> TokenBindingType" where
  "buildTokenBindingType s =
     (if s = ''session'' then sessionBinding else if s = ''cookie'' then cookieBinding else [])"

definition buildInboundAuthConfig :: "Application \<Rightarrow> InboundAuthenticationRequestConfigRequest slice" where
  "buildInboundAuthConfig sp = Some (
     (case app_OAuth2 sp of None \<Rightarrow> []
      | Some o2 \<Rightarrow> [\<lparr>iarc_InboundAuthKey = oauth_OAuthConsumerKey o2, iarc_InboundAuthType = ''oauth2'',
                    iarc_Properties = Some [\<lparr>pr_Name = ''oauthConsumerSecret'',
                                             pr_Value = oauth_OAuthConsumerSecret o2\<rparr>]\<rparr>])
     @ (case app_SAML sp of None \<Rightarrow> []
        | Some s \<Rightarrow> [\<lparr>iarc_InboundAuthKey = saml_Issuer s, iarc_InboundAuthType = ''samlsso'',
                     iarc_Properties = Some [\<lparr>pr_Name = ''attrConsumServiceIndex'',
                                              pr_Value = saml_AttributeConsumingServiceIndex s\<rparr>]\<rparr>])
     @ [\<lparr>iarc_InboundAuthKey = app_Name sp, iarc_InboundAuthType = ''openid'', iarc_Properties = None\<rparr>,
        \<lparr>iarc_InboundAuthKey = app_Name sp, iarc_InboundAuthType = ''passivests'', iarc_Properties = None\<rparr>])"

definition buildLocalAuthenticators :: "string slice \<Rightarrow> LocalAuthenticatorConfigRequest slice" where
  "buildLocalAuthenticators la =
     appended (map (\<lambda>c. \<lparr>lacr_DisplayName = [], lacr_Name = c, lacr_Valid = True\<rparr>) (elems la))"

definition buildFederatedAuthenticators ::
    "AuthenticationStep \<Rightarrow> FederatedAuthenticatiorConfigRequest slice" where
  "buildFederatedAuthenticators st =
     (if step_FederatedAuthenticator st = [] then None
      else Some [\<lparr>facr_DisplayName = [], facr_Name = step_FederatedAuthenticator st, facr_Valid = True\<rparr>])"

definition buildAuthenticationStep :: "Application \<Rightarrow> AuthenticationStep \<Rightarrow> AuthenticationStepRequest" where
  "buildAuthenticationStep sp c =
     (let feds = buildFederatedAuthenticators c in
      \<lparr>asr_FederatedIdentityProviders =
         (if elems feds \<noteq> [] \<or> step_FederatedIDP c \<noteq> []
          then Some (Some [\<lparr>fipr_FederatedAuthenticatiorConfig = feds,
                            fipr_IdentityProviderName = step_FederatedIDP c\<rparr>])
          else None),
       asr_LocalAuthenticatorConfigs = buildLocalAuthenticators (step_LocalAuthenticators c),
       asr_StepOrder = step_Step c,
       asr_SubjectStep = (app_StepForSubject sp = step_Step c),
       asr_AttributeStep = (app_StepForAttributes sp = step_Step c)\<rparr>)"

definition buildAuthenticationSteps :: "Application \<Rightarrow> AuthenticationStepRequest slice" where
  "buildAuthenticationSteps sp =
     (case app_AuthenticationSteps sp of None \<Rightarrow> None
      | Some cs \<Rightarrow> appended (map (buildAuthenticationStep sp) cs))"

definition buildAuthenticationScriptConfig :: "Application \<Rightarrow> AuthenticationScriptConfigRequest" where
  "buildAuthenticationScriptConfig sp =
     (if app_AuthenticationScript sp = []
      then \<lparr>ascr_Content = [], ascr_Enabled = False, ascr_Language = []\<rparr>
      else \<lparr>ascr_Content = app_AuthenticationScript sp, ascr_Enabled = True,
            ascr_Language = ''application/javascript''\<rparr>)"

definition buildLocalAndOutboundConfig ::
    "Application \<Rightarrow> LocalAndOutboundAuthenticationConfigRequest option" where
  "buildLocalAndOutboundConfig sp = Some
     \<lparr>loac_AlwaysSendBackAuthenticatedListOfIDPs = app_AlwaysSendBackAuthenticatedListOfIDPs sp,
      loac_AuthenticationScriptConfig = buildAuthenticationScriptConfig sp,
      loac_AuthenticationSteps = buildAuthenticationSteps sp,
      loac_AuthenticationType = ''flow'',
      loac_SubjectClaimURI = app_SubjectClaimURI sp,
      loac_AuthenticationScript = [],
      loac_EnableAuthorization = app_EnableAuthorization sp,
      loac_SkipConsent = app_SkipConsent sp,
      loac_SkipLogoutConsent = app_SkipLogoutConsent sp,
      loac_UseTenantDomainInLocalSubjectIdentifier = app_UseTenantInSub sp,
      loac_UseUserstoreDomainInLocalSubjectIdentifier = app_UseUserstoreInSub sp,
      loac_UseUserstoreDomainInRoles = app_UseUserstoreInRoles sp\<rparr>"

section \<open>Requests\<close>

definition envelope :: "string \<Rightarrow> 'a \<Rightarrow> 'a RequestEnvelope" where
  "envelope xsd1 body = \<lparr>re_SoapEnv = soapEnvNS, re_XSD = axisNS, re_XSD1 = xsd1, re_Body = body\<rparr>"

definition buildGetOAuthApplication :: "string \<Rightarrow> GetOAuthBody RequestEnvelope" where
  "buildGetOAuthApplication name =
     envelope [] \<lparr>gob_GetOAuthApplicationDataByAppName = \<lparr>goar_AppName = name\<rparr>\<rparr>"

text \<open>The application DTO that registration and update both send.\<close>

definition oauthApplication :: "string \<Rightarrow> OAuth2Config \<Rightarrow> OAuthApplication" where
  "oauthApplication name cfg =
     \<lparr>oa_OAuthVersion = ''OAuth-2.0'',
      oa_ApplicationAccessTokenExpiryTime = oauth_AccessTokenExpiry cfg,
      oa_ApplicationName = name,
      oa_Audiences = oauth_Audiences cfg,
      oa_BypassClientCredentials = False,
      oa_CallbackURL = oauth_CallbackURL cfg,
      oa_GrantTypes = join '' '' (elems (oauth_GrantTypes cfg)),
      oa_OAuthConsumerKey = oauth_OAuthConsumerKey cfg,
      oa_OAuthConsumerSecret = oauth_OAuthConsumerSecret cfg,
      oa_PKCEMandatory = oauth_PKCEMandatory cfg,
      oa_PKCESupportPlain = oauth_PKCEPlain cfg,
      oa_RefreshTokenExpiryTime = oauth_RefreshTokenExpiry cfg,
      oa_ScopeValidators = buildScopeValidators (oauth_ScopeValidators cfg),
      oa_TokenBindingType = buildTokenBindingType (oauth_TokenBinding cfg),
      oa_UserAccessTokenExpiryTime = oauth_AccessTokenExpiry cfg,
      oa_IDTokenExpiryTime = 0\<rparr>"

definition buildCreateOAuthApplicaiton :: "string \<Rightarrow> OAuth2Config \<Rightarrow> RegisterOAuthBody RequestEnvelope" where
  "buildCreateOAuthApplicaiton name cfg =
     envelope commonNS
       \<lparr>rob_RegisterOAuthApplicationData = \<lparr>roadr_Application = oauthApplication name cfg\<rparr>\<rparr>"

definition buildUpdateOAuthApplication :: "string \<Rightarrow> OAuth2Config \<Rightarrow> UpdateOAuthBody RequestEnvelope" where
  "buildUpdateOAuthApplication name cfg =
     envelope commonNS
       \<lparr>uob_UpdateConsumerApplication = \<lparr>ucar_ConsumerAppDTO = oauthApplication name cfg\<rparr>\<rparr>"

definition buildGetSAMLApplication :: "string \<Rightarrow> GetServiceProviderBody RequestEnvelope" where
  "buildGetSAMLApplication issuer =
     envelope [] \<lparr>gspb_GetServiceProvider = \<lparr>gspr_Issuer = issuer\<rparr>\<rparr>"

definition samlDTO :: "SAMLConfig \<Rightarrow> SAMLSSOServiceProviderDTORequest" where
  "samlDTO cfg =
     \<lparr>dto_AssertionConsumerUrls = saml_ACSURLs cfg,
      dto_RequestedAudiences = saml_RequestedAudiences cfg,
      dto_RequestedRecipients = saml_RequestedRecipients cfg,
      dto_IdpInitSLOReturnToURLs = saml_IdpInitSLOReturnToURLs cfg,
      dto_Issuer = saml_Issuer cfg,
      dto_IssuerQualifier = saml_IssuerQualifier cfg,
      dto_DefaultAssertionConsumerURL = saml_DefaultAssertionConsumerURL cfg,
      dto_NameIDFormat = saml_NameIDFormat cfg,
      dto_NameIdClaimUri = [],
      dto_CertAlias = saml_CertAlias cfg,
      dto_CertificateContent = saml_CertificateContent cfg,
      dto_LoginPageURL = saml_LoginPageURL cfg,
      dto_IdpEntityIDAlias = saml_IdpEntityIDAlias cfg,
      dto_SigningAlgorithmURI = saml_SigningAlgorithmURI cfg,
      dto_DigestAlgorithmURI = saml_DigestAlgorithmURI cfg,
      dto_AssertionEncryptionAlgorithmURI = saml_AssertionEncryptionAlgorithmURI cfg,
      dto_KeyEncryptionAlgorithmURI = saml_KeyEncryptionAlgorithmURI cfg,
      dto_SloRequestURL = saml_SloRequestURL cfg,
      dto_SloResponseURL = saml_SloResponseURL cfg,
      dto_FrontChannelLogoutBinding = saml_FrontChannelLogoutBinding cfg,
      dto_AttributeConsumingServiceIndex = saml_AttributeConsumingServiceIndex cfg,
      dto_SupportedAssertionQueryRequestTypes = saml_SupportedAssertionQueryRequestTypes cfg,
      dto_DoSignAssertions = saml_DoSignAssertions cfg,
      dto_DoSignResponse = saml_DoSignResponse cfg,
      dto_DoSingleLogout = saml_DoSingleLogout cfg,
      dto_DoFrontChannelLogout = saml_DoFrontChannelLogout cfg,
      dto_DoEnableEncryptedAssertion = saml_DoEnableEncryptedAssertion cfg,
      dto_DoValidateSignatureInRequests = saml_DoValidateSignatureInRequests cfg,
      dto_DoValidateSignatureInArtifactResolve = saml_DoValidateSignatureInArtifactResolve cfg,
      dto_EnableAttributeProfile = saml_EnableAttributeProfile cfg,
      dto_EnableAttributesByDefault = saml_EnableAttributesByDefault cfg,
      dto_EnableSAML2ArtifactBinding = saml_EnableSAML2ArtifactBinding cfg,
      dto_AssertionQueryRequestProfileEnabled = saml_AssertionQueryRequestProfileEnabled cfg,
      dto_IDPInitSSOEnabled = saml_IDPInitSSOEnabled cfg,
      dto_IDPInitSLOEnabled = saml_IDPInitSLOEnabled cfg,
      dto_SamlECP = saml_SamlECP cfg\<rparr>"

definition buildCreateSAMLApplication :: "SAMLConfig \<Rightarrow> CreateSAMLApplicationBody RequestEnvelope" where
  "buildCreateSAMLApplication cfg =
     envelope commonNS \<lparr>csab_CreateSAMLApplicationRequest = \<lparr>csar_SpDto = samlDTO cfg\<rparr>\<rparr>"

definition buildRemoveSAMLAPplication :: "string \<Rightarrow> RemoveSAMLSPBody RequestEnvelope" where
  "buildRemoveSAMLAPplication issuer =
     envelope commonNS \<lparr>rsb_RemoveServiceProvider = \<lparr>rspr_Issuer = issuer\<rparr>\<rparr>"

definition buildGetApplication :: "string \<Rightarrow> GetApplicationBody RequestEnvelope" where
  "buildGetApplication name = envelope [] \<lparr>gab_GetApplication = \<lparr>gar_ApplicationName = name\<rparr>\<rparr>"

definition buildCreateApplication :: "Application \<Rightarrow> CreateApplicationBody RequestEnvelope" where
  "buildCreateApplication a =
     envelope commonNS \<lparr>cab_CreateApplication = \<lparr>car_ServiceProvider =
       \<lparr>spr_ApplicationID = 0, spr_ApplicationResourceID = [], spr_ApplicationName = app_Name a,
        spr_Description = app_Description a, spr_ClaimConfig = None,
        spr_InboundAuthenticationConfig = None, spr_LocalAndOutboundAuthenticationConfig = None\<rparr>\<rparr>\<rparr>"

definition buildUpdateApplication :: "Application \<Rightarrow> UpdateApplicationBody RequestEnvelope" where
  "buildUpdateApplication a =
     envelope commonNS \<lparr>uab_UpdateApplication = \<lparr>uar_ServiceProvider =
       \<lparr>spr_ApplicationID = app_ID a, spr_ApplicationResourceID = [], spr_ApplicationName = app_Name a,
        spr_Description = app_Description a,
        spr_ClaimConfig = Some
          \<lparr>ccr_AlwaysSendMappedLocalSubjectID = ''true'', ccr_LocalClaimDialect = True,
           ccr_ClaimMappings = buildClaimConfig (app_Claims a), ccr_UserClaimURI = app_SubjectClaimURI a\<rparr>,
        spr_InboundAuthenticationConfig = Some
          \<lparr>iac_InboundAuthenticationRequestConfigs = buildInboundAuthConfig a\<rparr>,
        spr_LocalAndOutboundAuthenticationConfig = buildLocalAndOutboundConfig a\<rparr>\<rparr>\<rparr>"

definition buildDeleteApplication :: "string \<Rightarrow> DeleteApplicationBody RequestEnvelope" where
  "buildDeleteApplication name =
     envelope commonNS \<lparr>dab_DeleteApplication = \<lparr>dar_ApplicationName = name\<rparr>\<rparr>"

definition buildUserSearch :: "string \<Rightarrow> SCIMUserSearch" where
  "buildUserSearch user =
     \<lparr>us_Schemas = Some [''urn:ietf:params:scim:api:messages:2.0:SearchRequest''],
      us_Attributes = Some [''userName''], us_Domain = ''PRIMARY'',
      us_Filter = ''userName eq '' @ user, us_StartIndex = 1, us_Count = 10\<rparr>"

definition buildJoinUserToGroup :: "string \<Rightarrow> string \<Rightarrow> SCIMGroupPatch" where
  "buildJoinUserToGroup userName userID =
     \<lparr>gp_Schemas = Some [''urn:ietf:params:scim:api:messages:2.0:PatchOp''],
      gp_Operations = Some [\<lparr>po_Op = ''add'',
        po_Value = \<lparr>pms_Members = Some [\<lparr>pm_Display = userName, pm_Value = userID\<rparr>]\<rparr>\<rparr>]\<rparr>"

definition buildGroupSearch :: "string \<Rightarrow> SCIMGroupSearch" where
  "buildGroupSearch name =
     \<lparr>gs_Schemas = Some [''urn:ietf:params:scim:api:messages:2.0:SearchRequest''],
      gs_StartIndex = 1, gs_Filter = ''displayName eq '' @ name\<rparr>"

end
