(* ===== verification/Mapper.thy ===== *)
theory Mapper
  imports Builder
begin

text \<open>
  \<^verbatim>\<open>internal/wso2/mapper.go\<close>: the operator's view of what the server answered. Reading through a
  nil pointer or beyond the end of a slice panics, and so does the model; the lemmas say exactly
  when. The round trips say what of a request survives when the server echoes it back.
\<close>

section \<open>Parts\<close>

definition mapTokenBinding :: "TokenBindingType \<Rightarrow> string" where
  "mapTokenBinding s =
     (if s = [] then [] else if s = sessionBinding then ''session''
      else if s = cookieBinding then ''cookie'' else [])"

definition mapScopeValidator :: "ScopeValidator \<Rightarrow> string list" where
  "mapScopeValidator c =
     (if c = xACMLValidator then [''xacml''] else if c = roleValidator then [''role''] else [])"

definition mapScopeValidators :: "ScopeValidator slice \<Rightarrow> string slice" where
  "mapScopeValidators ins = appended (concat (map mapScopeValidator (elems ins)))"

definition mapLocalAuthenticators :: "LocalAuthenticatorConfigResponse slice option \<Rightarrow> string slice" where
  "mapLocalAuthenticators p =
     (case p of None \<Rightarrow> None | Some s \<Rightarrow> appended (map rlac_Name (elems s)))"

definition mapFederatedIDP :: "FederatedIdentityProvidersResponse slice option \<Rightarrow> string" where
  "mapFederatedIDP p =
     (case p of None \<Rightarrow> []
      | Some s \<Rightarrow> (case elems s of [] \<Rightarrow> [] | f # _ \<Rightarrow> rfip_IdentityProviderName f))"

definition mapFederatedAuthenticator ::
    "FederatedIdentityProvidersResponse slice option \<Rightarrow> string outcome" where
  "mapFederatedAuthenticator p =
     (case p of None \<Rightarrow> Returned []
      | Some s \<Rightarrow> (case elems s of [] \<Rightarrow> Returned []
          | f # _ \<Rightarrow> (case elems (rfip_FederatedAuthenticatiorConfig f) of
              [] \<Rightarrow> Panicked index_out_of_range
            | g # _ \<Rightarrow> Returned (rfac_Name g))))"

definition mapAuthenticationStep :: "AuthenticationStepResponse \<Rightarrow> AuthenticationStep outcome" where
  "mapAuthenticationStep c =
     bindO (mapFederatedAuthenticator (Some (ras_FederatedIdentityProviders c))) (\<lambda>fa. Returned
       \<lparr>step_Step = ras_StepOrder c,
        step_LocalAuthenticators = mapLocalAuthenticators (Some (ras_LocalAuthenticatorConfigs c)),
        step_FederatedIDP = mapFederatedIDP (Some (ras_FederatedIdentityProviders c)),
        step_FederatedAuthenticator = fa\<rparr>)"

text \<open>The loop that remembers the order of the last step with a flag, starting from zero.\<close>

fun lastFlagged :: "(AuthenticationStepResponse \<Rightarrow> bool) \<Rightarrow> AuthenticationStepResponse list \<Rightarrow> goint \<Rightarrow> goint" where
  "lastFlagged p [] n = n"
| "lastFlagged p (c # cs) n = lastFlagged p cs (if p c then ras_StepOrder c else n)"

definition mapAuthenticationSteps ::
    "AuthenticationStepResponse slice \<Rightarrow> (AuthenticationStep slice \<times> goint \<times> goint) outcome" where
  "mapAuthenticationSteps ins =
     (if elems ins = [] then Returned (None, 1, 1)
      else bindO (mapO mapAuthenticationStep (elems ins)) (\<lambda>steps.
        Returned (appended steps, lastFlagged ras_SubjectStep (elems ins) 0,
                  lastFlagged ras_AttributeStep (elems ins) 0)))"

definition mapClaims_response :: "ClaimMappingResponse slice \<Rightarrow> Claim slice" where
  "mapClaims_response ins =
     (if elems ins = [] then None
      else Some (map (\<lambda>c. \<lparr>claim_URI = rcl_ClaimURI (rcm_LocalClaim c), claim_Mandatory = rcm_Mandatory c\<rparr>)
                   (elems ins)))"

definition isOAuthEnalbed :: "InboundAuthenticationRequestConfigResponse slice \<Rightarrow> bool" where
  "isOAuthEnalbed ins \<longleftrightarrow> list_ex (\<lambda>v. riarc_InboundAuthType v = ''oauth2'') (elems ins)"

definition isSAMLEnabled :: "InboundAuthenticationRequestConfigResponse slice \<Rightarrow> bool" where
  "isSAMLEnabled ins \<longleftrightarrow> list_ex (\<lambda>v. riarc_InboundAuthType v = ''samlsso'') (elems ins)"

section \<open>Answers\<close>

definition deref :: "'a option \<Rightarrow> 'a outcome" where
  "deref p = (case p of None \<Rightarrow> Panicked nil_deref | Some v \<Rightarrow> Returned v)"

definition mapServiceProvider :: "ServiceProviderResponse \<Rightarrow> Application outcome" where
  "mapServiceProvider sp =
     bindO (deref (rsp_LocalAndOutboundAuthenticationConfig sp)) (\<lambda>lab.
     bindO (mapAuthenticationSteps (rloac_AuthenticationSteps lab)) (\<lambda>(steps, sub, att).
     bindO (deref (rsp_ClaimConfig sp)) (\<lambda>cc.
     bindO (deref (rsp_InboundAuthenticationConfig sp)) (\<lambda>iac.
     Returned
       \<lparr>app_ID = rsp_ApplicationID sp,
        app_ResourceID = rsp_ApplicationResourceID sp,
        app_Name = rsp_ApplicationName sp,
        app_Description = rsp_Description sp,
        app_Claims = mapClaims_response (rcc_ClaimMappings cc),
        app_SubjectClaimURI = rloac_SubjectClaimURI lab,
        app_OAuth2 = Some (zeroOAuth2Config
          \<lparr>oauth_Enabled := isOAuthEnalbed (riac_InboundAuthenticationRequestConfigs iac)\<rparr>),
        app_SAML = Some (zeroSAMLConfig
          \<lparr>saml_Enabled := isSAMLEnabled (riac_InboundAuthenticationRequestConfigs iac)\<rparr>),
        app_AuthenticationSteps = steps,
        app_AuthenticationScript = rasc_Content (rloac_AuthenticationScriptConfig lab),
        app_AlwaysSendBackAuthenticatedListOfIDPs = False,
        app_EnableAuthorization = rloac_EnableAuthorization lab,
        app_SkipConsent = rloac_SkipConsent lab,
        app_SkipLogoutConsent = rloac_SkipLogoutConsent lab,
        app_UseTenantInSub = rloac_UseTenantDomainInLocalSubjectIdentifier lab,
        app_UseUserstoreInSub = rloac_UseUserstoreDomainInLocalSubjectIdentifier lab,
        app_UseUserstoreInRoles = rloac_UseUserstoreDomainInRoles lab,
        app_StepForSubject = sub,
        app_StepForAttributes = att\<rparr>))))"

definition mapGetApplication :: "GetApplicationResponseBody ResponseEnvelope \<Rightarrow> Application outcome" where
  "mapGetApplication r =
     mapServiceProvider (gares_ServiceProvider (garb_GetApplicationResponse (rse_Body r)))"

definition mapOAuthApplication :: "OAuthApplicationResponse \<Rightarrow> OAuth2Config" where
  "mapOAuthApplication r = zeroOAuth2Config
     \<lparr>oauth_CallbackURL := roa_CallbackURL r,
      oauth_GrantTypes := Some (split_byte (CHR '' '') (roa_GrantTypes r)),
      oauth_PKCEMandatory := roa_PKCEMandatory r,
      oauth_PKCEPlain := roa_PKCESupportPlain r,
      oauth_PublicClient := roa_BypassClientCredentials r,
      oauth_TokenBinding := mapTokenBinding (roa_TokenBindingType r),
      oauth_Audiences := roa_Audiences r,
      oauth_ScopeValidators := mapScopeValidators (roa_ScopeValidators r),
      oauth_AccessTokenExpiry := roa_UserAccessTokenExpiryTime r,
      oauth_RefreshTokenExpiry := roa_RefreshTokenExpiryTime r,
      oauth_OAuthConsumerKey := roa_OAuthConsumerKey r,
      oauth_OAuthConsumerSecret := roa_OAuthConsumerSecret r\<rparr>"

definition mapGetOAuthApplication ::
    "GetOAuthApplicationDataByAppNameResponseBody ResponseEnvelope \<Rightarrow> OAuth2Config" where
  "mapGetOAuthApplication r = mapOAuthApplication
     (goares_OAuthApplication (goarb_GetOAuthApplicationDataByAppNameResponse (rse_Body r)))"

definition mapSAMLServiceProvider :: "SAMLSSOServiceProviderDTOResponse \<Rightarrow> SAMLConfig" where
  "mapSAMLServiceProvider r =
     \<lparr>saml_Enabled = False,
      saml_ACSURLs = rdto_AssertionConsumerUrls r,
      saml_RequestedAudiences = rdto_RequestedAudiences r,
      saml_RequestedRecipients = rdto_RequestedRecipients r,
      saml_IdpInitSLOReturnToURLs = rdto_IdpInitSLOReturnToURLs r,
      saml_Issuer = rdto_Issuer r,
      saml_IssuerQualifier = rdto_IssuerQualifier r,
      saml_DefaultAssertionConsumerURL = rdto_DefaultAssertionConsumerURL r,
      saml_NameIDFormat = rdto_NameIDFormat r,
      saml_NameIDClaimURI = [],
      saml_CertAlias = rdto_CertAlias r,
      saml_CertificateContent = rdto_CertificateContent r,
      saml_LoginPageURL = rdto_LoginPageURL r,
      saml_IdpEntityIDAlias = rdto_IdpEntityIDAlias r,
      saml_SigningAlgorithmURI = rdto_SigningAlgorithmURI r,
      saml_DigestAlgorithmURI = rdto_DigestAlgorithmURI r,
      saml_AssertionEncryptionAlgorithmURI = rdto_AssertionEncryptionAlgorithmURI r,
      saml_KeyEncryptionAlgorithmURI = rdto_KeyEncryptionAlgorithmURI r,
      saml_SloRequestURL = rdto_SloRequestURL r,
      saml_SloResponseURL = rdto_SloResponseURL r,
      saml_FrontChannelLogoutBinding = rdto_FrontChannelLogoutBinding r,
      saml_AttributeConsumingServiceIndex = rdto_AttributeConsumingServiceIndex r,
      saml_SupportedAssertionQueryRequestTypes = rdto_SupportedAssertionQueryRequestTypes r,
      saml_DoSignAssertions = rdto_DoSignAssertions r,
      saml_DoSignResponse = rdto_DoSignResponse r,
      saml_DoSingleLogout = rdto_DoSingleLogout r,
      saml_DoFrontChannelLogout = rdto_DoFrontChannelLogout r,
      saml_DoEnableEncryptedAssertion = rdto_DoEnableEncryptedAssertion r,
      saml_DoValidateSignatureInRequests = rdto_DoValidateSignatureInRequests r,
      saml_DoValidateSignatureInArtifactResolve = rdto_DoValidateSignatureInArtifactResolve r,
      saml_EnableAttributeProfile = rdto_EnableAttributeProfile r,
      saml_EnableAttributesByDefault = rdto_EnableAttributesByDefault r,
      saml_EnableSAML2ArtifactBinding = rdto_EnableSAML2ArtifactBinding r,
      saml_AssertionQueryRequestProfileEnabled = rdto_AssertionQueryRequestProfileEnabled r,
      saml_IDPInitSSOEnabled = rdto_IDPInitSSOEnabled r,
      saml_IDPInitSLOEnabled = rdto_IDPInitSLOEnabled r,
      saml_SamlECP = rdto_SamlECP r\<rparr>"

definition mapSAMLApplication :: "GetSAMLSPResponseBody ResponseEnvelope \<Rightarrow> SAMLConfig outcome" where
  "mapSAMLApplication r =
     bindO (deref (gsres_Return (gsrb_Response (rse_Body r)))) (\<lambda>d. Returned (mapSAMLServiceProvider d))"

end
