(* ===== verification/ApiTypes.thy ===== *)
theory ApiTypes
  imports Prelude
begin

text \<open>
  The custom resources of \<^verbatim>\<open>api/v1alpha1\<close> and the Kubernetes objects the controllers read and
  write. A struct is a record with the source's fields (prefixed, since record fields are global
  names), an optional struct pointer is an option, a slice a \<^typ>\<open>'a slice\<close>. Of the Kubernetes
  library's own types (\<^verbatim>\<open>metav1\<close>, \<^verbatim>\<open>corev1\<close>, \<^verbatim>\<open>types\<close>) only the fields the source uses are kept.
\<close>

section \<open>Kubernetes objects\<close>

record NamespacedName =
  nn_Name :: string
  nn_Namespace :: string

text \<open>
  The deletion timestamp is a pointer to a time; a time is its distance from Go's zero time, so
  \<open>Some 0\<close> is a pointer to the zero time.
\<close>

record ObjectMeta =
  om_Name :: string
  om_Namespace :: string
  om_Annotations :: "string strmap"
  om_Finalizers :: "string slice"
  om_DeletionTimestamp :: "int option"
  om_Generation :: goint
  om_ResourceVersion :: string

definition timeIsZero :: "int option \<Rightarrow> bool" where
  "timeIsZero t \<longleftrightarrow> t = None \<or> t = Some 0"

record Secret =
  sec_Name :: string
  sec_Namespace :: string
  sec_OwnerReferences :: "string list"
  sec_Data :: "string strmap"
  sec_StringData :: "string strmap"
  sec_ResourceVersion :: string

text \<open>The zero value \<^verbatim>\<open>&corev1.Secret{}\<close>.\<close>

definition emptySecret :: Secret where
  "emptySecret = \<lparr>sec_Name = [], sec_Namespace = [], sec_OwnerReferences = [], sec_Data = None,
     sec_StringData = None, sec_ResourceVersion = []\<rparr>"

record ConfigMap =
  cm_Name :: string
  cm_Namespace :: string
  cm_Data :: "string strmap"

datatype ConditionStatus = ConditionTrue | ConditionFalse | ConditionUnknown

record Condition =
  cond_Type :: string
  cond_Status :: ConditionStatus
  cond_ObservedGeneration :: goint
  cond_LastTransitionTime :: int
  cond_Reason :: string
  cond_Message :: string

section \<open>\<^verbatim>\<open>WSO2SP\<close>\<close>

record V1_Claim =
  v1c_URI :: string
  v1c_Mandatory :: bool

record V1_OAuth2Config =
  v1o_CallbackURL :: string
  v1o_GrantTypes :: "string slice"
  v1o_PKCEMandatory :: bool
  v1o_PKCEPlain :: bool
  v1o_PublicClient :: bool
  v1o_TokenBinding :: string
  v1o_Audiences :: "string slice"
  v1o_ScopeValidators :: "string slice"
  v1o_RefreshTokenExpiry :: goint
  v1o_AccessTokenExpiry :: goint

record V1_SAMLConfig =
  v1s_MetadataURL :: string
  v1s_EnableAttributeProfile :: bool
  v1s_IncludeAttributesByDefault :: bool

record V1_AuthenticationStep =
  v1a_Step :: goint
  v1a_LocalAuthenticators :: "string slice"
  v1a_FederatedIDP :: string
  v1a_FederatedAuthenticator :: string

record LocalObjectReference =
  ref_Name :: string

record WSO2SPSpec =
  spec_InstanceRef :: "LocalObjectReference option"
  spec_Name :: string
  spec_Claims :: "V1_Claim slice"
  spec_Description :: string
  spec_SubjectClaimURI :: string
  spec_SAML :: "V1_SAMLConfig option"
  spec_OAuth2 :: "V1_OAuth2Config option"
  spec_AuthenticationSteps :: "V1_AuthenticationStep slice"
  spec_AuthenticationScript :: "LocalObjectReference option"
  spec_AlwaysSendBackAuthenticatedListOfIDPs :: bool
  spec_EnableAuthorization :: bool
  spec_SkipConsent :: bool
  spec_SkipLogoutConsent :: bool
  spec_UseTenantInSub :: bool
  spec_UseUserstoreInSub :: bool
  spec_UseUserstoreInRoles :: bool
  spec_StepForSubject :: goint
  spec_StepForAttributes :: goint

record WSO2SPStatus =
  status_ID :: goint
  status_ResourceID :: string
  status_Phase :: string
  status_AdminCanView :: bool
  status_Message :: string
  status_Conditions :: "Condition slice"

record WSO2SP =
  sp_Meta :: ObjectMeta
  sp_Spec :: WSO2SPSpec
  sp_Status :: WSO2SPStatus

section \<open>\<^verbatim>\<open>WSO2ISInstance\<close>\<close>

record SecretReference =
  sref_Name :: string
  sref_Namespace :: string

record WSO2ISInstanceSpec =
  ispec_BaseURL :: string
  ispec_CredentialsSecret :: SecretReference
  ispec_InsecureSkipTLSVerify :: bool
  ispec_TenantDomain :: string

record WSO2ISInstanceStatus =
  istatus_Ready :: bool
  istatus_Message :: string
  istatus_Phase :: string
  istatus_Conditions :: "Condition slice"

record WSO2ISInstance =
  inst_Meta :: ObjectMeta
  inst_Spec :: WSO2ISInstanceSpec
  inst_Status :: WSO2ISInstanceStatus

section \<open>Durations\<close>

text \<open>\<^verbatim>\<open>time.Duration\<close>: a signed 64-bit count of nanoseconds, ordered by that count.\<close>

datatype Duration = Duration goint

primrec nanos :: "Duration \<Rightarrow> int" where
  "nanos (Duration w) = sint w"

definition second :: "nat \<Rightarrow> Duration" where
  "second n = Duration (of_nat n * 1000000000)"

definition minute :: "nat \<Rightarrow> Duration" where
  "minute n = Duration (of_nat n * 60000000000)"

instantiation Duration :: linorder
begin

definition less_eq_Duration :: "Duration \<Rightarrow> Duration \<Rightarrow> bool" where
  "less_eq_Duration d e \<longleftrightarrow> nanos d \<le> nanos e"

definition less_Duration :: "Duration \<Rightarrow> Duration \<Rightarrow> bool" where
  "less_Duration d e \<longleftrightarrow> nanos d < nanos e"

instance
proof
  fix x y z :: Duration
  show "x < y \<longleftrightarrow> x \<le> y \<and> \<not> y \<le> x"
    by (auto simp: less_eq_Duration_def less_Duration_def)
  show "x \<le> x" by (simp add: less_eq_Duration_def)
  show "x \<le> y \<Longrightarrow> y \<le> z \<Longrightarrow> x \<le> z" by (simp add: less_eq_Duration_def)
  show "x \<le> y \<Longrightarrow> y \<le> x \<Longrightarrow> x = y"
    by (cases x; cases y) (simp add: less_eq_Duration_def flip: word_eq_iff_signed)
  show "x \<le> y \<or> y \<le> x" by (auto simp: less_eq_Duration_def)
qed

end

instantiation Duration :: zero
begin

definition zero_Duration :: Duration where
  "zero_Duration = Duration 0"

instance ..

end

lemmas duration_simps = less_eq_Duration_def less_Duration_def zero_Duration_def second_def minute_def

lemma durations_positive:
  "0 < second 5" "0 < second 15" "0 < second 30" "0 < minute 2" "0 < minute 5"
  by (simp_all add: duration_simps)

lemma durations_nonzero [simp]:
  "second 5 \<noteq> 0" "second 15 \<noteq> 0" "second 30 \<noteq> 0" "minute 2 \<noteq> 0" "minute 5 \<noteq> 0"
  by (simp_all add: duration_simps)

section \<open>The result of a reconciliation\<close>

text \<open>
  \<^verbatim>\<open>ctrl.Result\<close> with the field the source sets; the zero value asks for no requeue.
\<close>

record Result =
  RequeueAfter :: Duration

definition noRequeue :: Result where
  "noRequeue = \<lparr>RequeueAfter = 0\<rparr>"

definition requeue :: "Duration \<Rightarrow> Result" where
  "requeue d = \<lparr>RequeueAfter = d\<rparr>"

definition resultIsZero :: "Result \<Rightarrow> bool" where
  "resultIsZero r \<longleftrightarrow> RequeueAfter r = 0"

lemma resultIsZero_simps [simp]:
  "resultIsZero noRequeue" "resultIsZero (requeue d) \<longleftrightarrow> d = 0"
  by (simp_all add: resultIsZero_def noRequeue_def requeue_def)

end
