(* ===== verification/Runtime.thy ===== *)
theory Runtime
  imports ApiTypes GoXml GoJson
begin

text \<open>
  What the operator runs against. The Kubernetes API server, the WSO2 server and the metadata
  endpoints are not part of the repository: they are the fields of a record of functions over an
  unspecified world, passed to every definition that talks to them. Each call records an event, so
  a run of the operator is a state transformation that extends a log, and a claim about what the
  operator does or does not do is a claim about the events it appends.

  The text parsers (\<^verbatim>\<open>net/url\<close>, the tokenizer of \<^verbatim>\<open>encoding/xml\<close>, the scanner of
  \<^verbatim>\<open>encoding/json\<close>) are functions of the record too: they map a text to an error or to the tree
  the decoders of the model start from. The texts of the type errors of \<^verbatim>\<open>encoding/json\<close>, which
  name Go types, and its refusal of numbers beyond a 64-bit float are taken from there as well.
\<close>

section \<open>Events\<close>

text \<open>A failed API call: \<^verbatim>\<open>errors.IsNotFound\<close> tells the two kinds apart.\<close>

datatype KErr = KNotFound string | KOther string

primrec kerrText :: "KErr \<Rightarrow> string" where
  "kerrText (KNotFound s) = s"
| "kerrText (KOther s) = s"

primrec isNotFound :: "KErr \<Rightarrow> bool" where
  "isNotFound (KNotFound s) = True"
| "isNotFound (KOther s) = False"

record HttpRequest =
  hr_Method :: string
  hr_URL :: string
  hr_BasicAuth :: "(string \<times> string) option"
  hr_Headers :: "(string \<times> string) list"
  hr_Body :: "string option"
  hr_SkipTLS :: bool
  hr_Timeout :: Duration

text \<open>
  An answer: its body is what can be read of it, and how reading ends (an error, or the end of
  the body).
\<close>

record HttpAnswer =
  ha_StatusCode :: int
  ha_Status :: string
  ha_Location :: string
  ha_Body :: string
  ha_ReadError :: "string option"

record RecordedEvent =
  rec_Type :: string
  rec_Reason :: string
  rec_Action :: string
  rec_Note :: string

datatype event =
    GetSP NamespacedName
  | GetInstance NamespacedName
  | GetSecret NamespacedName
  | GetConfigMap NamespacedName
  | CreateSecret Secret
  | UpdateSecret Secret
  | UpdateSP WSO2SP
  | StatusUpdateSP WSO2SP
  | StatusPatchSP WSO2SP WSO2SP
  | StatusUpdateInstance WSO2ISInstance
  | Http HttpRequest
  | Recorded RecordedEvent

section \<open>The environment\<close>

text \<open>
  A write that succeeds returns the object the server stored; the client copies it into the
  caller's object. A write that fails leaves the caller's object as it was.
\<close>

record 'w env =
  env_GetSP :: "NamespacedName \<Rightarrow> 'w \<Rightarrow> (KErr + WSO2SP) \<times> 'w"
  env_GetInstance :: "NamespacedName \<Rightarrow> 'w \<Rightarrow> (KErr + WSO2ISInstance) \<times> 'w"
  env_GetSecret :: "NamespacedName \<Rightarrow> 'w \<Rightarrow> (KErr + Secret) \<times> 'w"
  env_GetConfigMap :: "NamespacedName \<Rightarrow> 'w \<Rightarrow> (KErr + ConfigMap) \<times> 'w"
  env_CreateSecret :: "Secret \<Rightarrow> 'w \<Rightarrow> (KErr + Secret) \<times> 'w"
  env_UpdateSecret :: "Secret \<Rightarrow> 'w \<Rightarrow> (KErr + Secret) \<times> 'w"
  env_UpdateSP :: "WSO2SP \<Rightarrow> 'w \<Rightarrow> (KErr + WSO2SP) \<times> 'w"
  env_StatusUpdateSP :: "WSO2SP \<Rightarrow> 'w \<Rightarrow> (KErr + WSO2SP) \<times> 'w"
  env_StatusPatchSP :: "WSO2SP \<Rightarrow> WSO2SP \<Rightarrow> 'w \<Rightarrow> (KErr + WSO2SP) \<times> 'w"
  env_StatusUpdateInstance :: "WSO2ISInstance \<Rightarrow> 'w \<Rightarrow> (KErr + WSO2ISInstance) \<times> 'w"
  env_Http :: "HttpRequest \<Rightarrow> 'w \<Rightarrow> (string + HttpAnswer) \<times> 'w"
  env_Now :: "'w \<Rightarrow> int"
  env_UrlError :: "string \<Rightarrow> string option"
  env_XmlParse :: "string \<Rightarrow> string + xtree"
  env_JsonParse :: "string \<Rightarrow> string + json"
  env_JsonTypeError :: "string \<Rightarrow> json \<Rightarrow> string"
  env_JsonAnyError :: "json \<Rightarrow> string option"
  env_ContainsFinalizer :: "WSO2SP \<Rightarrow> string \<Rightarrow> bool"
  env_AddFinalizer :: "WSO2SP \<Rightarrow> string \<Rightarrow> WSO2SP"
  env_RemoveFinalizer :: "WSO2SP \<Rightarrow> string \<Rightarrow> WSO2SP"
  env_SetControllerReference :: "WSO2SP \<Rightarrow> Secret \<Rightarrow> string + Secret"

text \<open>
  What \<^verbatim>\<open>controllerutil\<close> documents of its finalizer functions: they read and write the finalizer
  list of the object and nothing else.
\<close>

definition finalizer_laws :: "'w env \<Rightarrow> bool" where
  "finalizer_laws K \<longleftrightarrow>
     (\<forall>sp f. env_ContainsFinalizer K sp f = (f \<in> set (elems (om_Finalizers (sp_Meta sp)))))
   \<and> (\<forall>sp f. \<exists>fs. f \<in> set (elems fs)
        \<and> env_AddFinalizer K sp f = sp\<lparr>sp_Meta := (sp_Meta sp)\<lparr>om_Finalizers := fs\<rparr>\<rparr>)
   \<and> (\<forall>sp f. \<exists>fs. set (elems fs) = set (elems (om_Finalizers (sp_Meta sp))) - {f}
        \<and> env_RemoveFinalizer K sp f = sp\<lparr>sp_Meta := (sp_Meta sp)\<lparr>om_Finalizers := fs\<rparr>\<rparr>)"

record 'w run =
  world :: 'w
  log :: "event list"

text \<open>A call: its event is logged, the world answers.\<close>

definition call :: "event \<Rightarrow> ('w \<Rightarrow> 'a \<times> 'w) \<Rightarrow> ('w run, 'a) prog" where
  "call e f s = (case f (world s) of (a, w) \<Rightarrow> (Returned a, \<lparr>world = w, log = log s @ [e]\<rparr>))"

definition kGetSP :: "'w env \<Rightarrow> NamespacedName \<Rightarrow> ('w run, KErr + WSO2SP) prog" where
  "kGetSP K n = call (GetSP n) (env_GetSP K n)"

definition kGetInstance :: "'w env \<Rightarrow> NamespacedName \<Rightarrow> ('w run, KErr + WSO2ISInstance) prog" where
  "kGetInstance K n = call (GetInstance n) (env_GetInstance K n)"

definition kGetSecret :: "'w env \<Rightarrow> NamespacedName \<Rightarrow> ('w run, KErr + Secret) prog" where
  "kGetSecret K n = call (GetSecret n) (env_GetSecret K n)"

definition kGetConfigMap :: "'w env \<Rightarrow> NamespacedName \<Rightarrow> ('w run, KErr + ConfigMap) prog" where
  "kGetConfigMap K n = call (GetConfigMap n) (env_GetConfigMap K n)"

definition kCreateSecret :: "'w env \<Rightarrow> Secret \<Rightarrow> ('w run, KErr + Secret) prog" where
  "kCreateSecret K x = call (CreateSecret x) (env_CreateSecret K x)"

definition kUpdateSecret :: "'w env \<Rightarrow> Secret \<Rightarrow> ('w run, KErr + Secret) prog" where
  "kUpdateSecret K x = call (UpdateSecret x) (env_UpdateSecret K x)"

definition kUpdateSP :: "'w env \<Rightarrow> WSO2SP \<Rightarrow> ('w run, KErr + WSO2SP) prog" where
  "kUpdateSP K x = call (UpdateSP x) (env_UpdateSP K x)"

definition kStatusUpdateSP :: "'w env \<Rightarrow> WSO2SP \<Rightarrow> ('w run, KErr + WSO2SP) prog" where
  "kStatusUpdateSP K x = call (StatusUpdateSP x) (env_StatusUpdateSP K x)"

definition kStatusPatchSP :: "'w env \<Rightarrow> WSO2SP \<Rightarrow> WSO2SP \<Rightarrow> ('w run, KErr + WSO2SP) prog" where
  "kStatusPatchSP K base x = call (StatusPatchSP base x) (env_StatusPatchSP K base x)"

definition kStatusUpdateInstance :: "'w env \<Rightarrow> WSO2ISInstance \<Rightarrow> ('w run, KErr + WSO2ISInstance) prog" where
  "kStatusUpdateInstance K x = call (StatusUpdateInstance x) (env_StatusUpdateInstance K x)"

definition httpDo :: "'w env \<Rightarrow> HttpRequest \<Rightarrow> ('w run, string + HttpAnswer) prog" where
  "httpDo K q = call (Http q) (env_Http K q)"

definition eventf :: "string \<Rightarrow> string \<Rightarrow> string \<Rightarrow> string \<Rightarrow> ('w run, unit) prog" where
  "eventf t reason act note = call (Recorded \<lparr>rec_Type = t, rec_Reason = reason, rec_Action = act,
     rec_Note = note\<rparr>) (\<lambda>w. ((), w))"

definition timeNow :: "'w env \<Rightarrow> ('w run, int) prog" where
  "timeNow K s = (Returned (env_Now K (world s)), s)"

definition warning :: string where
  "warning = ''Warning''"

definition normal :: string where
  "normal = ''Normal''"

lemmas kcalls = kGetSP_def kGetInstance_def kGetSecret_def kGetConfigMap_def kCreateSecret_def
  kUpdateSecret_def kUpdateSP_def kStatusUpdateSP_def kStatusPatchSP_def kStatusUpdateInstance_def
  httpDo_def eventf_def

section \<open>A logic of runs\<close>

text \<open>
  \<open>yields m Q\<close>: from every state, \<open>m\<close> appends events \<open>es\<close> to the log and ends with an outcome \<open>r\<close>
  such that \<open>Q es r\<close>.
\<close>

definition yields :: "('w run, 'a) prog \<Rightarrow> (event list \<Rightarrow> 'a outcome \<Rightarrow> bool) \<Rightarrow> bool" where
  "yields m Q \<longleftrightarrow> (\<forall>s. \<exists>es. log (snd (m s)) = log s @ es \<and> Q es (fst (m s)))"

lemma yieldsE:
  assumes "yields m Q" "m s = (r, t)"
  obtains es where "log t = log s @ es" "Q es r"
  using assms unfolding yields_def by (metis fst_conv snd_conv)

lemma yieldsI:
  "(\<And>s r t. m s = (r, t) \<Longrightarrow> \<exists>es. log t = log s @ es \<and> Q es r) \<Longrightarrow> yields m Q"
  unfolding yields_def by (metis prod.collapse)

lemma yields_weaken: "yields m P \<Longrightarrow> (\<And>es r. P es r \<Longrightarrow> Q es r) \<Longrightarrow> yields m Q"
  unfolding yields_def by blast

lemma yields_conj: "yields m P \<Longrightarrow> yields m Q \<Longrightarrow> yields m (\<lambda>es r. P es r \<and> Q es r)"
  unfolding yields_def by (metis append_same_eq same_append_eq)

lemma yields_ret [effect_intros]: "Q [] (Returned a) \<Longrightarrow> yields (ret a) Q"
  by (simp add: yields_def)

lemma yields_lift_outcome [effect_intros]: "Q [] r \<Longrightarrow> yields (lift_outcome r) Q"
  by (simp add: yields_def)

lemma yields_call: "(\<And>a. Q [e] (Returned a)) \<Longrightarrow> yields (call e f) Q"
  by (auto simp: yields_def call_def split: prod.split)

lemma yields_timeNow [effect_intros]: "(\<And>t. Q [] (Returned t)) \<Longrightarrow> yields (timeNow K) Q"
  by (auto simp: yields_def timeNow_def)

lemma yields_bind:
  assumes "yields m P"
    and "\<And>es a. P es (Returned a) \<Longrightarrow> yields (f a) (\<lambda>es'. Q (es @ es'))"
    and "\<And>es p. P es (Panicked p) \<Longrightarrow> Q es (Panicked p)"
  shows "yields (bind m f) Q"
proof (rule yieldsI)
  fix s r t assume "bind m f s = (r, t)"
  then show "\<exists>es. log t = log s @ es \<and> Q es r"
  proof (cases rule: bind_cases)
    case (ok a s')
    obtain es where es: "log s' = log s @ es" "P es (Returned a)"
      by (rule yieldsE [OF assms(1) ok(1)])
    obtain es' where "log t = log s' @ es'" "Q (es @ es') r"
      by (rule yieldsE [OF assms(2) [OF es(2)] ok(2)])
    with es show ?thesis by auto
  next
    case (panic p)
    obtain es where "log t = log s @ es" "P es (Panicked p)"
      by (rule yieldsE [OF assms(1) panic(1)])
    with assms(3) panic(2) show ?thesis by blast
  qed
qed

text \<open>The calls, as rules for the head of a sequence of binds.\<close>

lemma yields_bind_call:
  "(\<And>a. yields (f a) (\<lambda>es'. Q (e # es'))) \<Longrightarrow> yields (bind (call e g) f) Q"
  by (rule yields_bind [where P = "\<lambda>es r. es = [e] \<and> (\<exists>a. r = Returned a)"]) (auto intro: yields_call)

lemma yields_bind_timeNow [effect_intros]:
  "(\<And>w. yields (f (env_Now K w)) Q) \<Longrightarrow> yields (bind (timeNow K) f) Q"
  by (rule yields_bind [where P = "\<lambda>es r. es = [] \<and> (\<exists>w. r = Returned (env_Now K w))"])
    (auto simp: yields_def timeNow_def)

lemma yields_bind_lift [effect_intros]:
  "(\<And>a. r = Returned a \<Longrightarrow> yields (f a) Q) \<Longrightarrow> (\<And>p. r = Panicked p \<Longrightarrow> Q [] (Panicked p))
   \<Longrightarrow> yields (bind (lift_outcome r) f) Q"
  by (cases r) (auto simp: yields_def bind_def)

lemma yields_k [effect_intros]:
  "(\<And>a. Q0 [GetSP n] (Returned a)) \<Longrightarrow> yields (kGetSP K n) Q0"
  "(\<And>a. Q1 [GetInstance n] (Returned a)) \<Longrightarrow> yields (kGetInstance K n) Q1"
  "(\<And>a. Q2 [GetSecret n] (Returned a)) \<Longrightarrow> yields (kGetSecret K n) Q2"
  "(\<And>a. Q3 [GetConfigMap n] (Returned a)) \<Longrightarrow> yields (kGetConfigMap K n) Q3"
  "(\<And>a. Q4 [CreateSecret sec] (Returned a)) \<Longrightarrow> yields (kCreateSecret K sec) Q4"
  "(\<And>a. Q5 [UpdateSecret sec] (Returned a)) \<Longrightarrow> yields (kUpdateSecret K sec) Q5"
  "(\<And>a. Q6 [UpdateSP x] (Returned a)) \<Longrightarrow> yields (kUpdateSP K x) Q6"
  "(\<And>a. Q7 [StatusUpdateSP x] (Returned a)) \<Longrightarrow> yields (kStatusUpdateSP K x) Q7"
  "(\<And>a. Q8 [StatusPatchSP b x] (Returned a)) \<Longrightarrow> yields (kStatusPatchSP K b x) Q8"
  "(\<And>a. Q9 [StatusUpdateInstance inst] (Returned a)) \<Longrightarrow> yields (kStatusUpdateInstance K inst) Q9"
  "(\<And>a. Q10 [Http q] (Returned a)) \<Longrightarrow> yields (httpDo K q) Q10"
  by (auto simp: kcalls intro: yields_call)

lemma yields_bind_k [effect_intros]:
  "(\<And>a. yields (f0 a) (\<lambda>es. Q0 (GetSP n # es))) \<Longrightarrow> yields (bind (kGetSP K n) f0) Q0"
  "(\<And>a. yields (f1 a) (\<lambda>es. Q1 (GetInstance n # es))) \<Longrightarrow> yields (bind (kGetInstance K n) f1) Q1"
  "(\<And>a. yields (f2 a) (\<lambda>es. Q2 (GetSecret n # es))) \<Longrightarrow> yields (bind (kGetSecret K n) f2) Q2"
  "(\<And>a. yields (f3 a) (\<lambda>es. Q3 (GetConfigMap n # es))) \<Longrightarrow> yields (bind (kGetConfigMap K n) f3) Q3"
  "(\<And>a. yields (f4 a) (\<lambda>es. Q4 (CreateSecret sec # es))) \<Longrightarrow> yields (bind (kCreateSecret K sec) f4) Q4"
  "(\<And>a. yields (f5 a) (\<lambda>es. Q5 (UpdateSecret sec # es))) \<Longrightarrow> yields (bind (kUpdateSecret K sec) f5) Q5"
  "(\<And>a. yields (f6 a) (\<lambda>es. Q6 (UpdateSP x # es))) \<Longrightarrow> yields (bind (kUpdateSP K x) f6) Q6"
  "(\<And>a. yields (f7 a) (\<lambda>es. Q7 (StatusUpdateSP x # es))) \<Longrightarrow> yields (bind (kStatusUpdateSP K x) f7) Q7"
  "(\<And>a. yields (f8 a) (\<lambda>es. Q8 (StatusPatchSP b x # es))) \<Longrightarrow> yields (bind (kStatusPatchSP K b x) f8) Q8"
  "(\<And>a. yields (f9 a) (\<lambda>es. Q9 (StatusUpdateInstance inst # es))) \<Longrightarrow> yields (bind (kStatusUpdateInstance K inst) f9) Q9"
  "(\<And>a. yields (f10 a) (\<lambda>es. Q10 (Http q # es))) \<Longrightarrow> yields (bind (httpDo K q) f10) Q10"
  unfolding kcalls by (rule yields_bind_call; assumption)+

lemma yields_eventf [effect_intros]:
  "Q [Recorded \<lparr>rec_Type = t, rec_Reason = r, rec_Action = a, rec_Note = m\<rparr>] (Returned ())
   \<Longrightarrow> yields (eventf t r a m) Q"
  unfolding eventf_def by (rule yields_call) simp

lemma yields_bind_eventf [effect_intros]:
  "yields (f ()) (\<lambda>es'. Q (Recorded \<lparr>rec_Type = t, rec_Reason = r, rec_Action = a, rec_Note = m\<rparr> # es'))
   \<Longrightarrow> yields (bind (eventf t r a m) f) Q"
  unfolding eventf_def by (rule yields_bind_call) simp

lemma yields_if [effect_intros]:
  "(b \<Longrightarrow> yields m Q) \<Longrightarrow> (\<not> b \<Longrightarrow> yields n Q) \<Longrightarrow> yields (if b then m else n) Q"
  by simp

lemma yields_sum [effect_intros]:
  "(\<And>a. x = Inl a \<Longrightarrow> yields (f a) Q) \<Longrightarrow> (\<And>b. x = Inr b \<Longrightarrow> yields (g b) Q)
   \<Longrightarrow> yields (case x of Inl a \<Rightarrow> f a | Inr b \<Rightarrow> g b) Q"
  by (cases x) simp_all

lemma yields_option [effect_intros]:
  "(x = None \<Longrightarrow> yields m Q) \<Longrightarrow> (\<And>b. x = Some b \<Longrightarrow> yields (g b) Q)
   \<Longrightarrow> yields (case x of None \<Rightarrow> m | Some b \<Rightarrow> g b) Q"
  by (cases x) simp_all

lemma yields_pair [effect_intros]:
  "(\<And>a b. x = (a, b) \<Longrightarrow> yields (f a b) Q) \<Longrightarrow> yields (case x of (a, b) \<Rightarrow> f a b) Q"
  by (cases x) simp

text \<open>The same for the head of a sequence.\<close>

lemma yields_bind_bind [effect_intros]:
  "yields (bind m (\<lambda>x. bind (f x) g)) Q \<Longrightarrow> yields (bind (bind m f) g) Q"
  by (simp only: bind_assoc)

lemma yields_bind_ret [effect_intros]: "yields (f a) Q \<Longrightarrow> yields (bind (ret a) f) Q"
  by (simp only: bind_ret)

lemma yields_bind_if [effect_intros]:
  "(b \<Longrightarrow> yields (bind m f) Q) \<Longrightarrow> (\<not> b \<Longrightarrow> yields (bind n f) Q)
   \<Longrightarrow> yields (bind (if b then m else n) f) Q"
  by simp

lemma yields_bind_sum [effect_intros]:
  "(\<And>a. x = Inl a \<Longrightarrow> yields (bind (g a) f) Q) \<Longrightarrow> (\<And>b. x = Inr b \<Longrightarrow> yields (bind (h b) f) Q)
   \<Longrightarrow> yields (bind (case x of Inl a \<Rightarrow> g a | Inr b \<Rightarrow> h b) f) Q"
  by (cases x) simp_all

lemma yields_bind_option [effect_intros]:
  "(x = None \<Longrightarrow> yields (bind m f) Q) \<Longrightarrow> (\<And>b. x = Some b \<Longrightarrow> yields (bind (g b) f) Q)
   \<Longrightarrow> yields (bind (case x of None \<Rightarrow> m | Some b \<Rightarrow> g b) f) Q"
  by (cases x) simp_all

text \<open>The events a run appends.\<close>

definition events :: "('w run, 'a) prog \<Rightarrow> 'w run \<Rightarrow> event list" where
  "events m s = drop (length (log s)) (log (snd (m s)))"

definition grows :: "('w run, 'a) prog \<Rightarrow> bool" where
  "grows m \<longleftrightarrow> yields m (\<lambda>es r. True)"

lemma yields_grows: "yields m Q \<Longrightarrow> grows m"
  unfolding grows_def by (rule yields_weaken) simp_all

lemma yields_events: "yields m Q \<Longrightarrow> Q (events m s) (fst (m s))"
  unfolding yields_def events_def by (metis append_eq_conv_conj)

lemma log_events: "grows m \<Longrightarrow> log (snd (m s)) = log s @ events m s"
  unfolding grows_def yields_def events_def by (metis append_eq_conv_conj)

lemma events_bind:
  assumes "grows m" "\<And>a. grows (f a)"
  shows "events (bind m f) s = events m s @
    (case m s of (Returned a, s') \<Rightarrow> events (f a) s' | (Panicked p, s') \<Rightarrow> [])"
proof (cases "m s")
  case (Pair r s')
  have l: "log s' = log s @ events m s" using log_events [OF assms(1), of s] Pair by simp
  show ?thesis
  proof (cases r)
    case (Returned a)
    have "log (snd (f a s')) = log s' @ events (f a) s'" by (rule log_events [OF assms(2)])
    then have "log (snd (bind m f s)) = log s @ events m s @ events (f a) s'"
      using Pair Returned l by (simp add: bind_def)
    with Pair Returned show ?thesis by (simp add: events_def [of "bind m f"])
  next
    case (Panicked p)
    then have "log (snd (bind m f s)) = log s @ events m s"
      using Pair l by (simp add: bind_def)
    with Pair Panicked show ?thesis by (simp add: events_def [of "bind m f"])
  qed
qed

lemma events_ret [simp]: "events (ret a) s = []"
  by (simp add: events_def)

section \<open>Results of a reconciliation\<close>

text \<open>\<^verbatim>\<open>(ctrl.Result, error)\<close>, and the object a step has worked on.\<close>

type_synonym goresult = "Result \<times> string option"

definition ok :: "Result \<Rightarrow> goresult" where
  "ok r = (r, None)"

definition failed :: "string \<Rightarrow> goresult" where
  "failed e = (noRequeue, Some e)"

text \<open>The test \<^verbatim>\<open>err != nil || !res.IsZero()\<close> after which a step returns early.\<close>

definition stops :: "goresult \<Rightarrow> bool" where
  "stops r \<longleftrightarrow> snd r \<noteq> None \<or> \<not> resultIsZero (fst r)"

lemma stops_simps [simp]:
  "\<not> stops (ok noRequeue)" "stops (failed e)" "stops (ok (requeue d)) \<longleftrightarrow> d \<noteq> 0"
  by (simp_all add: stops_def ok_def failed_def)

end
