(* ===== verification/Client.thy ===== *)
theory Client
  imports Mapper Runtime
begin

text \<open>
  \<^verbatim>\<open>internal/wso2/client.go\<close>: the client of the WSO2 server. A request is built with its headers
  and body, sent through the environment, and its answer decoded; each operation of the client is
  a program over the run, with the panics of its nil pointers and type assertions.
\<close>

section \<open>Client and requests\<close>

record Client =
  cl_BaseURL :: string
  cl_Username :: string
  cl_Password :: string
  cl_Tenant :: string
  cl_SkipTLS :: bool

definition NewClient :: "string \<Rightarrow> string \<Rightarrow> string \<Rightarrow> string \<Rightarrow> bool \<Rightarrow> Client" where
  "NewClient baseURL username password tenant skipTLS =
     \<lparr>cl_BaseURL = baseURL, cl_Username = username, cl_Password = password, cl_Tenant = tenant,
      cl_SkipTLS = skipTLS\<rparr>"

record Response =
  resp_Body :: string
  resp_StatusCode :: int
  resp_Location :: string

record RequestOptions =
  opt_ContentType :: string
  opt_Accept :: string
  opt_SOAPAction :: string

definition contentTypeJSON :: string where
  "contentTypeJSON = ''application/json''"

definition contentTypeSOAP :: string where
  "contentTypeSOAP = ''text/xml; charset=utf-8''"

definition applicationEndpoint :: string where
  "applicationEndpoint = ''/services/IdentityApplicationManagementService?wsdl''"

definition oAuthEndpoint :: string where
  "oAuthEndpoint = ''/services/OAuthAdminService?wsdl''"

definition samlEndpoint :: string where
  "samlEndpoint = ''/services/IdentitySAMLSSOConfigService?wsdl''"

definition getApplication :: string where
  "getApplication = ''urn:getApplication''"

definition createApplication :: string where
  "createApplication = ''urn:createApplication''"

definition deleteApplication :: string where
  "deleteApplication = ''urn:deleteApplication''"

definition updateApplication :: string where
  "updateApplication = ''urn:updateApplication''"

definition getOAuthApplication :: string where
  "getOAuthApplication = ''urn:getOAuthApplicationDataByAppName''"

definition getSAMLApplication :: string where
  "getSAMLApplication = ''urn:getServiceProvider''"

definition createSAMLApplication :: string where
  "createSAMLApplication = ''urn:addRPServiceProvider''"

definition removeSAMLApplication :: string where
  "removeSAMLApplication = ''urn:removeServiceProvider''"

definition jsonRequest :: RequestOptions where
  "jsonRequest = \<lparr>opt_ContentType = contentTypeJSON, opt_Accept = ''application/json'',
     opt_SOAPAction = []\<rparr>"

definition soapRequest :: "string \<Rightarrow> RequestOptions" where
  "soapRequest act = \<lparr>opt_ContentType = contentTypeSOAP, opt_Accept = ''text/xml'',
     opt_SOAPAction = act\<rparr>"

text \<open>
  A request body is a Go value that the content type of its options asks to be written as XML or as
  JSON; every caller passes the kind of value its options ask for.
\<close>

datatype body = JsonBody json | SoapBody xout

primrec encodeBody :: "body \<Rightarrow> string" where
  "encodeBody (SoapBody x) = xmlHeader @ xmlText 0 x"
| "encodeBody (JsonBody j) = jsonText j"

definition newRequest ::
    "'w env \<Rightarrow> Client \<Rightarrow> string \<Rightarrow> string \<Rightarrow> body option \<Rightarrow> RequestOptions \<Rightarrow> HttpRequest result" where
  "newRequest K c method path body opts =
     (case env_UrlError K (cl_BaseURL c @ path) of
        Some e \<Rightarrow> Inl e
      | None \<Rightarrow> Inr
          \<lparr>hr_Method = method, hr_URL = cl_BaseURL c @ path,
           hr_BasicAuth = Some (cl_Username c, cl_Password c),
           hr_Headers =
             (if opt_ContentType opts = [] then [] else [(''Content-Type'', opt_ContentType opts)]) @
             (if opt_Accept opts = [] then [] else [(''Accept'', opt_Accept opts)]) @
             (if opt_SOAPAction opts = [] then [] else [(''SOAPAction'', opt_SOAPAction opts)]),
           hr_Body = map_option encodeBody body,
           hr_SkipTLS = cl_SkipTLS c, hr_Timeout = 0\<rparr>)"

definition readAnswer :: "HttpAnswer \<Rightarrow> Response result" where
  "readAnswer a =
     (case ha_ReadError a of Some e \<Rightarrow> Inl e
      | None \<Rightarrow> Inr \<lparr>resp_Body = ha_Body a, resp_StatusCode = ha_StatusCode a,
                    resp_Location = ha_Location a\<rparr>)"

definition doRequest ::
    "'w env \<Rightarrow> Client \<Rightarrow> string \<Rightarrow> string \<Rightarrow> body option \<Rightarrow> RequestOptions
      \<Rightarrow> ('w run, Response result) prog" where
  "doRequest K c method path body opts =
     (case newRequest K c method path body opts of
        Inl e \<Rightarrow> ret (Inl e)
      | Inr q \<Rightarrow> bind (httpDo K q) (\<lambda>r. ret (case r of Inl e \<Rightarrow> Inl e | Inr a \<Rightarrow> readAnswer a)))"

text \<open>
  What \<^verbatim>\<open>doJSON\<close> and \<^verbatim>\<open>doSOAP\<close> return: the response unless it is nil, the error, and the value the
  target was decoded to. On an error the target is left at its zero value: what a failed decoding
  has already stored is read by no caller.
\<close>

record 'a reply =
  rep_Response :: "Response option"
  rep_Error :: "string option"
  rep_Value :: 'a

definition isSuccess :: "int \<Rightarrow> bool" where
  "isSuccess code \<longleftrightarrow> \<not> (code < 200 \<or> 300 \<le> code)"

definition checkReply :: "'a \<Rightarrow> (string \<Rightarrow> 'a result) \<Rightarrow> Response result \<Rightarrow> 'a reply" where
  "checkReply zero dec r =
     (case r of
        Inl e \<Rightarrow> \<lparr>rep_Response = None, rep_Error = Some e, rep_Value = zero\<rparr>
      | Inr resp \<Rightarrow>
          if \<not> isSuccess (resp_StatusCode resp)
          then \<lparr>rep_Response = Some resp,
                rep_Error = Some (''http error '' @ show_int (resp_StatusCode resp) @ '': '' @ resp_Body resp),
                rep_Value = zero\<rparr>
          else if resp_Body resp = []
          then \<lparr>rep_Response = Some resp, rep_Error = None, rep_Value = zero\<rparr>
          else (case dec (resp_Body resp) of
                  Inl e \<Rightarrow> \<lparr>rep_Response = None, rep_Error = Some e, rep_Value = zero\<rparr>
                | Inr v \<Rightarrow> \<lparr>rep_Response = Some resp, rep_Error = None, rep_Value = v\<rparr>))"

definition doJSON ::
    "'w env \<Rightarrow> Client \<Rightarrow> string \<Rightarrow> string \<Rightarrow> body option \<Rightarrow> 'a \<Rightarrow> (json \<Rightarrow> 'a result)
      \<Rightarrow> ('w run, 'a reply) prog" where
  "doJSON K c method path body zero dec =
     bind (doRequest K c method path body jsonRequest) (\<lambda>r. ret
       (checkReply zero (\<lambda>data. case env_JsonParse K data of Inl e \<Rightarrow> Inl e | Inr j \<Rightarrow> dec j) r))"

definition doSOAP ::
    "'w env \<Rightarrow> Client \<Rightarrow> string \<Rightarrow> string \<Rightarrow> xout \<Rightarrow> 'a \<Rightarrow> (xtree \<Rightarrow> 'a result)
      \<Rightarrow> ('w run, 'a reply) prog" where
  "doSOAP K c act path body zero dec =
     bind (doRequest K c ''POST'' path (Some (SoapBody body)) (soapRequest act)) (\<lambda>r. ret
       (checkReply zero (\<lambda>data. case env_XmlParse K data of Inl e \<Rightarrow> Inl e | Inr x \<Rightarrow> dec x) r))"

text \<open>A nil target: nothing is decoded.\<close>

definition doJSONnil ::
    "'w env \<Rightarrow> Client \<Rightarrow> string \<Rightarrow> string \<Rightarrow> body option \<Rightarrow> ('w run, unit reply) prog" where
  "doJSONnil K c method path body =
     bind (doRequest K c method path body jsonRequest) (\<lambda>r. ret (checkReply () (\<lambda>_. Inr ()) r))"

definition doSOAPnil ::
    "'w env \<Rightarrow> Client \<Rightarrow> string \<Rightarrow> string \<Rightarrow> xout \<Rightarrow> ('w run, unit reply) prog" where
  "doSOAPnil K c act path body =
     bind (doRequest K c ''POST'' path (Some (SoapBody body)) (soapRequest act)) (\<lambda>r. ret
       (checkReply () (\<lambda>_. Inr ()) r))"

definition errorOf :: "'a reply \<Rightarrow> unit result" where
  "errorOf r = (case rep_Error r of Some e \<Rightarrow> Inl e | None \<Rightarrow> Inr ())"

section \<open>Decoding JSON\<close>

text \<open>
  \<^verbatim>\<open>encoding/json\<close>: an object's keys are matched to the fields exactly, or else by case folding (two
  non-ASCII runes fold to a letter); unknown keys are skipped, null leaves a field alone (a slice
  becomes nil), and a value of the wrong kind is an error.
\<close>

definition foldRune :: "nat \<times> string \<Rightarrow> string" where
  "foldRune p =
     (if 97 \<le> fst p \<and> fst p \<le> 122 then [char_of (fst p - 32)]
      else if fst p = 383 then ''S'' else if fst p = 8490 then ''K'' else snd p)"

definition foldName :: "string \<Rightarrow> string" where
  "foldName s = concat (map foldRune (runes s))"

type_synonym 'a jfield = "string \<times> (json \<Rightarrow> 'a \<Rightarrow> 'a result)"

definition findField :: "'a jfield list \<Rightarrow> string \<Rightarrow> (json \<Rightarrow> 'a \<Rightarrow> 'a result) option" where
  "findField fs k =
     (case map_of fs k of Some f \<Rightarrow> Some f
      | None \<Rightarrow> map_of (map (\<lambda>f. (foldName (fst f), snd f)) fs) (foldName k))"

fun decodeFields :: "'a jfield list \<Rightarrow> (string \<times> json) list \<Rightarrow> 'a \<Rightarrow> 'a result" where
  "decodeFields fs [] a = Inr a"
| "decodeFields fs ((k, j) # kvs) a =
     (case findField fs k of
        None \<Rightarrow> decodeFields fs kvs a
      | Some f \<Rightarrow> (case f j a of Inl e \<Rightarrow> Inl e | Inr a' \<Rightarrow> decodeFields fs kvs a'))"

definition decodeObject :: "'w env \<Rightarrow> string \<Rightarrow> 'a jfield list \<Rightarrow> json \<Rightarrow> 'a \<Rightarrow> 'a result" where
  "decodeObject K t fs j a =
     (case j of JObj kvs \<Rightarrow> decodeFields fs kvs a | JNull \<Rightarrow> Inr a | _ \<Rightarrow> Inl (env_JsonTypeError K t j))"

definition jStr :: "'w env \<Rightarrow> string \<Rightarrow> ((string \<Rightarrow> string) \<Rightarrow> 'a \<Rightarrow> 'a) \<Rightarrow> 'a jfield" where
  "jStr K n upd = (n, \<lambda>j a. case j of JStr s \<Rightarrow> Inr (upd (\<lambda>_. s) a) | JNull \<Rightarrow> Inr a
     | _ \<Rightarrow> Inl (env_JsonTypeError K ''string'' j))"

definition jInt :: "'w env \<Rightarrow> string \<Rightarrow> ((goint \<Rightarrow> goint) \<Rightarrow> 'a \<Rightarrow> 'a) \<Rightarrow> 'a jfield" where
  "jInt K n upd = (n, \<lambda>j a. case j of
       JNum s \<Rightarrow> (case parseInt s of Inr i \<Rightarrow> Inr (upd (\<lambda>_. i) a) | Inl e \<Rightarrow> Inl (env_JsonTypeError K ''int'' j))
     | JNull \<Rightarrow> Inr a | _ \<Rightarrow> Inl (env_JsonTypeError K ''int'' j))"

fun decodeItems :: "(json \<Rightarrow> 'b result) \<Rightarrow> json list \<Rightarrow> 'b list result" where
  "decodeItems f [] = Inr []"
| "decodeItems f (j # js) =
     (case f j of Inl e \<Rightarrow> Inl e
      | Inr b \<Rightarrow> (case decodeItems f js of Inl e \<Rightarrow> Inl e | Inr bs \<Rightarrow> Inr (b # bs)))"

definition jSlice :: "'w env \<Rightarrow> string \<Rightarrow> (json \<Rightarrow> 'b result) \<Rightarrow> (('b slice \<Rightarrow> 'b slice) \<Rightarrow> 'a \<Rightarrow> 'a)
    \<Rightarrow> 'a jfield" where
  "jSlice K n f upd = (n, \<lambda>j a. case j of
       JArr js \<Rightarrow> (case decodeItems f js of Inl e \<Rightarrow> Inl e | Inr bs \<Rightarrow> Inr (upd (\<lambda>_. Some bs) a))
     | JNull \<Rightarrow> Inr (upd (\<lambda>_. None) a) | _ \<Rightarrow> Inl (env_JsonTypeError K ''slice'' j))"

definition dec_SCIMGroupMember :: "'w env \<Rightarrow> json \<Rightarrow> SCIMGroupMember result" where
  "dec_SCIMGroupMember K j = decodeObject K ''SCIMGroupMember''
     [jStr K ''display'' gm_Display_update, jStr K ''value'' gm_Value_update, jStr K ''$ref'' gm_Ref_update]
     j \<lparr>gm_Display = [], gm_Value = [], gm_Ref = []\<rparr>"

definition dec_SCIMGroup :: "'w env \<Rightarrow> json \<Rightarrow> SCIMGroup result" where
  "dec_SCIMGroup K j = decodeObject K ''SCIMGroup''
     [jStr K ''id'' group_ID_update, jStr K ''displayName'' group_DisplayName_update,
      jSlice K ''members'' (dec_SCIMGroupMember K) group_Members_update]
     j \<lparr>group_ID = [], group_DisplayName = [], group_Members = None\<rparr>"

definition dec_SCIMUser :: "'w env \<Rightarrow> json \<Rightarrow> SCIMUser result" where
  "dec_SCIMUser K j = decodeObject K ''SCIMUser''
     [jStr K ''id'' user_ID_update, jStr K ''userName'' user_Username_update]
     j \<lparr>user_ID = [], user_Username = []\<rparr>"

definition zero_SCIMListResponse :: "'a SCIMListResponse" where
  "zero_SCIMListResponse =
     \<lparr>lr_TotalResults = 0, lr_StartIndex = 0, lr_ItemsPerPage = 0, lr_Resources = None\<rparr>"

definition dec_SCIMListResponse ::
    "'w env \<Rightarrow> (json \<Rightarrow> 'a result) \<Rightarrow> json \<Rightarrow> 'a SCIMListResponse result" where
  "dec_SCIMListResponse K f j = decodeObject K ''SCIMListResponse''
     [jInt K ''totalResults'' lr_TotalResults_update, jInt K ''startIndex'' lr_StartIndex_update,
      jInt K ''itemsPerPage'' lr_ItemsPerPage_update, jSlice K ''Resources'' f lr_Resources_update]
     j zero_SCIMListResponse"

text \<open>Into \<^verbatim>\<open>map[string]any\<close>: the last of equal keys wins, null leaves the map nil.\<close>

definition dec_anyMap :: "'w env \<Rightarrow> json \<Rightarrow> json strmap result" where
  "dec_anyMap K j =
     (case j of
        JObj kvs \<Rightarrow> (case env_JsonAnyError K j of Some e \<Rightarrow> Inl e | None \<Rightarrow> Inr (Some (map_of (rev kvs))))
      | JNull \<Rightarrow> Inr None
      | _ \<Rightarrow> Inl (env_JsonTypeError K ''map[string]interface {}'' j))"

text \<open>\<^verbatim>\<open>m[k].([]any)\<close>.\<close>

definition assertArray :: "json strmap \<Rightarrow> string \<Rightarrow> json list outcome" where
  "assertArray m k =
     (case m of None \<Rightarrow> Panicked bad_assertion
      | Some f \<Rightarrow> (case f k of Some (JArr js) \<Rightarrow> Returned js | _ \<Rightarrow> Panicked bad_assertion))"

section \<open>Operations: connection, SCIM\<close>

definition Ping :: "'w env \<Rightarrow> Client \<Rightarrow> ('w run, unit result) prog" where
  "Ping K c =
     bind (doJSONnil K c ''GET'' (''/t/'' @ cl_Tenant c @ ''/api/server/v1/applications?limit=1'') None) (\<lambda>r.
       case rep_Error r of
         Some e \<Rightarrow> ret (Inl (''connection failed: '' @ e))
       | None \<Rightarrow> bind (lift_outcome (deref (rep_Response r))) (\<lambda>resp. ret
           (if resp_StatusCode resp = 401 then Inl ''invalid credentials (401)''
            else if resp_StatusCode resp \<noteq> 200
            then Inl (''unexpected status: '' @ show_int (resp_StatusCode resp))
            else Inr ())))"

text \<open>\<^verbatim>\<open>%w\<close> of a nil error.\<close>

definition nilError :: string where
  "nilError = ''%!w(<nil>)''"

definition getUserInfo :: "'w env \<Rightarrow> Client \<Rightarrow> string \<Rightarrow> ('w run, (string \<times> string) result) prog" where
  "getUserInfo K c name =
     bind (doJSON K c ''POST'' (''/t/'' @ cl_Tenant c @ ''/scim2/Users/.search'')
             (Some (JsonBody (json_SCIMUserSearch (buildUserSearch name))))
             zero_SCIMListResponse (dec_SCIMListResponse K (dec_SCIMUser K))) (\<lambda>r. ret
       (case rep_Error r of
          Some e \<Rightarrow> Inl (''scim user search failed: '' @ e)
        | None \<Rightarrow> (case elems (lr_Resources (rep_Value r)) of
            [] \<Rightarrow> Inl (''failed to decode scim response: '' @ nilError)
          | u # _ \<Rightarrow> Inr (user_Username u, user_ID u))))"

definition joinUserToGroup :: "'w env \<Rightarrow> Client \<Rightarrow> string \<Rightarrow> string \<Rightarrow> ('w run, unit result) prog" where
  "joinUserToGroup K c userName groupID =
     bind (getUserInfo K c userName) (\<lambda>u.
       case u of
         Inl e \<Rightarrow> ret (Inl (''failed to decode scim response: '' @ e))
       | Inr (username, userID) \<Rightarrow>
           if username = [] \<or> userID = [] then ret (Inl (''failed to find admin user: '' @ nilError))
           else bind (doJSONnil K c ''PATCH'' (''/t/'' @ cl_Tenant c @ ''/scim2/Groups/'' @ groupID)
                        (Some (JsonBody (json_SCIMGroupPatch (buildJoinUserToGroup username userID))))) (\<lambda>r. ret
                  (case rep_Error r of
                     Some e \<Rightarrow> Inl (''scim group patch failed: '' @ e)
                   | None \<Rightarrow> Inr ())))"

definition JoinAdminToGroup :: "'w env \<Rightarrow> Client \<Rightarrow> string \<Rightarrow> ('w run, unit result) prog" where
  "JoinAdminToGroup K c groupID = joinUserToGroup K c ''admin'' groupID"

definition getUserGroupMembership :: "string \<Rightarrow> SCIMGroup \<Rightarrow> bool" where
  "getUserGroupMembership userName g \<longleftrightarrow> list_ex (\<lambda>m. gm_Display m = userName) (elems (group_Members g))"

definition getGroupInfo :: "'w env \<Rightarrow> Client \<Rightarrow> string \<Rightarrow> ('w run, SCIMGroup result) prog" where
  "getGroupInfo K c groupName =
     bind (doJSON K c ''POST'' (''/t/'' @ cl_Tenant c @ ''/scim2/Groups/.search'')
             (Some (JsonBody (json_SCIMGroupSearch (buildGroupSearch groupName))))
             zero_SCIMListResponse (dec_SCIMListResponse K (dec_SCIMGroup K))) (\<lambda>r. ret
       (case rep_Error r of
          Some e \<Rightarrow> Inl (''scim group search failed: '' @ e)
        | None \<Rightarrow> (case elems (lr_Resources (rep_Value r)) of
            [g] \<Rightarrow> Inr g
          | _ \<Rightarrow> Inl ''scim group search failed: '')))"

definition GetAdminGroupMembership :: "'w env \<Rightarrow> Client \<Rightarrow> string \<Rightarrow> ('w run, (bool \<times> string) result) prog" where
  "GetAdminGroupMembership K c groupName =
     bind (getGroupInfo K c groupName) (\<lambda>r. ret
       (case r of Inl e \<Rightarrow> Inl e | Inr g \<Rightarrow> Inr (getUserGroupMembership ''admin'' g, group_ID g)))"

section \<open>Operations: OAuth2\<close>

definition GetApplicationOAuth2Config ::
    "'w env \<Rightarrow> Client \<Rightarrow> string \<Rightarrow> string \<Rightarrow> ('w run, OAuth2Config option result) prog" where
  "GetApplicationOAuth2Config K c resID name =
     bind (doSOAP K c getOAuthApplication oAuthEndpoint
             (xml_RequestEnvelope xml_GetOAuthBody (buildGetOAuthApplication name))
             \<lparr>rse_Body = zero_GetOAuthApplicationDataByAppNameResponseBody\<rparr>
             (dec_ResponseEnvelope zero_GetOAuthApplicationDataByAppNameResponseBody
                dec_GetOAuthApplicationDataByAppNameResponseBody)) (\<lambda>r.
     bind (lift_outcome (deref (rep_Response r))) (\<lambda>resp. ret
       (if resp_StatusCode resp = 500 then Inr None
        else case rep_Error r of
               Some e \<Rightarrow> Inl e
             | None \<Rightarrow> Inr (Some (mapGetOAuthApplication (rep_Value r))))))"

definition CreateApplicationOAuth2Config ::
    "'w env \<Rightarrow> Client \<Rightarrow> string \<Rightarrow> OAuth2Config \<Rightarrow> ('w run, unit result) prog" where
  "CreateApplicationOAuth2Config K c name cfg =
     bind (doSOAPnil K c updateApplication oAuthEndpoint
             (xml_RequestEnvelope xml_RegisterOAuthBody (buildCreateOAuthApplicaiton name cfg)))
       (\<lambda>r. ret (errorOf r))"

definition UpdateApplicationOAuth2Config ::
    "'w env \<Rightarrow> Client \<Rightarrow> string \<Rightarrow> OAuth2Config \<Rightarrow> ('w run, unit result) prog" where
  "UpdateApplicationOAuth2Config K c name cfg =
     bind (doSOAPnil K c updateApplication oAuthEndpoint
             (xml_RequestEnvelope xml_UpdateOAuthBody (buildUpdateOAuthApplication name cfg)))
       (\<lambda>r. ret (errorOf r))"

section \<open>Operations: applications\<close>

definition zeroApplication :: Application where
  "zeroApplication = \<lparr>app_ID = 0, app_ResourceID = [], app_Name = [], app_Description = [],
     app_Claims = None, app_SubjectClaimURI = [], app_OAuth2 = None, app_SAML = None,
     app_AuthenticationSteps = None, app_AuthenticationScript = [],
     app_AlwaysSendBackAuthenticatedListOfIDPs = False, app_EnableAuthorization = False,
     app_SkipConsent = False, app_SkipLogoutConsent = False, app_UseTenantInSub = False,
     app_UseUserstoreInSub = False, app_UseUserstoreInRoles = False, app_StepForSubject = 0,
     app_StepForAttributes = 0\<rparr>"

definition GetApplicationByName ::
    "'w env \<Rightarrow> Client \<Rightarrow> string \<Rightarrow> ('w run, Application option result) prog" where
  "GetApplicationByName K c name =
     bind (doJSON K c ''GET''
             (''/t/'' @ cl_Tenant c @ ''/api/server/v1/applications?filter=name+eq+'' @ name)
             None None (dec_anyMap K)) (\<lambda>r.
       case rep_Error r of
         Some e \<Rightarrow> ret (Inl e)
       | None \<Rightarrow> bind (lift_outcome (assertArray (rep_Value r) ''applications'')) (\<lambda>apps.
           if apps = [] then ret (Inr None)
           else bind (doSOAP K c getApplication applicationEndpoint
                        (xml_RequestEnvelope xml_GetApplicationBody (buildGetApplication name))
                        \<lparr>rse_Body = zero_GetApplicationResponseBody\<rparr>
                        (dec_ResponseEnvelope zero_GetApplicationResponseBody
                           dec_GetApplicationResponseBody)) (\<lambda>r.
             case rep_Error r of
               Some e \<Rightarrow> ret (Inl e)
             | None \<Rightarrow> bind (lift_outcome (mapGetApplication (rep_Value r))) (\<lambda>a. ret (Inr (Some a))))))"

definition CreateApplication :: "'w env \<Rightarrow> Client \<Rightarrow> Application \<Rightarrow> ('w run, Application result) prog" where
  "CreateApplication K c a =
     bind (doSOAPnil K c createApplication applicationEndpoint
             (xml_RequestEnvelope xml_CreateApplicationBody (buildCreateApplication a))) (\<lambda>r. ret
       (case rep_Error r of Some e \<Rightarrow> Inl e | None \<Rightarrow> Inr zeroApplication))"

definition UpdateApplication :: "'w env \<Rightarrow> Client \<Rightarrow> Application \<Rightarrow> ('w run, unit result) prog" where
  "UpdateApplication K c a =
     bind (doSOAPnil K c updateApplication applicationEndpoint
             (xml_RequestEnvelope xml_UpdateApplicationBody (buildUpdateApplication a)))
       (\<lambda>r. ret (errorOf r))"

definition DeleteApplication :: "'w env \<Rightarrow> Client \<Rightarrow> string \<Rightarrow> ('w run, unit result) prog" where
  "DeleteApplication K c spName =
     bind (doSOAPnil K c deleteApplication applicationEndpoint
             (xml_RequestEnvelope xml_DeleteApplicationBody (buildDeleteApplication spName)))
       (\<lambda>r. ret (errorOf r))"

section \<open>Operations: SAML\<close>

definition GetApplicationSAMLConfig ::
    "'w env \<Rightarrow> Client \<Rightarrow> string \<Rightarrow> ('w run, SAMLConfig option result) prog" where
  "GetApplicationSAMLConfig K c issuer =
     bind (doSOAP K c getSAMLApplication samlEndpoint
             (xml_RequestEnvelope xml_GetServiceProviderBody (buildGetSAMLApplication issuer))
             \<lparr>rse_Body = zero_GetSAMLSPResponseBody\<rparr>
             (dec_ResponseEnvelope zero_GetSAMLSPResponseBody dec_GetSAMLSPResponseBody)) (\<lambda>r.
       case rep_Error r of
         Some e \<Rightarrow> ret (Inl e)
       | None \<Rightarrow>
           if gsres_Return (gsrb_Response (rse_Body (rep_Value r))) = None then ret (Inr None)
           else bind (lift_outcome (mapSAMLApplication (rep_Value r))) (\<lambda>a. ret (Inr (Some a))))"

definition CreateSAMLApplication :: "'w env \<Rightarrow> Client \<Rightarrow> SAMLConfig \<Rightarrow> ('w run, unit result) prog" where
  "CreateSAMLApplication K c cfg =
     bind (doSOAPnil K c createSAMLApplication samlEndpoint
             (xml_RequestEnvelope xml_CreateSAMLApplicationBody (buildCreateSAMLApplication cfg)))
       (\<lambda>r. ret (errorOf r))"

definition UpdateSAMLApplication :: "'w env \<Rightarrow> Client \<Rightarrow> SAMLConfig \<Rightarrow> ('w run, unit result) prog" where
  "UpdateSAMLApplication K c cfg =
     bind (DeleteApplication K c (saml_Issuer cfg)) (\<lambda>r.
       case r of Inl e \<Rightarrow> ret (Inl e) | Inr _ \<Rightarrow> CreateSAMLApplication K c cfg)"

definition RemoveSAMLApplication :: "'w env \<Rightarrow> Client \<Rightarrow> string \<Rightarrow> ('w run, unit result) prog" where
  "RemoveSAMLApplication K c issuer =
     bind (doSOAPnil K c removeSAMLApplication samlEndpoint
             (xml_RequestEnvelope xml_RemoveSAMLSPBody (buildRemoveSAMLAPplication issuer)))
       (\<lambda>r. ret (errorOf r))"

end
