(* ===== verification/Helpers.thy ===== *)
theory Helpers
  imports JsonViews GoHash Client
begin

text \<open>
  \<^verbatim>\<open>internal/controller/helpers.go\<close>: the annotations that pause a reconciliation, the client built
  from the instance and its secret, the application a spec asks for, the change detection by
  hashes of JSON, and the phase of a service provider.
\<close>

section \<open>Paused components\<close>

datatype Component = APP | SAML | OAuth

primrec reconcileAnnotation :: "Component \<Rightarrow> string" where
  "reconcileAnnotation APP = ''wso2.it.auth.gr/reconcile''"
| "reconcileAnnotation SAML = ''wso2.it.auth.gr/reconcile-saml''"
| "reconcileAnnotation OAuth = ''wso2.it.auth.gr/reconcile-oauth''"

definition skipReconcile :: "Component \<Rightarrow> WSO2SP \<Rightarrow> bool" where
  "skipReconcile c sp =
     (case om_Annotations (sp_Meta sp) of None \<Rightarrow> False
      | Some m \<Rightarrow> mapget (Some m) (reconcileAnnotation c) = ''false'')"

definition phasePending :: string where "phasePending = ''Pending''"
definition phaseFailed :: string where "phaseFailed = ''Failed''"
definition phaseReady :: string where "phaseReady = ''Ready''"
definition phasePaused :: string where "phasePaused = ''Paused''"

lemmas phases = phasePending_def phaseFailed_def phaseReady_def phasePaused_def

section \<open>Client of an instance\<close>

definition credentialsKey :: "WSO2ISInstance \<Rightarrow> NamespacedName" where
  "credentialsKey inst =
     (let ref = ispec_CredentialsSecret (inst_Spec inst) in
      \<lparr>nn_Name = sref_Name ref,
       nn_Namespace = (if sref_Namespace ref = [] then om_Namespace (inst_Meta inst)
                       else sref_Namespace ref)\<rparr>)"

definition tenantOf :: "WSO2ISInstance \<Rightarrow> string" where
  "tenantOf inst =
     (if ispec_TenantDomain (inst_Spec inst) = [] then ''carbon.super''
      else ispec_TenantDomain (inst_Spec inst))"

definition buildClient :: "'w env \<Rightarrow> WSO2SP \<Rightarrow> ('w run, Client result) prog" where
  "buildClient K sp =
     bind (lift_outcome (deref (spec_InstanceRef (sp_Spec sp)))) (\<lambda>ref.
     bind (kGetInstance K \<lparr>nn_Name = ref_Name ref, nn_Namespace = om_Namespace (sp_Meta sp)\<rparr>) (\<lambda>r.
       case r of
         Inl e \<Rightarrow> ret (Inl (if isNotFound e then ''WSO2ISInstance '' @ quote (ref_Name ref) @ '' not found''
                          else kerrText e))
       | Inr inst \<Rightarrow>
           if istatus_Phase (inst_Status inst) \<noteq> phaseReady
           then ret (Inl (''WSO2ISInstance '' @ quote (ref_Name ref) @ '' is not ready: ''
                          @ istatus_Message (inst_Status inst)))
           else bind (kGetSecret K (credentialsKey inst)) (\<lambda>r. ret
             (case r of
                Inl e \<Rightarrow> Inl (''credentials secret: '' @ kerrText e)
              | Inr sec \<Rightarrow> Inr (NewClient (ispec_BaseURL (inst_Spec inst))
                    (mapget (sec_Data sec) ''username'') (mapget (sec_Data sec) ''password'')
                    (tenantOf inst) (ispec_InsecureSkipTLSVerify (inst_Spec inst)))))))"

section \<open>From the spec\<close>

definition mapClaims :: "V1_Claim slice \<Rightarrow> Claim slice" where
  "mapClaims ins =
     (if elems ins = [] then None
      else Some (map (\<lambda>c. \<lparr>claim_URI = v1c_URI c, claim_Mandatory = v1c_Mandatory c\<rparr>) (elems ins)))"

definition filterTokenBindings :: "string \<Rightarrow> string" where
  "filterTokenBindings s = (if s = ''session'' \<or> s = ''cookie'' then s else [])"

definition filterScopeValidators :: "string slice \<Rightarrow> string slice" where
  "filterScopeValidators ins =
     (if elems ins = [] then None
      else appended (filter (\<lambda>c. c = ''xacml'' \<or> c = ''role'') (elems ins)))"

definition oauth2FromSpec :: "WSO2SP \<Rightarrow> OAuth2Config outcome" where
  "oauth2FromSpec sp =
     bindO (deref (spec_OAuth2 (sp_Spec sp))) (\<lambda>o2. Returned
       (zeroOAuth2Config
          \<lparr>oauth_CallbackURL := v1o_CallbackURL o2, oauth_GrantTypes := v1o_GrantTypes o2,
           oauth_PKCEMandatory := v1o_PKCEMandatory o2, oauth_PKCEPlain := v1o_PKCEPlain o2,
           oauth_PublicClient := v1o_PublicClient o2,
           oauth_TokenBinding := filterTokenBindings (v1o_TokenBinding o2),
           oauth_Audiences := v1o_Audiences o2,
           oauth_ScopeValidators := filterScopeValidators (v1o_ScopeValidators o2),
           oauth_RefreshTokenExpiry := v1o_RefreshTokenExpiry o2,
           oauth_AccessTokenExpiry := v1o_AccessTokenExpiry o2\<rparr>))"

definition authenticationStepsFromSpec :: "WSO2SP \<Rightarrow> AuthenticationStep slice" where
  "authenticationStepsFromSpec sp =
     appended (map (\<lambda>c. \<lparr>step_Step = v1a_Step c, step_LocalAuthenticators = v1a_LocalAuthenticators c,
         step_FederatedIDP = v1a_FederatedIDP c, step_FederatedAuthenticator = v1a_FederatedAuthenticator c\<rparr>)
       (elems (spec_AuthenticationSteps (sp_Spec sp))))"

definition applicationFromSpec :: "WSO2SP \<Rightarrow> Application" where
  "applicationFromSpec sp =
     \<lparr>app_ID = status_ID (sp_Status sp),
      app_ResourceID = status_ResourceID (sp_Status sp),
      app_Name = spec_Name (sp_Spec sp),
      app_Description = spec_Name (sp_Spec sp) @ '' -- '' @ spec_Description (sp_Spec sp),
      app_Claims = mapClaims (spec_Claims (sp_Spec sp)),
      app_SubjectClaimURI = spec_SubjectClaimURI (sp_Spec sp),
      app_OAuth2 = Some (zeroOAuth2Config\<lparr>oauth_Enabled := spec_OAuth2 (sp_Spec sp) \<noteq> None\<rparr>),
      app_SAML = Some (zeroSAMLConfig\<lparr>saml_Enabled := spec_SAML (sp_Spec sp) \<noteq> None\<rparr>),
      app_AuthenticationSteps = authenticationStepsFromSpec sp,
      app_AuthenticationScript = [],
      app_AlwaysSendBackAuthenticatedListOfIDPs =
        spec_AlwaysSendBackAuthenticatedListOfIDPs (sp_Spec sp),
      app_EnableAuthorization = spec_EnableAuthorization (sp_Spec sp),
      app_SkipConsent = spec_SkipConsent (sp_Spec sp),
      app_SkipLogoutConsent = spec_SkipLogoutConsent (sp_Spec sp),
      app_UseTenantInSub = spec_UseTenantInSub (sp_Spec sp),
      app_UseUserstoreInSub = spec_UseUserstoreInSub (sp_Spec sp),
      app_UseUserstoreInRoles = spec_UseUserstoreInRoles (sp_Spec sp),
      app_StepForSubject = spec_StepForSubject (sp_Spec sp),
      app_StepForAttributes = spec_StepForAttributes (sp_Spec sp)\<rparr>"

section \<open>Change detection\<close>

definition hash :: "json \<Rightarrow> string" where
  "hash j = hexEncode (sha256 (jsonText j))"

text \<open>
  \<^verbatim>\<open>sort.Slice\<close> by claim URI. Up to twelve claims it is an insertion sort and therefore stable; with
  more, the order of claims with equal URIs is not documented, and a stable order is taken here.
  The lemmas on sorting say where that choice does not matter.
\<close>

definition sortClaims :: "Claim list \<Rightarrow> Claim list" where
  "sortClaims cs = sort_key claim_URI cs"

text \<open>
  The copy \<^verbatim>\<open>an\<close> shares the array of claims with the original, so sorting the one sorts the other:
  the result is the original after the call, and the copy.
\<close>

definition normalizeApplication :: "Application \<Rightarrow> Application \<times> Application" where
  "normalizeApplication a =
     (case app_Claims a of
        None \<Rightarrow> (a, a\<lparr>app_ID := 0, app_ResourceID := [], app_Claims := Some []\<rparr>)
      | Some cs \<Rightarrow> (a\<lparr>app_Claims := Some (sortClaims cs)\<rparr>,
                    a\<lparr>app_ID := 0, app_ResourceID := [], app_Claims := Some (sortClaims cs)\<rparr>))"

definition oauth2HasChanged :: "OAuth2Config \<Rightarrow> OAuth2Config \<Rightarrow> bool" where
  "oauth2HasChanged existing desired \<longleftrightarrow>
     hash (json_OAuth2Config existing) \<noteq> hash (json_OAuth2Config desired)"

definition samlView :: "SAMLConfig \<Rightarrow> json" where
  "samlView c = jsonMap
     [(''issuer'', JStr (saml_Issuer c)),
      (''acsurls'', jsonSlice JStr (saml_ACSURLs c)),
      (''attr'', JBool (saml_EnableAttributeProfile c)),
      (''attr_def'', JBool (saml_EnableAttributesByDefault c))]"

definition samlSPHasChanged :: "SAMLConfig \<Rightarrow> SAMLConfig \<Rightarrow> bool" where
  "samlSPHasChanged existing desired \<longleftrightarrow> hash (samlView existing) \<noteq> hash (samlView desired)"

text \<open>Also the two applications as the call leaves them.\<close>

definition appHasChanged :: "Application \<Rightarrow> Application \<Rightarrow> bool \<times> Application \<times> Application" where
  "appHasChanged existing desired =
     (case (normalizeApplication existing, normalizeApplication desired) of
        ((existing', e), (desired', d)) \<Rightarrow>
          (hash (json_Application e) \<noteq> hash (json_Application d), existing', desired'))"

section \<open>Phase of a service provider\<close>

definition withPhase :: "string \<Rightarrow> string \<Rightarrow> WSO2SP \<Rightarrow> WSO2SP" where
  "withPhase phase msg sp = sp\<lparr>sp_Status := (sp_Status sp)\<lparr>status_Phase := phase, status_Message := msg\<rparr>\<rparr>"

text \<open>A failed status update is dropped: no error, and no requeue either.\<close>

definition setPhase ::
    "'w env \<Rightarrow> WSO2SP \<Rightarrow> string \<Rightarrow> string \<Rightarrow> Duration \<Rightarrow> ('w run, WSO2SP \<times> goresult) prog" where
  "setPhase K sp phase msg after =
     (if status_Phase (sp_Status sp) = phase \<and> status_Message (sp_Status sp) = msg
      then ret (sp, ok (requeue after))
      else bind (kStatusUpdateSP K (withPhase phase msg sp)) (\<lambda>r. ret
        (case r of
           Inl e \<Rightarrow> (withPhase phase msg sp, ok noRequeue)
         | Inr sp' \<Rightarrow> (sp', ok (requeue after)))))"

end
