(* ===== verification/Saml.thy ===== *)
theory Saml
  imports Runtime Wso2Types
begin

text \<open>
  \<^verbatim>\<open>internal/wso2/saml.go\<close>: reading SAML metadata, and the service-provider or identity-provider
  configuration derived from it. The metadata structs are records with the decoders their tags
  describe; the derivation is a set of total functions, with the loops of the source as folds.
\<close>

section \<open>Metadata model\<close>

text \<open>\<^verbatim>\<open>xmlBool\<close>, from the text of an element or of an attribute.\<close>

definition xmlBool :: "string \<Rightarrow> bool" where
  "xmlBool s \<longleftrightarrow> s = ''true'' \<or> s = ''1''"

record X509Data =
  x509_X509Certificate :: string

record KeyInfo =
  ki_X509Data :: X509Data

record KeyDescriptor =
  kd_Use :: string
  kd_KeyInfo :: KeyInfo

record Endpoint =
  ep_Binding :: string
  ep_Location :: string

record SLOEndpoint =
  slo_Binding :: string
  slo_Location :: string
  slo_ResponseLocation :: string

record AssertionConsumerService =
  acs_Binding :: string
  acs_Location :: string
  acs_Index :: goint
  acs_IsDefault :: bool

record AttributeConsumingService =
  atcs_Index :: goint
  atcs_IsDefault :: bool

record IDPSSODescriptor =
  idp_WantAuthnRequestsSigned :: bool
  idp_KeyDescriptors :: "KeyDescriptor slice"
  idp_NameIDFormats :: "string slice"
  idp_SingleSignOnServices :: "Endpoint slice"
  idp_SingleLogoutServices :: "SLOEndpoint slice"

record SPSSODescriptor =
  spd_AuthnRequestsSigned :: bool
  spd_WantAssertionsSigned :: bool
  spd_KeyDescriptors :: "KeyDescriptor slice"
  spd_NameIDFormats :: "string slice"
  spd_AssertionConsumerServices :: "AssertionConsumerService slice"
  spd_AttributeConsumingServices :: "AttributeConsumingService slice"
  spd_SingleLogoutServices :: "SLOEndpoint slice"

record EntityDescriptor =
  ed_EntityID :: string
  ed_IDPSSODescriptor :: "IDPSSODescriptor option"
  ed_SPSSODescriptor :: "SPSSODescriptor option"

section \<open>Decoding\<close>

text \<open>Attribute fields: attributes are read before the children, each by its local name.\<close>

type_synonym 'a afield = "string \<times> (string \<Rightarrow> 'a \<Rightarrow> 'a result)"

fun attrsOf :: "xtree \<Rightarrow> (string \<times> string \<times> string) list" where
  "attrsOf (XElem ns n as kids) = as"
| "attrsOf (XChars s) = []"

fun decodeAttrs :: "'a afield list \<Rightarrow> (string \<times> string \<times> string) list \<Rightarrow> 'a \<Rightarrow> 'a result" where
  "decodeAttrs fs [] a = Inr a"
| "decodeAttrs fs ((ns, n, v) # as) a =
     (case map_of fs n of
        None \<Rightarrow> decodeAttrs fs as a
      | Some f \<Rightarrow> (case f v a of Inl e \<Rightarrow> Inl e | Inr a' \<Rightarrow> decodeAttrs fs as a'))"

definition decodeStruct :: "'a afield list \<Rightarrow> 'a xfield list \<Rightarrow> xtree \<Rightarrow> 'a \<Rightarrow> 'a result" where
  "decodeStruct as fs x a =
     (case decodeAttrs as (attrsOf x) a of Inl e \<Rightarrow> Inl e | Inr a' \<Rightarrow> decodeElem fs x a')"

definition aStr :: "string \<Rightarrow> ((string \<Rightarrow> string) \<Rightarrow> 'a \<Rightarrow> 'a) \<Rightarrow> 'a afield" where
  "aStr n upd = (n, \<lambda>v a. Inr (upd (\<lambda>_. v) a))"

definition aXmlBool :: "string \<Rightarrow> ((bool \<Rightarrow> bool) \<Rightarrow> 'a \<Rightarrow> 'a) \<Rightarrow> 'a afield" where
  "aXmlBool n upd = (n, \<lambda>v a. Inr (upd (\<lambda>_. xmlBool v) a))"

definition aInt :: "string \<Rightarrow> ((goint \<Rightarrow> goint) \<Rightarrow> 'a \<Rightarrow> 'a) \<Rightarrow> 'a afield" where
  "aInt n upd = (n, \<lambda>v a. case intField v of Inl e \<Rightarrow> Inl e | Inr i \<Rightarrow> Inr (upd (\<lambda>_. i) a))"

definition dec_X509Data :: "xtree \<Rightarrow> X509Data \<Rightarrow> X509Data result" where
  "dec_X509Data = decodeElem [fStr [] ''X509Certificate'' x509_X509Certificate_update]"

definition dec_KeyInfo :: "xtree \<Rightarrow> KeyInfo \<Rightarrow> KeyInfo result" where
  "dec_KeyInfo = decodeElem [fStruct [] ''X509Data'' dec_X509Data ki_X509Data ki_X509Data_update]"

definition zero_KeyDescriptor :: KeyDescriptor where
  "zero_KeyDescriptor = \<lparr>kd_Use = [], kd_KeyInfo = \<lparr>ki_X509Data = \<lparr>x509_X509Certificate = []\<rparr>\<rparr>\<rparr>"

definition dec_KeyDescriptor :: "xtree \<Rightarrow> KeyDescriptor \<Rightarrow> KeyDescriptor result" where
  "dec_KeyDescriptor = decodeStruct [aStr ''use'' kd_Use_update]
     [fStruct [] ''KeyInfo'' dec_KeyInfo kd_KeyInfo kd_KeyInfo_update]"

definition dec_Endpoint :: "xtree \<Rightarrow> Endpoint \<Rightarrow> Endpoint result" where
  "dec_Endpoint = decodeStruct [aStr ''Binding'' ep_Binding_update, aStr ''Location'' ep_Location_update] []"

definition dec_SLOEndpoint :: "xtree \<Rightarrow> SLOEndpoint \<Rightarrow> SLOEndpoint result" where
  "dec_SLOEndpoint = decodeStruct [aStr ''Binding'' slo_Binding_update,
     aStr ''Location'' slo_Location_update, aStr ''ResponseLocation'' slo_ResponseLocation_update] []"

definition dec_AssertionConsumerService ::
    "xtree \<Rightarrow> AssertionConsumerService \<Rightarrow> AssertionConsumerService result" where
  "dec_AssertionConsumerService = decodeStruct [aStr ''Binding'' acs_Binding_update,
     aStr ''Location'' acs_Location_update, aInt ''index'' acs_Index_update,
     aXmlBool ''isDefault'' acs_IsDefault_update] []"

definition dec_AttributeConsumingService ::
    "xtree \<Rightarrow> AttributeConsumingService \<Rightarrow> AttributeConsumingService result" where
  "dec_AttributeConsumingService = decodeStruct [aInt ''index'' atcs_Index_update,
     aXmlBool ''isDefault'' atcs_IsDefault_update] []"

definition zero_SLOEndpoint :: SLOEndpoint where
  "zero_SLOEndpoint = \<lparr>slo_Binding = [], slo_Location = [], slo_ResponseLocation = []\<rparr>"

definition zero_IDPSSODescriptor :: IDPSSODescriptor where
  "zero_IDPSSODescriptor = \<lparr>idp_WantAuthnRequestsSigned = False, idp_KeyDescriptors = None,
     idp_NameIDFormats = None, idp_SingleSignOnServices = None, idp_SingleLogoutServices = None\<rparr>"

definition dec_IDPSSODescriptor :: "xtree \<Rightarrow> IDPSSODescriptor \<Rightarrow> IDPSSODescriptor result" where
  "dec_IDPSSODescriptor = decodeStruct
     [aXmlBool ''WantAuthnRequestsSigned'' idp_WantAuthnRequestsSigned_update]
     [fSlice [] ''KeyDescriptor'' zero_KeyDescriptor dec_KeyDescriptor idp_KeyDescriptors_update,
      fStrs [] ''NameIDFormat'' idp_NameIDFormats_update,
      fSlice [] ''SingleSignOnService'' \<lparr>ep_Binding = [], ep_Location = []\<rparr> dec_Endpoint
        idp_SingleSignOnServices_update,
      fSlice [] ''SingleLogoutService'' zero_SLOEndpoint dec_SLOEndpoint idp_SingleLogoutServices_update]"

definition zero_SPSSODescriptor :: SPSSODescriptor where
  "zero_SPSSODescriptor = \<lparr>spd_AuthnRequestsSigned = False, spd_WantAssertionsSigned = False,
     spd_KeyDescriptors = None, spd_NameIDFormats = None, spd_AssertionConsumerServices = None,
     spd_AttributeConsumingServices = None, spd_SingleLogoutServices = None\<rparr>"

definition dec_SPSSODescriptor :: "xtree \<Rightarrow> SPSSODescriptor \<Rightarrow> SPSSODescriptor result" where
  "dec_SPSSODescriptor = decodeStruct
     [aXmlBool ''AuthnRequestsSigned'' spd_AuthnRequestsSigned_update,
      aXmlBool ''WantAssertionsSigned'' spd_WantAssertionsSigned_update]
     [fSlice [] ''KeyDescriptor'' zero_KeyDescriptor dec_KeyDescriptor spd_KeyDescriptors_update,
      fStrs [] ''NameIDFormat'' spd_NameIDFormats_update,
      fSlice [] ''AssertionConsumerService''
        \<lparr>acs_Binding = [], acs_Location = [], acs_Index = 0, acs_IsDefault = False\<rparr>
        dec_AssertionConsumerService spd_AssertionConsumerServices_update,
      fSlice [] ''AttributeConsumingService'' \<lparr>atcs_Index = 0, atcs_IsDefault = False\<rparr>
        dec_AttributeConsumingService spd_AttributeConsumingServices_update,
      fSlice [] ''SingleLogoutService'' zero_SLOEndpoint dec_SLOEndpoint spd_SingleLogoutServices_update]"

definition zero_EntityDescriptor :: EntityDescriptor where
  "zero_EntityDescriptor = \<lparr>ed_EntityID = [], ed_IDPSSODescriptor = None, ed_SPSSODescriptor = None\<rparr>"

definition dec_EntityDescriptor :: "xtree \<Rightarrow> EntityDescriptor result" where
  "dec_EntityDescriptor x =
     (case checkRoot [] ''EntityDescriptor'' x of
        Inl e \<Rightarrow> Inl e
      | Inr _ \<Rightarrow> decodeStruct [aStr ''entityID'' ed_EntityID_update]
          [fPtr [] ''IDPSSODescriptor'' zero_IDPSSODescriptor dec_IDPSSODescriptor
             ed_IDPSSODescriptor ed_IDPSSODescriptor_update,
           fPtr [] ''SPSSODescriptor'' zero_SPSSODescriptor dec_SPSSODescriptor
             ed_SPSSODescriptor ed_SPSSODescriptor_update] x zero_EntityDescriptor)"

definition parseXML :: "'w env \<Rightarrow> string \<Rightarrow> EntityDescriptor result" where
  "parseXML K data =
     (case (case env_XmlParse K data of Inl e \<Rightarrow> Inl e | Inr x \<Rightarrow> dec_EntityDescriptor x) of
        Inl e \<Rightarrow> Inl (''parse metadata XML: '' @ e)
      | Inr ed \<Rightarrow> if ed_EntityID ed = [] then Inl ''metadata is missing required entityID attribute''
                  else Inr ed)"

section \<open>Bindings and endpoints\<close>

definition bindingHTTPPost :: string where
  "bindingHTTPPost = ''urn:oasis:names:tc:SAML:2.0:bindings:HTTP-POST''"

definition bindingHTTPRedirect :: string where
  "bindingHTTPRedirect = ''urn:oasis:names:tc:SAML:2.0:bindings:HTTP-Redirect''"

definition bindingHTTPArtifact :: string where
  "bindingHTTPArtifact = ''urn:oasis:names:tc:SAML:2.0:bindings:HTTP-Artifact''"

definition bindingSOAP :: string where
  "bindingSOAP = ''urn:oasis:names:tc:SAML:2.0:bindings:SOAP''"

lemma bindings_distinct [simp]:
  "bindingHTTPPost \<noteq> bindingHTTPRedirect" "bindingHTTPRedirect \<noteq> bindingHTTPPost"
  "bindingHTTPPost \<noteq> bindingSOAP" "bindingSOAP \<noteq> bindingHTTPPost"
  "bindingHTTPRedirect \<noteq> bindingSOAP" "bindingSOAP \<noteq> bindingHTTPRedirect"
  by (simp_all add: bindingHTTPPost_def bindingHTTPRedirect_def bindingSOAP_def)

text \<open>
  The loop of \<^verbatim>\<open>collectACSURLs\<close>: its variables are the default URL, the lowest index (a signed
  integer) and the URL at that index.
\<close>

definition acsStep ::
    "AssertionConsumerService \<Rightarrow> string \<times> goint \<times> string \<Rightarrow> string \<times> goint \<times> string" where
  "acsStep a st = (case st of (defaultURL, lowestIndex, lowestURL) \<Rightarrow>
     (if acs_IsDefault a then acs_Location a else defaultURL,
      if sint (acs_Index a) < sint lowestIndex then acs_Index a else lowestIndex,
      if sint (acs_Index a) < sint lowestIndex then acs_Location a else lowestURL))"

definition collectACSURLs :: "AssertionConsumerService slice \<Rightarrow> string slice \<times> string" where
  "collectACSURLs services =
     (case elems services of
        [] \<Rightarrow> (None, [])
      | s # _ \<Rightarrow>
          (case fold acsStep (elems services) ([], acs_Index s, acs_Location s) of
             (defaultURL, lowestIndex, lowestURL) \<Rightarrow>
               (Some (map acs_Location (elems services)),
                if defaultURL = [] then lowestURL else defaultURL)))"

text \<open>
  The loop of \<^verbatim>\<open>parseSLOEndpoints\<close>: front channel found, its binding, request and response URL.
\<close>

definition sloStep ::
    "SLOEndpoint \<Rightarrow> bool \<times> string \<times> string \<times> string \<Rightarrow> bool \<times> string \<times> string \<times> string" where
  "sloStep ep st = (case st of (front, binding, req, resp) \<Rightarrow>
     if slo_Binding ep = bindingHTTPPost \<or> slo_Binding ep = bindingHTTPRedirect then
       (if \<not> front \<or> slo_Binding ep = bindingHTTPPost
        then (True, slo_Binding ep, slo_Location ep,
              if slo_ResponseLocation ep = [] then slo_Location ep else slo_ResponseLocation ep)
        else st)
     else if slo_Binding ep = bindingSOAP then
       (if req = [] then (front, binding, slo_Location ep, slo_Location ep) else st)
     else st)"

definition parseSLOEndpoints :: "SLOEndpoint slice \<Rightarrow> bool \<times> bool \<times> string \<times> string \<times> string" where
  "parseSLOEndpoints endpoints =
     (if elems endpoints = [] then (False, False, [], [], [])
      else (True, fold sloStep (elems endpoints) (False, [], [], [])))"

definition deriveAlias :: "string \<Rightarrow> string \<Rightarrow> string" where
  "deriveAlias certB64 entityID =
     (let s = entityID;
          s = (case index s ''://'' of None \<Rightarrow> s | Some i \<Rightarrow> drop (i + 3) s);
          s = (case indexAny s ''/?#'' of None \<Rightarrow> s | Some i \<Rightarrow> take i s);
          s = (case lastIndexByte s (CHR '':'') of None \<Rightarrow> s | Some i \<Rightarrow> take i s)
      in if s \<noteq> [] then s else if 16 < length certB64 then take 16 certB64 else certB64)"

section \<open>From a descriptor to a configuration\<close>

definition certOf :: "KeyDescriptor \<Rightarrow> string" where
  "certOf kd = trimSpace (x509_X509Certificate (ki_X509Data (kd_KeyInfo kd)))"

definition spKeyStep :: "string \<Rightarrow> KeyDescriptor \<Rightarrow> SAMLConfig \<Rightarrow> SAMLConfig" where
  "spKeyStep entityID kd cfg =
     (let raw = certOf kd; use = toLower (kd_Use kd) in
      if raw = [] then cfg
      else
        let cfg = (if (use = ''signing'' \<or> use = []) \<and> saml_CertificateContent cfg = []
                   then cfg\<lparr>saml_CertificateContent := raw, saml_CertAlias := deriveAlias raw entityID\<rparr>
                   else cfg)
        in if use = ''encryption'' \<or> use = [] then cfg\<lparr>saml_DoEnableEncryptedAssertion := True\<rparr> else cfg)"

definition firstNameIDFormat :: "string slice \<Rightarrow> SAMLConfig \<Rightarrow> SAMLConfig" where
  "firstNameIDFormat formats cfg =
     (case elems formats of [] \<Rightarrow> cfg | f # _ \<Rightarrow> cfg\<lparr>saml_NameIDFormat := trimSpace f\<rparr>)"

definition withSLO :: "SLOEndpoint slice \<Rightarrow> SAMLConfig \<Rightarrow> SAMLConfig" where
  "withSLO eps cfg =
     (case parseSLOEndpoints eps of (single, front, binding, req, resp) \<Rightarrow>
        cfg\<lparr>saml_DoSingleLogout := single, saml_DoFrontChannelLogout := front,
            saml_FrontChannelLogoutBinding := binding, saml_SloRequestURL := req,
            saml_SloResponseURL := resp\<rparr>)"

definition spConfigFromDescriptor :: "string \<Rightarrow> SPSSODescriptor \<Rightarrow> SAMLConfig" where
  "spConfigFromDescriptor entityID sp =
     (let cfg = zeroSAMLConfig\<lparr>saml_Issuer := entityID,
                  saml_DoValidateSignatureInRequests := spd_AuthnRequestsSigned sp,
                  saml_DoSignAssertions := spd_WantAssertionsSigned sp,
                  saml_DoSignResponse := True\<rparr>;
          cfg = firstNameIDFormat (spd_NameIDFormats sp) cfg;
          cfg = (case collectACSURLs (spd_AssertionConsumerServices sp) of (urls, dflt) \<Rightarrow>
                   cfg\<lparr>saml_ACSURLs := urls, saml_DefaultAssertionConsumerURL := dflt\<rparr>);
          cfg = (if list_ex (\<lambda>a. acs_Binding a = bindingHTTPArtifact)
                      (elems (spd_AssertionConsumerServices sp))
                 then cfg\<lparr>saml_EnableSAML2ArtifactBinding := True\<rparr> else cfg);
          cfg = withSLO (spd_SingleLogoutServices sp) cfg;
          cfg = fold (spKeyStep entityID) (elems (spd_KeyDescriptors sp)) cfg
      in if elems (spd_AttributeConsumingServices sp) \<noteq> []
         then cfg\<lparr>saml_EnableAttributeProfile := True, saml_EnableAttributesByDefault := True\<rparr>
         else cfg)"

text \<open>The location of the first endpoint with a binding; empty when there is none.\<close>

definition firstLocation :: "string \<Rightarrow> Endpoint list \<Rightarrow> string" where
  "firstLocation b eps =
     (case filter (\<lambda>ep. ep_Binding ep = b) eps of [] \<Rightarrow> [] | ep # _ \<Rightarrow> ep_Location ep)"

definition isSigning :: "KeyDescriptor \<Rightarrow> bool" where
  "isSigning kd \<longleftrightarrow> certOf kd \<noteq> [] \<and> (toLower (kd_Use kd) = ''signing'' \<or> toLower (kd_Use kd) = [])"

definition idpConfigFromDescriptor :: "string \<Rightarrow> IDPSSODescriptor \<Rightarrow> SAMLConfig" where
  "idpConfigFromDescriptor entityID idp =
     (let cfg = zeroSAMLConfig\<lparr>saml_Issuer := entityID,
                  saml_DoValidateSignatureInRequests := idp_WantAuthnRequestsSigned idp,
                  saml_DoSignResponse := True, saml_DoSignAssertions := True\<rparr>;
          cfg = firstNameIDFormat (idp_NameIDFormats idp) cfg;
          sso = elems (idp_SingleSignOnServices idp);
          cfg = cfg\<lparr>saml_LoginPageURL := firstLocation bindingHTTPPost sso\<rparr>;
          cfg = (if saml_LoginPageURL cfg = []
                 then cfg\<lparr>saml_LoginPageURL := firstLocation bindingHTTPRedirect sso\<rparr> else cfg);
          cfg = withSLO (idp_SingleLogoutServices idp) cfg
      in case filter isSigning (elems (idp_KeyDescriptors idp)) of
           [] \<Rightarrow> cfg
         | kd # _ \<Rightarrow> cfg\<lparr>saml_CertificateContent := certOf kd,
                         saml_CertAlias := deriveAlias (certOf kd) entityID\<rparr>)"

section \<open>Fetching and parsing\<close>

definition metadataRequest :: "string \<Rightarrow> HttpRequest" where
  "metadataRequest url = \<lparr>hr_Method = ''GET'', hr_URL = url, hr_BasicAuth = None,
     hr_Headers = [(''Accept'', ''application/samlmetadata+xml, application/xml, text/xml'')],
     hr_Body = None, hr_SkipTLS = False, hr_Timeout = second 15\<rparr>"

text \<open>At most \<^verbatim>\<open>4<<20\<close> bytes are read: an error behind them is not seen.\<close>

definition readLimited :: "nat \<Rightarrow> HttpAnswer \<Rightarrow> string result" where
  "readLimited n a =
     (if n \<le> length (ha_Body a) then Inr (take n (ha_Body a))
      else case ha_ReadError a of Some e \<Rightarrow> Inl e | None \<Rightarrow> Inr (ha_Body a))"

definition metadataAnswer :: "'w env \<Rightarrow> HttpAnswer \<Rightarrow> EntityDescriptor result" where
  "metadataAnswer K a =
     (if ha_StatusCode a \<noteq> 200 then Inl (''metadata endpoint returned '' @ ha_Status a)
      else case readLimited (4 * 2 ^ 20) a of
             Inl e \<Rightarrow> Inl (''read metadata body: '' @ e)
           | Inr data \<Rightarrow> parseXML K data)"

definition fetchAndParse :: "'w env \<Rightarrow> string \<Rightarrow> ('w run, EntityDescriptor result) prog" where
  "fetchAndParse K url =
     (case env_UrlError K url of
        Some e \<Rightarrow> ret (Inl (''build request: '' @ e))
      | None \<Rightarrow> bind (httpDo K (metadataRequest url)) (\<lambda>r. ret
          (case r of Inl e \<Rightarrow> Inl (''fetch metadata: '' @ e) | Inr a \<Rightarrow> metadataAnswer K a)))"

definition spMetadata :: "string \<Rightarrow> EntityDescriptor result \<Rightarrow> SAMLConfig result" where
  "spMetadata msg r =
     (case r of Inl e \<Rightarrow> Inl e
      | Inr ed \<Rightarrow> (case ed_SPSSODescriptor ed of None \<Rightarrow> Inl msg
                   | Some d \<Rightarrow> Inr (spConfigFromDescriptor (ed_EntityID ed) d)))"

definition idpMetadata :: "string \<Rightarrow> EntityDescriptor result \<Rightarrow> SAMLConfig result" where
  "idpMetadata msg r =
     (case r of Inl e \<Rightarrow> Inl e
      | Inr ed \<Rightarrow> (case ed_IDPSSODescriptor ed of None \<Rightarrow> Inl msg
                   | Some d \<Rightarrow> Inr (idpConfigFromDescriptor (ed_EntityID ed) d)))"

definition Fetch :: "'w env \<Rightarrow> string \<Rightarrow> ('w run, SAMLConfig result) prog" where
  "Fetch K url = bind (fetchAndParse K url) (\<lambda>r. ret
     (spMetadata (''metadata at '' @ url @ '' contains no SPSSODescriptor'') r))"

definition FetchIDPMetadata :: "'w env \<Rightarrow> string \<Rightarrow> ('w run, SAMLConfig result) prog" where
  "FetchIDPMetadata K url = bind (fetchAndParse K url) (\<lambda>r. ret
     (idpMetadata (''metadata at '' @ url @ '' contains no IDPSSODescriptor'') r))"

definition ParseSPMetadata :: "'w env \<Rightarrow> string \<Rightarrow> SAMLConfig result" where
  "ParseSPMetadata K data = spMetadata ''metadata contains no SPSSODescriptor'' (parseXML K data)"

definition ParseIDPMetadata :: "'w env \<Rightarrow> string \<Rightarrow> SAMLConfig result" where
  "ParseIDPMetadata K data = idpMetadata ''metadata contains no IDPSSODescriptor'' (parseXML K data)"

end
