(* ===== verification/SpController.thy ===== *)
theory SpController
  imports Helpers Saml
begin

text \<open>
  \<^verbatim>\<open>internal/controller/wso2sp_controller.go\<close>: the reconciliation of a service provider. Each step
  returns the object as it leaves it, because the source passes a pointer and later steps read
  what earlier ones wrote, together with the result and error of the Go function.
\<close>

definition spFinalizer :: string where
  "spFinalizer = ''wso2.it.auth.gr/sp-finalizer''"

type_synonym 'w step = "('w run, WSO2SP \<times> goresult) prog"

section \<open>Access of the admin group\<close>

definition reconcileAdminAccess :: "'w env \<Rightarrow> WSO2SP \<Rightarrow> Client \<Rightarrow> 'w step" where
  "reconcileAdminAccess K sp c =
     (if status_AdminCanView (sp_Status sp) then ret (sp, ok noRequeue)
      else bind (GetAdminGroupMembership K c (spec_Name (sp_Spec sp))) (\<lambda>r.
        case r of
          Inl e \<Rightarrow>
            bind (eventf warning ''GetFailed'' ''Reconciling''
                    (''Failed to query WSO2 admin group membership: '' @ e)) (\<lambda>_.
            setPhase K sp phaseFailed (''admin group lookup failed: '' @ e) (second 30))
        | Inr (canAdminView, groupID) \<Rightarrow>
            if canAdminView
            then ret (sp\<lparr>sp_Status := (sp_Status sp)\<lparr>status_AdminCanView := True\<rparr>\<rparr>, ok noRequeue)
            else bind (JoinAdminToGroup K c groupID) (\<lambda>r.
              case r of
                Inl e \<Rightarrow>
                  bind (eventf warning ''SetFailed'' ''UpdatingAdminGroup''
                          (''Failed to update WSO2 admin group membership: '' @ e)) (\<lambda>_.
                  setPhase K sp phaseFailed (''admin group update failed: '' @ e) (second 30))
              | Inr _ \<Rightarrow> ret (sp, ok (requeue (second 5))))))"

section \<open>Secrets\<close>

definition inboundSecretName :: "WSO2SP \<Rightarrow> string" where
  "inboundSecretName sp = om_Name (sp_Meta sp) @ ''-inbound''"

definition inboundSecretKey :: "WSO2SP \<Rightarrow> NamespacedName" where
  "inboundSecretKey sp = \<lparr>nn_Name = inboundSecretName sp, nn_Namespace = om_Namespace (sp_Meta sp)\<rparr>"

definition nonEmptyEntries :: "(string \<times> string) list \<Rightarrow> (string \<times> string) list" where
  "nonEmptyEntries kv = filter (\<lambda>e. \<not> (fst e = [] \<or> snd e = [])) kv"

definition upsertApplicationSecret ::
    "'w env \<Rightarrow> WSO2SP \<Rightarrow> (string \<times> string) list \<Rightarrow> ('w run, string option) prog" where
  "upsertApplicationSecret K sp kv0 =
     (let kv = nonEmptyEntries kv0 in
      if kv = [] then ret None
      else bind (kGetSecret K (inboundSecretKey sp)) (\<lambda>r.
        case r of
          Inl e \<Rightarrow>
            if isNotFound e then
              (case env_SetControllerReference K sp
                      (emptySecret\<lparr>sec_Name := inboundSecretName sp,
                         sec_Namespace := om_Namespace (sp_Meta sp), sec_StringData := Some (map_of kv)\<rparr>) of
                 Inl e \<Rightarrow> ret (Some e)
               | Inr sec \<Rightarrow> bind (kCreateSecret K sec) (\<lambda>r. ret
                   (case r of Inl e \<Rightarrow> Some (kerrText e) | Inr _ \<Rightarrow> None)))
            else ret (Some (kerrText e))
        | Inr sec \<Rightarrow>
            bind (kUpdateSecret K
                    (sec\<lparr>sec_StringData := Some
                       ((case sec_StringData sec of None \<Rightarrow> Map.empty | Some m \<Rightarrow> m) ++ map_of kv)\<rparr>)) (\<lambda>r. ret
              (case r of Inl e \<Rightarrow> Some (kerrText e) | Inr _ \<Rightarrow> None))))"

text \<open>The data of the inbound secret: nil when there is no such secret.\<close>

definition fetchSecret :: "'w env \<Rightarrow> WSO2SP \<Rightarrow> ('w run, string strmap result) prog" where
  "fetchSecret K sp =
     bind (kGetSecret K (inboundSecretKey sp)) (\<lambda>r. ret
       (case r of
          Inl e \<Rightarrow> if isNotFound e then Inr None else Inl (kerrText e)
        | Inr sec \<Rightarrow> Inr (sec_Data sec)))"

definition inboundOAuth2 :: "string strmap \<Rightarrow> Application \<Rightarrow> Application" where
  "inboundOAuth2 data a =
     (if data = None then a
      else a\<lparr>app_OAuth2 := Some (zeroOAuth2Config
               \<lparr>oauth_OAuthConsumerKey := mapget data ''client_id'',
                oauth_OAuthConsumerSecret := mapget data ''client_secret''\<rparr>)\<rparr>)"

definition inboundSAML :: "string strmap \<Rightarrow> Application \<Rightarrow> Application" where
  "inboundSAML data a =
     (if data = None then a
      else a\<lparr>app_SAML := Some (zeroSAMLConfig
               \<lparr>saml_Issuer := mapget data ''saml_issuer'',
                saml_AttributeConsumingServiceIndex := mapget data ''saml_attrConsumingServiceIndex''\<rparr>)\<rparr>)"

definition populateInboundSecrets ::
    "'w env \<Rightarrow> WSO2SP \<Rightarrow> Application \<Rightarrow> ('w run, Application result) prog" where
  "populateInboundSecrets K sp desired =
     (if spec_OAuth2 (sp_Spec sp) = None \<and> spec_SAML (sp_Spec sp) = None then ret (Inr desired)
      else bind (if spec_OAuth2 (sp_Spec sp) \<noteq> None
                 then bind (fetchSecret K sp) (\<lambda>r. ret
                   (case r of Inl e \<Rightarrow> Inl (''oauth2 secret: '' @ e) | Inr d \<Rightarrow> Inr (inboundOAuth2 d desired)))
                 else ret (Inr desired)) (\<lambda>r.
        case r of
          Inl e \<Rightarrow> ret (Inl e)
        | Inr desired \<Rightarrow>
            if spec_SAML (sp_Spec sp) \<noteq> None
            then bind (fetchSecret K sp) (\<lambda>r. ret
              (case r of Inl e \<Rightarrow> Inl (''oauth2 secret: '' @ e) | Inr d \<Rightarrow> Inr (inboundSAML d desired)))
            else ret (Inr desired)))"

section \<open>OAuth2\<close>

definition reconcileApplicationOAuth2 :: "'w env \<Rightarrow> WSO2SP \<Rightarrow> Client \<Rightarrow> 'w step" where
  "reconcileApplicationOAuth2 K sp c =
     (let name = spec_Name (sp_Spec sp) in
     bind (lift_outcome (oauth2FromSpec sp)) (\<lambda>desired.
     bind (GetApplicationOAuth2Config K c (status_ResourceID (sp_Status sp)) name) (\<lambda>r.
     case r of
       Inl e \<Rightarrow>
         bind (eventf warning ''GetOAuth2Failed'' ''Reconciling'' (''Failed to query WSO2IS for OAuth2: '' @ e))
           (\<lambda>_. setPhase K sp phaseFailed e (second 30))
     | Inr None \<Rightarrow>
         bind (CreateApplicationOAuth2Config K c name desired) (\<lambda>r.
         case r of
           Inl e \<Rightarrow>
             bind (eventf warning ''CreateOAuth2Failed'' ''Creating'' (''Failed to create app on WSO2IS: '' @ e))
               (\<lambda>_. setPhase K sp phaseFailed e (second 30))
         | Inr _ \<Rightarrow> ret (sp, ok (requeue (second 5))))
     | Inr (Some existing) \<Rightarrow>
         bind (upsertApplicationSecret K sp
                 [(''client_id'', oauth_OAuthConsumerKey existing),
                  (''client_secret'', oauth_OAuthConsumerSecret existing)]) (\<lambda>r.
         case r of
           Some e \<Rightarrow>
             bind (eventf warning ''CreateOAuth2Failed'' ''Creating'' (''Failed to create secret: '' @ e))
               (\<lambda>_. ret (sp, failed e))
         | None \<Rightarrow>
             (let desired = desired\<lparr>oauth_OAuthConsumerKey := oauth_OAuthConsumerKey existing,
                              oauth_OAuthConsumerSecret := oauth_OAuthConsumerSecret existing\<rparr> in
              if oauth2HasChanged existing desired then
                bind (UpdateApplicationOAuth2Config K c name desired) (\<lambda>r.
                case r of
                  Inl e \<Rightarrow>
                    bind (eventf warning ''UpdateOAuth2Failed'' ''Updating''
                            (''Failed to update app on WSO2IS: '' @ e))
                      (\<lambda>_. setPhase K sp phaseFailed e (second 30))
                | Inr _ \<Rightarrow>
                    bind (eventf normal ''OAuth2Updated'' ''Updating''
                            (''OAuth2Application '' @ quote name @ '' updated''))
                      (\<lambda>_. ret (sp, ok (requeue (second 5)))))
              else ret (sp, ok noRequeue))))))"

section \<open>SAML\<close>

definition reconcileSAMLApplication :: "'w env \<Rightarrow> WSO2SP \<Rightarrow> Client \<Rightarrow> 'w step" where
  "reconcileSAMLApplication K sp c =
     bind (lift_outcome (deref (spec_SAML (sp_Spec sp)))) (\<lambda>saml.
     bind (Fetch K (v1s_MetadataURL saml)) (\<lambda>r.
     case r of
       Inl e \<Rightarrow>
         bind (eventf warning ''SAMLMetadataFailed'' ''FetchingMetadata''
                 (''Failed to fetch SAML metadata from '' @ v1s_MetadataURL saml @ '': '' @ e))
           (\<lambda>_. setPhase K sp phaseFailed (''saml metadata fetch failed: '' @ e) (second 30))
     | Inr fetched \<Rightarrow>
         (let desired = fetched\<lparr>saml_EnableAttributeProfile := v1s_EnableAttributeProfile saml,
                          saml_EnableAttributesByDefault := v1s_IncludeAttributesByDefault saml\<rparr> in
         bind (GetApplicationSAMLConfig K c (saml_Issuer desired)) (\<lambda>r.
         case r of
           Inl e \<Rightarrow>
             bind (eventf warning ''GetSAMLFailed'' ''Reconciling'' e)
               (\<lambda>_. setPhase K sp phaseFailed e (second 30))
         | Inr existingPtr \<Rightarrow>
             bind (lift_outcome (deref existingPtr)) (\<lambda>existing.
             if saml_Issuer existing = [] then
               bind (CreateSAMLApplication K c desired) (\<lambda>r.
               case r of
                 Inl e \<Rightarrow>
                   bind (eventf warning ''CreateSAMLFailed'' ''Creating'' e)
                     (\<lambda>_. setPhase K sp phaseFailed e (second 30))
               | Inr _ \<Rightarrow>
                   bind (eventf normal ''SAMLCreated'' ''Creating''
                           (''SAML SP '' @ quote (saml_Issuer desired) @ '' created''))
                     (\<lambda>_. ret (sp, ok (requeue (second 5)))))
             else
               bind (upsertApplicationSecret K sp
                       [(''saml_issuer'', saml_Issuer existing),
                        (''saml_attrConsumingServiceIndex'', saml_AttributeConsumingServiceIndex existing)]) (\<lambda>r.
               case r of
                 Some e \<Rightarrow>
                   bind (eventf warning ''CreateSAMLFailed'' ''Creating'' (''Failed to create secret: '' @ e))
                     (\<lambda>_. ret (sp, failed e))
               | None \<Rightarrow>
                   if samlSPHasChanged existing desired then
                     bind (UpdateSAMLApplication K c desired) (\<lambda>r.
                     case r of
                       Inl e \<Rightarrow>
                         bind (eventf warning ''UpdateSAMLFailed'' ''Updating'' e)
                           (\<lambda>_. setPhase K sp phaseFailed e (second 30))
                     | Inr _ \<Rightarrow>
                         bind (eventf normal ''SAMLUpdated'' ''Updating''
                                 (''SAML SP '' @ quote (saml_Issuer desired) @ '' updated''))
                           (\<lambda>_. ret (sp, ok noRequeue)))
                   else ret (sp, ok noRequeue)))))))"

section \<open>The application\<close>

definition withIDs :: "Application \<Rightarrow> WSO2SP \<Rightarrow> WSO2SP" where
  "withIDs existing sp =
     (if status_ID (sp_Status sp) \<noteq> app_ID existing \<or> status_ResourceID (sp_Status sp) \<noteq> app_ResourceID existing
      then sp\<lparr>sp_Status := (sp_Status sp)\<lparr>status_ID := app_ID existing,
                status_ResourceID := app_ResourceID existing\<rparr>\<rparr>
      else sp)"

text \<open>The script of the config map, where the spec has a script and steps.\<close>

definition withScript ::
    "'w env \<Rightarrow> WSO2SP \<Rightarrow> Application \<Rightarrow> ('w run, Application result) prog" where
  "withScript K sp desired =
     (case (spec_AuthenticationScript (sp_Spec sp), spec_AuthenticationSteps (sp_Spec sp)) of
        (Some ref, Some steps) \<Rightarrow>
          bind (kGetConfigMap K \<lparr>nn_Name = ref_Name ref, nn_Namespace = om_Namespace (sp_Meta sp)\<rparr>) (\<lambda>r. ret
            (case r of
               Inl e \<Rightarrow> Inl (''failed to get auth script configmap: '' @ kerrText e)
             | Inr cm \<Rightarrow> Inr (desired\<lparr>app_AuthenticationScript := mapget (cm_Data cm) ''script''\<rparr>)))
      | _ \<Rightarrow> ret (Inr desired))"

text \<open>Patch the status; a failure is the error of the step.\<close>

definition patchStatus :: "'w env \<Rightarrow> WSO2SP \<Rightarrow> WSO2SP \<Rightarrow> Duration \<Rightarrow> 'w step" where
  "patchStatus K base sp after =
     bind (kStatusPatchSP K base sp) (\<lambda>r. ret
       (case r of
          Inl e \<Rightarrow> (sp, failed (''patch status: '' @ kerrText e))
        | Inr sp' \<Rightarrow> (sp', ok (requeue after))))"

definition createRemote :: "'w env \<Rightarrow> WSO2SP \<Rightarrow> WSO2SP \<Rightarrow> Client \<Rightarrow> Application \<Rightarrow> 'w step" where
  "createRemote K base sp c desired =
     bind (CreateApplication K c desired) (\<lambda>r.
     case r of
       Inl e \<Rightarrow>
         bind (eventf warning ''CreateFailed'' ''Creating'' (''Failed to create application: '' @ e))
           (\<lambda>_. setPhase K sp phaseFailed (''create failed: '' @ e) (second 30))
     | Inr _ \<Rightarrow>
         bind (eventf normal ''Created'' ''Creating'' (spec_Name (sp_Spec sp))) (\<lambda>_.
         patchStatus K base
           (withPhase phasePending ''Application created, waiting for remote sync'' sp) (second 5)))"

text \<open>Send an update where the hashes differ; \<open>Inl\<close> is the phase message of a failure.\<close>

definition updateRemote ::
    "'w env \<Rightarrow> WSO2SP \<Rightarrow> Client \<Rightarrow> Application \<Rightarrow> Application \<Rightarrow> ('w run, unit result) prog" where
  "updateRemote K sp c existing desired =
     (case appHasChanged existing desired of
        (changed, existing', desired') \<Rightarrow>
          if changed then
            bind (populateInboundSecrets K sp desired') (\<lambda>r.
            case r of
              Inl e \<Rightarrow> ret (Inl (''failed to read inbound secrets: '' @ e))
            | Inr desired'' \<Rightarrow>
                bind (UpdateApplication K c desired'') (\<lambda>r.
                case r of
                  Inl e \<Rightarrow>
                    bind (eventf warning ''UpdateFailed'' ''Updating'' (''Failed to update application: '' @ e))
                      (\<lambda>_. ret (Inl (''update failed: '' @ e)))
                | Inr _ \<Rightarrow>
                    bind (eventf normal ''Updated'' ''Updating''
                            (''Application '' @ quote (spec_Name (sp_Spec sp)) @ '' updated''))
                      (\<lambda>_. ret (Inr ()))))
          else ret (Inr ()))"

definition syncRemote :: "'w env \<Rightarrow> WSO2SP \<Rightarrow> WSO2SP \<Rightarrow> Client \<Rightarrow> Application \<Rightarrow> Application \<Rightarrow> 'w step" where
  "syncRemote K base sp0 c existing desired0 =
     (let sp = withIDs existing sp0 in
      bind (withScript K sp desired0) (\<lambda>r.
      case r of
        Inl e \<Rightarrow> setPhase K sp phaseFailed e (second 30)
      | Inr desired \<Rightarrow>
      bind (updateRemote K sp c existing desired) (\<lambda>r.
      case r of
        Inl e \<Rightarrow> setPhase K sp phaseFailed e (second 30)
      | Inr _ \<Rightarrow>
      bind (reconcileAdminAccess K
              (withPhase phaseReady (''Application in sync (ID: '' @ app_ResourceID existing @ '')'') sp) c)
        (\<lambda>(sp', res). if stops res then ret (sp', res) else patchStatus K base sp' (minute 5)))))"

text \<open>A sub-step that is switched on; where it stops, so does the reconciliation.\<close>

definition substep :: "bool \<Rightarrow> (WSO2SP \<Rightarrow> 'w step) \<Rightarrow> WSO2SP \<Rightarrow> (WSO2SP \<Rightarrow> 'w step) \<Rightarrow> 'w step" where
  "substep enabled m sp rest =
     (if enabled then bind (m sp) (\<lambda>(sp', res). if stops res then ret (sp', res) else rest sp')
      else rest sp)"

definition reconcileRemote :: "'w env \<Rightarrow> Client \<Rightarrow> WSO2SP \<Rightarrow> 'w step" where
  "reconcileRemote K c sp =
     (let desired = applicationFromSpec sp in
      bind (GetApplicationByName K c (spec_Name (sp_Spec sp))) (\<lambda>r.
      case r of
        Inl e \<Rightarrow>
          bind (eventf warning ''GetFailed'' ''Reconciling'' (''Failed to query WSO2IS: '' @ e))
            (\<lambda>_. setPhase K sp phaseFailed e (second 30))
      | Inr None \<Rightarrow> createRemote K sp sp c desired
      | Inr (Some existing) \<Rightarrow> syncRemote K sp sp c existing desired))"

definition wantsSAML :: "WSO2SP \<Rightarrow> bool" where
  "wantsSAML sp \<longleftrightarrow>
     (case spec_SAML (sp_Spec sp) of None \<Rightarrow> False
      | Some s \<Rightarrow> v1s_MetadataURL s \<noteq> [] \<and> \<not> skipReconcile SAML sp)"

definition reconcileApplication :: "'w env \<Rightarrow> WSO2SP \<Rightarrow> Client \<Rightarrow> 'w step" where
  "reconcileApplication K sp c =
     substep (spec_OAuth2 (sp_Spec sp) \<noteq> None \<and> \<not> skipReconcile OAuth sp)
       (\<lambda>sp. reconcileApplicationOAuth2 K sp c) sp (\<lambda>sp.
     substep (wantsSAML sp) (\<lambda>sp. reconcileSAMLApplication K sp c) sp (\<lambda>sp.
     reconcileRemote K c sp))"

section \<open>Deletion and reconciliation\<close>

definition handleDelete :: "'w env \<Rightarrow> WSO2SP \<Rightarrow> Client \<Rightarrow> 'w step" where
  "handleDelete K sp c =
     bind (if status_ResourceID (sp_Status sp) \<noteq> [] then
             bind (DeleteApplication K c (spec_Name (sp_Spec sp))) (\<lambda>r.
             case r of
               Inl e \<Rightarrow> eventf warning ''DeleteFailed'' ''Deleting''
                          (''Could not delete application from WSO2IS (may be orphaned): '' @ e)
             | Inr _ \<Rightarrow> eventf normal ''Deleted'' ''Deleting''
                          (''Application '' @ quote (spec_Name (sp_Spec sp)) @ '' deleted from WSO2IS''))
           else ret ()) (\<lambda>_.
     (let sp' = env_RemoveFinalizer K sp spFinalizer in
      bind (kUpdateSP K sp') (\<lambda>r. ret
        (case r of Inl e \<Rightarrow> (sp', failed (kerrText e)) | Inr sp'' \<Rightarrow> (sp'', ok noRequeue)))))"

definition addFinalizerStep :: "'w env \<Rightarrow> WSO2SP \<Rightarrow> 'w step" where
  "addFinalizerStep K sp =
     (let sp' = env_AddFinalizer K sp spFinalizer in
      bind (kUpdateSP K sp') (\<lambda>r. ret
        (case r of Inl e \<Rightarrow> (sp', failed (kerrText e)) | Inr sp'' \<Rightarrow> (sp'', ok noRequeue))))"

definition pausedStep :: "'w env \<Rightarrow> WSO2SP \<Rightarrow> 'w step" where
  "pausedStep K sp =
     (if status_Phase (sp_Status sp) \<noteq> phasePaused
      then let sp' = sp\<lparr>sp_Status := (sp_Status sp)\<lparr>status_Phase := phasePaused\<rparr>\<rparr> in
        bind (kStatusUpdateSP K sp') (\<lambda>r. ret
          (case r of Inl e \<Rightarrow> (sp', failed (kerrText e)) | Inr sp'' \<Rightarrow> (sp'', ok noRequeue)))
      else ret (sp, ok noRequeue))"

definition reconcileSP :: "'w env \<Rightarrow> WSO2SP \<Rightarrow> 'w step" where
  "reconcileSP K sp =
     (if skipReconcile APP sp then pausedStep K sp
      else bind (buildClient K sp) (\<lambda>r.
        case r of
          Inl e \<Rightarrow>
            bind (eventf warning ''InstanceNotReady'' ''Reconciling'' e)
              (\<lambda>_. setPhase K sp phasePending e (second 15))
        | Inr c \<Rightarrow>
            if \<not> timeIsZero (om_DeletionTimestamp (sp_Meta sp)) then handleDelete K sp c
            else if \<not> env_ContainsFinalizer K sp spFinalizer then addFinalizerStep K sp
            else reconcileApplication K sp c))"

definition Reconcile :: "'w env \<Rightarrow> NamespacedName \<Rightarrow> ('w run, goresult) prog" where
  "Reconcile K req =
     bind (kGetSP K req) (\<lambda>r.
     case r of
       Inl e \<Rightarrow> ret (if isNotFound e then ok noRequeue else failed (kerrText e))
     | Inr sp \<Rightarrow> bind (reconcileSP K sp) (\<lambda>(sp', res). ret res))"

end
