(* ===== verification/ClientFacts.thy ===== *)
theory ClientFacts
  imports Client
begin

text \<open>
  What the client sends and when it fails. \<open>attempt\<close> is the log of one request: nothing when its URL
  does not parse. The specification of each operation says which requests it attempts; the
  theorems on \<^verbatim>\<open>Ping\<close>, \<^verbatim>\<open>GetApplicationOAuth2Config\<close> and \<^verbatim>\<open>GetApplicationByName\<close> say what they
  return on every answer of the server, panics included.
\<close>

section \<open>Requests\<close>

definition request :: "Client \<Rightarrow> string \<Rightarrow> string \<Rightarrow> body option \<Rightarrow> RequestOptions \<Rightarrow> HttpRequest" where
  "request c method path body opts =
     \<lparr>hr_Method = method, hr_URL = cl_BaseURL c @ path,
      hr_BasicAuth = Some (cl_Username c, cl_Password c),
      hr_Headers =
        (if opt_ContentType opts = [] then [] else [(''Content-Type'', opt_ContentType opts)]) @
        (if opt_Accept opts = [] then [] else [(''Accept'', opt_Accept opts)]) @
        (if opt_SOAPAction opts = [] then [] else [(''SOAPAction'', opt_SOAPAction opts)]),
      hr_Body = map_option encodeBody body,
      hr_SkipTLS = cl_SkipTLS c, hr_Timeout = 0\<rparr>"

definition soapCall :: "Client \<Rightarrow> string \<Rightarrow> string \<Rightarrow> xout \<Rightarrow> HttpRequest" where
  "soapCall c act path body = request c ''POST'' path (Some (SoapBody body)) (soapRequest act)"

definition jsonCall :: "Client \<Rightarrow> string \<Rightarrow> string \<Rightarrow> body option \<Rightarrow> HttpRequest" where
  "jsonCall c method path body = request c method path body jsonRequest"

text \<open>A request of this client: to its base URL, with its credentials and TLS setting.\<close>

definition sentBy :: "Client \<Rightarrow> event \<Rightarrow> bool" where
  "sentBy c e \<longleftrightarrow> (\<exists>q path. e = Http q \<and> hr_URL q = cl_BaseURL c @ path
     \<and> hr_BasicAuth q = Some (cl_Username c, cl_Password c) \<and> hr_SkipTLS q = cl_SkipTLS c)"

definition soapActionOf :: "HttpRequest \<Rightarrow> string option" where
  "soapActionOf q = map_of (hr_Headers q) ''SOAPAction''"

definition attempt :: "'w env \<Rightarrow> HttpRequest \<Rightarrow> event list" where
  "attempt K q = (if env_UrlError K (hr_URL q) = None then [Http q] else [])"

lemma sentBy_calls [simp]:
  "sentBy c (Http (soapCall c act path body))" "sentBy c (Http (jsonCall c m path b))"
  by (simp_all add: sentBy_def soapCall_def jsonCall_def request_def)

lemma sentBy_attempt:
  "e \<in> set (attempt K (soapCall c act path body)) \<Longrightarrow> sentBy c e"
  "e \<in> set (attempt K (jsonCall c m path b)) \<Longrightarrow> sentBy c e"
  by (auto simp: attempt_def split: if_splits)

lemma soapActionOf_calls [simp]:
  "act \<noteq> [] \<Longrightarrow> soapActionOf (soapCall c act path body) = Some act"
  "soapActionOf (jsonCall c m path b) = None"
  by (simp_all add: soapActionOf_def soapCall_def jsonCall_def request_def soapRequest_def jsonRequest_def
        contentTypeSOAP_def contentTypeJSON_def)

lemma newRequest_request:
  "newRequest K c m path b opts =
     (case env_UrlError K (hr_URL (request c m path b opts)) of Some e \<Rightarrow> Inl e
      | None \<Rightarrow> Inr (request c m path b opts))"
  by (cases "env_UrlError K (cl_BaseURL c @ path)") (simp_all add: newRequest_def request_def)

text \<open>What a call gets back: the log of one attempt, and an answer that depends on nothing else.\<close>

definition answerTo :: "'w env \<Rightarrow> HttpRequest \<Rightarrow> 'w \<Rightarrow> Response result" where
  "answerTo K q w =
     (case env_UrlError K (hr_URL q) of
        Some e \<Rightarrow> Inl e
      | None \<Rightarrow> (case fst (env_Http K q w) of Inl e \<Rightarrow> Inl e | Inr a \<Rightarrow> readAnswer a))"

definition afterCall :: "'w env \<Rightarrow> HttpRequest \<Rightarrow> 'w run \<Rightarrow> 'w run" where
  "afterCall K q s =
     (if env_UrlError K (hr_URL q) = None
      then \<lparr>world = snd (env_Http K q (world s)), log = log s @ [Http q]\<rparr> else s)"

lemma log_afterCall: "log (afterCall K q s) = log s @ attempt K q"
  by (simp add: afterCall_def attempt_def)

lemma doRequest_run:
  "doRequest K c m path b opts s =
     (Returned (answerTo K (request c m path b opts) (world s)), afterCall K (request c m path b opts) s)"
  by (auto simp: doRequest_def newRequest_request answerTo_def afterCall_def httpDo_def call_def bind_def
      split: option.split prod.split)

lemma doSOAP_run:
  "doSOAP K c act path body zero dec s =
     (Returned (checkReply zero (\<lambda>data. case env_XmlParse K data of Inl e \<Rightarrow> Inl e | Inr x \<Rightarrow> dec x)
        (answerTo K (soapCall c act path body) (world s))), afterCall K (soapCall c act path body) s)"
  by (simp add: doSOAP_def doRequest_run soapCall_def bind_def)

lemma doJSON_run:
  "doJSON K c m path body zero dec s =
     (Returned (checkReply zero (\<lambda>data. case env_JsonParse K data of Inl e \<Rightarrow> Inl e | Inr j \<Rightarrow> dec j)
        (answerTo K (jsonCall c m path body) (world s))), afterCall K (jsonCall c m path body) s)"
  by (simp add: doJSON_def doRequest_run jsonCall_def bind_def)

lemma doSOAPnil_run:
  "doSOAPnil K c act path body s =
     (Returned (checkReply () (\<lambda>_. Inr ()) (answerTo K (soapCall c act path body) (world s))),
      afterCall K (soapCall c act path body) s)"
  by (simp add: doSOAPnil_def doRequest_run soapCall_def bind_def)

lemma doJSONnil_run:
  "doJSONnil K c m path body s =
     (Returned (checkReply () (\<lambda>_. Inr ()) (answerTo K (jsonCall c m path body) (world s))),
      afterCall K (jsonCall c m path body) s)"
  by (simp add: doJSONnil_def doRequest_run jsonCall_def bind_def)

lemmas call_runs = doSOAP_run doJSON_run doSOAPnil_run doJSONnil_run

text \<open>The requests of the operations.\<close>

definition pingRequest :: "Client \<Rightarrow> HttpRequest" where
  "pingRequest c = jsonCall c ''GET'' (''/t/'' @ cl_Tenant c @ ''/api/server/v1/applications?limit=1'') None"

definition getOAuthRequest :: "Client \<Rightarrow> string \<Rightarrow> HttpRequest" where
  "getOAuthRequest c name = soapCall c getOAuthApplication oAuthEndpoint
     (xml_RequestEnvelope xml_GetOAuthBody (buildGetOAuthApplication name))"

definition createOAuthRequest :: "Client \<Rightarrow> string \<Rightarrow> OAuth2Config \<Rightarrow> HttpRequest" where
  "createOAuthRequest c name cfg = soapCall c updateApplication oAuthEndpoint
     (xml_RequestEnvelope xml_RegisterOAuthBody (buildCreateOAuthApplicaiton name cfg))"

definition updateOAuthRequest :: "Client \<Rightarrow> string \<Rightarrow> OAuth2Config \<Rightarrow> HttpRequest" where
  "updateOAuthRequest c name cfg = soapCall c updateApplication oAuthEndpoint
     (xml_RequestEnvelope xml_UpdateOAuthBody (buildUpdateOAuthApplication name cfg))"

definition listRequest :: "Client \<Rightarrow> string \<Rightarrow> HttpRequest" where
  "listRequest c name = jsonCall c ''GET''
     (''/t/'' @ cl_Tenant c @ ''/api/server/v1/applications?filter=name+eq+'' @ name) None"

definition getRequest :: "Client \<Rightarrow> string \<Rightarrow> HttpRequest" where
  "getRequest c name = soapCall c getApplication applicationEndpoint
     (xml_RequestEnvelope xml_GetApplicationBody (buildGetApplication name))"

definition createRequest :: "Client \<Rightarrow> Application \<Rightarrow> HttpRequest" where
  "createRequest c a = soapCall c createApplication applicationEndpoint
     (xml_RequestEnvelope xml_CreateApplicationBody (buildCreateApplication a))"

definition updateRequest :: "Client \<Rightarrow> Application \<Rightarrow> HttpRequest" where
  "updateRequest c a = soapCall c updateApplication applicationEndpoint
     (xml_RequestEnvelope xml_UpdateApplicationBody (buildUpdateApplication a))"

definition deleteRequest :: "Client \<Rightarrow> string \<Rightarrow> HttpRequest" where
  "deleteRequest c name = soapCall c deleteApplication applicationEndpoint
     (xml_RequestEnvelope xml_DeleteApplicationBody (buildDeleteApplication name))"

definition getSAMLRequest :: "Client \<Rightarrow> string \<Rightarrow> HttpRequest" where
  "getSAMLRequest c issuer = soapCall c getSAMLApplication samlEndpoint
     (xml_RequestEnvelope xml_GetServiceProviderBody (buildGetSAMLApplication issuer))"

definition createSAMLRequest :: "Client \<Rightarrow> SAMLConfig \<Rightarrow> HttpRequest" where
  "createSAMLRequest c cfg = soapCall c createSAMLApplication samlEndpoint
     (xml_RequestEnvelope xml_CreateSAMLApplicationBody (buildCreateSAMLApplication cfg))"

definition removeSAMLRequest :: "Client \<Rightarrow> string \<Rightarrow> HttpRequest" where
  "removeSAMLRequest c issuer = soapCall c removeSAMLApplication samlEndpoint
     (xml_RequestEnvelope xml_RemoveSAMLSPBody (buildRemoveSAMLAPplication issuer))"

lemmas soap_requests = getOAuthRequest_def createOAuthRequest_def updateOAuthRequest_def getRequest_def
  createRequest_def updateRequest_def deleteRequest_def getSAMLRequest_def createSAMLRequest_def
  removeSAMLRequest_def

lemmas soap_actions = getApplication_def createApplication_def deleteApplication_def
  updateApplication_def getOAuthApplication_def getSAMLApplication_def createSAMLApplication_def
  removeSAMLApplication_def

lemma soapActionOf_requests [simp]:
  "soapActionOf (getOAuthRequest c n) = Some getOAuthApplication"
  "soapActionOf (createOAuthRequest c n o2) = Some updateApplication"
  "soapActionOf (updateOAuthRequest c n o2) = Some updateApplication"
  "soapActionOf (getRequest c n) = Some getApplication"
  "soapActionOf (createRequest c a) = Some createApplication"
  "soapActionOf (updateRequest c a) = Some updateApplication"
  "soapActionOf (deleteRequest c n) = Some deleteApplication"
  "soapActionOf (getSAMLRequest c n) = Some getSAMLApplication"
  "soapActionOf (createSAMLRequest c s) = Some createSAMLApplication"
  "soapActionOf (removeSAMLRequest c n) = Some removeSAMLApplication"
  "soapActionOf (pingRequest c) = None"
  "soapActionOf (listRequest c n) = None"
  by (simp_all add: soap_requests soap_actions pingRequest_def listRequest_def)

section \<open>Specifications of the operations\<close>

definition returns :: "'a outcome \<Rightarrow> bool" where
  "returns r \<longleftrightarrow> (\<exists>v. r = Returned v)"

lemma returns_simps [simp]: "returns (Returned v)" "\<not> returns (Panicked p)"
  by (simp_all add: returns_def)

lemma yields_runI:
  "(\<And>s. \<exists>v. m s = (Returned v, afterCall K q s)) \<Longrightarrow> yields m (\<lambda>es r. es = attempt K q \<and> returns r)"
  by (rule yieldsI) (metis log_afterCall fst_conv snd_conv returns_simps(1) prod.inject)

lemma write_specs:
  "yields (CreateApplicationOAuth2Config K c n o2) (\<lambda>es r. es = attempt K (createOAuthRequest c n o2) \<and> returns r)"
  "yields (UpdateApplicationOAuth2Config K c n o2) (\<lambda>es r. es = attempt K (updateOAuthRequest c n o2) \<and> returns r)"
  "yields (CreateApplication K c a) (\<lambda>es r. es = attempt K (createRequest c a) \<and> returns r)"
  "yields (UpdateApplication K c a) (\<lambda>es r. es = attempt K (updateRequest c a) \<and> returns r)"
  "yields (DeleteApplication K c n) (\<lambda>es r. es = attempt K (deleteRequest c n) \<and> returns r)"
  "yields (CreateSAMLApplication K c cfg) (\<lambda>es r. es = attempt K (createSAMLRequest c cfg) \<and> returns r)"
  "yields (RemoveSAMLApplication K c n) (\<lambda>es r. es = attempt K (removeSAMLRequest c n) \<and> returns r)"
  by (rule yields_runI; simp add: CreateApplicationOAuth2Config_def UpdateApplicationOAuth2Config_def
      CreateApplication_def UpdateApplication_def DeleteApplication_def CreateSAMLApplication_def
      RemoveSAMLApplication_def call_runs soap_requests)+

lemma DeleteApplication_run:
  "DeleteApplication K c n s =
     (Returned (errorOf (checkReply () (\<lambda>_. Inr ()) (answerTo K (deleteRequest c n) (world s)))),
      afterCall K (deleteRequest c n) s)"
  unfolding DeleteApplication_def bind_def doSOAPnil_run deleteRequest_def by simp

text \<open>A deletion that succeeds has sent its request.\<close>

lemma yields_bind_DeleteApplication:
  assumes "\<And>e. yields (f (Inl e)) (\<lambda>es'. Q (attempt K (deleteRequest c n) @ es'))"
    and "yields (f (Inr ())) (\<lambda>es'. Q (Http (deleteRequest c n) # es'))"
  shows "yields (bind (DeleteApplication K c n) f) Q"
proof (rule yields_bind [where P = "\<lambda>es r. es = attempt K (deleteRequest c n) \<and> returns r
    \<and> (r = Returned (Inr ()) \<longrightarrow> es = [Http (deleteRequest c n)])"])
  show "yields (DeleteApplication K c n) (\<lambda>es r. es = attempt K (deleteRequest c n) \<and> returns r
      \<and> (r = Returned (Inr ()) \<longrightarrow> es = [Http (deleteRequest c n)]))"
    by (auto simp: yields_def DeleteApplication_run log_afterCall attempt_def answerTo_def errorOf_def checkReply_def)
next
  fix es and a :: "unit result"
  assume "es = attempt K (deleteRequest c n) \<and> returns (Returned a)
    \<and> (Returned a = Returned (Inr ()) \<longrightarrow> es = [Http (deleteRequest c n)])"
  then show "yields (f a) (\<lambda>es'. Q (es @ es'))"
    using assms by (cases a) auto
qed simp

text \<open>The queries: what they return when a request gets an answer \<open>a\<close>, and what they log.\<close>

lemma GetApplicationOAuth2Config_run:
  "GetApplicationOAuth2Config K c rid n s =
     (let q = getOAuthRequest c n;
          r = checkReply \<lparr>rse_Body = zero_GetOAuthApplicationDataByAppNameResponseBody\<rparr>
                (\<lambda>data. case env_XmlParse K data of Inl e \<Rightarrow> Inl e
                   | Inr x \<Rightarrow> dec_ResponseEnvelope zero_GetOAuthApplicationDataByAppNameResponseBody
                               dec_GetOAuthApplicationDataByAppNameResponseBody x)
                (answerTo K q (world s))
      in (bindO (deref (rep_Response r)) (\<lambda>resp. Returned
            (if resp_StatusCode resp = 500 then Inr None
             else case rep_Error r of Some e \<Rightarrow> Inl e
                  | None \<Rightarrow> Inr (Some (mapGetOAuthApplication (rep_Value r))))), afterCall K q s))"
  by (simp add: GetApplicationOAuth2Config_def doSOAP_run getOAuthRequest_def Let_def bind_def
      split: outcome.split)

lemma GetApplicationSAMLConfig_run:
  "GetApplicationSAMLConfig K c n s =
     (let q = getSAMLRequest c n;
          r = checkReply \<lparr>rse_Body = zero_GetSAMLSPResponseBody\<rparr>
                (\<lambda>data. case env_XmlParse K data of Inl e \<Rightarrow> Inl e
                   | Inr x \<Rightarrow> dec_ResponseEnvelope zero_GetSAMLSPResponseBody dec_GetSAMLSPResponseBody x)
                (answerTo K q (world s))
      in (Returned (case rep_Error r of
                      Some e \<Rightarrow> Inl e
                    | None \<Rightarrow> Inr (map_option mapSAMLServiceProvider
                                    (gsres_Return (gsrb_Response (rse_Body (rep_Value r)))))), afterCall K q s))"
  by (auto simp: GetApplicationSAMLConfig_def doSOAP_run getSAMLRequest_def Let_def bind_def deref_def
      mapSAMLApplication_def split: option.split)

lemma query_specs:
  "yields (GetApplicationOAuth2Config K c rid n) (\<lambda>es r. es = attempt K (getOAuthRequest c n))"
  "yields (GetApplicationSAMLConfig K c n) (\<lambda>es r. es = attempt K (getSAMLRequest c n) \<and> returns r)"
  by (auto simp: yields_def GetApplicationOAuth2Config_run GetApplicationSAMLConfig_run Let_def log_afterCall)

lemma yields_bind_run:
  assumes "\<And>s. m s = (Returned (v s), afterCall K q s)"
    and "\<And>a. yields (f a) (\<lambda>es'. Q (attempt K q @ es'))"
  shows "yields (bind m f) Q"
  by (rule yields_bind [where P = "\<lambda>es r. es = attempt K q \<and> returns r"])
    (auto intro!: yields_runI assms)

lemma yields_bind_doSOAP [effect_intros]:
  "(\<And>r. yields (f r) (\<lambda>es'. Q (attempt K (soapCall c act path body) @ es')))
   \<Longrightarrow> yields (bind (doSOAP K c act path body zero dec) f) Q"
  by (rule yields_bind_run [OF doSOAP_run])

lemma yields_bind_doJSON [effect_intros]:
  "(\<And>r. yields (f r) (\<lambda>es'. Q (attempt K (jsonCall c m path body) @ es')))
   \<Longrightarrow> yields (bind (doJSON K c m path body zero dec) f) Q"
  by (rule yields_bind_run [OF doJSON_run])

lemma yields_bind_doSOAPnil [effect_intros]:
  "(\<And>r. yields (f r) (\<lambda>es'. Q (attempt K (soapCall c act path body) @ es')))
   \<Longrightarrow> yields (bind (doSOAPnil K c act path body) f) Q"
  by (rule yields_bind_run [OF doSOAPnil_run])

lemma yields_bind_doJSONnil [effect_intros]:
  "(\<And>r. yields (f r) (\<lambda>es'. Q (attempt K (jsonCall c m path body) @ es')))
   \<Longrightarrow> yields (bind (doJSONnil K c m path body) f) Q"
  by (rule yields_bind_run [OF doJSONnil_run])

lemma Ping_spec: "yields (Ping K c) (\<lambda>es r. es = attempt K (pingRequest c))"
  unfolding Ping_def by (intro effect_intros) (simp_all add: pingRequest_def)

lemma GetApplicationByName_spec:
  "yields (GetApplicationByName K c n)
     (\<lambda>es r. es = attempt K (listRequest c n) \<or> es = attempt K (listRequest c n) @ attempt K (getRequest c n))"
  unfolding GetApplicationByName_def
  by (intro effect_intros) (simp_all add: listRequest_def getRequest_def)

text \<open>The SCIM operations send requests of the client that are not SOAP calls.\<close>

definition jsonBy :: "Client \<Rightarrow> event \<Rightarrow> bool" where
  "jsonBy c e \<longleftrightarrow> (\<exists>m path b. e = Http (jsonCall c m path b))"

lemma jsonBy_sentBy: "jsonBy c e \<Longrightarrow> sentBy c e"
  by (auto simp: jsonBy_def)

lemma jsonBy_attempt: "e \<in> set (attempt K (jsonCall c m path b)) \<Longrightarrow> jsonBy c e"
  by (auto simp: attempt_def jsonBy_def split: if_splits)

lemma GetAdminGroupMembership_spec:
  "yields (GetAdminGroupMembership K c n) (\<lambda>es r. (\<forall>e \<in> set es. jsonBy c e) \<and> returns r)"
  unfolding GetAdminGroupMembership_def getGroupInfo_def bind_assoc bind_ret
  by (intro effect_intros) (auto dest: jsonBy_attempt)

lemma JoinAdminToGroup_spec:
  "yields (JoinAdminToGroup K c g) (\<lambda>es r. (\<forall>e \<in> set es. jsonBy c e) \<and> returns r)"
  unfolding JoinAdminToGroup_def joinUserToGroup_def getUserInfo_def bind_assoc bind_ret
  by (intro effect_intros) (auto dest: jsonBy_attempt)

end
