(* ===== verification/SpFacts.thy ===== *)
theory SpFacts
  imports SpController ClientFacts
begin

text \<open>
  What the reconciliation of a service provider does to the cluster and to the servers. Every
  sub-step meets one contract (\<open>step_contract\<close>): which events it may log, that it hands on the spec
  and the metadata it was given, and which results it returns; the contract is closed under the
  composition the controller uses, and the theorems on \<^verbatim>\<open>Reconcile\<close> follow from it.
\<close>

section \<open>Rules for the calls of the controller\<close>

lemma yields_bind_exact:
  assumes "yields m (\<lambda>es r. es = X \<and> returns r)" "\<And>a. yields (f a) (\<lambda>es'. Q (X @ es'))"
  shows "yields (bind m f) Q"
  by (rule yields_bind [OF assms(1)]) (auto intro: assms(2))

lemma yields_bind_panicky:
  assumes "yields m (\<lambda>es r. es = X)" "\<And>a. yields (f a) (\<lambda>es'. Q (X @ es'))" "\<And>p. Q X (Panicked p)"
  shows "yields (bind m f) Q"
  by (rule yields_bind [OF assms(1)]) (auto intro: assms(2,3))

lemma yields_bind_some:
  assumes "yields m (\<lambda>es r. (\<forall>e \<in> set es. P e) \<and> returns r)"
    and "\<And>es a. (\<forall>e \<in> set es. P e) \<Longrightarrow> yields (f a) (\<lambda>es'. Q (es @ es'))"
  shows "yields (bind m f) Q"
  by (rule yields_bind [OF assms(1)]) (auto intro: assms(2))

definition fetchEvents :: "'w env \<Rightarrow> string \<Rightarrow> event list" where
  "fetchEvents K url = (if env_UrlError K url = None then [Http (metadataRequest url)] else [])"

lemma fetchAndParse_spec: "yields (fetchAndParse K url) (\<lambda>es r. es = fetchEvents K url \<and> returns r)"
  unfolding fetchAndParse_def by (intro effect_intros) (simp_all add: fetchEvents_def)

lemma Fetch_spec: "yields (Fetch K url) (\<lambda>es r. es = fetchEvents K url \<and> returns r)"
  unfolding Fetch_def
  by (rule yields_bind_exact [OF fetchAndParse_spec]) (intro effect_intros; simp)

lemma yields_bind_GetApplicationByName [effect_intros]:
  assumes "\<And>a. yields (f a) (\<lambda>es'. Q (attempt K (listRequest c n) @ es'))"
    and "\<And>a. yields (f a) (\<lambda>es'. Q (attempt K (listRequest c n) @ attempt K (getRequest c n) @ es'))"
    and "\<And>p. Q (attempt K (listRequest c n)) (Panicked p)"
    and "\<And>p. Q (attempt K (listRequest c n) @ attempt K (getRequest c n)) (Panicked p)"
  shows "yields (bind (GetApplicationByName K c n) f) Q"
  by (rule yields_bind [OF GetApplicationByName_spec]) (use assms in auto)

lemmas yields_bind_client [effect_intros] =
  yields_bind_exact [OF write_specs(1)] yields_bind_exact [OF write_specs(2)]
  yields_bind_exact [OF write_specs(3)] yields_bind_exact [OF write_specs(4)]
  yields_bind_exact [OF write_specs(5)] yields_bind_exact [OF write_specs(6)]
  yields_bind_panicky [OF query_specs(1)] yields_bind_exact [OF query_specs(2)]
  yields_bind_some [OF GetAdminGroupMembership_spec] yields_bind_some [OF JoinAdminToGroup_spec]
  yields_bind_exact [OF Fetch_spec]

lemma UpdateSAMLApplication_spec:
  "yields (UpdateSAMLApplication K c cfg) (\<lambda>es r. (es = attempt K (deleteRequest c (saml_Issuer cfg)) \<or>
     es = attempt K (deleteRequest c (saml_Issuer cfg)) @ attempt K (createSAMLRequest c cfg)) \<and> returns r)"
  unfolding UpdateSAMLApplication_def
  by (intro effect_intros yields_weaken [OF write_specs(6)]) auto

lemma yields_bind_UpdateSAMLApplication [effect_intros]:
  assumes "\<And>a. yields (f a) (\<lambda>es'. Q (attempt K (deleteRequest c (saml_Issuer cfg)) @ es'))"
    and "\<And>a. yields (f a) (\<lambda>es'. Q (attempt K (deleteRequest c (saml_Issuer cfg)) @
           attempt K (createSAMLRequest c cfg) @ es'))"
  shows "yields (bind (UpdateSAMLApplication K c cfg) f) Q"
  by (rule yields_bind [OF UpdateSAMLApplication_spec]) (use assms in auto)

lemma yields_setPhase [effect_intros]:
  assumes "status_Phase (sp_Status sp) = ph \<Longrightarrow> status_Message (sp_Status sp) = msg \<Longrightarrow>
             Q [] (Returned (sp, ok (requeue d)))"
    and "Q [StatusUpdateSP (withPhase ph msg sp)] (Returned (withPhase ph msg sp, ok noRequeue))"
    and "\<And>sp'. Q [StatusUpdateSP (withPhase ph msg sp)] (Returned (sp', ok (requeue d)))"
  shows "yields (setPhase K sp ph msg d) Q"
  unfolding setPhase_def by (intro effect_intros) (auto simp: assms split: sum.split)

lemma yields_patchStatus [effect_intros]:
  assumes "\<And>e. Q [StatusPatchSP b sp] (Returned (sp, failed e))"
    and "\<And>sp'. Q [StatusPatchSP b sp] (Returned (sp', ok (requeue d)))"
  shows "yields (patchStatus K b sp d) Q"
  unfolding patchStatus_def by (intro effect_intros) (auto simp: assms split: sum.split)

lemma attempt_cases: "attempt K q = [] \<or> attempt K q = [Http q]"
  by (simp add: attempt_def)

section \<open>The contract of a step\<close>

text \<open>
  \<open>x\<close> is the object \<open>sp\<close> with another status: the same metadata, spec and status conditions, and
  the confirmation that the admin can view the application is not withdrawn.
\<close>

definition sameSpec :: "WSO2SP \<Rightarrow> WSO2SP \<Rightarrow> bool" where
  "sameSpec x sp \<longleftrightarrow> sp_Meta x = sp_Meta sp \<and> sp_Spec x = sp_Spec sp
     \<and> status_Conditions (sp_Status x) = status_Conditions (sp_Status sp)
     \<and> (status_AdminCanView (sp_Status sp) \<longrightarrow> status_AdminCanView (sp_Status x))"

definition sameObject :: "WSO2SP \<Rightarrow> WSO2SP \<Rightarrow> bool" where
  "sameObject x sp \<longleftrightarrow> sameSpec x sp \<and> status_AdminCanView (sp_Status x) = status_AdminCanView (sp_Status sp)"

text \<open>
  The events of a step for a service provider: requests of the client, metadata requests without
  credentials, reads in the namespace of the object, and writes of the object's own status, where
  \<^verbatim>\<open>Ready\<close> is only written together with the visibility of the admin.
\<close>

primrec allowed :: "Client \<Rightarrow> WSO2SP \<Rightarrow> event \<Rightarrow> bool" where
  "allowed c sp (GetSP n) = False"
| "allowed c sp (GetInstance n) = False"
| "allowed c sp (GetSecret n) = (n = inboundSecretKey sp)"
| "allowed c sp (GetConfigMap n) = (nn_Namespace n = om_Namespace (sp_Meta sp))"
| "allowed c sp (CreateSecret x) = True"
| "allowed c sp (UpdateSecret x) = True"
| "allowed c sp (UpdateSP x) = False"
| "allowed c sp (StatusUpdateSP x) = (sameSpec x sp \<and> status_Phase (sp_Status x) = phaseFailed)"
| "allowed c sp (StatusPatchSP b x) = (sameObject b sp \<and> sameSpec x sp \<and>
     (status_Phase (sp_Status x) \<in> {phasePending, phaseFailed}
      \<or> status_Phase (sp_Status x) = phaseReady \<and> status_AdminCanView (sp_Status x)))"
| "allowed c sp (StatusUpdateInstance x) = False"
| "allowed c sp (Http q) = (sentBy c (Http q) \<or> (\<exists>url. q = metadataRequest url))"
| "allowed c sp (Recorded e) = True"

definition legalResult :: "goresult \<Rightarrow> bool" where
  "legalResult res \<longleftrightarrow> (snd res = None \<or> fst res = noRequeue)
     \<and> RequeueAfter (fst res) \<in> {0, second 5, second 15, second 30, minute 5}"

definition meets :: "Client \<Rightarrow> WSO2SP \<Rightarrow> event list \<Rightarrow> (WSO2SP \<times> goresult) outcome \<Rightarrow> bool" where
  "meets c sp es r \<longleftrightarrow> (\<forall>e \<in> set es. allowed c sp e)
     \<and> (\<forall>sp' res. r = Returned (sp', res) \<longrightarrow> legalResult res \<and> (\<not> stops res \<longrightarrow> sameObject sp' sp))"

lemma meets_simps [simp]:
  "meets c sp es (Returned (sp', res)) \<longleftrightarrow> (\<forall>e \<in> set es. allowed c sp e) \<and> legalResult res
     \<and> (\<not> stops res \<longrightarrow> sameObject sp' sp)"
  "meets c sp es (Panicked p) \<longleftrightarrow> (\<forall>e \<in> set es. allowed c sp e)"
  by (auto simp: meets_def simp del: split_paired_All)

lemma sameSpec_simps [simp]:
  "sameSpec sp sp" "sameSpec (withPhase ph msg x) sp \<longleftrightarrow> sameSpec x sp"
  "sameSpec (withIDs a x) sp \<longleftrightarrow> sameSpec x sp"
  "sameSpec (sp\<lparr>sp_Status := (sp_Status sp)\<lparr>status_AdminCanView := True\<rparr>\<rparr>) sp"
  "sameObject sp sp" "sameObject (withPhase ph msg x) sp \<longleftrightarrow> sameObject x sp"
  "sameObject (withIDs a x) sp \<longleftrightarrow> sameObject x sp"
  by (simp_all add: sameSpec_def sameObject_def withPhase_def withIDs_def)

lemma sameSpec_trans: "sameSpec x y \<Longrightarrow> sameSpec y z \<Longrightarrow> sameSpec x z"
  by (simp add: sameSpec_def)

lemma sameObject_trans: "sameObject x y \<Longrightarrow> sameObject y z \<Longrightarrow> sameObject x z"
  by (auto simp: sameObject_def intro: sameSpec_trans)

lemma sameObject_sameSpec: "sameObject x y \<Longrightarrow> sameSpec x y"
  by (simp add: sameObject_def)

lemma allowed_sameObject: "sameObject sp' sp \<Longrightarrow> allowed c sp' e = allowed c sp e"
  by (cases e) (auto simp: sameObject_def sameSpec_def inboundSecretKey_def inboundSecretName_def)

lemma legalResult_simps [simp]:
  "legalResult (ok noRequeue)" "legalResult (failed e)" "legalResult (ok (requeue (second 5)))"
  "legalResult (ok (requeue (second 15)))" "legalResult (ok (requeue (second 30)))"
  "legalResult (ok (requeue (minute 5)))"
  by (simp_all add: legalResult_def ok_def failed_def noRequeue_def requeue_def)

lemma allowed_attempt:
  "e \<in> set (attempt K (soapCall c act path body)) \<Longrightarrow> allowed c sp e"
  "e \<in> set (attempt K (jsonCall c m path b)) \<Longrightarrow> allowed c sp e"
  "e \<in> set (fetchEvents K url) \<Longrightarrow> allowed c sp e"
  by (auto simp: attempt_def fetchEvents_def split: if_splits)

lemma allowed_requests [simp]:
  "\<forall>e \<in> set (attempt K (getOAuthRequest c n)). allowed c sp e"
  "\<forall>e \<in> set (attempt K (createOAuthRequest c n o2)). allowed c sp e"
  "\<forall>e \<in> set (attempt K (updateOAuthRequest c n o2)). allowed c sp e"
  "\<forall>e \<in> set (attempt K (getRequest c n)). allowed c sp e"
  "\<forall>e \<in> set (attempt K (createRequest c a)). allowed c sp e"
  "\<forall>e \<in> set (attempt K (updateRequest c a)). allowed c sp e"
  "\<forall>e \<in> set (attempt K (deleteRequest c n)). allowed c sp e"
  "\<forall>e \<in> set (attempt K (getSAMLRequest c n)). allowed c sp e"
  "\<forall>e \<in> set (attempt K (createSAMLRequest c s)). allowed c sp e"
  "\<forall>e \<in> set (attempt K (listRequest c n)). allowed c sp e"
  "\<forall>e \<in> set (fetchEvents K url). allowed c sp e"
  by (auto simp: soap_requests listRequest_def allowed_attempt)

lemma allowed_jsonBy: "jsonBy c e \<Longrightarrow> allowed c sp e"
  by (auto simp: jsonBy_def)

lemma allowed_all_jsonBy [simp]: "\<forall>e \<in> set es. jsonBy c e \<Longrightarrow> \<forall>e \<in> set es. allowed c sp e"
  by (simp add: allowed_jsonBy)

lemma status_withPhase [simp]:
  "status_Phase (sp_Status (withPhase ph msg sp)) = ph"
  "status_Message (sp_Status (withPhase ph msg sp)) = msg"
  "status_AdminCanView (sp_Status (withPhase ph msg sp)) = status_AdminCanView (sp_Status sp)"
  "sp_Spec (withPhase ph msg sp) = sp_Spec sp" "sp_Meta (withPhase ph msg sp) = sp_Meta sp"
  by (simp_all add: withPhase_def)

text \<open>The secret: read, then created or updated.\<close>

lemma yields_bind_upsert:
  assumes "\<And>es a. (\<forall>e \<in> set es. allowed c sp e) \<Longrightarrow> yields (f a) (\<lambda>es'. Q (es @ es'))"
  shows "yields (bind (upsertApplicationSecret K sp kv) f) Q"
proof (rule yields_bind_some [where P = "allowed c sp"])
  show "yields (upsertApplicationSecret K sp kv) (\<lambda>es r. (\<forall>e \<in> set es. allowed c sp e) \<and> returns r)"
    unfolding upsertApplicationSecret_def Let_def by (intro effect_intros) auto
qed (fact assms)

lemma yields_bind_fetchSecret [effect_intros]:
  assumes "\<And>a. yields (f a) (\<lambda>es'. Q (GetSecret (inboundSecretKey sp) # es'))"
  shows "yields (bind (fetchSecret K sp) f) Q"
  unfolding fetchSecret_def bind_assoc bind_ret by (intro effect_intros assms)

lemma populateInboundSecrets_spec:
  "yields (populateInboundSecrets K sp desired) (\<lambda>es r. (\<forall>e \<in> set es. allowed c sp e) \<and> returns r)"
  unfolding populateInboundSecrets_def by (intro effect_intros) simp_all

lemma updateRemote_spec:
  "yields (updateRemote K sp c existing desired) (\<lambda>es r. (\<forall>e \<in> set es. allowed c sp e) \<and> returns r)"
  unfolding updateRemote_def
  by (intro effect_intros yields_bind_some [OF populateInboundSecrets_spec]) auto

lemma withScript_spec:
  "yields (withScript K sp desired) (\<lambda>es r. (\<forall>e \<in> set es. allowed c sp e) \<and> returns r)"
  unfolding withScript_def by (intro effect_intros) simp_all

section \<open>The steps meet the contract\<close>

locale step_contract =
  fixes step :: "'w env \<Rightarrow> WSO2SP \<Rightarrow> Client \<Rightarrow> 'w step"
  assumes contract: "yields (step K sp c) (meets c sp)"
begin

text \<open>A step that goes on hands over the same object, so what follows may assume the contract again.\<close>

lemma followed_by:
  assumes "\<And>sp'. sameObject sp' sp \<Longrightarrow> yields (rest sp') (meets c sp')"
  shows "yields (substep enabled (\<lambda>sp. step K sp c) sp rest) (meets c sp)"
proof (cases enabled)
  case True
  have rest: "yields (if stops res then ret (sp', res) else rest sp') (\<lambda>es'. meets c sp (es @ es'))"
    if m: "meets c sp es (Returned (sp', res))" for es sp' res
  proof (cases "stops res")
    case True
    with m show ?thesis by (simp only: if_True) (rule yields_ret; simp)
  next
    case False
    with m have same: "sameObject sp' sp" and es: "\<forall>e \<in> set es. allowed c sp e" by simp_all
    have "meets c sp (es @ es') r" if "meets c sp' es' r" for es' r
      using that es same allowed_sameObject [OF same] by (auto simp: meets_def intro: sameObject_trans)
    with False show ?thesis by (simp only: if_False) (rule yields_weaken [OF assms [OF same]])
  qed
  show ?thesis
    unfolding substep_def if_P [OF True]
    by (rule yields_bind [OF contract]) (auto intro!: yields_pair rest)
qed (simp add: substep_def assms)

end

lemma OAuth2_contract: "yields (reconcileApplicationOAuth2 K sp c) (meets c sp)"
  unfolding reconcileApplicationOAuth2_def Let_def
  by (intro effect_intros yields_bind_upsert [where c = c]) (simp_all add: ball_Un)

interpretation oauth2_step: step_contract reconcileApplicationOAuth2
  by unfold_locales (rule OAuth2_contract)

lemma SAML_contract: "yields (reconcileSAMLApplication K sp c) (meets c sp)"
  unfolding reconcileSAMLApplication_def Let_def
  by (intro effect_intros yields_bind_upsert [where c = c]) (simp_all add: ball_Un)

interpretation saml_step: step_contract reconcileSAMLApplication
  by unfold_locales (rule SAML_contract)

text \<open>The admin step: where it goes on without a failure, the admin can view the application.\<close>

definition confirmed :: "WSO2SP \<Rightarrow> (WSO2SP \<times> goresult) outcome \<Rightarrow> bool" where
  "confirmed x r \<longleftrightarrow> (case r of
       Returned (sp', res) \<Rightarrow> stops res \<or> status_Phase (sp_Status sp') = phaseFailed \<or>
         status_Phase (sp_Status sp') = status_Phase (sp_Status x) \<and> status_AdminCanView (sp_Status sp')
     | Panicked p \<Rightarrow> True)"

definition reports :: "Client \<Rightarrow> WSO2SP \<Rightarrow> event list \<Rightarrow> (WSO2SP \<times> goresult) outcome \<Rightarrow> bool" where
  "reports c sp es r \<longleftrightarrow> (\<forall>e \<in> set es. allowed c sp e) \<and> confirmed sp r
     \<and> (\<forall>sp' res. r = Returned (sp', res) \<longrightarrow> legalResult res \<and> (\<not> stops res \<longrightarrow> sameSpec sp' sp))"

lemma reports_simps [simp]:
  "reports c sp es (Returned (sp', res)) \<longleftrightarrow> (\<forall>e \<in> set es. allowed c sp e) \<and> confirmed sp (Returned (sp', res))
     \<and> legalResult res \<and> (\<not> stops res \<longrightarrow> sameSpec sp' sp)"
  "reports c sp es (Panicked p) \<longleftrightarrow> (\<forall>e \<in> set es. allowed c sp e)"
  by (auto simp: reports_def confirmed_def simp del: split_paired_All)

lemma AdminAccess_contract: "yields (reconcileAdminAccess K sp c) (reports c sp)"
  unfolding reconcileAdminAccess_def
  by (intro effect_intros) (auto simp: allowed_jsonBy confirmed_def)

lemma meets_append:
  assumes "\<forall>e \<in> set es. allowed c sp e" "sameObject sp' sp" "meets c sp' es' r"
  shows "meets c sp (es @ es') r"
  using assms allowed_sameObject [OF assms(2)] by (auto simp: meets_def intro: sameObject_trans)

text \<open>The last part of a synchronisation: the admin step, then the patch.\<close>

lemma finish_contract:
  assumes "sameObject x sp" "status_Phase (sp_Status x) = phaseReady" "\<forall>e \<in> set es. allowed c sp e"
  shows "yields (bind (reconcileAdminAccess K x c)
      (\<lambda>(sp', res). if stops res then ret (sp', res) else patchStatus K sp sp' (minute 5)))
    (\<lambda>es'. meets c sp (es @ es'))"
proof (rule yields_bind [OF AdminAccess_contract])
  fix es1 a
  assume a: "reports c x es1 (Returned a)"
  obtain sp' res where ar: "a = (sp', res)" by (cases a)
  have m: "\<forall>e \<in> set (es @ es1). allowed c sp e" "legalResult res"
    using a assms(3) allowed_sameObject [OF assms(1)] by (auto simp: ar)
  have s: "\<not> stops res \<Longrightarrow> sameSpec sp' sp"
    using a sameSpec_trans [OF _ sameObject_sameSpec [OF assms(1)]] by (simp add: ar)
  have ph: "\<not> stops res \<Longrightarrow> status_Phase (sp_Status sp') = phaseFailed \<or>
      status_Phase (sp_Status sp') = phaseReady \<and> status_AdminCanView (sp_Status sp')"
    using a assms(2) ar by (auto simp: confirmed_def)
  show "yields (case a of (sp', res) \<Rightarrow> if stops res then ret (sp', res) else patchStatus K sp sp' (minute 5))
      (\<lambda>es'. meets c sp (es @ es1 @ es'))"
    unfolding ar prod.case using m s ph by (intro effect_intros) auto
next
  fix es1 p
  assume "reports c x es1 (Panicked p)"
  then show "meets c sp (es @ es1) (Panicked p)"
    using assms(3) allowed_sameObject [OF assms(1)] by auto
qed

lemma status_withIDs [simp]: "status_Phase (sp_Status (withIDs a sp)) = status_Phase (sp_Status sp)"
  by (simp add: withIDs_def)

lemma allowed_withIDs [simp]: "allowed c (withIDs a sp) e = allowed c sp e"
  by (rule allowed_sameObject) simp

lemma syncRemote_contract: "yields (syncRemote K sp sp c existing desired) (meets c sp)"
  unfolding syncRemote_def Let_def
proof (rule yields_bind_some [OF withScript_spec [where c = c]], rule yields_sum)
  fix es e
  assume es: "\<forall>e \<in> set es. allowed c (withIDs existing sp) e"
  show "yields (setPhase K (withIDs existing sp) phaseFailed e (second 30)) (\<lambda>es'. meets c sp (es @ es'))"
    using es by (intro effect_intros) auto
next
  fix es d
  assume es: "\<forall>e \<in> set es. allowed c (withIDs existing sp) e"
  show "yields (bind (updateRemote K (withIDs existing sp) c existing d) (case_sum
      (\<lambda>e. setPhase K (withIDs existing sp) phaseFailed e (second 30))
      (\<lambda>_. bind (reconcileAdminAccess K (withPhase phaseReady
          (''Application in sync (ID: '' @ app_ResourceID existing @ '')'') (withIDs existing sp)) c)
        (\<lambda>(sp', res). if stops res then ret (sp', res) else patchStatus K sp sp' (minute 5)))))
    (\<lambda>es'. meets c sp (es @ es'))"
  proof (rule yields_bind_some [OF updateRemote_spec [where c = c]], rule yields_sum)
    fix es1 e
    assume es1: "\<forall>e \<in> set es1. allowed c (withIDs existing sp) e"
    show "yields (setPhase K (withIDs existing sp) phaseFailed e (second 30))
        (\<lambda>es'. meets c sp (es @ es1 @ es'))"
      using es es1 by (intro effect_intros) auto
  next
    fix es1 :: "event list"
    assume es1: "\<forall>e \<in> set es1. allowed c (withIDs existing sp) e"
    show "yields (bind (reconcileAdminAccess K (withPhase phaseReady
          (''Application in sync (ID: '' @ app_ResourceID existing @ '')'') (withIDs existing sp)) c)
        (\<lambda>(sp', res). if stops res then ret (sp', res) else patchStatus K sp sp' (minute 5)))
      (\<lambda>es'. meets c sp (es @ es1 @ es'))"
      by (rule finish_contract [where es = "es @ es1", unfolded append_assoc]) (use es es1 in auto)
  qed
qed

lemma createRemote_contract: "yields (createRemote K sp sp c desired) (meets c sp)"
  unfolding createRemote_def by (intro effect_intros) (simp_all add: ball_Un)

lemma reconcileRemote_contract: "yields (reconcileRemote K c sp) (meets c sp)"
  unfolding reconcileRemote_def Let_def
proof (rule yields_bind_GetApplicationByName; (rule yields_sum | simp add: ball_Un))
  fix e
  show "yields (bind (eventf warning ''GetFailed'' ''Reconciling'' (''Failed to query WSO2IS: '' @ e))
      (\<lambda>_. setPhase K sp phaseFailed e (second 30)))
    (\<lambda>es'. meets c sp (attempt K (listRequest c (spec_Name (sp_Spec sp))) @ es'))"
    by (intro effect_intros) (simp_all add: ball_Un)
  show "yields (bind (eventf warning ''GetFailed'' ''Reconciling'' (''Failed to query WSO2IS: '' @ e))
      (\<lambda>_. setPhase K sp phaseFailed e (second 30)))
    (\<lambda>es'. meets c sp (attempt K (listRequest c (spec_Name (sp_Spec sp))) @
       attempt K (getRequest c (spec_Name (sp_Spec sp))) @ es'))"
    by (intro effect_intros) (simp_all add: ball_Un)
next
  fix x :: "Application option"
  have step: "yields (case x of None \<Rightarrow> createRemote K sp sp c (applicationFromSpec sp)
      | Some existing \<Rightarrow> syncRemote K sp sp c existing (applicationFromSpec sp)) (meets c sp)"
    by (intro effect_intros createRemote_contract syncRemote_contract)
  have "yields (case x of None \<Rightarrow> createRemote K sp sp c (applicationFromSpec sp)
      | Some existing \<Rightarrow> syncRemote K sp sp c existing (applicationFromSpec sp))
    (\<lambda>es'. meets c sp (es @ es'))" if "\<forall>e \<in> set es. allowed c sp e" for es
    by (rule yields_weaken [OF step]) (rule meets_append [OF that], simp_all)
  from this [of "attempt K (listRequest c (spec_Name (sp_Spec sp)))"]
    this [of "attempt K (listRequest c (spec_Name (sp_Spec sp))) @
       attempt K (getRequest c (spec_Name (sp_Spec sp)))"]
  show "yields (case x of None \<Rightarrow> createRemote K sp sp c (applicationFromSpec sp)
      | Some existing \<Rightarrow> syncRemote K sp sp c existing (applicationFromSpec sp))
    (\<lambda>es'. meets c sp (attempt K (listRequest c (spec_Name (sp_Spec sp))) @ es'))"
    "yields (case x of None \<Rightarrow> createRemote K sp sp c (applicationFromSpec sp)
      | Some existing \<Rightarrow> syncRemote K sp sp c existing (applicationFromSpec sp))
    (\<lambda>es'. meets c sp (attempt K (listRequest c (spec_Name (sp_Spec sp))) @
       attempt K (getRequest c (spec_Name (sp_Spec sp))) @ es'))"
    by (simp_all add: ball_Un)
qed

interpretation remote_step: step_contract "\<lambda>K sp c. reconcileRemote K c sp"
  by unfold_locales (rule reconcileRemote_contract)

theorem reconcileApplication_contract: "yields (reconcileApplication K sp c) (meets c sp)"
  unfolding reconcileApplication_def
  by (intro oauth2_step.followed_by saml_step.followed_by reconcileRemote_contract)

end
