(* ===== verification/SpTheorems.thy ===== *)
theory SpTheorems
  imports SpFacts
begin

text \<open>
  The theorems on the reconciliation of a service provider: what \<^verbatim>\<open>Reconcile\<close> may write, with whose
  credentials it talks to whom, when it removes the finalizer, what a paused or a not
  yet ready object makes it do, and which results it can return.
\<close>

section \<open>Parts of a run\<close>

primrec readsOnly :: "event \<Rightarrow> bool" where
  "readsOnly (GetSP n) = False"
| "readsOnly (GetInstance n) = True"
| "readsOnly (GetSecret n) = True"
| "readsOnly (GetConfigMap n) = False"
| "readsOnly (CreateSecret x) = False"
| "readsOnly (UpdateSecret x) = False"
| "readsOnly (UpdateSP x) = False"
| "readsOnly (StatusUpdateSP x) = False"
| "readsOnly (StatusPatchSP b x) = False"
| "readsOnly (StatusUpdateInstance x) = False"
| "readsOnly (Http q) = False"
| "readsOnly (Recorded e) = False"

lemma buildClient_spec: "yields (buildClient K sp) (\<lambda>es r. \<forall>e \<in> set es. readsOnly e)"
  unfolding buildClient_def by (intro effect_intros) simp_all

text \<open>The event that says that the remote application could not be deleted.\<close>

definition deleteFailed :: "string \<Rightarrow> event" where
  "deleteFailed n = Recorded \<lparr>rec_Type = warning, rec_Reason = ''DeleteFailed'', rec_Action = ''Deleting'',
     rec_Note = n\<rparr>"

lemma handleDelete_spec:
  "yields (handleDelete K sp c) (\<lambda>es r.
     \<exists>pre. es = pre @ [UpdateSP (env_RemoveFinalizer K sp spFinalizer)]
       \<and> (\<forall>e \<in> set pre. e = Http (deleteRequest c (spec_Name (sp_Spec sp))) \<or> (\<exists>n. e = Recorded n))
       \<and> (status_ResourceID (sp_Status sp) = [] \<or>
           env_UrlError K (hr_URL (deleteRequest c (spec_Name (sp_Spec sp)))) \<noteq> None \<or>
           Http (deleteRequest c (spec_Name (sp_Spec sp))) \<in> set pre)
       \<and> (status_ResourceID (sp_Status sp) = [] \<or>
           Http (deleteRequest c (spec_Name (sp_Spec sp))) \<in> set pre \<or> (\<exists>n. deleteFailed n \<in> set pre))
       \<and> (\<forall>sp' res. r = Returned (sp', res) \<longrightarrow> legalResult res))"
proof (cases "status_ResourceID (sp_Status sp) = []")
  case True
  then show ?thesis
    unfolding handleDelete_def Let_def
    by (intro effect_intros) (auto simp del: split_paired_All split_paired_Ex split: sum.splits)
next
  case False
  show ?thesis
    unfolding handleDelete_def Let_def if_P [OF False] bind_assoc
    by (rule yields_bind_DeleteApplication; intro effect_intros)
      (auto simp: attempt_def deleteFailed_def simp del: split_paired_All split_paired_Ex split: sum.splits if_splits)
qed

lemma addFinalizer_spec:
  "yields (addFinalizerStep K sp) (\<lambda>es r. es = [UpdateSP (env_AddFinalizer K sp spFinalizer)]
     \<and> (\<forall>sp' res. r = Returned (sp', res) \<longrightarrow> legalResult res))"
  unfolding addFinalizerStep_def Let_def
  by (intro effect_intros) (auto simp del: split_paired_All split: sum.splits)

definition pausedSP :: "WSO2SP \<Rightarrow> WSO2SP" where
  "pausedSP sp = sp\<lparr>sp_Status := (sp_Status sp)\<lparr>status_Phase := phasePaused\<rparr>\<rparr>"

lemma pausedStep_spec:
  "yields (pausedStep K sp) (\<lambda>es r.
     es = (if status_Phase (sp_Status sp) = phasePaused then [] else [StatusUpdateSP (pausedSP sp)])
     \<and> (\<forall>sp' res. r = Returned (sp', res) \<longrightarrow> legalResult res))"
  unfolding pausedStep_def Let_def
  by (intro effect_intros) (auto simp: pausedSP_def simp del: split_paired_All split: sum.splits)

lemma notReady_spec:
  "yields (bind (eventf warning ''InstanceNotReady'' ''Reconciling'' e)
       (\<lambda>_. setPhase K sp phasePending e (second 15)))
     (\<lambda>es r. (\<exists>n. es = [Recorded n] \<or> es = [Recorded n, StatusUpdateSP (withPhase phasePending e sp)])
       \<and> (\<forall>sp' res. r = Returned (sp', res) \<longrightarrow> legalResult res))"
  by (intro effect_intros) (auto simp del: split_paired_All)

text \<open>What is done with a client.\<close>

definition proceed :: "'w env \<Rightarrow> WSO2SP \<Rightarrow> Client \<Rightarrow> 'w step" where
  "proceed K sp c =
     (if \<not> timeIsZero (om_DeletionTimestamp (sp_Meta sp)) then handleDelete K sp c
      else if \<not> env_ContainsFinalizer K sp spFinalizer then addFinalizerStep K sp
      else reconcileApplication K sp c)"

lemmas step_grows = yields_grows [OF buildClient_spec] yields_grows [OF handleDelete_spec]
  yields_grows [OF addFinalizer_spec] yields_grows [OF pausedStep_spec] yields_grows [OF notReady_spec]
  yields_grows [OF reconcileApplication_contract]

lemma proceed_grows: "grows (proceed K sp c)"
  by (simp add: proceed_def step_grows)

definition afterClient :: "'w env \<Rightarrow> WSO2SP \<Rightarrow> Client result \<Rightarrow> 'w step" where
  "afterClient K sp r =
     (case r of
        Inl e \<Rightarrow> bind (eventf warning ''InstanceNotReady'' ''Reconciling'' e)
                   (\<lambda>_. setPhase K sp phasePending e (second 15))
      | Inr c \<Rightarrow> proceed K sp c)"

lemma reconcileSP_alt:
  "reconcileSP K sp = (if skipReconcile APP sp then pausedStep K sp else bind (buildClient K sp) (afterClient K sp))"
  unfolding reconcileSP_def afterClient_def proceed_def by (rule refl)

lemma afterClient_grows: "grows (afterClient K sp r)"
  by (cases r) (simp_all add: afterClient_def step_grows proceed_grows)

lemma events_reconcileSP:
  "events (reconcileSP K sp) s =
     (if skipReconcile APP sp then events (pausedStep K sp) s
      else events (buildClient K sp) s @
        (case buildClient K sp s of (Returned r, s') \<Rightarrow> events (afterClient K sp r) s' | (Panicked p, s') \<Rightarrow> []))"
  by (simp add: reconcileSP_alt events_bind step_grows afterClient_grows)

lemma reconcileSP_grows: "grows (reconcileSP K sp)"
  unfolding reconcileSP_alt grows_def
  using step_grows(4) [of K sp] yields_bind [OF step_grows(1) [unfolded grows_def], where f = "afterClient K sp"]
    afterClient_grows [of K sp] unfolding grows_def by auto

text \<open>The events of one reconciliation, split by what they come from.\<close>

lemma reconcileSP_cases:
  assumes "e \<in> set (events (reconcileSP K sp) s)"
  obtains (paused) "skipReconcile APP sp" "e = StatusUpdateSP (pausedSP sp)"
  | (read) "readsOnly e"
  | (notReady) n x where "\<not> skipReconcile APP sp" "fst (buildClient K sp s) = Returned (Inl x)"
      "e = Recorded n \<or> e = StatusUpdateSP (withPhase phasePending x sp)"
  | (deleting) c where "\<not> skipReconcile APP sp" "fst (buildClient K sp s) = Returned (Inr c)"
      "\<not> timeIsZero (om_DeletionTimestamp (sp_Meta sp))"
      "e = Http (deleteRequest c (spec_Name (sp_Spec sp))) \<or> (\<exists>n. e = Recorded n) \<or>
       e = UpdateSP (env_RemoveFinalizer K sp spFinalizer)"
  | (adding) c where "\<not> skipReconcile APP sp" "fst (buildClient K sp s) = Returned (Inr c)"
      "timeIsZero (om_DeletionTimestamp (sp_Meta sp))" "\<not> env_ContainsFinalizer K sp spFinalizer"
      "e = UpdateSP (env_AddFinalizer K sp spFinalizer)"
  | (application) c where "\<not> skipReconcile APP sp" "fst (buildClient K sp s) = Returned (Inr c)"
      "timeIsZero (om_DeletionTimestamp (sp_Meta sp))" "env_ContainsFinalizer K sp spFinalizer"
      "allowed c sp e"
proof (cases "skipReconcile APP sp")
  case True
  with assms yields_events [OF pausedStep_spec [of K sp], of s] show ?thesis
    by (auto simp: events_reconcileSP intro: paused split: if_splits)
next
  case skip: False
  obtain r s' where b: "buildClient K sp s = (r, s')" by (cases "buildClient K sp s")
  have reads: "\<forall>e \<in> set (events (buildClient K sp) s). readsOnly e"
    by (rule yields_events [OF buildClient_spec])
  show ?thesis
  proof (cases "e \<in> set (events (buildClient K sp) s)")
    case True
    with reads read show ?thesis by blast
  next
    case False
    with assms skip b obtain x where x: "r = Returned x" "e \<in> set (events (afterClient K sp x) s')"
      by (auto simp: events_reconcileSP split: outcome.splits)
    show ?thesis
    proof (cases x)
      case (Inl m)
      with x yields_events [OF notReady_spec, of m K sp s'] b skip show ?thesis
        by (auto simp: afterClient_def intro: notReady)
    next
      case (Inr c)
      have e: "e \<in> set (events (proceed K sp c) s')" using x Inr by (simp add: afterClient_def)
      have built: "fst (buildClient K sp s) = Returned (Inr c)" using b x Inr by simp
      consider (d) "\<not> timeIsZero (om_DeletionTimestamp (sp_Meta sp))"
        | (f) "timeIsZero (om_DeletionTimestamp (sp_Meta sp))" "\<not> env_ContainsFinalizer K sp spFinalizer"
        | (a) "timeIsZero (om_DeletionTimestamp (sp_Meta sp))" "env_ContainsFinalizer K sp spFinalizer"
        by blast
      then show ?thesis
      proof cases
        case d
        with e have "e \<in> set (events (handleDelete K sp c) s')" by (simp add: proceed_def)
        with yields_events [OF handleDelete_spec [of K sp c], of s']
        have "e = Http (deleteRequest c (spec_Name (sp_Spec sp))) \<or> (\<exists>n. e = Recorded n) \<or>
            e = UpdateSP (env_RemoveFinalizer K sp spFinalizer)" by auto
        with skip built d show ?thesis by (rule deleting)
      next
        case f
        with e yields_events [OF addFinalizer_spec [of K sp], of s'] skip built show ?thesis
          by (auto simp: proceed_def intro: adding)
      next
        case a
        with e yields_events [OF reconcileApplication_contract [of K sp c], of s'] skip built show ?thesis
          by (auto simp: proceed_def meets_def intro: application)
      qed
    qed
  qed
qed

lemma events_Reconcile:
  "events (Reconcile K req) s = GetSP req #
     (case env_GetSP K req (world s) of
        (Inl e, w) \<Rightarrow> []
      | (Inr sp, w) \<Rightarrow> events (reconcileSP K sp) \<lparr>world = w, log = log s @ [GetSP req]\<rparr>)"
proof -
  have grows: "grows (bind (reconcileSP K sp) (\<lambda>(sp', res). ret res))" for sp
    unfolding grows_def
    by (rule yields_bind [OF reconcileSP_grows [unfolded grows_def]]) (auto intro!: effect_intros)
  have e: "events (bind (reconcileSP K sp) (\<lambda>(sp', res). ret res)) t = events (reconcileSP K sp) t" for sp t
    by (subst events_bind [OF reconcileSP_grows])
      (auto simp: case_prod_unfold grows_def yields_def events_def split: prod.split outcome.split)
  obtain r w where r: "env_GetSP K req (world s) = (r, w)" by (cases "env_GetSP K req (world s)")
  show ?thesis
  proof (cases r)
    case (Inl e)
    with r show ?thesis by (simp add: Reconcile_def kGetSP_def call_def bind_def events_def)
  next
    case (Inr sp)
    let ?s = "\<lparr>world = w, log = log s @ [GetSP req]\<rparr>"
    have "snd (Reconcile K req s) = snd (bind (reconcileSP K sp) (\<lambda>(sp', res). ret res) ?s)"
      using r Inr by (simp add: Reconcile_def kGetSP_def call_def bind_def)
    moreover have "log (snd (bind (reconcileSP K sp) (\<lambda>(sp', res). ret res) ?s)) =
        log s @ [GetSP req] @ events (reconcileSP K sp) ?s"
      using log_events [OF grows, of sp ?s] e [of sp ?s] by simp
    ultimately show ?thesis using r Inr by (simp add: events_def [of "Reconcile K req"])
  qed
qed

definition afterGet :: "NamespacedName \<Rightarrow> 'w \<Rightarrow> 'w run \<Rightarrow> 'w run" where
  "afterGet req w s = \<lparr>world = w, log = log s @ [GetSP req]\<rparr>"

lemma events_Reconcile_found:
  "env_GetSP K req (world s) = (Inr sp, w) \<Longrightarrow>
   events (Reconcile K req) s = GetSP req # events (reconcileSP K sp) (afterGet req w s)"
  by (simp add: events_Reconcile afterGet_def)

lemma reconcileSP_result:
  "yields (reconcileSP K sp) (\<lambda>es r. \<forall>sp' res. r = Returned (sp', res) \<longrightarrow> legalResult res)"
  unfolding reconcileSP_alt
proof (rule yields_if)
  show "yields (pausedStep K sp) (\<lambda>es r. \<forall>sp' res. r = Returned (sp', res) \<longrightarrow> legalResult res)"
    by (rule yields_weaken [OF pausedStep_spec]) blast
  have meets: "yields (reconcileApplication K sp c) (\<lambda>es r. \<forall>sp' res. r = Returned (sp', res) \<longrightarrow> legalResult res)"
    for c by (rule yields_weaken [OF reconcileApplication_contract]) (simp add: meets_def del: split_paired_All)
  have after: "yields (afterClient K sp r) (\<lambda>es r. \<forall>sp' res. r = Returned (sp', res) \<longrightarrow> legalResult res)" for r
    unfolding afterClient_def proceed_def
    by (intro yields_sum yields_if meets yields_weaken [OF handleDelete_spec]
        yields_weaken [OF addFinalizer_spec] yields_weaken [OF notReady_spec]; blast)
  show "yields (bind (buildClient K sp) (afterClient K sp))
      (\<lambda>es r. \<forall>sp' res. r = Returned (sp', res) \<longrightarrow> legalResult res)"
    by (rule yields_bind [OF buildClient_spec]) (use after in simp_all)
qed

section \<open>What a reconciliation writes\<close>

text \<open>The metadata without the finalizers.\<close>

definition metaButFinalizers :: "WSO2SP \<Rightarrow> ObjectMeta" where
  "metaButFinalizers sp = (sp_Meta sp)\<lparr>om_Finalizers := None\<rparr>"

primrec ownWrite :: "WSO2SP \<Rightarrow> event \<Rightarrow> bool" where
  "ownWrite sp (GetSP n) = True"
| "ownWrite sp (GetInstance n) = True"
| "ownWrite sp (GetSecret n) = True"
| "ownWrite sp (GetConfigMap n) = True"
| "ownWrite sp (CreateSecret x) = True"
| "ownWrite sp (UpdateSecret x) = True"
| "ownWrite sp (UpdateSP x) = (sp_Spec x = sp_Spec sp \<and> sp_Status x = sp_Status sp
     \<and> metaButFinalizers x = metaButFinalizers sp)"
| "ownWrite sp (StatusUpdateSP x) = sameSpec x sp"
| "ownWrite sp (StatusPatchSP b x) = (sameObject b sp \<and> sameSpec x sp)"
| "ownWrite sp (StatusUpdateInstance x) = False"
| "ownWrite sp (Http q) = True"
| "ownWrite sp (Recorded e) = True"

lemma finalizer_writes:
  assumes "finalizer_laws K"
  shows "ownWrite sp (UpdateSP (env_AddFinalizer K sp f))" "ownWrite sp (UpdateSP (env_RemoveFinalizer K sp f))"
proof -
  obtain fs where "env_AddFinalizer K sp f = sp\<lparr>sp_Meta := (sp_Meta sp)\<lparr>om_Finalizers := fs\<rparr>\<rparr>"
    using assms unfolding finalizer_laws_def by blast
  then show "ownWrite sp (UpdateSP (env_AddFinalizer K sp f))" by (simp add: metaButFinalizers_def)
  obtain fs where "env_RemoveFinalizer K sp f = sp\<lparr>sp_Meta := (sp_Meta sp)\<lparr>om_Finalizers := fs\<rparr>\<rparr>"
    using assms unfolding finalizer_laws_def by blast
  then show "ownWrite sp (UpdateSP (env_RemoveFinalizer K sp f))" by (simp add: metaButFinalizers_def)
qed

lemma readsOnly_ownWrite: "readsOnly e \<Longrightarrow> ownWrite sp e"
  by (cases e) simp_all

lemma allowed_ownWrite: "allowed c sp e \<Longrightarrow> ownWrite sp e"
  by (cases e) simp_all

lemma sameSpec_paused [simp]: "sameSpec (pausedSP sp) sp"
  by (simp add: sameSpec_def pausedSP_def)

text \<open>
  C1. Whatever one reconciliation writes to the cluster, apart from the inbound secret, it writes
  its own object as it read it: a
  status write carries the spec, the metadata and the conditions that were read and does not withdraw
  the confirmation that the admin can view the application, an update of the
  object changes nothing but its finalizers, and an instance is never written. In particular the
  conditions of a service provider's status are never maintained.
\<close>

theorem reconcile_writes_own_status:
  assumes "finalizer_laws K" "env_GetSP K req (world s) = (Inr sp, w)"
    and "e \<in> set (events (Reconcile K req) s)"
  shows "ownWrite sp e"
proof -
  consider "e = GetSP req" | "e \<in> set (events (reconcileSP K sp) (afterGet req w s))"
    using assms(3) events_Reconcile_found [OF assms(2)] by auto
  then show ?thesis
  proof cases
    case 2
    then show ?thesis
      by (cases rule: reconcileSP_cases)
        (auto simp: finalizer_writes [OF assms(1)] simp del: ownWrite.simps(7)
          intro: readsOnly_ownWrite allowed_ownWrite)
  qed simp
qed

text \<open>The status a write announces.\<close>

primrec announced :: "event \<Rightarrow> WSO2SP option" where
  "announced (GetSP n) = None"
| "announced (GetInstance n) = None"
| "announced (GetSecret n) = None"
| "announced (GetConfigMap n) = None"
| "announced (CreateSecret x) = None"
| "announced (UpdateSecret x) = None"
| "announced (UpdateSP x) = None"
| "announced (StatusUpdateSP x) = Some x"
| "announced (StatusPatchSP b x) = Some x"
| "announced (StatusUpdateInstance x) = None"
| "announced (Http q) = None"
| "announced (Recorded e) = None"

text \<open>
  C12. A status with phase \<^verbatim>\<open>Ready\<close> is only ever written together with the confirmation that the
  admin can view the application.
\<close>

theorem ready_is_confirmed:
  assumes "e \<in> set (events (Reconcile K req) s)" "announced e = Some x"
    and "status_Phase (sp_Status x) = phaseReady"
  shows "status_AdminCanView (sp_Status x)"
proof -
  obtain r w where r: "env_GetSP K req (world s) = (r, w)" by (cases "env_GetSP K req (world s)")
  with assms obtain sp where sp: "e \<in> set (events (reconcileSP K sp) (afterGet req w s))"
    by (auto simp: events_Reconcile afterGet_def split: sum.splits)
  then show ?thesis
  proof (cases rule: reconcileSP_cases)
    case (application c)
    with assms(2,3) show ?thesis by (cases e) (auto simp: phases)
  next
    case read
    with assms(2) show ?thesis by (cases e) simp_all
  qed (use assms(2,3) in \<open>auto simp: phases pausedSP_def\<close>)
qed

text \<open>
  C3. Credentials leave the operator only towards the server of the instance: a request with basic
  authentication carries the credentials of the client built for this object and goes to that
  client's base URL. Metadata is fetched without credentials.
\<close>

theorem credentials_stay_with_instance:
  assumes "env_GetSP K req (world s) = (Inr sp, w)"
    and "Http q \<in> set (events (Reconcile K req) s)" "hr_BasicAuth q = Some a"
  shows "\<exists>c path. fst (buildClient K sp (afterGet req w s)) = Returned (Inr c)
    \<and> a = (cl_Username c, cl_Password c) \<and> hr_URL q = cl_BaseURL c @ path"
proof -
  have "Http q \<in> set (events (reconcileSP K sp) (afterGet req w s))"
    using assms(2) events_Reconcile_found [OF assms(1)] by auto
  then show ?thesis
  proof (cases rule: reconcileSP_cases)
    case (application c)
    with assms(3) show ?thesis by (auto simp: sentBy_def metadataRequest_def)
  next
    case (deleting c)
    with assms(3) sentBy_calls(1) show ?thesis
      by (auto simp: deleteRequest_def soapCall_def request_def)
  qed auto
qed

section \<open>Deletion\<close>

text \<open>
  The update of an object is the last event of its reconciliation and no status is written before it.
  It changes the finalizers only, and takes the finalizer away only when deleting.
\<close>

lemma update_facts:
  assumes "finalizer_laws K" "env_GetSP K req (world s) = (Inr sp, w)"
    and "events (Reconcile K req) s = pre @ UpdateSP x # post"
  obtains fs where "post = []" "\<forall>e \<in> set pre. announced e = None"
    "x = sp\<lparr>sp_Meta := (sp_Meta sp)\<lparr>om_Finalizers := fs\<rparr>\<rparr>" "spFinalizer \<in> set (elems fs)"
  | c fs dpre where "post = []" "\<forall>e \<in> set pre. announced e = None"
    "x = sp\<lparr>sp_Meta := (sp_Meta sp)\<lparr>om_Finalizers := fs\<rparr>\<rparr>"
    "\<not> timeIsZero (om_DeletionTimestamp (sp_Meta sp))" "\<not> skipReconcile APP sp"
    "fst (buildClient K sp (afterGet req w s)) = Returned (Inr c)" "set dpre \<subseteq> set pre"
    "status_ResourceID (sp_Status sp) = [] \<or>
       env_UrlError K (hr_URL (deleteRequest c (spec_Name (sp_Spec sp)))) \<noteq> None \<or>
       Http (deleteRequest c (spec_Name (sp_Spec sp))) \<in> set dpre"
    "status_ResourceID (sp_Status sp) = [] \<or>
       Http (deleteRequest c (spec_Name (sp_Spec sp))) \<in> set dpre \<or> (\<exists>n. deleteFailed n \<in> set dpre)"
proof -
  let ?s = "afterGet req w s"
  obtain pre' where pre: "pre = GetSP req # pre'" "events (reconcileSP K sp) ?s = pre' @ UpdateSP x # post"
    using assms(3) events_Reconcile_found [OF assms(2)] by (cases pre) auto
  have reads: "\<forall>e \<in> set (events (buildClient K sp) ?s). readsOnly e"
    by (rule yields_events [OF buildClient_spec])
  have silent: "announced e = None" if "readsOnly e" for e using that by (cases e) simp_all
  from pre have "UpdateSP x \<in> set (events (reconcileSP K sp) ?s)" by simp
  then show ?thesis
  proof (cases rule: reconcileSP_cases)
    case (deleting c)
    obtain s' where s': "buildClient K sp ?s = (Returned (Inr c), s')"
      using deleting(2) by (metis prod.collapse)
    have ev: "events (reconcileSP K sp) ?s = events (buildClient K sp) ?s @ events (handleDelete K sp c) s'"
      using deleting s' by (simp add: events_reconcileSP afterClient_def proceed_def)
    obtain dpre where d: "events (handleDelete K sp c) s' = dpre @ [UpdateSP (env_RemoveFinalizer K sp spFinalizer)]"
      "\<forall>e \<in> set dpre. e = Http (deleteRequest c (spec_Name (sp_Spec sp))) \<or> (\<exists>n. e = Recorded n)"
      "status_ResourceID (sp_Status sp) = [] \<or>
       env_UrlError K (hr_URL (deleteRequest c (spec_Name (sp_Spec sp)))) \<noteq> None \<or>
       Http (deleteRequest c (spec_Name (sp_Spec sp))) \<in> set dpre"
      "status_ResourceID (sp_Status sp) = [] \<or>
       Http (deleteRequest c (spec_Name (sp_Spec sp))) \<in> set dpre \<or> (\<exists>n. deleteFailed n \<in> set dpre)"
      using yields_events [OF handleDelete_spec [of K sp c], of s'] by blast
    have "UpdateSP x \<notin> set (events (buildClient K sp) ?s @ dpre)" using reads d(2) by auto
    then have p: "pre' = events (buildClient K sp) ?s @ dpre" "post = []"
      "x = env_RemoveFinalizer K sp spFinalizer"
      using pre(2) ev d(1) by (auto simp: append_eq_append_conv2 append_eq_Cons_conv Cons_eq_append_conv)
    obtain fs where fs: "env_RemoveFinalizer K sp spFinalizer = sp\<lparr>sp_Meta := (sp_Meta sp)\<lparr>om_Finalizers := fs\<rparr>\<rparr>"
      using assms(1) unfolding finalizer_laws_def by blast
    show ?thesis
      by (rule that(2) [where dpre = dpre and c = c and fs = fs])
        (use p fs d reads silent deleting pre(1) in auto)
  next
    case (adding c)
    obtain s' where s': "buildClient K sp ?s = (Returned (Inr c), s')"
      using adding(2) by (metis prod.collapse)
    have ev: "events (reconcileSP K sp) ?s = events (buildClient K sp) ?s @ [UpdateSP (env_AddFinalizer K sp spFinalizer)]"
      using adding s' yields_events [OF addFinalizer_spec [of K sp], of s']
      by (simp add: events_reconcileSP afterClient_def proceed_def)
    have "UpdateSP x \<notin> set (events (buildClient K sp) ?s)" using reads by auto
    then have p: "pre' = events (buildClient K sp) ?s" "post = []" "x = env_AddFinalizer K sp spFinalizer"
      using pre(2) ev by (auto simp: append_eq_append_conv2 append_eq_Cons_conv Cons_eq_append_conv)
    obtain fs where fs: "spFinalizer \<in> set (elems fs)"
      "env_AddFinalizer K sp spFinalizer = sp\<lparr>sp_Meta := (sp_Meta sp)\<lparr>om_Finalizers := fs\<rparr>\<rparr>"
      using assms(1) unfolding finalizer_laws_def by blast
    show ?thesis
      by (rule that(1) [where fs = fs]) (use p fs reads silent pre(1) in auto)
  qed auto
qed

text \<open>
  C2. The finalizer is only removed from an object that is being deleted and not paused, and only
  after the deletion of the remote application has been attempted: its request is in the log
  before the removal, unless no remote application was ever recorded or the URL of the instance
  does not parse. (The outcome of that request is not looked at.)
\<close>

theorem finalizer_removed_after_delete:
  assumes "finalizer_laws K" "env_GetSP K req (world s) = (Inr sp, w)"
    and "events (Reconcile K req) s = pre @ UpdateSP x # post"
    and "spFinalizer \<notin> set (elems (om_Finalizers (sp_Meta x)))"
  shows "\<not> timeIsZero (om_DeletionTimestamp (sp_Meta sp)) \<and> \<not> skipReconcile APP sp \<and>
    (\<exists>c. fst (buildClient K sp (afterGet req w s)) = Returned (Inr c) \<and>
      (status_ResourceID (sp_Status sp) = [] \<or>
       env_UrlError K (hr_URL (deleteRequest c (spec_Name (sp_Spec sp)))) \<noteq> None \<or>
       Http (deleteRequest c (spec_Name (sp_Spec sp))) \<in> set pre))"
  using assms(1-3)
proof (cases rule: update_facts)
  case (2 c fs dpre)
  then show ?thesis by auto
qed (use assms(4) in simp)

section \<open>When nothing remote happens\<close>


text \<open>
  C29. An object with the pausing annotation is left alone: at most its phase is set to \<^verbatim>\<open>Paused\<close>,
  once. No request is sent, no finalizer is added or removed, whatever its deletion timestamp.
\<close>

theorem paused_is_left_alone:
  assumes "env_GetSP K req (world s) = (Inr sp, w)" "skipReconcile APP sp"
  shows "events (Reconcile K req) s =
    GetSP req # (if status_Phase (sp_Status sp) = phasePaused then [] else [StatusUpdateSP (pausedSP sp)])"
  using yields_events [OF pausedStep_spec [of K sp], of "afterGet req w s"] assms
  by (simp add: events_Reconcile_found [OF assms(1)] events_reconcileSP)


section \<open>Results\<close>

lemma Reconcile_legalResult:
  assumes "fst (Reconcile K req s) = Returned res"
  shows "legalResult res"
proof -
  have bound: "yields (bind (reconcileSP K sp) (\<lambda>(sp', res). ret res)) (\<lambda>es r. \<forall>res. r = Returned res \<longrightarrow> legalResult res)"
    for sp
  proof (rule yields_bind [OF reconcileSP_result])
    fix es a
    assume a: "\<forall>sp' res. Returned a = Returned (sp', res) \<longrightarrow> legalResult res"
    obtain sp' res where "a = (sp', res)" by (cases a)
    with a show "yields (case a of (sp', res) \<Rightarrow> ret res) (\<lambda>es'. \<lambda>r. \<forall>res. r = Returned res \<longrightarrow> legalResult res)"
      by (auto intro!: yields_ret simp del: ret_apply split_paired_All)
  qed simp
  have "yields (Reconcile K req) (\<lambda>es r. \<forall>res. r = Returned res \<longrightarrow> legalResult res)"
    unfolding Reconcile_def by (intro effect_intros bound) auto
  from yields_events [OF this, of s] assms show ?thesis by blast
qed


end
