(* ===== verification/SoapFields.thy ===== *)
theory SoapFields
  imports SoapCodec
begin

text \<open>
  Which field of a response an element reaches, and what it does there: one equation for every
  field of every response struct, so that decoding a known answer is rewriting.
\<close>

named_theorems field_simps \<open>the fields of the response structs\<close>

lemmas f_defs = fStr_def fBool_def fInt_def fStrs_def fStruct_def fPtr_def fSlice_def

lemma field_ClaimResponse [field_simps]:
  "applyField fields_ClaimResponse (XElem commonNS ''claimUri'' as kids) a =
     Inr (rcl_ClaimURI_update (\<lambda>_. charsOf kids) a)"
  by (simp_all add: fields_ClaimResponse_def f_defs)

lemma field_ClaimMappingResponse [field_simps]:
  "applyField fields_ClaimMappingResponse (XElem commonNS ''localClaim'' as kids) a =
     (case dec_ClaimResponse (XElem commonNS ''localClaim'' as kids) (rcm_LocalClaim a) of Inl e \<Rightarrow> Inl e
       | Inr v \<Rightarrow> Inr (rcm_LocalClaim_update (\<lambda>_. v) a))"
  "applyField fields_ClaimMappingResponse (XElem commonNS ''remoteClaim'' as kids) a =
     (case dec_ClaimResponse (XElem commonNS ''remoteClaim'' as kids) (rcm_RemoteClaim a) of Inl e \<Rightarrow> Inl e
       | Inr v \<Rightarrow> Inr (rcm_RemoteClaim_update (\<lambda>_. v) a))"
  "applyField fields_ClaimMappingResponse (XElem commonNS ''mandatory'' as kids) a =
     (case boolField (charsOf kids) of Inl e \<Rightarrow> Inl e | Inr b \<Rightarrow> Inr (rcm_Mandatory_update (\<lambda>_. b) a))"
  "applyField fields_ClaimMappingResponse (XElem commonNS ''requested'' as kids) a =
     (case boolField (charsOf kids) of Inl e \<Rightarrow> Inl e | Inr b \<Rightarrow> Inr (rcm_Requested_update (\<lambda>_. b) a))"
  by (simp_all add: fields_ClaimMappingResponse_def f_defs)

lemma field_ClaimConfigResponse [field_simps]:
  "applyField fields_ClaimConfigResponse (XElem commonNS ''alwaysSendMappedLocalSubjectId'' as kids) a =
     Inr (rcc_AlwaysSendMappedLocalSubjectID_update (\<lambda>_. charsOf kids) a)"
  "applyField fields_ClaimConfigResponse (XElem commonNS ''localClaimDialect'' as kids) a =
     Inr (rcc_LocalClaimDialect_update (\<lambda>_. charsOf kids) a)"
  "applyField fields_ClaimConfigResponse (XElem commonNS ''claimMappings'' as kids) a =
     (case dec_ClaimMappingResponse (XElem commonNS ''claimMappings'' as kids) zero_ClaimMappingResponse of Inl e \<Rightarrow> Inl e
       | Inr v \<Rightarrow> Inr (rcc_ClaimMappings_update (\<lambda>s. Some (elems s @ [v])) a))"
  "applyField fields_ClaimConfigResponse (XElem commonNS ''userClaimURI'' as kids) a =
     Inr (rcc_UserClaimURI_update (\<lambda>_. charsOf kids) a)"
  by (simp_all add: fields_ClaimConfigResponse_def f_defs)

lemma field_PropertyResponse [field_simps]:
  "applyField fields_PropertyResponse (XElem commonNS ''name'' as kids) a =
     Inr (rpr_Name_update (\<lambda>_. charsOf kids) a)"
  "applyField fields_PropertyResponse (XElem commonNS ''value'' as kids) a =
     Inr (rpr_Value_update (\<lambda>_. charsOf kids) a)"
  by (simp_all add: fields_PropertyResponse_def f_defs)

lemma field_InboundAuthenticationRequestConfigResponse [field_simps]:
  "applyField fields_InboundAuthenticationRequestConfigResponse (XElem commonNS ''inboundAuthKey'' as kids) a =
     Inr (riarc_InboundAuthKey_update (\<lambda>_. charsOf kids) a)"
  "applyField fields_InboundAuthenticationRequestConfigResponse (XElem commonNS ''inboundAuthType'' as kids) a =
     Inr (riarc_InboundAuthType_update (\<lambda>_. charsOf kids) a)"
  "applyField fields_InboundAuthenticationRequestConfigResponse (XElem commonNS ''properties'' as kids) a =
     (case dec_PropertyResponse (XElem commonNS ''properties'' as kids) zero_PropertyResponse of Inl e \<Rightarrow> Inl e
       | Inr v \<Rightarrow> Inr (riarc_Properties_update (\<lambda>s. Some (elems s @ [v])) a))"
  by (simp_all add: fields_InboundAuthenticationRequestConfigResponse_def f_defs)

lemma field_InboundAuthenticationConfigResponse [field_simps]:
  "applyField fields_InboundAuthenticationConfigResponse (XElem commonNS ''inboundAuthenticationRequestConfigs'' as kids) a =
     (case dec_InboundAuthenticationRequestConfigResponse (XElem commonNS ''inboundAuthenticationRequestConfigs'' as kids) zero_InboundAuthenticationRequestConfigResponse of Inl e \<Rightarrow> Inl e
       | Inr v \<Rightarrow> Inr (riac_InboundAuthenticationRequestConfigs_update (\<lambda>s. Some (elems s @ [v])) a))"
  by (simp_all add: fields_InboundAuthenticationConfigResponse_def f_defs)

lemma field_FederatedAuthenticatiorConfigResponse [field_simps]:
  "applyField fields_FederatedAuthenticatiorConfigResponse (XElem commonNS ''displayName'' as kids) a =
     Inr (rfac_DisplayName_update (\<lambda>_. charsOf kids) a)"
  "applyField fields_FederatedAuthenticatiorConfigResponse (XElem commonNS ''name'' as kids) a =
     Inr (rfac_Name_update (\<lambda>_. charsOf kids) a)"
  "applyField fields_FederatedAuthenticatiorConfigResponse (XElem commonNS ''valid'' as kids) a =
     (case boolField (charsOf kids) of Inl e \<Rightarrow> Inl e | Inr b \<Rightarrow> Inr (rfac_Valid_update (\<lambda>_. b) a))"
  by (simp_all add: fields_FederatedAuthenticatiorConfigResponse_def f_defs)

lemma field_FederatedIdentityProvidersResponse [field_simps]:
  "applyField fields_FederatedIdentityProvidersResponse (XElem commonNS ''federatedAuthenticatorConfigs'' as kids) a =
     (case dec_FederatedAuthenticatiorConfigResponse (XElem commonNS ''federatedAuthenticatorConfigs'' as kids) zero_FederatedAuthenticatiorConfigResponse of Inl e \<Rightarrow> Inl e
       | Inr v \<Rightarrow> Inr (rfip_FederatedAuthenticatiorConfig_update (\<lambda>s. Some (elems s @ [v])) a))"
  "applyField fields_FederatedIdentityProvidersResponse (XElem commonNS ''identityProviderName'' as kids) a =
     Inr (rfip_IdentityProviderName_update (\<lambda>_. charsOf kids) a)"
  by (simp_all add: fields_FederatedIdentityProvidersResponse_def f_defs)

lemma field_LocalAuthenticatorConfigResponse [field_simps]:
  "applyField fields_LocalAuthenticatorConfigResponse (XElem commonNS ''displayName'' as kids) a =
     Inr (rlac_DisplayName_update (\<lambda>_. charsOf kids) a)"
  "applyField fields_LocalAuthenticatorConfigResponse (XElem commonNS ''name'' as kids) a =
     Inr (rlac_Name_update (\<lambda>_. charsOf kids) a)"
  "applyField fields_LocalAuthenticatorConfigResponse (XElem commonNS ''valid'' as kids) a =
     (case boolField (charsOf kids) of Inl e \<Rightarrow> Inl e | Inr b \<Rightarrow> Inr (rlac_Valid_update (\<lambda>_. b) a))"
  by (simp_all add: fields_LocalAuthenticatorConfigResponse_def f_defs)

lemma field_AuthenticationStepResponse [field_simps]:
  "applyField fields_AuthenticationStepResponse (XElem commonNS ''federatedIdentityProviders'' as kids) a =
     (case dec_FederatedIdentityProvidersResponse (XElem commonNS ''federatedIdentityProviders'' as kids) zero_FederatedIdentityProvidersResponse of Inl e \<Rightarrow> Inl e
       | Inr v \<Rightarrow> Inr (ras_FederatedIdentityProviders_update (\<lambda>s. Some (elems s @ [v])) a))"
  "applyField fields_AuthenticationStepResponse (XElem commonNS ''localAuthenticatorConfigs'' as kids) a =
     (case dec_LocalAuthenticatorConfigResponse (XElem commonNS ''localAuthenticatorConfigs'' as kids) zero_LocalAuthenticatorConfigResponse of Inl e \<Rightarrow> Inl e
       | Inr v \<Rightarrow> Inr (ras_LocalAuthenticatorConfigs_update (\<lambda>s. Some (elems s @ [v])) a))"
  "applyField fields_AuthenticationStepResponse (XElem commonNS ''stepOrder'' as kids) a =
     (case intField (charsOf kids) of Inl e \<Rightarrow> Inl e | Inr i \<Rightarrow> Inr (ras_StepOrder_update (\<lambda>_. i) a))"
  "applyField fields_AuthenticationStepResponse (XElem commonNS ''subjectStep'' as kids) a =
     (case boolField (charsOf kids) of Inl e \<Rightarrow> Inl e | Inr b \<Rightarrow> Inr (ras_SubjectStep_update (\<lambda>_. b) a))"
  "applyField fields_AuthenticationStepResponse (XElem commonNS ''attributeStep'' as kids) a =
     (case boolField (charsOf kids) of Inl e \<Rightarrow> Inl e | Inr b \<Rightarrow> Inr (ras_AttributeStep_update (\<lambda>_. b) a))"
  by (simp_all add: fields_AuthenticationStepResponse_def f_defs)

lemma field_AuthenticationScriptConfigResponse [field_simps]:
  "applyField fields_AuthenticationScriptConfigResponse (XElem scriptNS ''content'' as kids) a =
     Inr (rasc_Content_update (\<lambda>_. charsOf kids) a)"
  "applyField fields_AuthenticationScriptConfigResponse (XElem scriptNS ''enabled'' as kids) a =
     (case boolField (charsOf kids) of Inl e \<Rightarrow> Inl e | Inr b \<Rightarrow> Inr (rasc_Enabled_update (\<lambda>_. b) a))"
  "applyField fields_AuthenticationScriptConfigResponse (XElem scriptNS ''language'' as kids) a =
     Inr (rasc_Language_update (\<lambda>_. charsOf kids) a)"
  by (simp_all add: fields_AuthenticationScriptConfigResponse_def f_defs)

lemma field_LocalAndOutboundAuthenticationConfigResponse [field_simps]:
  "applyField fields_LocalAndOutboundAuthenticationConfigResponse (XElem commonNS ''alwaysSendBackAuthenticatedListOfIdPs'' as kids) a =
     (case boolField (charsOf kids) of Inl e \<Rightarrow> Inl e | Inr b \<Rightarrow> Inr (rloac_AlwaysSendBackAuthenticatedListOfIDPs_update (\<lambda>_. b) a))"
  "applyField fields_LocalAndOutboundAuthenticationConfigResponse (XElem commonNS ''authenticationSteps'' as kids) a =
     (case dec_AuthenticationStepResponse (XElem commonNS ''authenticationSteps'' as kids) zero_AuthenticationStepResponse of Inl e \<Rightarrow> Inl e
       | Inr v \<Rightarrow> Inr (rloac_AuthenticationSteps_update (\<lambda>s. Some (elems s @ [v])) a))"
  "applyField fields_LocalAndOutboundAuthenticationConfigResponse (XElem commonNS ''authenticationScriptConfig'' as kids) a =
     (case dec_AuthenticationScriptConfigResponse (XElem commonNS ''authenticationScriptConfig'' as kids) (rloac_AuthenticationScriptConfig a) of Inl e \<Rightarrow> Inl e
       | Inr v \<Rightarrow> Inr (rloac_AuthenticationScriptConfig_update (\<lambda>_. v) a))"
  "applyField fields_LocalAndOutboundAuthenticationConfigResponse (XElem commonNS ''authenticationType'' as kids) a =
     Inr (rloac_AuthenticationType_update (\<lambda>_. charsOf kids) a)"
  "applyField fields_LocalAndOutboundAuthenticationConfigResponse (XElem commonNS ''subjectClaimUri'' as kids) a =
     Inr (rloac_SubjectClaimURI_update (\<lambda>_. charsOf kids) a)"
  "applyField fields_LocalAndOutboundAuthenticationConfigResponse (XElem commonNS ''authenticationScript'' as kids) a =
     Inr (rloac_AuthenticationScript_update (\<lambda>_. charsOf kids) a)"
  "applyField fields_LocalAndOutboundAuthenticationConfigResponse (XElem commonNS ''enableAuthorization'' as kids) a =
     (case boolField (charsOf kids) of Inl e \<Rightarrow> Inl e | Inr b \<Rightarrow> Inr (rloac_EnableAuthorization_update (\<lambda>_. b) a))"
  "applyField fields_LocalAndOutboundAuthenticationConfigResponse (XElem commonNS ''skipConsent'' as kids) a =
     (case boolField (charsOf kids) of Inl e \<Rightarrow> Inl e | Inr b \<Rightarrow> Inr (rloac_SkipConsent_update (\<lambda>_. b) a))"
  "applyField fields_LocalAndOutboundAuthenticationConfigResponse (XElem commonNS ''skipLogoutConsent'' as kids) a =
     (case boolField (charsOf kids) of Inl e \<Rightarrow> Inl e | Inr b \<Rightarrow> Inr (rloac_SkipLogoutConsent_update (\<lambda>_. b) a))"
  "applyField fields_LocalAndOutboundAuthenticationConfigResponse (XElem commonNS ''useTenantDomainInLocalSubjectIdentifier'' as kids) a =
     (case boolField (charsOf kids) of Inl e \<Rightarrow> Inl e | Inr b \<Rightarrow> Inr (rloac_UseTenantDomainInLocalSubjectIdentifier_update (\<lambda>_. b) a))"
  "applyField fields_LocalAndOutboundAuthenticationConfigResponse (XElem commonNS ''useUserstoreDomainInLocalSubjectIdentifier'' as kids) a =
     (case boolField (charsOf kids) of Inl e \<Rightarrow> Inl e | Inr b \<Rightarrow> Inr (rloac_UseUserstoreDomainInLocalSubjectIdentifier_update (\<lambda>_. b) a))"
  "applyField fields_LocalAndOutboundAuthenticationConfigResponse (XElem commonNS ''useUserstoreDomainInRoles'' as kids) a =
     (case boolField (charsOf kids) of Inl e \<Rightarrow> Inl e | Inr b \<Rightarrow> Inr (rloac_UseUserstoreDomainInRoles_update (\<lambda>_. b) a))"
  by (simp_all add: fields_LocalAndOutboundAuthenticationConfigResponse_def f_defs)

lemma field_ServiceProviderResponse [field_simps]:
  "applyField fields_ServiceProviderResponse (XElem commonNS ''applicationID'' as kids) a =
     (case intField (charsOf kids) of Inl e \<Rightarrow> Inl e | Inr i \<Rightarrow> Inr (rsp_ApplicationID_update (\<lambda>_. i) a))"
  "applyField fields_ServiceProviderResponse (XElem commonNS ''applicationResourceId'' as kids) a =
     Inr (rsp_ApplicationResourceID_update (\<lambda>_. charsOf kids) a)"
  "applyField fields_ServiceProviderResponse (XElem commonNS ''applicationName'' as kids) a =
     Inr (rsp_ApplicationName_update (\<lambda>_. charsOf kids) a)"
  "applyField fields_ServiceProviderResponse (XElem commonNS ''description'' as kids) a =
     Inr (rsp_Description_update (\<lambda>_. charsOf kids) a)"
  "applyField fields_ServiceProviderResponse (XElem commonNS ''claimConfig'' as kids) a =
     (case dec_ClaimConfigResponse (XElem commonNS ''claimConfig'' as kids)
         (case rsp_ClaimConfig a of None \<Rightarrow> zero_ClaimConfigResponse | Some v \<Rightarrow> v) of
        Inl e \<Rightarrow> Inl e | Inr v \<Rightarrow> Inr (rsp_ClaimConfig_update (\<lambda>_. Some v) a))"
  "applyField fields_ServiceProviderResponse (XElem commonNS ''inboundAuthenticationConfig'' as kids) a =
     (case dec_InboundAuthenticationConfigResponse (XElem commonNS ''inboundAuthenticationConfig'' as kids)
         (case rsp_InboundAuthenticationConfig a of None \<Rightarrow> zero_InboundAuthenticationConfigResponse | Some v \<Rightarrow> v) of
        Inl e \<Rightarrow> Inl e | Inr v \<Rightarrow> Inr (rsp_InboundAuthenticationConfig_update (\<lambda>_. Some v) a))"
  "applyField fields_ServiceProviderResponse (XElem commonNS ''localAndOutBoundAuthenticationConfig'' as kids) a =
     (case dec_LocalAndOutboundAuthenticationConfigResponse (XElem commonNS ''localAndOutBoundAuthenticationConfig'' as kids)
         (case rsp_LocalAndOutboundAuthenticationConfig a of None \<Rightarrow> zero_LocalAndOutboundAuthenticationConfigResponse | Some v \<Rightarrow> v) of
        Inl e \<Rightarrow> Inl e | Inr v \<Rightarrow> Inr (rsp_LocalAndOutboundAuthenticationConfig_update (\<lambda>_. Some v) a))"
  by (simp_all add: fields_ServiceProviderResponse_def f_defs)

lemma field_GetApplicationResponse [field_simps]:
  "applyField fields_GetApplicationResponse (XElem axisNS ''return'' as kids) a =
     (case dec_ServiceProviderResponse (XElem axisNS ''return'' as kids) (gares_ServiceProvider a) of Inl e \<Rightarrow> Inl e
       | Inr v \<Rightarrow> Inr (gares_ServiceProvider_update (\<lambda>_. v) a))"
  by (simp_all add: fields_GetApplicationResponse_def f_defs)

lemma field_GetApplicationResponseBody [field_simps]:
  "applyField fields_GetApplicationResponseBody (XElem axisNS ''getApplicationResponse'' as kids) a =
     (case dec_GetApplicationResponse (XElem axisNS ''getApplicationResponse'' as kids) (garb_GetApplicationResponse a) of Inl e \<Rightarrow> Inl e
       | Inr v \<Rightarrow> Inr (garb_GetApplicationResponse_update (\<lambda>_. v) a))"
  by (simp_all add: fields_GetApplicationResponseBody_def f_defs)

lemma field_OAuthApplicationResponse [field_simps]:
  "applyField fields_OAuthApplicationResponse (XElem oAuthNS ''OAuthVersion'' as kids) a =
     Inr (roa_OAuthVersion_update (\<lambda>_. charsOf kids) a)"
  "applyField fields_OAuthApplicationResponse (XElem oAuthNS ''applicationAccessTokenExpiryTime'' as kids) a =
     (case intField (charsOf kids) of Inl e \<Rightarrow> Inl e | Inr i \<Rightarrow> Inr (roa_ApplicationAccessTokenExpiryTime_update (\<lambda>_. i) a))"
  "applyField fields_OAuthApplicationResponse (XElem oAuthNS ''applicationName'' as kids) a =
     Inr (roa_ApplicationName_update (\<lambda>_. charsOf kids) a)"
  "applyField fields_OAuthApplicationResponse (XElem oAuthNS ''audiences'' as kids) a =
     Inr (roa_Audiences_update (\<lambda>s. Some (elems s @ [charsOf kids])) a)"
  "applyField fields_OAuthApplicationResponse (XElem oAuthNS ''bypassClientCredentials'' as kids) a =
     (case boolField (charsOf kids) of Inl e \<Rightarrow> Inl e | Inr b \<Rightarrow> Inr (roa_BypassClientCredentials_update (\<lambda>_. b) a))"
  "applyField fields_OAuthApplicationResponse (XElem oAuthNS ''callbackUrl'' as kids) a =
     Inr (roa_CallbackURL_update (\<lambda>_. charsOf kids) a)"
  "applyField fields_OAuthApplicationResponse (XElem oAuthNS ''grantTypes'' as kids) a =
     Inr (roa_GrantTypes_update (\<lambda>_. charsOf kids) a)"
  "applyField fields_OAuthApplicationResponse (XElem oAuthNS ''idTokenExpiryTime'' as kids) a =
     (case intField (charsOf kids) of Inl e \<Rightarrow> Inl e | Inr i \<Rightarrow> Inr (roa_IDTokenExpiryTime_update (\<lambda>_. i) a))"
  "applyField fields_OAuthApplicationResponse (XElem oAuthNS ''oauthConsumerKey'' as kids) a =
     Inr (roa_OAuthConsumerKey_update (\<lambda>_. charsOf kids) a)"
  "applyField fields_OAuthApplicationResponse (XElem oAuthNS ''oauthConsumerSecret'' as kids) a =
     Inr (roa_OAuthConsumerSecret_update (\<lambda>_. charsOf kids) a)"
  "applyField fields_OAuthApplicationResponse (XElem oAuthNS ''pkceMandatory'' as kids) a =
     (case boolField (charsOf kids) of Inl e \<Rightarrow> Inl e | Inr b \<Rightarrow> Inr (roa_PKCEMandatory_update (\<lambda>_. b) a))"
  "applyField fields_OAuthApplicationResponse (XElem oAuthNS ''pkceSupportPlain'' as kids) a =
     (case boolField (charsOf kids) of Inl e \<Rightarrow> Inl e | Inr b \<Rightarrow> Inr (roa_PKCESupportPlain_update (\<lambda>_. b) a))"
  "applyField fields_OAuthApplicationResponse (XElem oAuthNS ''refreshTokenExpiryTime'' as kids) a =
     (case intField (charsOf kids) of Inl e \<Rightarrow> Inl e | Inr i \<Rightarrow> Inr (roa_RefreshTokenExpiryTime_update (\<lambda>_. i) a))"
  "applyField fields_OAuthApplicationResponse (XElem oAuthNS ''scopeValidators'' as kids) a =
     Inr (roa_ScopeValidators_update (\<lambda>s. Some (elems s @ [charsOf kids])) a)"
  "applyField fields_OAuthApplicationResponse (XElem oAuthNS ''tokenBindingType'' as kids) a =
     Inr (roa_TokenBindingType_update (\<lambda>_. charsOf kids) a)"
  "applyField fields_OAuthApplicationResponse (XElem oAuthNS ''tokenType'' as kids) a =
     Inr (roa_TokenType_update (\<lambda>_. charsOf kids) a)"
  "applyField fields_OAuthApplicationResponse (XElem oAuthNS ''userAccessTokenExpiryTime'' as kids) a =
     (case intField (charsOf kids) of Inl e \<Rightarrow> Inl e | Inr i \<Rightarrow> Inr (roa_UserAccessTokenExpiryTime_update (\<lambda>_. i) a))"
  "applyField fields_OAuthApplicationResponse (XElem oAuthNS ''username'' as kids) a =
     Inr (roa_Username_update (\<lambda>_. charsOf kids) a)"
  by (simp_all add: fields_OAuthApplicationResponse_def f_defs)

lemma field_GetOAuthApplicationDataByAppNameResponse [field_simps]:
  "applyField fields_GetOAuthApplicationDataByAppNameResponse (XElem axisNS ''return'' as kids) a =
     (case dec_OAuthApplicationResponse (XElem axisNS ''return'' as kids) (goares_OAuthApplication a) of Inl e \<Rightarrow> Inl e
       | Inr v \<Rightarrow> Inr (goares_OAuthApplication_update (\<lambda>_. v) a))"
  by (simp_all add: fields_GetOAuthApplicationDataByAppNameResponse_def f_defs)

lemma field_GetOAuthApplicationDataByAppNameResponseBody [field_simps]:
  "applyField fields_GetOAuthApplicationDataByAppNameResponseBody (XElem axisNS ''getOAuthApplicationDataByAppNameResponse'' as kids) a =
     (case dec_GetOAuthApplicationDataByAppNameResponse (XElem axisNS ''getOAuthApplicationDataByAppNameResponse'' as kids) (goarb_GetOAuthApplicationDataByAppNameResponse a) of Inl e \<Rightarrow> Inl e
       | Inr v \<Rightarrow> Inr (goarb_GetOAuthApplicationDataByAppNameResponse_update (\<lambda>_. v) a))"
  by (simp_all add: fields_GetOAuthApplicationDataByAppNameResponseBody_def f_defs)

lemma field_SAMLSSOServiceProviderDTOResponse [field_simps]:
  "applyField fields_SAMLSSOServiceProviderDTOResponse (XElem samlNS ''assertionConsumerUrls'' as kids) a =
     Inr (rdto_AssertionConsumerUrls_update (\<lambda>s. Some (elems s @ [charsOf kids])) a)"
  "applyField fields_SAMLSSOServiceProviderDTOResponse (XElem samlNS ''requestedAudiences'' as kids) a =
     Inr (rdto_RequestedAudiences_update (\<lambda>s. Some (elems s @ [charsOf kids])) a)"
  "applyField fields_SAMLSSOServiceProviderDTOResponse (XElem samlNS ''requestedRecipients'' as kids) a =
     Inr (rdto_RequestedRecipients_update (\<lambda>s. Some (elems s @ [charsOf kids])) a)"
  "applyField fields_SAMLSSOServiceProviderDTOResponse (XElem samlNS ''idpInitSLOReturnToURLs'' as kids) a =
     Inr (rdto_IdpInitSLOReturnToURLs_update (\<lambda>s. Some (elems s @ [charsOf kids])) a)"
  "applyField fields_SAMLSSOServiceProviderDTOResponse (XElem samlNS ''issuer'' as kids) a =
     Inr (rdto_Issuer_update (\<lambda>_. charsOf kids) a)"
  "applyField fields_SAMLSSOServiceProviderDTOResponse (XElem samlNS ''issuerQualifier'' as kids) a =
     Inr (rdto_IssuerQualifier_update (\<lambda>_. charsOf kids) a)"
  "applyField fields_SAMLSSOServiceProviderDTOResponse (XElem samlNS ''defaultAssertionConsumerUrl'' as kids) a =
     Inr (rdto_DefaultAssertionConsumerURL_update (\<lambda>_. charsOf kids) a)"
  "applyField fields_SAMLSSOServiceProviderDTOResponse (XElem samlNS ''nameIDFormat'' as kids) a =
     Inr (rdto_NameIDFormat_update (\<lambda>_. charsOf kids) a)"
  "applyField fields_SAMLSSOServiceProviderDTOResponse (XElem samlNS ''nameIdClaimUri'' as kids) a =
     Inr (rdto_NameIDClaimURI_update (\<lambda>_. charsOf kids) a)"
  "applyField fields_SAMLSSOServiceProviderDTOResponse (XElem samlNS ''certAlias'' as kids) a =
     Inr (rdto_CertAlias_update (\<lambda>_. charsOf kids) a)"
  "applyField fields_SAMLSSOServiceProviderDTOResponse (XElem samlNS ''certificateContent'' as kids) a =
     Inr (rdto_CertificateContent_update (\<lambda>_. charsOf kids) a)"
  "applyField fields_SAMLSSOServiceProviderDTOResponse (XElem samlNS ''loginPageURL'' as kids) a =
     Inr (rdto_LoginPageURL_update (\<lambda>_. charsOf kids) a)"
  "applyField fields_SAMLSSOServiceProviderDTOResponse (XElem samlNS ''idpEntityIDAlias'' as kids) a =
     Inr (rdto_IdpEntityIDAlias_update (\<lambda>_. charsOf kids) a)"
  "applyField fields_SAMLSSOServiceProviderDTOResponse (XElem samlNS ''signingAlgorithmURI'' as kids) a =
     Inr (rdto_SigningAlgorithmURI_update (\<lambda>_. charsOf kids) a)"
  "applyField fields_SAMLSSOServiceProviderDTOResponse (XElem samlNS ''digestAlgorithmURI'' as kids) a =
     Inr (rdto_DigestAlgorithmURI_update (\<lambda>_. charsOf kids) a)"
  "applyField fields_SAMLSSOServiceProviderDTOResponse (XElem samlNS ''assertionEncryptionAlgorithmURI'' as kids) a =
     Inr (rdto_AssertionEncryptionAlgorithmURI_update (\<lambda>_. charsOf kids) a)"
  "applyField fields_SAMLSSOServiceProviderDTOResponse (XElem samlNS ''keyEncryptionAlgorithmURI'' as kids) a =
     Inr (rdto_KeyEncryptionAlgorithmURI_update (\<lambda>_. charsOf kids) a)"
  "applyField fields_SAMLSSOServiceProviderDTOResponse (XElem samlNS ''sloRequestURL'' as kids) a =
     Inr (rdto_SloRequestURL_update (\<lambda>_. charsOf kids) a)"
  "applyField fields_SAMLSSOServiceProviderDTOResponse (XElem samlNS ''sloResponseURL'' as kids) a =
     Inr (rdto_SloResponseURL_update (\<lambda>_. charsOf kids) a)"
  "applyField fields_SAMLSSOServiceProviderDTOResponse (XElem samlNS ''frontChannelLogoutBinding'' as kids) a =
     Inr (rdto_FrontChannelLogoutBinding_update (\<lambda>_. charsOf kids) a)"
  "applyField fields_SAMLSSOServiceProviderDTOResponse (XElem samlNS ''attributeConsumingServiceIndex'' as kids) a =
     Inr (rdto_AttributeConsumingServiceIndex_update (\<lambda>_. charsOf kids) a)"
  "applyField fields_SAMLSSOServiceProviderDTOResponse (XElem samlNS ''supportedAssertionQueryRequestTypes'' as kids) a =
     Inr (rdto_SupportedAssertionQueryRequestTypes_update (\<lambda>_. charsOf kids) a)"
  "applyField fields_SAMLSSOServiceProviderDTOResponse (XElem samlNS ''doSignAssertions'' as kids) a =
     (case boolField (charsOf kids) of Inl e \<Rightarrow> Inl e | Inr b \<Rightarrow> Inr (rdto_DoSignAssertions_update (\<lambda>_. b) a))"
  "applyField fields_SAMLSSOServiceProviderDTOResponse (XElem samlNS ''doSignResponse'' as kids) a =
     (case boolField (charsOf kids) of Inl e \<Rightarrow> Inl e | Inr b \<Rightarrow> Inr (rdto_DoSignResponse_update (\<lambda>_. b) a))"
  "applyField fields_SAMLSSOServiceProviderDTOResponse (XElem samlNS ''doSingleLogout'' as kids) a =
     (case boolField (charsOf kids) of Inl e \<Rightarrow> Inl e | Inr b \<Rightarrow> Inr (rdto_DoSingleLogout_update (\<lambda>_. b) a))"
  "applyField fields_SAMLSSOServiceProviderDTOResponse (XElem samlNS ''doFrontChannelLogout'' as kids) a =
     (case boolField (charsOf kids) of Inl e \<Rightarrow> Inl e | Inr b \<Rightarrow> Inr (rdto_DoFrontChannelLogout_update (\<lambda>_. b) a))"
  "applyField fields_SAMLSSOServiceProviderDTOResponse (XElem samlNS ''doEnableEncryptedAssertion'' as kids) a =
     (case boolField (charsOf kids) of Inl e \<Rightarrow> Inl e | Inr b \<Rightarrow> Inr (rdto_DoEnableEncryptedAssertion_update (\<lambda>_. b) a))"
  "applyField fields_SAMLSSOServiceProviderDTOResponse (XElem samlNS ''doValidateSignatureInRequests'' as kids) a =
     (case boolField (charsOf kids) of Inl e \<Rightarrow> Inl e | Inr b \<Rightarrow> Inr (rdto_DoValidateSignatureInRequests_update (\<lambda>_. b) a))"
  "applyField fields_SAMLSSOServiceProviderDTOResponse (XElem samlNS ''doValidateSignatureInArtifactResolve'' as kids) a =
     (case boolField (charsOf kids) of Inl e \<Rightarrow> Inl e | Inr b \<Rightarrow> Inr (rdto_DoValidateSignatureInArtifactResolve_update (\<lambda>_. b) a))"
  "applyField fields_SAMLSSOServiceProviderDTOResponse (XElem samlNS ''enableAttributeProfile'' as kids) a =
     (case boolField (charsOf kids) of Inl e \<Rightarrow> Inl e | Inr b \<Rightarrow> Inr (rdto_EnableAttributeProfile_update (\<lambda>_. b) a))"
  "applyField fields_SAMLSSOServiceProviderDTOResponse (XElem samlNS ''enableAttributesByDefault'' as kids) a =
     (case boolField (charsOf kids) of Inl e \<Rightarrow> Inl e | Inr b \<Rightarrow> Inr (rdto_EnableAttributesByDefault_update (\<lambda>_. b) a))"
  "applyField fields_SAMLSSOServiceProviderDTOResponse (XElem samlNS ''enableSAML2ArtifactBinding'' as kids) a =
     (case boolField (charsOf kids) of Inl e \<Rightarrow> Inl e | Inr b \<Rightarrow> Inr (rdto_EnableSAML2ArtifactBinding_update (\<lambda>_. b) a))"
  "applyField fields_SAMLSSOServiceProviderDTOResponse (XElem samlNS ''assertionQueryRequestProfileEnabled'' as kids) a =
     (case boolField (charsOf kids) of Inl e \<Rightarrow> Inl e | Inr b \<Rightarrow> Inr (rdto_AssertionQueryRequestProfileEnabled_update (\<lambda>_. b) a))"
  "applyField fields_SAMLSSOServiceProviderDTOResponse (XElem samlNS ''idPInitSSOEnabled'' as kids) a =
     (case boolField (charsOf kids) of Inl e \<Rightarrow> Inl e | Inr b \<Rightarrow> Inr (rdto_IDPInitSSOEnabled_update (\<lambda>_. b) a))"
  "applyField fields_SAMLSSOServiceProviderDTOResponse (XElem samlNS ''idPInitSLOEnabled'' as kids) a =
     (case boolField (charsOf kids) of Inl e \<Rightarrow> Inl e | Inr b \<Rightarrow> Inr (rdto_IDPInitSLOEnabled_update (\<lambda>_. b) a))"
  "applyField fields_SAMLSSOServiceProviderDTOResponse (XElem samlNS ''samlECP'' as kids) a =
     (case boolField (charsOf kids) of Inl e \<Rightarrow> Inl e | Inr b \<Rightarrow> Inr (rdto_SamlECP_update (\<lambda>_. b) a))"
  by (simp_all add: fields_SAMLSSOServiceProviderDTOResponse_def f_defs)

lemma field_GetSAMLSPResponse [field_simps]:
  "applyField fields_GetSAMLSPResponse (XElem axisNS ''return'' as kids) a =
     (case dec_SAMLSSOServiceProviderDTOResponse (XElem axisNS ''return'' as kids)
         (case gsres_Return a of None \<Rightarrow> zero_SAMLSSOServiceProviderDTOResponse | Some v \<Rightarrow> v) of
        Inl e \<Rightarrow> Inl e | Inr v \<Rightarrow> Inr (gsres_Return_update (\<lambda>_. Some v) a))"
  by (simp_all add: fields_GetSAMLSPResponse_def f_defs)

lemma field_GetSAMLSPResponseBody [field_simps]:
  "applyField fields_GetSAMLSPResponseBody (XElem axisNS ''getServiceProviderResponse'' as kids) a =
     (case dec_GetSAMLSPResponse (XElem axisNS ''getServiceProviderResponse'' as kids) (gsrb_Response a) of Inl e \<Rightarrow> Inl e
       | Inr v \<Rightarrow> Inr (gsrb_Response_update (\<lambda>_. v) a))"
  by (simp_all add: fields_GetSAMLSPResponseBody_def f_defs)

end
