(* ===== verification/Wire.thy ===== *)
theory Wire
  imports Helpers SoapFields
begin

text \<open>
  What survives the wire. \<open>answer\<close> is a server that stores the elements of a request and answers with
  them, in the name space its answers are in; the round trips encode a configuration with the
  struct tags of the request, answer it, decode it with the struct tags of the response and map it
  back. They are what the comparison of a remote with a desired configuration starts from.
\<close>

section \<open>Answering with what was sent\<close>

definition localName :: "string \<Rightarrow> string" where
  "localName n = (case dropWhile (\<lambda>c. c \<noteq> CHR '':'') n of [] \<Rightarrow> n | c # r \<Rightarrow> r)"

fun answer :: "string \<Rightarrow> xout \<Rightarrow> xtree" where
  "answer ns (XLeaf n as t) = XElem ns (localName n) [] [XChars t]"
| "answer ns (XNode n as kids) = XElem ns (localName n) []
     (map (answer (if localName n = ''authenticationScriptConfig'' then scriptNS else ns)) kids)"

lemma decodeKids_append:
  "decodeKids fs (xs @ ys) a = (case decodeKids fs xs a of Inl e \<Rightarrow> Inl e | Inr b \<Rightarrow> decodeKids fs ys b)"
  by (induction xs arbitrary: a) (auto split: sum.split)

text \<open>A run of elements of the same slice field extends the slice.\<close>

lemma decodeKids_slice:
  assumes "\<And>x a. x \<in> set xs \<Longrightarrow> applyField fs (g x) a = Inr (upd (\<lambda>s. Some (elems s @ [h x])) a)"
    and "\<And>f k a. upd f (upd k a) = upd (\<lambda>s. f (k s)) a"
  shows "decodeKids fs (map g xs) a = Inr (if xs = [] then a else upd (\<lambda>s. Some (elems s @ map h xs)) a)"
  using assms(1)
proof (induction xs arbitrary: a)
  case Nil
  then show ?case by simp
next
  case (Cons x xs)
  have "decodeKids fs (map g (x # xs)) a = decodeKids fs (map g xs) (upd (\<lambda>s. Some (elems s @ [h x])) a)"
    using Cons.prems [of x] by simp
  also have "\<dots> = Inr (if xs = [] then upd (\<lambda>s. Some (elems s @ [h x])) a
      else upd (\<lambda>s. Some (elems s @ map h xs)) (upd (\<lambda>s. Some (elems s @ [h x])) a))"
    using Cons.IH Cons.prems by simp
  also have "\<dots> = Inr (upd (\<lambda>s. Some (elems s @ map h (x # xs))) a)"
    by (simp add: assms(2))
  finally show ?case by simp
qed

lemma textOf_answer: "textOf (XElem ns n as [XChars t]) = t"
  by simp

text \<open>Texts of numbers and truth values carry no blanks, so trimming keeps them.\<close>

lemma runes_ascii: "list_all (\<lambda>c. byte c < 128) s \<Longrightarrow> runes s = map (\<lambda>c. (byte c, [c])) s"
proof (induction s)
  case (Cons c s)
  obtain r n where d: "decodeRune (c # s) = (r, n)" by force
  with decode_one [OF d] Cons.prems have "r = byte c" "n = 1" by simp_all
  with d Cons show ?case by simp
qed simp

lemma trimSpace_plain:
  assumes "list_all (\<lambda>c. 33 \<le> byte c \<and> byte c < 128) s"
  shows "trimSpace s = s"
proof -
  have r: "runes s = map (\<lambda>c. (byte c, [c])) s"
    using assms by (intro runes_ascii) (auto simp: list_all_iff)
  have no: "\<not> isSpace p" if "p \<in> set (runes s)" for p
    using that assms unfolding r by (auto simp: list_all_iff isSpace_def isSpaceRune_def)
  have keep: "dropWhile isSpace ps = ps" if "set ps \<subseteq> set (runes s)" for ps
    using that no by (cases ps) auto
  show ?thesis unfolding trimSpace_def by (simp add: keep concat_runes)
qed

lemma show_goint_plain: "list_all (\<lambda>c. 33 \<le> byte c \<and> byte c < 128) (show_goint w)"
proof -
  have digits: "33 \<le> byte c \<and> byte c < 128" if "c \<in> set (show_nat n)" for c n
    using show_nat_digits [OF that] by auto
  have "byte CHR ''-'' = 45" by (simp add: byte_def)
  with digits show ?thesis by (auto simp: show_goint_def show_int_def list_all_iff)
qed

lemma show_goint_not_Nil: "show_goint w \<noteq> []"
  by (simp add: show_goint_def show_int_def show_nat_not_Nil)

lemma intField_show [simp]: "intField (show_goint w) = Inr w"
  by (simp add: intField_def trimSpace_plain [OF show_goint_plain] parseInt_show_goint show_goint_not_Nil)

lemma boolText_plain: "list_all (\<lambda>c. 33 \<le> byte c \<and> byte c < 128) (boolText b)"
  by (cases b) (simp_all add: boolText_def byte_def)

lemma boolField_boolText [simp]: "boolField (boolText b) = Inr b"
proof -
  have "boolText b \<noteq> []" by (simp add: boolText_def)
  then show ?thesis
    by (simp add: boolField_def trimSpace_plain [OF boolText_plain] parseBool_boolText)
qed

lemma boolField_true [simp]: "boolField ''true'' = Inr True"
  using boolField_boolText [of True] by (simp only: boolText_def if_True)

lemma decode_strs:
  assumes "\<And>t a. applyField fs (answer ns (XLeaf n as t)) a = Inr (upd (\<lambda>s. Some (elems s @ [t])) a)"
    and "\<And>f k a. upd f (upd k a) = upd (\<lambda>s. f (k s)) a"
  shows "decodeKids fs (map (answer ns) (map (XLeaf n as) ts)) a =
    Inr (if ts = [] then a else upd (\<lambda>s. Some (elems s @ ts)) a)"
  unfolding map_map comp_def
  using decodeKids_slice [where g = "\<lambda>t. answer ns (XLeaf n as t)" and h = "\<lambda>t. t" and xs = ts, OF assms] by simp

lemmas x_defs = xStr_def xStrO_def xInt_def xIntO_def xBool_def xBoolO_def xStrs_def xStrsNS_def
  xStruct_def xPtr_def xSlice_def xPtrSlice_def
text \<open>The elements of a slice of structs, each decoded from the zero value.\<close>

lemma decode_structs:
  assumes "\<And>v a. applyField fs (answer ns (XNode n [] (f v))) a = Inr (upd (\<lambda>s. Some (elems s @ [ans v])) a)"
    and "\<And>h k a. upd h (upd k a) = upd (\<lambda>s. h (k s)) a"
  shows "decodeKids fs (map (answer ns) (xSlice n f s)) a =
    Inr (if elems s = [] then a else upd (\<lambda>s'. Some (elems s' @ map ans (elems s))) a)"
  unfolding xSlice_def map_map comp_def by (rule decodeKids_slice) (rule assms)+

section \<open>OAuth2\<close>

text \<open>The answer to an application DTO that was sent.\<close>

definition oauthAnswer :: "OAuthApplication \<Rightarrow> OAuthApplicationResponse" where
  "oauthAnswer x =
   \<lparr>roa_OAuthVersion = oa_OAuthVersion x, roa_ApplicationAccessTokenExpiryTime = oa_ApplicationAccessTokenExpiryTime x,
    roa_ApplicationName = oa_ApplicationName x, roa_Audiences = appended (elems (oa_Audiences x)),
    roa_BypassClientCredentials = oa_BypassClientCredentials x, roa_CallbackURL = oa_CallbackURL x,
    roa_GrantTypes = oa_GrantTypes x, roa_IDTokenExpiryTime = oa_IDTokenExpiryTime x,
    roa_OAuthConsumerKey = oa_OAuthConsumerKey x, roa_OAuthConsumerSecret = oa_OAuthConsumerSecret x,
    roa_PKCEMandatory = oa_PKCEMandatory x, roa_PKCESupportPlain = oa_PKCESupportPlain x,
    roa_RefreshTokenExpiryTime = oa_RefreshTokenExpiryTime x,
    roa_ScopeValidators = appended (elems (oa_ScopeValidators x)),
    roa_TokenBindingType = oa_TokenBindingType x, roa_TokenType = [],
    roa_UserAccessTokenExpiryTime = oa_UserAccessTokenExpiryTime x, roa_Username = []\<rparr>"

lemma decode_audiences:
  "decodeKids fields_OAuthApplicationResponse (map (answer oAuthNS)
     (map (XLeaf ''audiences'' as) ts)) a = Inr (if ts = [] then a else roa_Audiences_update (\<lambda>s. Some (elems s @ ts)) a)"
  "decodeKids fields_OAuthApplicationResponse (map (answer oAuthNS)
     (map (XLeaf ''xsd1:scopeValidators'' as) ts)) a = Inr (if ts = [] then a else roa_ScopeValidators_update (\<lambda>s. Some (elems s @ ts)) a)"
  by (rule decode_strs; simp add: field_simps localName_def comp_def)+

lemma oauth_wire:
  "dec_OAuthApplicationResponse (XElem axisNS ''return'' [] (map (answer oAuthNS) (xml_OAuthApplication x)))
     zero_OAuthApplicationResponse = Inr (oauthAnswer x)"
  unfolding dec_OAuthApplicationResponse_def xml_OAuthApplication_def decodeElem_def kidsOf.simps map_append decodeKids_append
    xStrs_def xStrsNS_def decode_audiences
  by (cases x) (simp add: x_defs field_simps localName_def zero_OAuthApplicationResponse_def oauthAnswer_def appended_def)


section \<open>Applications\<close>

definition claimAnswer :: "ClaimRequest \<Rightarrow> ClaimResponse" where
  "claimAnswer x = \<lparr>rcl_ClaimURI = clr_ClaimURI x\<rparr>"

definition mappingAnswer :: "ClaimMappingRequest \<Rightarrow> ClaimMappingResponse" where
  "mappingAnswer x = \<lparr>rcm_LocalClaim = claimAnswer (cmr_LocalClaim x),
     rcm_RemoteClaim = claimAnswer (cmr_RemoteClaim x), rcm_Mandatory = cmr_Mandatory x,
     rcm_Requested = cmr_Requested x\<rparr>"

definition claimConfigAnswer :: "ClaimConfigRequest \<Rightarrow> ClaimConfigResponse" where
  "claimConfigAnswer x = \<lparr>rcc_AlwaysSendMappedLocalSubjectID = ccr_AlwaysSendMappedLocalSubjectID x,
     rcc_LocalClaimDialect = boolText (ccr_LocalClaimDialect x),
     rcc_ClaimMappings = appended (map mappingAnswer (elems (ccr_ClaimMappings x))),
     rcc_UserClaimURI = ccr_UserClaimURI x\<rparr>"

definition propertyAnswer :: "PropertyRequest \<Rightarrow> PropertyResponse" where
  "propertyAnswer x = \<lparr>rpr_Name = pr_Name x, rpr_Value = pr_Value x\<rparr>"

definition inboundAnswer ::
    "InboundAuthenticationRequestConfigRequest \<Rightarrow> InboundAuthenticationRequestConfigResponse" where
  "inboundAnswer x = \<lparr>riarc_InboundAuthKey = iarc_InboundAuthKey x,
     riarc_InboundAuthType = iarc_InboundAuthType x,
     riarc_Properties = appended (map propertyAnswer (elems (iarc_Properties x)))\<rparr>"

definition inboundConfigAnswer ::
    "InboundAuthenticationConfigRequest \<Rightarrow> InboundAuthenticationConfigResponse" where
  "inboundConfigAnswer x = \<lparr>riac_InboundAuthenticationRequestConfigs =
     appended (map inboundAnswer (elems (iac_InboundAuthenticationRequestConfigs x)))\<rparr>"

definition fedAuthAnswer ::
    "FederatedAuthenticatiorConfigRequest \<Rightarrow> FederatedAuthenticatiorConfigResponse" where
  "fedAuthAnswer x = \<lparr>rfac_DisplayName = facr_DisplayName x, rfac_Name = facr_Name x,
     rfac_Valid = facr_Valid x\<rparr>"

definition fedIDPAnswer :: "FederatedIdentityProvidersRequest \<Rightarrow> FederatedIdentityProvidersResponse" where
  "fedIDPAnswer x = \<lparr>rfip_FederatedAuthenticatiorConfig =
       appended (map fedAuthAnswer (elems (fipr_FederatedAuthenticatiorConfig x))),
     rfip_IdentityProviderName = fipr_IdentityProviderName x\<rparr>"

definition localAuthAnswer :: "LocalAuthenticatorConfigRequest \<Rightarrow> LocalAuthenticatorConfigResponse" where
  "localAuthAnswer x = \<lparr>rlac_DisplayName = lacr_DisplayName x, rlac_Name = lacr_Name x,
     rlac_Valid = lacr_Valid x\<rparr>"

definition stepAnswer :: "AuthenticationStepRequest \<Rightarrow> AuthenticationStepResponse" where
  "stepAnswer x = \<lparr>ras_FederatedIdentityProviders =
       (case asr_FederatedIdentityProviders x of None \<Rightarrow> None | Some s \<Rightarrow> appended (map fedIDPAnswer (elems s))),
     ras_LocalAuthenticatorConfigs = appended (map localAuthAnswer (elems (asr_LocalAuthenticatorConfigs x))),
     ras_StepOrder = asr_StepOrder x, ras_SubjectStep = asr_SubjectStep x,
     ras_AttributeStep = asr_AttributeStep x\<rparr>"

definition scriptAnswer :: "AuthenticationScriptConfigRequest \<Rightarrow> AuthenticationScriptConfigResponse" where
  "scriptAnswer x = \<lparr>rasc_Content = ascr_Content x, rasc_Enabled = ascr_Enabled x,
     rasc_Language = ascr_Language x\<rparr>"

definition localAndOutboundAnswer ::
    "LocalAndOutboundAuthenticationConfigRequest \<Rightarrow> LocalAndOutboundAuthenticationConfigResponse" where
  "localAndOutboundAnswer x =
     \<lparr>rloac_AlwaysSendBackAuthenticatedListOfIDPs = loac_AlwaysSendBackAuthenticatedListOfIDPs x,
      rloac_AuthenticationSteps = appended (map stepAnswer (elems (loac_AuthenticationSteps x))),
      rloac_AuthenticationScriptConfig = scriptAnswer (loac_AuthenticationScriptConfig x),
      rloac_AuthenticationType = loac_AuthenticationType x,
      rloac_SubjectClaimURI = loac_SubjectClaimURI x,
      rloac_AuthenticationScript = loac_AuthenticationScript x,
      rloac_EnableAuthorization = loac_EnableAuthorization x,
      rloac_SkipConsent = loac_SkipConsent x,
      rloac_SkipLogoutConsent = loac_SkipLogoutConsent x,
      rloac_UseTenantDomainInLocalSubjectIdentifier = loac_UseTenantDomainInLocalSubjectIdentifier x,
      rloac_UseUserstoreDomainInLocalSubjectIdentifier = loac_UseUserstoreDomainInLocalSubjectIdentifier x,
      rloac_UseUserstoreDomainInRoles = loac_UseUserstoreDomainInRoles x\<rparr>"

definition serviceProviderAnswer :: "ServiceProviderRequest \<Rightarrow> ServiceProviderResponse" where
  "serviceProviderAnswer x =
     \<lparr>rsp_ApplicationID = spr_ApplicationID x, rsp_ApplicationResourceID = [],
      rsp_ApplicationName = spr_ApplicationName x, rsp_Description = spr_Description x,
      rsp_ClaimConfig = map_option claimConfigAnswer (spr_ClaimConfig x),
      rsp_InboundAuthenticationConfig = map_option inboundConfigAnswer (spr_InboundAuthenticationConfig x),
      rsp_LocalAndOutboundAuthenticationConfig =
        map_option localAndOutboundAnswer (spr_LocalAndOutboundAuthenticationConfig x)\<rparr>"

lemmas wire_simps = x_defs field_simps localName_def decodeElem_def decodeKids_append comp_def

lemma wire_Claim:
  "dec_ClaimResponse (XElem ns n [] (map (answer commonNS) (xml_ClaimRequest x))) zero_ClaimResponse = Inr (claimAnswer x)"
  by (simp add: dec_ClaimResponse_def xml_ClaimRequest_def wire_simps zero_ClaimResponse_def claimAnswer_def)

lemma wire_Mapping:
  "dec_ClaimMappingResponse (XElem ns n [] (map (answer commonNS) (xml_ClaimMappingRequest x)))
     zero_ClaimMappingResponse = Inr (mappingAnswer x)"
  by (simp add: dec_ClaimMappingResponse_def xml_ClaimMappingRequest_def wire_simps wire_Claim
      zero_ClaimMappingResponse_def mappingAnswer_def)

lemma wire_ClaimConfig:
  "dec_ClaimConfigResponse (XElem ns n [] (map (answer commonNS) (xml_ClaimConfigRequest x)))
     zero_ClaimConfigResponse = Inr (claimConfigAnswer x)"
proof -
  have slice: "decodeKids fields_ClaimConfigResponse (map (answer commonNS)
      (xSlice ''xsd1:claimMappings'' xml_ClaimMappingRequest s)) a =
    Inr (if elems s = [] then a else rcc_ClaimMappings_update (\<lambda>t. Some (elems t @ map mappingAnswer (elems s))) a)"
    for s a by (rule decode_structs; simp add: field_simps localName_def wire_Mapping comp_def)
  show ?thesis
    unfolding dec_ClaimConfigResponse_def xml_ClaimConfigRequest_def decodeElem_def kidsOf.simps map_append
      decodeKids_append slice
    by (cases x) (simp add: wire_simps zero_ClaimConfigResponse_def claimConfigAnswer_def appended_def)
qed

lemma wire_Property:
  "dec_PropertyResponse (XElem ns n [] (map (answer commonNS) (xml_PropertyRequest x)))
     zero_PropertyResponse = Inr (propertyAnswer x)"
  by (simp add: dec_PropertyResponse_def xml_PropertyRequest_def wire_simps zero_PropertyResponse_def
      propertyAnswer_def)

lemma wire_Inbound:
  "dec_InboundAuthenticationRequestConfigResponse
     (XElem ns n [] (map (answer commonNS) (xml_InboundAuthenticationRequestConfigRequest x)))
     zero_InboundAuthenticationRequestConfigResponse = Inr (inboundAnswer x)"
proof -
  have slice: "decodeKids fields_InboundAuthenticationRequestConfigResponse (map (answer commonNS)
      (xSlice ''xsd1:properties'' xml_PropertyRequest s)) a =
    Inr (if elems s = [] then a else riarc_Properties_update (\<lambda>t. Some (elems t @ map propertyAnswer (elems s))) a)"
    for s a by (rule decode_structs; simp add: field_simps localName_def wire_Property comp_def)
  show ?thesis
    unfolding dec_InboundAuthenticationRequestConfigResponse_def
      xml_InboundAuthenticationRequestConfigRequest_def decodeElem_def kidsOf.simps map_append
      decodeKids_append slice
    by (cases x) (simp add: wire_simps zero_InboundAuthenticationRequestConfigResponse_def
        inboundAnswer_def appended_def)
qed

lemma wire_InboundConfig:
  "dec_InboundAuthenticationConfigResponse
     (XElem ns n [] (map (answer commonNS) (xml_InboundAuthenticationConfigRequest x)))
     zero_InboundAuthenticationConfigResponse = Inr (inboundConfigAnswer x)"
proof -
  have slice: "decodeKids fields_InboundAuthenticationConfigResponse (map (answer commonNS)
      (xSlice ''xsd1:inboundAuthenticationRequestConfigs'' xml_InboundAuthenticationRequestConfigRequest s)) a =
    Inr (if elems s = [] then a else riac_InboundAuthenticationRequestConfigs_update
           (\<lambda>t. Some (elems t @ map inboundAnswer (elems s))) a)"
    for s a by (rule decode_structs; simp add: field_simps localName_def wire_Inbound comp_def)
  show ?thesis
    unfolding dec_InboundAuthenticationConfigResponse_def xml_InboundAuthenticationConfigRequest_def
      decodeElem_def kidsOf.simps map_append decodeKids_append slice
    by (cases x) (simp add: zero_InboundAuthenticationConfigResponse_def inboundConfigAnswer_def appended_def)
qed

lemma wire_FedAuth:
  "dec_FederatedAuthenticatiorConfigResponse
     (XElem ns n [] (map (answer commonNS) (xml_FederatedAuthenticatiorConfigRequest x)))
     zero_FederatedAuthenticatiorConfigResponse = Inr (fedAuthAnswer x)"
  by (cases x) (simp add: dec_FederatedAuthenticatiorConfigResponse_def
      xml_FederatedAuthenticatiorConfigRequest_def wire_simps
      zero_FederatedAuthenticatiorConfigResponse_def fedAuthAnswer_def)

lemma wire_FedIDP:
  "dec_FederatedIdentityProvidersResponse
     (XElem ns n [] (map (answer commonNS) (xml_FederatedIdentityProvidersRequest x)))
     zero_FederatedIdentityProvidersResponse = Inr (fedIDPAnswer x)"
proof -
  have slice: "decodeKids fields_FederatedIdentityProvidersResponse (map (answer commonNS)
      (xSlice ''xsd1:federatedAuthenticatorConfigs'' xml_FederatedAuthenticatiorConfigRequest s)) a =
    Inr (if elems s = [] then a else rfip_FederatedAuthenticatiorConfig_update
           (\<lambda>t. Some (elems t @ map fedAuthAnswer (elems s))) a)"
    for s a by (rule decode_structs; simp add: field_simps localName_def wire_FedAuth comp_def)
  show ?thesis
    unfolding dec_FederatedIdentityProvidersResponse_def xml_FederatedIdentityProvidersRequest_def
      decodeElem_def kidsOf.simps map_append decodeKids_append slice
    by (cases x) (simp add: wire_simps zero_FederatedIdentityProvidersResponse_def fedIDPAnswer_def appended_def)
qed

lemma wire_LocalAuth:
  "dec_LocalAuthenticatorConfigResponse
     (XElem ns n [] (map (answer commonNS) (xml_LocalAuthenticatorConfigRequest x)))
     zero_LocalAuthenticatorConfigResponse = Inr (localAuthAnswer x)"
  by (simp add: dec_LocalAuthenticatorConfigResponse_def xml_LocalAuthenticatorConfigRequest_def
      wire_simps zero_LocalAuthenticatorConfigResponse_def localAuthAnswer_def)

lemma wire_Step:
  "dec_AuthenticationStepResponse (XElem ns n [] (map (answer commonNS) (xml_AuthenticationStepRequest x)))
     zero_AuthenticationStepResponse = Inr (stepAnswer x)"
proof -
  have idps: "decodeKids fields_AuthenticationStepResponse (map (answer commonNS)
      (xSlice ''xsd1:federatedIdentityProviders'' xml_FederatedIdentityProvidersRequest s)) a =
    Inr (if elems s = [] then a else ras_FederatedIdentityProviders_update
           (\<lambda>t. Some (elems t @ map fedIDPAnswer (elems s))) a)"
    for s a by (rule decode_structs; simp add: field_simps localName_def wire_FedIDP comp_def)
  have locals: "decodeKids fields_AuthenticationStepResponse (map (answer commonNS)
      (xSlice ''xsd1:localAuthenticatorConfigs'' xml_LocalAuthenticatorConfigRequest s)) a =
    Inr (if elems s = [] then a else ras_LocalAuthenticatorConfigs_update
           (\<lambda>t. Some (elems t @ map localAuthAnswer (elems s))) a)"
    for s a by (rule decode_structs; simp add: field_simps localName_def wire_LocalAuth comp_def)
  have ptr: "decodeKids fields_AuthenticationStepResponse (map (answer commonNS)
      (xPtrSlice ''xsd1:federatedIdentityProviders'' xml_FederatedIdentityProvidersRequest p)) a =
    Inr (case p of None \<Rightarrow> a | Some s \<Rightarrow> if elems s = [] then a else ras_FederatedIdentityProviders_update
           (\<lambda>t. Some (elems t @ map fedIDPAnswer (elems s))) a)" for p a
    unfolding xPtrSlice_def by (cases p) (simp_all add: idps)
  show ?thesis
    unfolding dec_AuthenticationStepResponse_def xml_AuthenticationStepRequest_def decodeElem_def
      kidsOf.simps map_append decodeKids_append locals ptr
    by (cases x) (simp add: wire_simps zero_AuthenticationStepResponse_def stepAnswer_def appended_def
        split: option.split)
qed

lemma wire_Script:
  "dec_AuthenticationScriptConfigResponse
     (XElem ns n [] (map (answer scriptNS) (xml_AuthenticationScriptConfigRequest x)))
     zero_AuthenticationScriptConfigResponse = Inr (scriptAnswer x)"
  by (simp add: dec_AuthenticationScriptConfigResponse_def xml_AuthenticationScriptConfigRequest_def
      wire_simps zero_AuthenticationScriptConfigResponse_def scriptAnswer_def)

lemma wire_LocalAndOutbound:
  "dec_LocalAndOutboundAuthenticationConfigResponse
     (XElem ns n [] (map (answer commonNS) (xml_LocalAndOutboundAuthenticationConfigRequest x)))
     zero_LocalAndOutboundAuthenticationConfigResponse = Inr (localAndOutboundAnswer x)"
proof -
  have steps: "decodeKids fields_LocalAndOutboundAuthenticationConfigResponse (map (answer commonNS)
      (xSlice ''xsd1:authenticationSteps'' xml_AuthenticationStepRequest s)) a =
    Inr (if elems s = [] then a else rloac_AuthenticationSteps_update
           (\<lambda>t. Some (elems t @ map stepAnswer (elems s))) a)"
    for s a by (rule decode_structs; simp add: field_simps localName_def wire_Step comp_def)
  have zero: "rloac_AuthenticationScriptConfig zero_LocalAndOutboundAuthenticationConfigResponse
      = zero_AuthenticationScriptConfigResponse"
    by (simp add: zero_LocalAndOutboundAuthenticationConfigResponse_def)
  show ?thesis
    unfolding dec_LocalAndOutboundAuthenticationConfigResponse_def
      xml_LocalAndOutboundAuthenticationConfigRequest_def decodeElem_def kidsOf.simps map_append
      decodeKids_append steps
    by (cases x) (simp add: wire_simps wire_Script zero zero_LocalAndOutboundAuthenticationConfigResponse_def
        localAndOutboundAnswer_def appended_def)
qed

lemma wire_ServiceProvider:
  "spr_ApplicationResourceID x = [] \<Longrightarrow>
   dec_ServiceProviderResponse (XElem ns n [] (map (answer commonNS) (xml_ServiceProviderRequest x)))
     zero_ServiceProviderResponse = Inr (serviceProviderAnswer x)"
  by (cases x) (simp add: dec_ServiceProviderResponse_def xml_ServiceProviderRequest_def wire_simps
      wire_ClaimConfig wire_InboundConfig wire_LocalAndOutbound
      zero_ServiceProviderResponse_def serviceProviderAnswer_def split: option.split)

end
