(* ===== verification/HelpersFacts.thy ===== *)
theory HelpersFacts
  imports Helpers "HOL-Library.Multiset"
begin

text \<open>
  What the change detection detects. A detector compares the hashes of two JSON views; the
  \<open>detector\<close> interface says what follows from that alone, and is interpreted for the three detectors
  of the controller. Sorting of the claims is the interface \<open>slice_sorter\<close>: what \<^verbatim>\<open>sort.Slice\<close>
  promises, and when that promise determines the result.
\<close>

section \<open>Hashes\<close>

text \<open>Two different texts with the same SHA-256 digest.\<close>

definition sha256_collision :: "string \<Rightarrow> string \<Rightarrow> bool" where
  "sha256_collision x y \<longleftrightarrow> x \<noteq> y \<and> sha256 x = sha256 y"

lemma hash_eq_iff: "hash j = hash k \<longleftrightarrow> sha256 (jsonText j) = sha256 (jsonText k)"
  by (simp add: hash_def hexEncode_inject sha256_bytes)

lemma hash_eqD:
  assumes "hash j = hash k" "json_ok j" "json_ok k"
  shows "j = k \<or> sha256_collision (jsonText j) (jsonText k)"
  using assms jsonText_inject [of j k] by (auto simp: hash_eq_iff sha256_collision_def)

section \<open>Detectors\<close>

locale detector =
  fixes changed :: "'a \<Rightarrow> 'a \<Rightarrow> bool" and view :: "'a \<Rightarrow> json"
  assumes changed_iff: "changed x y \<longleftrightarrow> hash (view x) \<noteq> hash (view y)"
begin

lemma same_view: "view x = view y \<Longrightarrow> \<not> changed x y"
  by (simp add: changed_iff)

lemma unchanged_refl: "\<not> changed x x"
  by (simp add: same_view)

lemma unchanged_sym: "\<not> changed x y \<Longrightarrow> \<not> changed y x"
  by (simp add: changed_iff)

lemma unchanged_trans: "\<not> changed x y \<Longrightarrow> \<not> changed y z \<Longrightarrow> \<not> changed x z"
  by (simp add: changed_iff)

lemma unchanged_view:
  "\<not> changed x y \<Longrightarrow> json_ok (view x) \<Longrightarrow> json_ok (view y) \<Longrightarrow>
   view x = view y \<or> sha256_collision (jsonText (view x)) (jsonText (view y))"
  by (rule hash_eqD) (simp_all add: changed_iff)

lemma detects:
  "view x \<noteq> view y \<Longrightarrow> json_ok (view x) \<Longrightarrow> json_ok (view y) \<Longrightarrow>
   \<not> sha256_collision (jsonText (view x)) (jsonText (view y)) \<Longrightarrow> changed x y"
  using unchanged_view by blast

end

interpretation oauth2_detector: detector oauth2HasChanged json_OAuth2Config
  by unfold_locales (simp add: oauth2HasChanged_def)

interpretation saml_detector: detector samlSPHasChanged samlView
  by unfold_locales (simp add: samlSPHasChanged_def)

definition appView :: "Application \<Rightarrow> json" where
  "appView a = json_Application (snd (normalizeApplication a))"

interpretation app_detector: detector "\<lambda>e d. fst (appHasChanged e d)" appView
  by unfold_locales (simp add: appHasChanged_def appView_def split: prod.split)

section \<open>Sorting\<close>

text \<open>What \<^verbatim>\<open>sort.Slice\<close> documents: a permutation, in the order of the keys; not a stable one.\<close>

locale slice_sorter =
  fixes srt :: "Claim list \<Rightarrow> Claim list"
  assumes permutes: "mset (srt cs) = mset cs"
    and ordered: "sorted (map claim_URI (srt cs))"
begin

lemma same_length: "length (srt cs) = length cs"
  using permutes mset_eq_length by blast

lemma nil_iff: "srt cs = [] \<longleftrightarrow> cs = []"
  by (metis same_length length_0_conv)

text \<open>With distinct URIs the promise determines the result, so the order of the input is forgotten.\<close>

lemma determined:
  assumes "distinct (map claim_URI cs)" "mset ds = mset cs" "sorted (map claim_URI ds)"
  shows "ds = srt cs"
proof (rule map_sorted_distinct_set_unique [where f = claim_URI])
  have set: "set ds = set cs" "set (srt cs) = set cs"
    using assms(2) permutes mset_eq_setD by blast+
  then show "inj_on claim_URI (set ds \<union> set (srt cs))" "set ds = set (srt cs)"
    using assms(1) by (simp_all add: distinct_map)
  have "distinct (map claim_URI xs)" if "mset xs = mset cs" for xs
    using assms(1) that by (metis distinct_map mset_eq_imp_distinct_iff mset_eq_setD)
  then show "distinct (map claim_URI ds)" "distinct (map claim_URI (srt cs))"
    using assms(2) permutes by blast+
qed (fact assms(3) ordered)+

lemma order_forgotten:
  "distinct (map claim_URI cs) \<Longrightarrow> mset ds = mset cs \<Longrightarrow> srt ds = srt cs"
  by (rule determined) (simp_all add: permutes ordered)

end

interpretation claims: slice_sorter sortClaims
  by unfold_locales (simp_all add: sortClaims_def)

text \<open>
  So any sorter that keeps the promise computes the same normal form, as long as no URI occurs twice.
\<close>

lemma sorters_agree:
  "slice_sorter srt \<Longrightarrow> distinct (map claim_URI cs) \<Longrightarrow> srt cs = sortClaims cs"
  using slice_sorter.permutes slice_sorter.ordered claims.determined by blast

section \<open>Applications\<close>

lemma normalizeApplication_alt:
  "normalizeApplication a = (a\<lparr>app_Claims := map_option sortClaims (app_Claims a)\<rparr>,
     a\<lparr>app_ID := 0, app_ResourceID := [], app_Claims := Some (sortClaims (elems (app_Claims a)))\<rparr>)"
  by (cases "app_Claims a") (simp_all add: normalizeApplication_def sortClaims_def)

text \<open>
  Agreement on everything the change detection is meant to compare: all fields but the identifiers
  the server assigned, claims in any order, a nil slice as good as an empty one.
\<close>

definition agree :: "Application \<Rightarrow> Application \<Rightarrow> bool" where
  "agree e d \<longleftrightarrow>
     norm_Application (e\<lparr>app_ID := 0, app_ResourceID := [], app_Claims := None\<rparr>) =
     norm_Application (d\<lparr>app_ID := 0, app_ResourceID := [], app_Claims := None\<rparr>)
   \<and> mset (elems (app_Claims e)) = mset (elems (app_Claims d))"

lemma appView_eq_iff:
  "appView e = appView d \<longleftrightarrow>
     norm_Application (e\<lparr>app_ID := 0, app_ResourceID := [], app_Claims := None\<rparr>) =
     norm_Application (d\<lparr>app_ID := 0, app_ResourceID := [], app_Claims := None\<rparr>)
   \<and> sortClaims (elems (app_Claims e)) = sortClaims (elems (app_Claims d))"
  unfolding appView_def normalizeApplication_alt json_Application_eq snd_conv
  by (cases e; cases d) (auto simp: norm_Application_def)

lemma appView_agree: "appView e = appView d \<Longrightarrow> agree e d"
  unfolding appView_eq_iff agree_def by (metis claims.permutes)

lemma agree_appView:
  "agree e d \<Longrightarrow> distinct (map claim_URI (elems (app_Claims d))) \<Longrightarrow> appView e = appView d"
  unfolding appView_eq_iff agree_def using claims.order_forgotten by blast

text \<open>
  C19. A difference is detected: if the remote application and the desired one disagree on a field
  the operator manages, the update is sent, unless the two JSON texts are a collision of SHA-256.
\<close>

theorem app_change_is_detected:
  assumes "json_ok (appView e)" "json_ok (appView d)" "\<not> agree e d"
  shows "fst (appHasChanged e d) \<or> sha256_collision (jsonText (appView e)) (jsonText (appView d))"
  using app_detector.unchanged_view [OF _ assms(1,2)] appView_agree assms(3) by blast

text \<open>
  C20. No false alarm: applications that agree up to the order of their claims are not updated, when
  no claim URI occurs twice; with equal URIs the order of equal claims decides.
\<close>

theorem app_agreement_is_quiet:
  assumes "agree e d" "distinct (map claim_URI (elems (app_Claims d)))"
  shows "\<not> fst (appHasChanged e d)"
  using agree_appView [OF assms] by (rule app_detector.same_view)

text \<open>
  The comparison sorts the claims of both arguments in place, because the normalised copy shares
  its array of claims with the original: what is sent afterwards has its claims in that order.
\<close>

lemma app_comparison_sorts_arguments:
  "snd (appHasChanged e d) = (e\<lparr>app_Claims := map_option sortClaims (app_Claims e)\<rparr>,
     d\<lparr>app_Claims := map_option sortClaims (app_Claims d)\<rparr>)"
  by (simp add: appHasChanged_def normalizeApplication_alt)

text \<open>
  C23. For OAuth2 the comparison covers every field: two configurations with valid strings count as
  unchanged exactly when they are equal up to nil and empty lists of audiences and validators,
  collisions of SHA-256 apart.
\<close>

theorem oauth2_change_is_detected:
  assumes "json_ok (json_OAuth2Config e)" "json_ok (json_OAuth2Config d)"
  shows "(oauth2HasChanged e d \<longleftrightarrow> norm_OAuth2Config e \<noteq> norm_OAuth2Config d) \<or>
    sha256_collision (jsonText (json_OAuth2Config e)) (jsonText (json_OAuth2Config d))"
  using oauth2_detector.same_view oauth2_detector.unchanged_view [OF _ assms(1,2)]
    json_OAuth2Config_eq by blast

lemma samlView_eq:
  "samlView c = JObj [(''acsurls'', jsonSlice JStr (saml_ACSURLs c)),
     (''attr'', JBool (saml_EnableAttributeProfile c)),
     (''attr_def'', JBool (saml_EnableAttributesByDefault c)),
     (''issuer'', JStr (saml_Issuer c))]"
proof -
  have "sort_key fst [(''issuer'', a), (''acsurls'', b), (''attr'', c), (''attr_def'', d)]
      = [(''acsurls'', b), (''attr'', c), (''attr_def'', d), (''issuer'', a)]" for a b c d :: json
    by (simp add: less_eq_char_def less_char_def)
  then show ?thesis by (simp add: samlView_def jsonMap_def)
qed

text \<open>
  C26. For SAML the comparison covers the issuer, the ACS URLs (where a nil list differs from an
  empty one) and the two attribute flags, and nothing else: a change of the certificate, of the
  logout endpoints or of a signing option in the metadata is never noticed.
\<close>

theorem saml_change_detection:
  assumes "json_ok (samlView e)" "json_ok (samlView d)"
  shows "(samlSPHasChanged e d \<longleftrightarrow>
    saml_Issuer e \<noteq> saml_Issuer d \<or> saml_ACSURLs e \<noteq> saml_ACSURLs d
    \<or> saml_EnableAttributeProfile e \<noteq> saml_EnableAttributeProfile d
    \<or> saml_EnableAttributesByDefault e \<noteq> saml_EnableAttributesByDefault d) \<or>
    sha256_collision (jsonText (samlView e)) (jsonText (samlView d))"
proof -
  have "samlView e = samlView d \<longleftrightarrow> saml_Issuer e = saml_Issuer d \<and> saml_ACSURLs e = saml_ACSURLs d
      \<and> saml_EnableAttributeProfile e = saml_EnableAttributeProfile d
      \<and> saml_EnableAttributesByDefault e = saml_EnableAttributesByDefault d"
    by (auto simp: samlView_eq)
  then show ?thesis
    using saml_detector.same_view saml_detector.unchanged_view [OF _ assms(1,2)] by blast
qed

end
