(* ===== verification/Convergence.thy ===== *)
theory Convergence
  imports Wire HelpersFacts SpController
begin

text \<open>
  Does the operator come to rest? After an update the server answers with what it was sent
  (\<open>answer\<close>); the operator is at rest when the comparison with the desired state then finds no
  difference. The theorems say for which specs that happens, and what happens for the others.
\<close>

section \<open>OAuth2\<close>

text \<open>What is read back after a configuration was registered or updated under a name.\<close>

definition readBackOAuth2 :: "string \<Rightarrow> OAuth2Config \<Rightarrow> OAuth2Config result" where
  "readBackOAuth2 name cfg =
     map_sum id mapOAuthApplication (dec_OAuthApplicationResponse
       (XElem axisNS ''return'' [] (map (answer oAuthNS) (xml_OAuthApplication (oauthApplication name cfg))))
       zero_OAuthApplicationResponse)"

lemma binding_roundtrip: "mapTokenBinding (buildTokenBindingType s) = filterTokenBindings s"
  by (simp add: mapTokenBinding_def buildTokenBindingType_def filterTokenBindings_def
      sessionBinding_def cookieBinding_def)

lemma validator_roundtrip:
  "concat (map mapScopeValidator (concat (map buildScopeValidator cs)))
     = filter (\<lambda>c. c = ''xacml'' \<or> c = ''role'') cs"
proof -
  have one: "concat (map mapScopeValidator (buildScopeValidator c)) = (if c = ''xacml'' \<or> c = ''role'' then [c] else [])"
    for c by (simp add: mapScopeValidator_def buildScopeValidator_def xACMLValidator_def roleValidator_def)
  show ?thesis by (induction cs) (simp_all add: one)
qed

lemma validators_roundtrip: "mapScopeValidators (appended (elems (buildScopeValidators s))) = filterScopeValidators s"
  by (simp add: mapScopeValidators_def buildScopeValidators_def filterScopeValidators_def validator_roundtrip)

text \<open>The same for an OAuth2 configuration.\<close>

lemma oauth2_read_back:
  "readBackOAuth2 name cfg = Inr (cfg
     \<lparr>oauth_Enabled := False, oauth_PublicClient := False,
      oauth_GrantTypes := Some (split_byte (CHR '' '') (join '' '' (elems (oauth_GrantTypes cfg)))),
      oauth_TokenBinding := filterTokenBindings (oauth_TokenBinding cfg),
      oauth_Audiences := appended (elems (oauth_Audiences cfg)),
      oauth_ScopeValidators := filterScopeValidators (oauth_ScopeValidators cfg)\<rparr>)"
  by (cases cfg) (simp add: readBackOAuth2_def oauth_wire mapOAuthApplication_def oauthAnswer_def
      oauthApplication_def zeroOAuth2Config_def binding_roundtrip validators_roundtrip)

text \<open>
  C21. An OAuth2 configuration survives being sent and read back, field by field, except that the
  public-client flag is lost, the grant types are what joining and splitting at blanks makes of
  them, and token bindings and scope validators other than the known ones are dropped.
\<close>

theorem oauth2_roundtrip:
  "readBackOAuth2 name cfg = Inr (cfg
     \<lparr>oauth_Enabled := False, oauth_PublicClient := False,
      oauth_GrantTypes := Some (split_byte (CHR '' '') (join '' '' (elems (oauth_GrantTypes cfg)))),
      oauth_TokenBinding := filterTokenBindings (oauth_TokenBinding cfg),
      oauth_Audiences := appended (elems (oauth_Audiences cfg)),
      oauth_ScopeValidators := filterScopeValidators (oauth_ScopeValidators cfg)\<rparr>)"
  by (rule oauth2_read_back)

lemma split_byte_pieces: "w \<in> set (split_byte b s) \<Longrightarrow> b \<notin> set w"
proof (induction s arbitrary: w)
  case (Cons c s)
  then show ?case by (cases "split_byte b s") (auto split: if_splits)
qed simp

lemma split_join_iff:
  "split_byte b (join [b] ws) = ws \<longleftrightarrow> ws \<noteq> [] \<and> (\<forall>w \<in> set ws. b \<notin> set w)"
proof
  assume *: "split_byte b (join [b] ws) = ws"
  then show "ws \<noteq> [] \<and> (\<forall>w \<in> set ws. b \<notin> set w)"
    using split_byte_not_Nil [of b "join [b] ws"] split_byte_pieces [of _ b "join [b] ws"] by auto
qed (simp add: split_join)

lemma filters_idempotent:
  "filterTokenBindings (filterTokenBindings s) = filterTokenBindings s"
  "filterScopeValidators (filterScopeValidators v) = filterScopeValidators v"
  "appended (elems (filterScopeValidators v)) = filterScopeValidators v"
  by (simp_all add: filterTokenBindings_def filterScopeValidators_def)

lemma oauth2_settles:
  assumes "oauth2FromSpec sp = Returned d"
    and "readBackOAuth2 name (d\<lparr>oauth_OAuthConsumerKey := k, oauth_OAuthConsumerSecret := x\<rparr>) = Inr e"
  shows "norm_OAuth2Config e = norm_OAuth2Config (d\<lparr>oauth_OAuthConsumerKey := k, oauth_OAuthConsumerSecret := x\<rparr>)
    \<longleftrightarrow> \<not> oauth_PublicClient d \<and>
      (\<exists>gs. oauth_GrantTypes d = Some gs \<and> gs \<noteq> [] \<and> (\<forall>g \<in> set gs. CHR '' '' \<notin> set g))"
proof -
  obtain o2 where o2: "spec_OAuth2 (sp_Spec sp) = Some o2"
    using assms(1) by (cases "spec_OAuth2 (sp_Spec sp)") (simp_all add: oauth2FromSpec_def deref_def)
  have d: "oauth_Enabled d = False" "filterTokenBindings (oauth_TokenBinding d) = oauth_TokenBinding d"
    "filterScopeValidators (oauth_ScopeValidators d) = oauth_ScopeValidators d"
    "appended (elems (oauth_ScopeValidators d)) = oauth_ScopeValidators d"
    using assms(1) by (auto simp: oauth2FromSpec_def deref_def o2 zeroOAuth2Config_def filters_idempotent)
  have e: "e = d\<lparr>oauth_OAuthConsumerKey := k, oauth_OAuthConsumerSecret := x, oauth_PublicClient := False,
      oauth_GrantTypes := Some (split_byte (CHR '' '') (join '' '' (elems (oauth_GrantTypes d)))),
      oauth_Audiences := appended (elems (oauth_Audiences d))\<rparr>"
    using assms(2) d by (cases d) (simp add: oauth2_read_back)
  have "norm_OAuth2Config e = norm_OAuth2Config (d\<lparr>oauth_OAuthConsumerKey := k, oauth_OAuthConsumerSecret := x\<rparr>)
    \<longleftrightarrow> \<not> oauth_PublicClient d \<and>
      Some (split_byte (CHR '' '') (join '' '' (elems (oauth_GrantTypes d)))) = oauth_GrantTypes d"
    using e by (cases d) (auto simp: norm_OAuth2Config_def)
  also have "Some (split_byte (CHR '' '') (join '' '' (elems (oauth_GrantTypes d)))) = oauth_GrantTypes d \<longleftrightarrow>
      (\<exists>gs. oauth_GrantTypes d = Some gs \<and> gs \<noteq> [] \<and> (\<forall>g \<in> set gs. CHR '' '' \<notin> set g))"
    by (cases "oauth_GrantTypes d") (simp_all add: split_join_iff)
  finally show ?thesis .
qed


section \<open>Applications\<close>

text \<open>What is read back after an application was updated.\<close>

definition sentProvider :: "Application \<Rightarrow> ServiceProviderRequest" where
  "sentProvider a = uar_ServiceProvider (uab_UpdateApplication (re_Body (buildUpdateApplication a)))"

definition readBackApplication :: "Application \<Rightarrow> Application outcome" where
  "readBackApplication a =
     (case dec_ServiceProviderResponse
             (XElem axisNS ''return'' [] (map (answer commonNS) (xml_ServiceProviderRequest (sentProvider a))))
             zero_ServiceProviderResponse of
        Inl e \<Rightarrow> Panicked e
      | Inr sp \<Rightarrow> mapServiceProvider sp)"

text \<open>A step with an identity provider and no authenticator of it.\<close>

definition idpOnly :: "AuthenticationStep \<Rightarrow> bool" where
  "idpOnly st \<longleftrightarrow> step_FederatedIDP st \<noteq> [] \<and> step_FederatedAuthenticator st = []"

text \<open>The order of the step that carries a flag: zero when the steps have none with the order asked for.\<close>

definition flaggedStep :: "goint \<Rightarrow> AuthenticationStep list \<Rightarrow> goint" where
  "flaggedStep n sts = (if sts = [] then 1 else if n \<in> step_Step ` set sts then n else 0)"

definition echoApplication :: "Application \<Rightarrow> Application" where
  "echoApplication a = a
     \<lparr>app_ResourceID := [],
      app_Claims := appended (elems (app_Claims a)),
      app_OAuth2 := Some (zeroOAuth2Config\<lparr>oauth_Enabled := app_OAuth2 a \<noteq> None\<rparr>),
      app_SAML := Some (zeroSAMLConfig\<lparr>saml_Enabled := app_SAML a \<noteq> None\<rparr>),
      app_AuthenticationSteps := appended (map norm_AuthenticationStep (elems (app_AuthenticationSteps a))),
      app_AlwaysSendBackAuthenticatedListOfIDPs := False,
      app_StepForSubject := flaggedStep (app_StepForSubject a) (elems (app_AuthenticationSteps a)),
      app_StepForAttributes := flaggedStep (app_StepForAttributes a) (elems (app_AuthenticationSteps a))\<rparr>"

lemma step_roundtrip:
  "mapAuthenticationStep (stepAnswer (buildAuthenticationStep a st)) =
     (if idpOnly st then Panicked index_out_of_range else Returned (norm_AuthenticationStep st))"
  by (cases st)
    (simp add: mapAuthenticationStep_def stepAnswer_def buildAuthenticationStep_def Let_def
      mapFederatedAuthenticator_def mapFederatedIDP_def mapLocalAuthenticators_def
      buildFederatedAuthenticators_def buildLocalAuthenticators_def idpOnly_def norm_AuthenticationStep_def
      fedIDPAnswer_def fedAuthAnswer_def localAuthAnswer_def comp_def)

lemma flags_roundtrip:
  "lastFlagged ras_SubjectStep (map (\<lambda>st. stepAnswer (buildAuthenticationStep a st)) sts) n =
     (if app_StepForSubject a \<in> step_Step ` set sts then app_StepForSubject a else n)"
  "lastFlagged ras_AttributeStep (map (\<lambda>st. stepAnswer (buildAuthenticationStep a st)) sts) n =
     (if app_StepForAttributes a \<in> step_Step ` set sts then app_StepForAttributes a else n)"
  by (induction sts arbitrary: n)
    (auto simp: stepAnswer_def buildAuthenticationStep_def Let_def)

lemma mapO_map: "mapO f (map g xs) = mapO (\<lambda>x. f (g x)) xs"
  by (induction xs) simp_all

lemma mapO_if:
  "mapO (\<lambda>x. if P x then Panicked p else Returned (g x)) xs =
     (if list_ex P xs then Panicked p else Returned (map g xs))"
  by (induction xs) auto

lemma steps_roundtrip:
  "mapAuthenticationSteps (appended (map stepAnswer (elems (buildAuthenticationSteps a)))) =
     (if list_ex idpOnly (elems (app_AuthenticationSteps a)) then Panicked index_out_of_range
      else Returned (appended (map norm_AuthenticationStep (elems (app_AuthenticationSteps a))),
        flaggedStep (app_StepForSubject a) (elems (app_AuthenticationSteps a)),
        flaggedStep (app_StepForAttributes a) (elems (app_AuthenticationSteps a))))"
  by (cases "app_AuthenticationSteps a")
    (simp_all add: mapAuthenticationSteps_def buildAuthenticationSteps_def mapO_map step_roundtrip mapO_if
      flags_roundtrip flaggedStep_def comp_def)

lemma claims_roundtrip:
  "mapClaims_response (appended (map mappingAnswer (elems (buildClaimConfig s)))) = appended (elems s)"
proof -
  have "(\<lambda>c. \<lparr>claim_URI = claim_URI c, claim_Mandatory = claim_Mandatory c\<rparr>) = (\<lambda>c. c)"
    by (rule ext) simp
  then show ?thesis
    by (cases "elems s = []") (simp_all add: mapClaims_response_def buildClaimConfig_def appended_def comp_def
        mappingAnswer_def claimAnswer_def)
qed

lemma inbound_roundtrip:
  "isOAuthEnalbed (appended (map inboundAnswer (elems (buildInboundAuthConfig a)))) \<longleftrightarrow> app_OAuth2 a \<noteq> None"
  "isSAMLEnabled (appended (map inboundAnswer (elems (buildInboundAuthConfig a)))) \<longleftrightarrow> app_SAML a \<noteq> None"
  by (auto simp: isOAuthEnalbed_def isSAMLEnabled_def buildInboundAuthConfig_def inboundAnswer_def
      split: option.splits)

text \<open>Encoding, answering, decoding and mapping compose to the echo.\<close>

lemma application_read_back:
  "readBackApplication a =
     (if list_ex idpOnly (elems (app_AuthenticationSteps a)) then Panicked index_out_of_range
      else Returned (echoApplication a))"
proof -
  have script: "rasc_Content (scriptAnswer (buildAuthenticationScriptConfig a)) = app_AuthenticationScript a" for a
    by (simp add: scriptAnswer_def buildAuthenticationScriptConfig_def)
  have "spr_ApplicationResourceID (sentProvider a) = []"
    by (simp add: sentProvider_def buildUpdateApplication_def envelope_def)
  then have "readBackApplication a = mapServiceProvider (serviceProviderAnswer (sentProvider a))"
    by (simp add: readBackApplication_def wire_ServiceProvider)
  also have "\<dots> = (if list_ex idpOnly (elems (app_AuthenticationSteps a)) then Panicked index_out_of_range
      else Returned (echoApplication a))"
    by (cases a) (simp add: mapServiceProvider_def serviceProviderAnswer_def sentProvider_def envelope_def
        buildUpdateApplication_def buildLocalAndOutboundConfig_def localAndOutboundAnswer_def deref_def
        claimConfigAnswer_def inboundConfigAnswer_def steps_roundtrip claims_roundtrip inbound_roundtrip script
        echoApplication_def)
  finally show ?thesis .
qed

text \<open>
  C16. An application survives being sent and read back up to what the echo drops: the request to
  always send back the list of identity providers, the details of its inbound protocols (only
  whether there are any comes back), and a step order that no step has. But a step that names an
  identity provider without an authenticator, which the operator itself sends, makes reading the
  answer panic.
\<close>

theorem application_roundtrip:
  "readBackApplication a =
     (if list_ex idpOnly (elems (app_AuthenticationSteps a)) then Panicked index_out_of_range
      else Returned (echoApplication a))"
  by (rule application_read_back)

text \<open>
  A spec the operator comes to rest on: it has both protocols, does not ask for the list of identity
  providers, has no step it could not read back, and its subject and attribute steps exist (a spec
  without steps has them at 1).
\<close>

definition stepKnown :: "goint \<Rightarrow> V1_AuthenticationStep list \<Rightarrow> bool" where
  "stepKnown n sts \<longleftrightarrow> (if sts = [] then n = 1 else n = 0 \<or> n \<in> v1a_Step ` set sts)"

definition settled :: "WSO2SPSpec \<Rightarrow> bool" where
  "settled spec \<longleftrightarrow> spec_OAuth2 spec \<noteq> None \<and> spec_SAML spec \<noteq> None
     \<and> \<not> spec_AlwaysSendBackAuthenticatedListOfIDPs spec
     \<and> stepKnown (spec_StepForSubject spec) (elems (spec_AuthenticationSteps spec))
     \<and> stepKnown (spec_StepForAttributes spec) (elems (spec_AuthenticationSteps spec))"

lemma norm_step_idem [simp]: "norm_AuthenticationStep (norm_AuthenticationStep st) = norm_AuthenticationStep st"
  by (simp add: norm_AuthenticationStep_def)

lemma map_norm_step_idem [simp]:
  "map norm_AuthenticationStep (map norm_AuthenticationStep sts) = map norm_AuthenticationStep sts"
  by simp

lemma flaggedStep_spec:
  "flaggedStep n (elems (authenticationStepsFromSpec sp)) = n \<longleftrightarrow>
     stepKnown n (elems (spec_AuthenticationSteps (sp_Spec sp)))"
  by (auto simp: flaggedStep_def stepKnown_def authenticationStepsFromSpec_def image_iff)

lemma norm_protocols_inject:
  "norm_OAuth2Config (zeroOAuth2Config\<lparr>oauth_Enabled := b\<rparr>) = norm_OAuth2Config (zeroOAuth2Config\<lparr>oauth_Enabled := c\<rparr>)
     \<longleftrightarrow> b = c"
  "norm_SAMLConfig (zeroSAMLConfig\<lparr>saml_Enabled := b\<rparr>) = norm_SAMLConfig (zeroSAMLConfig\<lparr>saml_Enabled := c\<rparr>)
     \<longleftrightarrow> b = c"
  by (simp_all add: norm_OAuth2Config_def zeroOAuth2Config_def norm_SAMLConfig_def zeroSAMLConfig_def)

lemma steps_slice: "map_option (map f) (appended (map f xs)) = appended (map (\<lambda>x. f (f x)) xs)"
  "map_option (map f) (appended xs) = appended (map f xs)"
  by (simp_all add: appended_def comp_def)


section \<open>At rest\<close>


end
