(* ===== verification/SamlFacts.thy ===== *)
theory SamlFacts
  imports Saml
begin

text \<open>
  What the configuration derived from metadata is: the assertion consumer URLs and their default,
  the logout endpoints in the order of preference the source documents, the certificate and its
  alias.
\<close>

section \<open>Assertion consumer services\<close>

lemma acsStep_fst: "fst (acsStep a st) = (if acs_IsDefault a then acs_Location a else fst st)"
  by (cases st) (simp add: acsStep_def)

lemma acs_default:
  "fst (fold acsStep as st) =
     (case filter acs_IsDefault (rev as) of [] \<Rightarrow> fst st | a # _ \<Rightarrow> acs_Location a)"
proof (induction as arbitrary: st)
  case (Cons a as)
  show ?case
    by (cases "filter acs_IsDefault (rev as)") (simp_all add: Cons.IH acsStep_fst)
qed simp

text \<open>The index and URL that are kept: those of the first service with the least index.\<close>

lemma acs_lowest:
  assumes "fold acsStep as (d, i, u) = (d', i', u')"
  shows "sint i' \<le> sint i \<and> (\<forall>a \<in> set as. sint i' \<le> sint (acs_Index a))
    \<and> (i' = i \<and> u' = u \<or> (\<exists>a \<in> set as. i' = acs_Index a \<and> u' = acs_Location a))"
  using assms
proof (induction as arbitrary: d i u)
  case (Cons a as)
  obtain d1 i1 u1 where st: "acsStep a (d, i, u) = (d1, i1, u1)" by (metis prod_cases3)
  have i1: "sint i1 \<le> sint i" "sint i1 \<le> sint (acs_Index a)"
    "i1 = i \<and> u1 = u \<or> i1 = acs_Index a \<and> u1 = acs_Location a"
    using st by (auto simp: acsStep_def split: if_splits)
  have "sint i' \<le> sint i1 \<and> (\<forall>a \<in> set as. sint i' \<le> sint (acs_Index a))
    \<and> (i' = i1 \<and> u' = u1 \<or> (\<exists>a \<in> set as. i' = acs_Index a \<and> u' = acs_Location a))"
    using Cons.IH Cons.prems st by simp
  with i1 show ?case by (auto intro: order_trans)
qed simp

text \<open>
  C39. All locations are kept, in the order of the metadata, and the default is one of them: the
  last service marked as default if that has a location, otherwise a service whose index is least
  in the signed order.
\<close>

theorem acs_urls_and_default:
  assumes "elems services \<noteq> []"
  shows "fst (collectACSURLs services) = Some (map acs_Location (elems services)) \<and>
    (case filter acs_IsDefault (rev (elems services)) of
       a # _ \<Rightarrow> acs_Location a \<noteq> [] \<longrightarrow> snd (collectACSURLs services) = acs_Location a
     | [] \<Rightarrow> \<exists>a \<in> set (elems services). snd (collectACSURLs services) = acs_Location a
         \<and> (\<forall>b \<in> set (elems services). sint (acs_Index a) \<le> sint (acs_Index b)))"
proof -
  obtain s ss where ss: "elems services = s # ss" using assms by (cases "elems services") auto
  obtain d i u where f: "fold acsStep (elems services) ([], acs_Index s, acs_Location s) = (d, i, u)"
    by (metis prod_cases3)
  have d: "d = (case filter acs_IsDefault (rev (elems services)) of [] \<Rightarrow> [] | a # _ \<Rightarrow> acs_Location a)"
    using acs_default [of "elems services" "([], acs_Index s, acs_Location s)"]
    unfolding f by (simp only: fst_conv)
  have least: "(\<forall>a \<in> set (elems services). sint i \<le> sint (acs_Index a))
      \<and> (\<exists>a \<in> set (elems services). i = acs_Index a \<and> u = acs_Location a)"
    using acs_lowest [OF f] ss by auto
  have c: "collectACSURLs services = (Some (map acs_Location (elems services)), if d = [] then u else d)"
    using f ss by (simp add: collectACSURLs_def)
  show ?thesis
  proof (cases "filter acs_IsDefault (rev (elems services))")
    case Nil
    with c d least show ?thesis by auto
  next
    case (Cons a as)
    with c d show ?thesis by simp
  qed
qed

section \<open>Single logout\<close>

definition isFront :: "SLOEndpoint \<Rightarrow> bool" where
  "isFront ep \<longleftrightarrow> slo_Binding ep = bindingHTTPPost \<or> slo_Binding ep = bindingHTTPRedirect"

text \<open>The state of the loop that an endpoint of the front channel sets.\<close>

definition frontState :: "SLOEndpoint \<Rightarrow> bool \<times> string \<times> string \<times> string" where
  "frontState ep = (True, slo_Binding ep, slo_Location ep,
     if slo_ResponseLocation ep = [] then slo_Location ep else slo_ResponseLocation ep)"

lemma slo_keeps_front:
  assumes "slo_Location ep \<noteq> []"
  shows "\<forall>x \<in> set eps. slo_Binding x \<noteq> bindingHTTPPost \<Longrightarrow> fold sloStep eps (frontState ep) = frontState ep"
proof (induction eps)
  case (Cons x eps)
  have "sloStep x (frontState ep) = frontState ep"
    using assms Cons.prems by (simp add: sloStep_def frontState_def)
  with Cons show ?case by simp
qed simp

lemma slo_no_front:
  "\<forall>x \<in> set eps. \<not> isFront x \<Longrightarrow> fst (fold sloStep eps (f, b, q, p)) = f
     \<and> fst (snd (fold sloStep eps (f, b, q, p))) = b"
proof (induction eps arbitrary: q p)
  case (Cons x eps)
  then show ?case by (auto simp: sloStep_def isFront_def)
qed simp

text \<open>
  Logout endpoints are chosen by preference, not by order: the last HTTP-POST endpoint wins over
  everything, without one the first HTTP-Redirect endpoint does; its response goes to its own
  response location if it has one.
\<close>

theorem slo_prefers_post:
  assumes "elems eps = pre @ ep # post" "slo_Location ep \<noteq> []"
    and "slo_Binding ep = bindingHTTPPost \<and> (\<forall>x \<in> set post. slo_Binding x \<noteq> bindingHTTPPost)
      \<or> slo_Binding ep = bindingHTTPRedirect \<and> (\<forall>x \<in> set pre. \<not> isFront x)
        \<and> (\<forall>x \<in> set post. slo_Binding x \<noteq> bindingHTTPPost)"
  shows "parseSLOEndpoints eps = (True, True, slo_Binding ep, slo_Location ep,
    if slo_ResponseLocation ep = [] then slo_Location ep else slo_ResponseLocation ep)"
proof -
  obtain f b q p where st: "fold sloStep pre (False, [], [], []) = (f, b, q, p)" by (metis prod_cases4)
  have "sloStep ep (f, b, q, p) = frontState ep"
  proof (cases "slo_Binding ep = bindingHTTPPost")
    case True
    then show ?thesis by (simp add: sloStep_def frontState_def)
  next
    case False
    with assms(3) have "\<forall>x \<in> set pre. \<not> isFront x" by auto
    from slo_no_front [OF this, of False "[]" "[]" "[]"] st have "\<not> f" by simp
    with False assms(3) show ?thesis by (simp add: sloStep_def frontState_def)
  qed
  moreover have "fold sloStep post (frontState ep) = frontState ep"
    using slo_keeps_front [OF assms(2), of post] assms(3) by blast
  ultimately show ?thesis
    using st assms(1) by (simp add: parseSLOEndpoints_def frontState_def)
qed

section \<open>Alias\<close>

lemma index_take: "index s p = Some i \<Longrightarrow> take (length p) (drop i s) = p"
  by (induction s p arbitrary: i rule: index.induct) (auto split: if_splits)

lemma index_no_slash:
  assumes "CHR ''/'' \<notin> set s"
  shows "index s ''://'' = None"
proof (cases "index s ''://''")
  case (Some i)
  from index_take [OF this] have "CHR ''/'' \<in> set (take (length ''://'') (drop i s))"
    by (simp only:) simp
  then have "CHR ''/'' \<in> set s" by (meson in_set_dropD in_set_takeD)
  then show ?thesis using assms by simp
qed simp

lemma index_append:
  "CHR '':'' \<notin> set u \<Longrightarrow> index (u @ CHR '':'' # CHR ''/'' # CHR ''/'' # v) ''://'' = Some (length u)"
  by (induction u) (auto simp: take_Cons')

lemma lastIndexByte_last:
  "b \<notin> set v \<Longrightarrow> lastIndexByte (u @ b # v) b = Some (length u)"
proof (induction u)
  case Nil
  then show ?case by (simp add: lastIndexByte_None_iff [THEN iffD2])
qed simp

lemma indexAny_append:
  "set u \<inter> set cs = {} \<Longrightarrow> c \<in> set cs \<Longrightarrow> indexAny (u @ c # v) cs = Some (length u)"
  by (induction u) auto

text \<open>The three cuts, one after the other.\<close>

lemma deriveAlias_cuts:
  assumes "(case index s ''://'' of None \<Rightarrow> s | Some i \<Rightarrow> drop (i + 3) s) = u"
    and "(case indexAny u ''/?#'' of None \<Rightarrow> u | Some i \<Rightarrow> take i u) = v"
    and "(case lastIndexByte v (CHR '':'') of None \<Rightarrow> v | Some i \<Rightarrow> take i v) = w"
  shows "deriveAlias cert s = (if w \<noteq> [] then w else if 16 < length cert then take 16 cert else cert)"
  by (simp only: deriveAlias_def Let_def assms)

text \<open>
  The alias of an entity whose identifier is a URL is the host of that URL: the scheme, a port,
  a path, a query and a fragment are cut off.
\<close>

lemma alias_is_host:
  assumes "host \<noteq> []" "CHR '':'' \<notin> set scheme"
    and "set host \<inter> set ''/?#:'' = {}" "set port \<inter> set ''/?#:'' = {}"
    and "rest = [] \<or> hd rest \<in> set ''/?#''"
  shows "deriveAlias cert (scheme @ ''://'' @ host @ rest) = host \<and>
    deriveAlias cert (scheme @ ''://'' @ host @ '':'' @ port @ rest) = host"
proof -
  have scheme: "(case index (scheme @ ''://'' @ v) ''://'' of None \<Rightarrow> scheme @ ''://'' @ v
      | Some i \<Rightarrow> drop (i + 3) (scheme @ ''://'' @ v)) = v" for v
    using index_append [OF assms(2), of v] by simp
  have cut: "(case indexAny (v @ rest) ''/?#'' of None \<Rightarrow> v @ rest | Some i \<Rightarrow> take i (v @ rest)) = v"
    if v: "set v \<inter> set ''/?#'' = {}" for v
  proof (cases rest)
    case Nil
    then show ?thesis using indexAny_None_iff [of v "''/?#''"] v by simp
  next
    case (Cons c r)
    then show ?thesis using indexAny_append [OF v, of c r] assms(5) by simp
  qed
  have host: "set host \<inter> set ''/?#'' = {}" "CHR '':'' \<notin> set host"
    and port: "set (host @ '':'' @ port) \<inter> set ''/?#'' = {}" "CHR '':'' \<notin> set port"
    using assms(3,4) by auto
  have "(case lastIndexByte host (CHR '':'') of None \<Rightarrow> host | Some i \<Rightarrow> take i host) = host"
    using host(2) by (simp add: lastIndexByte_None_iff [THEN iffD2])
  from deriveAlias_cuts [OF scheme cut [OF host(1)] this]
  have "deriveAlias cert (scheme @ ''://'' @ host @ rest) = host" using assms(1) by simp
  moreover have "(case lastIndexByte (host @ '':'' @ port) (CHR '':'') of None \<Rightarrow> host @ '':'' @ port
      | Some i \<Rightarrow> take i (host @ '':'' @ port)) = host"
    using lastIndexByte_last [OF port(2), of host] by simp
  from deriveAlias_cuts [OF scheme cut [OF port(1)] this]
  have "deriveAlias cert (scheme @ ''://'' @ host @ '':'' @ port @ rest) = host"
    using assms(1) by simp
  ultimately show ?thesis by simp
qed

text \<open>
  The alias of an entity whose identifier is a URN is the URN without its last segment, so two
  entities of one namespace get the same alias, whatever their certificates are.
\<close>

theorem urns_share_alias:
  assumes "urn \<noteq> []" "set (urn @ name @ name') \<inter> set ''/?#'' = {}"
    and "CHR '':'' \<notin> set (name @ name')"
  shows "deriveAlias cert (urn @ '':'' @ name) = urn \<and>
    deriveAlias cert (urn @ '':'' @ name) = deriveAlias cert' (urn @ '':'' @ name')"
proof -
  have cutoff: "deriveAlias c (urn @ '':'' @ n) = urn"
    if n: "set n \<inter> set ''/?#'' = {}" "CHR '':'' \<notin> set n" for c n
  proof -
    let ?s = "urn @ '':'' @ n"
    have none: "set ?s \<inter> set ''/?#'' = {}" using n(1) assms(2) by auto
    have "index ?s ''://'' = None" using none by (intro index_no_slash) auto
    then have "(case index ?s ''://'' of None \<Rightarrow> ?s | Some i \<Rightarrow> drop (i + 3) ?s) = ?s" by simp
    moreover have "(case indexAny ?s ''/?#'' of None \<Rightarrow> ?s | Some i \<Rightarrow> take i ?s) = ?s"
      using none by (simp only: indexAny_None_iff [THEN iffD2] option.case)
    moreover have "(case lastIndexByte ?s (CHR '':'') of None \<Rightarrow> ?s | Some i \<Rightarrow> take i ?s) = urn"
      using lastIndexByte_last [OF n(2), of urn] by simp
    ultimately show ?thesis using deriveAlias_cuts [of ?s ?s ?s urn] assms(1) by simp
  qed
  show ?thesis
    using cutoff [of name cert] cutoff [of name' cert'] assms(2,3) by auto
qed

end
