(* ===== verification/SamlWire.thy ===== *)
theory SamlWire
  imports Wire HelpersFacts SamlFacts SpController
begin

text \<open>
  The round trip of a SAML service provider, and when the operator comes to rest on the configuration
  it derives from metadata.
\<close>

section \<open>On the wire\<close>

text \<open>An optional element that is left out leaves the empty text it stands for.\<close>

lemma decode_optional:
  "rdto_IssuerQualifier a = [] \<Longrightarrow> decodeKids fields_SAMLSSOServiceProviderDTOResponse (map (answer samlNS) (xStrO ''xsd1:issuerQualifier'' t)) a =
     Inr (a\<lparr>rdto_IssuerQualifier := t\<rparr>)"
  "rdto_NameIDFormat a = [] \<Longrightarrow> decodeKids fields_SAMLSSOServiceProviderDTOResponse (map (answer samlNS) (xStrO ''xsd1:nameIDFormat'' t)) a =
     Inr (a\<lparr>rdto_NameIDFormat := t\<rparr>)"
  "rdto_NameIDClaimURI a = [] \<Longrightarrow> decodeKids fields_SAMLSSOServiceProviderDTOResponse (map (answer samlNS) (xStrO ''xsd1:nameIdClaimUri'' t)) a =
     Inr (a\<lparr>rdto_NameIDClaimURI := t\<rparr>)"
  "rdto_CertAlias a = [] \<Longrightarrow> decodeKids fields_SAMLSSOServiceProviderDTOResponse (map (answer samlNS) (xStrO ''xsd1:certAlias'' t)) a =
     Inr (a\<lparr>rdto_CertAlias := t\<rparr>)"
  "rdto_CertificateContent a = [] \<Longrightarrow> decodeKids fields_SAMLSSOServiceProviderDTOResponse (map (answer samlNS) (xStrO ''xsd1:certificateContent'' t)) a =
     Inr (a\<lparr>rdto_CertificateContent := t\<rparr>)"
  "rdto_LoginPageURL a = [] \<Longrightarrow> decodeKids fields_SAMLSSOServiceProviderDTOResponse (map (answer samlNS) (xStrO ''xsd1:loginPageURL'' t)) a =
     Inr (a\<lparr>rdto_LoginPageURL := t\<rparr>)"
  "rdto_IdpEntityIDAlias a = [] \<Longrightarrow> decodeKids fields_SAMLSSOServiceProviderDTOResponse (map (answer samlNS) (xStrO ''xsd1:idpEntityIDAlias'' t)) a =
     Inr (a\<lparr>rdto_IdpEntityIDAlias := t\<rparr>)"
  "rdto_SigningAlgorithmURI a = [] \<Longrightarrow> decodeKids fields_SAMLSSOServiceProviderDTOResponse (map (answer samlNS) (xStrO ''xsd1:signingAlgorithmURI'' t)) a =
     Inr (a\<lparr>rdto_SigningAlgorithmURI := t\<rparr>)"
  "rdto_DigestAlgorithmURI a = [] \<Longrightarrow> decodeKids fields_SAMLSSOServiceProviderDTOResponse (map (answer samlNS) (xStrO ''xsd1:digestAlgorithmURI'' t)) a =
     Inr (a\<lparr>rdto_DigestAlgorithmURI := t\<rparr>)"
  "rdto_AssertionEncryptionAlgorithmURI a = [] \<Longrightarrow> decodeKids fields_SAMLSSOServiceProviderDTOResponse (map (answer samlNS) (xStrO ''xsd1:assertionEncryptionAlgorithmURI'' t)) a =
     Inr (a\<lparr>rdto_AssertionEncryptionAlgorithmURI := t\<rparr>)"
  "rdto_KeyEncryptionAlgorithmURI a = [] \<Longrightarrow> decodeKids fields_SAMLSSOServiceProviderDTOResponse (map (answer samlNS) (xStrO ''xsd1:keyEncryptionAlgorithmURI'' t)) a =
     Inr (a\<lparr>rdto_KeyEncryptionAlgorithmURI := t\<rparr>)"
  "rdto_SloRequestURL a = [] \<Longrightarrow> decodeKids fields_SAMLSSOServiceProviderDTOResponse (map (answer samlNS) (xStrO ''xsd1:sloRequestURL'' t)) a =
     Inr (a\<lparr>rdto_SloRequestURL := t\<rparr>)"
  "rdto_SloResponseURL a = [] \<Longrightarrow> decodeKids fields_SAMLSSOServiceProviderDTOResponse (map (answer samlNS) (xStrO ''xsd1:sloResponseURL'' t)) a =
     Inr (a\<lparr>rdto_SloResponseURL := t\<rparr>)"
  "rdto_FrontChannelLogoutBinding a = [] \<Longrightarrow> decodeKids fields_SAMLSSOServiceProviderDTOResponse (map (answer samlNS) (xStrO ''xsd1:frontChannelLogoutBinding'' t)) a =
     Inr (a\<lparr>rdto_FrontChannelLogoutBinding := t\<rparr>)"
  "rdto_AttributeConsumingServiceIndex a = [] \<Longrightarrow> decodeKids fields_SAMLSSOServiceProviderDTOResponse (map (answer samlNS) (xStrO ''xsd1:attributeConsumingServiceIndex'' t)) a =
     Inr (a\<lparr>rdto_AttributeConsumingServiceIndex := t\<rparr>)"
  "rdto_SupportedAssertionQueryRequestTypes a = [] \<Longrightarrow> decodeKids fields_SAMLSSOServiceProviderDTOResponse (map (answer samlNS) (xStrO ''xsd1:supportedAssertionQueryRequestTypes'' t)) a =
     Inr (a\<lparr>rdto_SupportedAssertionQueryRequestTypes := t\<rparr>)"
  by (cases a; simp add: x_defs field_simps localName_def)+

lemma decode_required:
  "decodeKids fields_SAMLSSOServiceProviderDTOResponse (map (answer samlNS) (xStr ''xsd1:issuer'' t)) a =
     Inr (a\<lparr>rdto_Issuer := t\<rparr>)"
  "decodeKids fields_SAMLSSOServiceProviderDTOResponse (map (answer samlNS) (xStr ''xsd1:defaultAssertionConsumerUrl'' t)) a =
     Inr (a\<lparr>rdto_DefaultAssertionConsumerURL := t\<rparr>)"
  "decodeKids fields_SAMLSSOServiceProviderDTOResponse (map (answer samlNS) (xBool ''xsd1:doSignAssertions'' b)) a =
     Inr (a\<lparr>rdto_DoSignAssertions := b\<rparr>)"
  "decodeKids fields_SAMLSSOServiceProviderDTOResponse (map (answer samlNS) (xBool ''xsd1:doSignResponse'' b)) a =
     Inr (a\<lparr>rdto_DoSignResponse := b\<rparr>)"
  "decodeKids fields_SAMLSSOServiceProviderDTOResponse (map (answer samlNS) (xBool ''xsd1:doSingleLogout'' b)) a =
     Inr (a\<lparr>rdto_DoSingleLogout := b\<rparr>)"
  "decodeKids fields_SAMLSSOServiceProviderDTOResponse (map (answer samlNS) (xBool ''xsd1:doFrontChannelLogout'' b)) a =
     Inr (a\<lparr>rdto_DoFrontChannelLogout := b\<rparr>)"
  "decodeKids fields_SAMLSSOServiceProviderDTOResponse (map (answer samlNS) (xBool ''xsd1:doEnableEncryptedAssertion'' b)) a =
     Inr (a\<lparr>rdto_DoEnableEncryptedAssertion := b\<rparr>)"
  "decodeKids fields_SAMLSSOServiceProviderDTOResponse (map (answer samlNS) (xBool ''xsd1:doValidateSignatureInRequests'' b)) a =
     Inr (a\<lparr>rdto_DoValidateSignatureInRequests := b\<rparr>)"
  "decodeKids fields_SAMLSSOServiceProviderDTOResponse (map (answer samlNS) (xBool ''xsd1:doValidateSignatureInArtifactResolve'' b)) a =
     Inr (a\<lparr>rdto_DoValidateSignatureInArtifactResolve := b\<rparr>)"
  "decodeKids fields_SAMLSSOServiceProviderDTOResponse (map (answer samlNS) (xBool ''xsd1:enableAttributeProfile'' b)) a =
     Inr (a\<lparr>rdto_EnableAttributeProfile := b\<rparr>)"
  "decodeKids fields_SAMLSSOServiceProviderDTOResponse (map (answer samlNS) (xBool ''xsd1:enableAttributesByDefault'' b)) a =
     Inr (a\<lparr>rdto_EnableAttributesByDefault := b\<rparr>)"
  "decodeKids fields_SAMLSSOServiceProviderDTOResponse (map (answer samlNS) (xBool ''xsd1:enableSAML2ArtifactBinding'' b)) a =
     Inr (a\<lparr>rdto_EnableSAML2ArtifactBinding := b\<rparr>)"
  "decodeKids fields_SAMLSSOServiceProviderDTOResponse (map (answer samlNS) (xBool ''xsd1:assertionQueryRequestProfileEnabled'' b)) a =
     Inr (a\<lparr>rdto_AssertionQueryRequestProfileEnabled := b\<rparr>)"
  "decodeKids fields_SAMLSSOServiceProviderDTOResponse (map (answer samlNS) (xBool ''xsd1:idPInitSSOEnabled'' b)) a =
     Inr (a\<lparr>rdto_IDPInitSSOEnabled := b\<rparr>)"
  "decodeKids fields_SAMLSSOServiceProviderDTOResponse (map (answer samlNS) (xBool ''xsd1:idPInitSLOEnabled'' b)) a =
     Inr (a\<lparr>rdto_IDPInitSLOEnabled := b\<rparr>)"
  "decodeKids fields_SAMLSSOServiceProviderDTOResponse (map (answer samlNS) (xBool ''xsd1:samlECP'' b)) a =
     Inr (a\<lparr>rdto_SamlECP := b\<rparr>)"
  by (cases a; simp add: x_defs field_simps localName_def)+

lemma decode_list_elements:
  "decodeKids fields_SAMLSSOServiceProviderDTOResponse (map (answer samlNS)
     (map (XLeaf ''xsd1:assertionConsumerUrls'' as) ts)) a = Inr (if ts = [] then a else rdto_AssertionConsumerUrls_update (\<lambda>s. Some (elems s @ ts)) a)"
  "decodeKids fields_SAMLSSOServiceProviderDTOResponse (map (answer samlNS)
     (map (XLeaf ''xsd1:requestedAudiences'' as) ts)) a = Inr (if ts = [] then a else rdto_RequestedAudiences_update (\<lambda>s. Some (elems s @ ts)) a)"
  "decodeKids fields_SAMLSSOServiceProviderDTOResponse (map (answer samlNS)
     (map (XLeaf ''xsd1:requestedRecipients'' as) ts)) a = Inr (if ts = [] then a else rdto_RequestedRecipients_update (\<lambda>s. Some (elems s @ ts)) a)"
  "decodeKids fields_SAMLSSOServiceProviderDTOResponse (map (answer samlNS)
     (map (XLeaf ''xsd1:idpInitSLOReturnToURLs'' as) ts)) a = Inr (if ts = [] then a else rdto_IdpInitSLOReturnToURLs_update (\<lambda>s. Some (elems s @ ts)) a)"
  by (rule decode_strs; simp add: field_simps localName_def comp_def)+

lemma decode_lists:
  "rdto_AssertionConsumerUrls a = None \<Longrightarrow> decodeKids fields_SAMLSSOServiceProviderDTOResponse (map (answer samlNS) (xStrs ''xsd1:assertionConsumerUrls'' s)) a =
     Inr (a\<lparr>rdto_AssertionConsumerUrls := appended (elems s)\<rparr>)"
  "rdto_RequestedAudiences a = None \<Longrightarrow> decodeKids fields_SAMLSSOServiceProviderDTOResponse (map (answer samlNS) (xStrs ''xsd1:requestedAudiences'' s)) a =
     Inr (a\<lparr>rdto_RequestedAudiences := appended (elems s)\<rparr>)"
  "rdto_RequestedRecipients a = None \<Longrightarrow> decodeKids fields_SAMLSSOServiceProviderDTOResponse (map (answer samlNS) (xStrs ''xsd1:requestedRecipients'' s)) a =
     Inr (a\<lparr>rdto_RequestedRecipients := appended (elems s)\<rparr>)"
  "rdto_IdpInitSLOReturnToURLs a = None \<Longrightarrow> decodeKids fields_SAMLSSOServiceProviderDTOResponse (map (answer samlNS) (xStrs ''xsd1:idpInitSLOReturnToURLs'' s)) a =
     Inr (a\<lparr>rdto_IdpInitSLOReturnToURLs := appended (elems s)\<rparr>)"
  unfolding xStrs_def decode_list_elements by (cases a; simp add: appended_def)+

definition samlAnswer :: "SAMLSSOServiceProviderDTORequest \<Rightarrow> SAMLSSOServiceProviderDTOResponse" where
  "samlAnswer x = \<lparr>
     rdto_AssertionConsumerUrls = appended (elems (dto_AssertionConsumerUrls x)),
     rdto_RequestedAudiences = appended (elems (dto_RequestedAudiences x)),
     rdto_RequestedRecipients = appended (elems (dto_RequestedRecipients x)),
     rdto_IdpInitSLOReturnToURLs = appended (elems (dto_IdpInitSLOReturnToURLs x)),
     rdto_Issuer = dto_Issuer x,
     rdto_IssuerQualifier = dto_IssuerQualifier x,
     rdto_DefaultAssertionConsumerURL = dto_DefaultAssertionConsumerURL x,
     rdto_NameIDFormat = dto_NameIDFormat x,
     rdto_NameIDClaimURI = dto_NameIdClaimUri x,
     rdto_CertAlias = dto_CertAlias x,
     rdto_CertificateContent = dto_CertificateContent x,
     rdto_LoginPageURL = dto_LoginPageURL x,
     rdto_IdpEntityIDAlias = dto_IdpEntityIDAlias x,
     rdto_SigningAlgorithmURI = dto_SigningAlgorithmURI x,
     rdto_DigestAlgorithmURI = dto_DigestAlgorithmURI x,
     rdto_AssertionEncryptionAlgorithmURI = dto_AssertionEncryptionAlgorithmURI x,
     rdto_KeyEncryptionAlgorithmURI = dto_KeyEncryptionAlgorithmURI x,
     rdto_SloRequestURL = dto_SloRequestURL x,
     rdto_SloResponseURL = dto_SloResponseURL x,
     rdto_FrontChannelLogoutBinding = dto_FrontChannelLogoutBinding x,
     rdto_AttributeConsumingServiceIndex = dto_AttributeConsumingServiceIndex x,
     rdto_SupportedAssertionQueryRequestTypes = dto_SupportedAssertionQueryRequestTypes x,
     rdto_DoSignAssertions = dto_DoSignAssertions x,
     rdto_DoSignResponse = dto_DoSignResponse x,
     rdto_DoSingleLogout = dto_DoSingleLogout x,
     rdto_DoFrontChannelLogout = dto_DoFrontChannelLogout x,
     rdto_DoEnableEncryptedAssertion = dto_DoEnableEncryptedAssertion x,
     rdto_DoValidateSignatureInRequests = dto_DoValidateSignatureInRequests x,
     rdto_DoValidateSignatureInArtifactResolve = dto_DoValidateSignatureInArtifactResolve x,
     rdto_EnableAttributeProfile = dto_EnableAttributeProfile x,
     rdto_EnableAttributesByDefault = dto_EnableAttributesByDefault x,
     rdto_EnableSAML2ArtifactBinding = dto_EnableSAML2ArtifactBinding x,
     rdto_AssertionQueryRequestProfileEnabled = dto_AssertionQueryRequestProfileEnabled x,
     rdto_IDPInitSSOEnabled = dto_IDPInitSSOEnabled x,
     rdto_IDPInitSLOEnabled = dto_IDPInitSLOEnabled x,
     rdto_SamlECP = dto_SamlECP x\<rparr>"

lemma saml_wire:
  "dec_SAMLSSOServiceProviderDTOResponse (XElem axisNS ''return'' []
     (map (answer samlNS) (xml_SAMLSSOServiceProviderDTORequest x))) zero_SAMLSSOServiceProviderDTOResponse = Inr (samlAnswer x)"
  unfolding dec_SAMLSSOServiceProviderDTOResponse_def xml_SAMLSSOServiceProviderDTORequest_def decodeElem_def
    kidsOf.simps map_append decodeKids_append
  by (simp add: decode_optional decode_required decode_lists zero_SAMLSSOServiceProviderDTOResponse_def samlAnswer_def)

text \<open>What is read back after a service provider was registered.\<close>

definition readBackSAML :: "SAMLConfig \<Rightarrow> SAMLConfig result" where
  "readBackSAML cfg =
     map_sum id mapSAMLServiceProvider (dec_SAMLSSOServiceProviderDTOResponse
       (XElem axisNS ''return'' [] (map (answer samlNS) (xml_SAMLSSOServiceProviderDTORequest (samlDTO cfg))))
       zero_SAMLSSOServiceProviderDTOResponse)"

text \<open>Encoding, answering, decoding and mapping, field by field.\<close>

lemma saml_read_back:
  "readBackSAML cfg = Inr (cfg
     \<lparr>saml_Enabled := False, saml_NameIDClaimURI := [],
      saml_ACSURLs := appended (elems (saml_ACSURLs cfg)),
      saml_RequestedAudiences := appended (elems (saml_RequestedAudiences cfg)),
      saml_RequestedRecipients := appended (elems (saml_RequestedRecipients cfg)),
      saml_IdpInitSLOReturnToURLs := appended (elems (saml_IdpInitSLOReturnToURLs cfg))\<rparr>)"
  by (cases cfg) (simp add: readBackSAML_def saml_wire samlAnswer_def samlDTO_def mapSAMLServiceProvider_def)


section \<open>Coming to rest\<close>

lemma spKeyStep_keeps:
  "saml_ACSURLs (spKeyStep i kd cfg) = saml_ACSURLs cfg \<and> saml_Issuer (spKeyStep i kd cfg) = saml_Issuer cfg"
  by (simp add: spKeyStep_def Let_def)

lemma spKeySteps_keep:
  "saml_ACSURLs (fold (spKeyStep i) kds cfg) = saml_ACSURLs cfg
   \<and> saml_Issuer (fold (spKeyStep i) kds cfg) = saml_Issuer cfg"
  by (induction kds arbitrary: cfg) (simp_all add: spKeyStep_keeps)

lemma withSLO_keeps [simp]:
  "saml_ACSURLs (withSLO eps cfg) = saml_ACSURLs cfg" "saml_Issuer (withSLO eps cfg) = saml_Issuer cfg"
  by (simp_all add: withSLO_def split: prod.split)

lemma firstNameIDFormat_keeps [simp]:
  "saml_ACSURLs (firstNameIDFormat fs cfg) = saml_ACSURLs cfg" "saml_Issuer (firstNameIDFormat fs cfg) = saml_Issuer cfg"
  by (simp_all add: firstNameIDFormat_def split: list.split)

lemma collectACSURLs_appended:
  "fst (collectACSURLs s) = appended (map acs_Location (elems s))"
  by (auto simp: collectACSURLs_def appended_def split: list.split prod.split)

lemma spConfig_identity:
  "saml_Issuer (spConfigFromDescriptor i d) = i"
  "saml_ACSURLs (spConfigFromDescriptor i d) =
     appended (map acs_Location (elems (spd_AssertionConsumerServices d)))"
  by (simp_all add: spConfigFromDescriptor_def Let_def spKeySteps_keep collectACSURLs_appended [symmetric]
      split: prod.split)

lemma saml_rests:
  assumes "desired = (spConfigFromDescriptor i d)\<lparr>saml_EnableAttributeProfile := p, saml_EnableAttributesByDefault := q\<rparr>"
    and "readBackSAML desired = Inr existing"
  shows "\<not> samlSPHasChanged existing desired"
proof -
  have e: "existing = desired
     \<lparr>saml_Enabled := False, saml_NameIDClaimURI := [],
      saml_ACSURLs := appended (elems (saml_ACSURLs desired)),
      saml_RequestedAudiences := appended (elems (saml_RequestedAudiences desired)),
      saml_RequestedRecipients := appended (elems (saml_RequestedRecipients desired)),
      saml_IdpInitSLOReturnToURLs := appended (elems (saml_IdpInitSLOReturnToURLs desired))\<rparr>"
    using assms(2) by (simp add: saml_read_back)
  have "saml_ACSURLs existing = saml_ACSURLs desired"
    unfolding e assms(1) by (simp add: spConfig_identity)
  then have "samlView existing = samlView desired"
    by (simp add: e samlView_eq)
  then show ?thesis by (simp add: samlSPHasChanged_def)
qed


end
