(* ===== verification/InstanceController.thy ===== *)
theory InstanceController
  imports Helpers
begin

text \<open>
  \<^verbatim>\<open>internal/controller/wso2isinstance_controller.go\<close>: an instance is probed with its credentials
  and its status records the outcome, in the phase and in the condition \<^verbatim>\<open>Available\<close>.
\<close>

section \<open>Conditions\<close>

text \<open>The loop over the conditions: the first one of the type is replaced.\<close>

fun replaceCondition :: "Condition \<Rightarrow> Condition list \<Rightarrow> Condition list option" where
  "replaceCondition new [] = None"
| "replaceCondition new (c # cs) =
     (if cond_Type c = cond_Type new
      then Some ((if cond_Status c = cond_Status new
                  then new\<lparr>cond_LastTransitionTime := cond_LastTransitionTime c\<rparr> else new) # cs)
      else map_option ((#) c) (replaceCondition new cs))"

definition setCondition :: "int \<Rightarrow> Condition slice \<Rightarrow> Condition \<Rightarrow> Condition slice" where
  "setCondition now conditions new =
     (let new = new\<lparr>cond_LastTransitionTime := now\<rparr> in
      case replaceCondition new (elems conditions) of
        Some cs \<Rightarrow> Some cs
      | None \<Rightarrow> Some (elems conditions @ [new]))"

section \<open>Phase of an instance\<close>

definition availableCondition :: "WSO2ISInstance \<Rightarrow> string \<Rightarrow> string \<Rightarrow> Condition" where
  "availableCondition inst phase msg =
     \<lparr>cond_Type = ''Available'',
      cond_Status = (if phase \<noteq> ''Ready'' then ConditionFalse else ConditionTrue),
      cond_ObservedGeneration = om_Generation (inst_Meta inst),
      cond_LastTransitionTime = 0,
      cond_Reason = phase,
      cond_Message = msg\<rparr>"

definition withInstancePhase :: "int \<Rightarrow> string \<Rightarrow> string \<Rightarrow> WSO2ISInstance \<Rightarrow> WSO2ISInstance" where
  "withInstancePhase now phase msg inst =
     inst\<lparr>inst_Status := (inst_Status inst)\<lparr>istatus_Phase := phase, istatus_Message := msg,
       istatus_Conditions :=
         setCondition now (istatus_Conditions (inst_Status inst)) (availableCondition inst phase msg)\<rparr>\<rparr>"

definition setPhaseNoRequeue ::
    "'w env \<Rightarrow> WSO2ISInstance \<Rightarrow> string \<Rightarrow> string \<Rightarrow> ('w run, string option) prog" where
  "setPhaseNoRequeue K inst phase msg =
     bind (timeNow K) (\<lambda>now.
     bind (kStatusUpdateInstance K (withInstancePhase now phase msg inst)) (\<lambda>r. ret
       (case r of Inl e \<Rightarrow> Some (kerrText e) | Inr _ \<Rightarrow> None)))"

definition setInstancePhase ::
    "'w env \<Rightarrow> WSO2ISInstance \<Rightarrow> string \<Rightarrow> string \<Rightarrow> Duration \<Rightarrow> ('w run, goresult) prog" where
  "setInstancePhase K inst phase msg after =
     bind (setPhaseNoRequeue K inst phase msg) (\<lambda>e. ret
       (case e of Some e \<Rightarrow> failed e | None \<Rightarrow> ok (requeue after)))"

section \<open>Reconciliation\<close>

definition reconcileInstance :: "'w env \<Rightarrow> NamespacedName \<Rightarrow> ('w run, goresult) prog" where
  "reconcileInstance K req =
     bind (kGetInstance K req) (\<lambda>r.
     case r of
       Inl e \<Rightarrow> ret (if isNotFound e then ok noRequeue else failed (kerrText e))
     | Inr inst \<Rightarrow>
     bind (kGetSecret K (credentialsKey inst)) (\<lambda>r.
     case r of
       Inl e \<Rightarrow>
         (let name = sref_Name (ispec_CredentialsSecret (inst_Spec inst)) in
          bind (eventf warning ''SecretMissing'' ''Reconciling''
                  (''Cannot read credentials secret '' @ quote name @ '': '' @ kerrText e)) (\<lambda>_.
          setInstancePhase K inst ''Failed'' (''cannot read secret '' @ quote name @ '': '' @ kerrText e)
            (minute 2)))
     | Inr sec \<Rightarrow>
     (let username = mapget (sec_Data sec) ''username''; password = mapget (sec_Data sec) ''password'' in
      if username = [] \<or> password = [] then
        bind (eventf warning ''InvalidSecret'' ''Reconciling''
                ''Secret must contain 'username' and 'password' keys'') (\<lambda>_.
        setInstancePhase K inst ''Failed'' ''secret missing 'username' or 'password' keys'' (minute 2))
      else
     bind (Ping K (NewClient (ispec_BaseURL (inst_Spec inst)) username password (tenantOf inst)
                     (ispec_InsecureSkipTLSVerify (inst_Spec inst)))) (\<lambda>r.
     case r of
       Inl e \<Rightarrow>
         bind (eventf warning ''PingFailed'' ''Reconciling'' (''Connection failed: '' @ e)) (\<lambda>_.
         setInstancePhase K inst ''Failed'' e (second 15))
     | Inr _ \<Rightarrow>
     bind (setPhaseNoRequeue K inst ''Ready'' (''Connected to '' @ ispec_BaseURL (inst_Spec inst))) (\<lambda>r.
     case r of
       Some e \<Rightarrow> ret (failed e)
     | None \<Rightarrow>
         if istatus_Phase (inst_Status inst) = ''Ready'' then ret (ok (requeue (minute 2)))
         else bind (eventf normal ''Connected'' ''Reconciling''
                      (''Successfully connected to '' @ ispec_BaseURL (inst_Spec inst))) (\<lambda>_.
              ret (ok (requeue (minute 2)))))))))"

end
