(* ===== verification/ClientTheorems.thy ===== *)
theory ClientTheorems
  imports ClientFacts
begin

text \<open>
  What the operations of the client return on every answer of the server, the panics included, and
  which requests they send in which order.
\<close>

section \<open>Probing the connection\<close>

text \<open>The error of a reply whose target is nil.\<close>

lemma rep_Error_nil:
  "rep_Error (checkReply () (\<lambda>_. Inr ()) r) =
     (case r of Inl e \<Rightarrow> Some e
      | Inr resp \<Rightarrow> if isSuccess (resp_StatusCode resp) then None
          else Some (''http error '' @ show_int (resp_StatusCode resp) @ '': '' @ resp_Body resp))"
  by (simp add: checkReply_def split: sum.split)

lemma rep_Response_nil:
  "rep_Error (checkReply () (\<lambda>_. Inr ()) r) = None \<Longrightarrow>
   \<exists>resp. r = Inr resp \<and> rep_Response (checkReply () (\<lambda>_. Inr ()) r) = Some resp
     \<and> isSuccess (resp_StatusCode resp)"
  by (cases r) (auto simp: checkReply_def split: if_splits)

text \<open>The run of a probe.\<close>

lemma Ping_run:
  "Ping K c s =
     (Returned (case answerTo K (pingRequest c) (world s) of
        Inl e \<Rightarrow> Inl (''connection failed: '' @ e)
      | Inr resp \<Rightarrow>
          if resp_StatusCode resp = 200 then Inr ()
          else if isSuccess (resp_StatusCode resp)
          then Inl (''unexpected status: '' @ show_int (resp_StatusCode resp))
          else Inl (''connection failed: http error '' @ show_int (resp_StatusCode resp) @ '': '' @ resp_Body resp)),
      afterCall K (pingRequest c) s)"
proof -
  have run: "doJSONnil K c ''GET'' (''/t/'' @ cl_Tenant c @ ''/api/server/v1/applications?limit=1'') None s =
      (Returned (checkReply () (\<lambda>_. Inr ()) (answerTo K (pingRequest c) (world s))), afterCall K (pingRequest c) s)"
    unfolding doJSONnil_run pingRequest_def by (rule refl)
  have "Ping K c s =
      (let r = checkReply () (\<lambda>_. Inr ()) (answerTo K (pingRequest c) (world s)) in
       case rep_Error r of
         Some e \<Rightarrow> ret (Inl (''connection failed: '' @ e))
       | None \<Rightarrow> bind (lift_outcome (deref (rep_Response r))) (\<lambda>resp. ret
           (if resp_StatusCode resp = 401 then Inl ''invalid credentials (401)''
            else if resp_StatusCode resp \<noteq> 200
            then Inl (''unexpected status: '' @ show_int (resp_StatusCode resp))
            else Inr ()))) (afterCall K (pingRequest c) s)"
    unfolding Ping_def bind_def [of "doJSONnil K c _ _ _"] run Let_def by simp
  then show ?thesis
    by (simp add: checkReply_def Let_def deref_def isSuccess_def bind_def split: sum.split)
qed

text \<open>
  C37. \<^verbatim>\<open>Ping\<close> never panics, sends one request and succeeds exactly on an answer with status 200.
  Every other status is reported as a failed connection or as an unexpected status; the branch that
  reports invalid credentials for a 401 is never taken, because a 401 is a failed connection before.
\<close>

theorem ping_outcome:
  "Ping K c s =
     (Returned (case answerTo K (pingRequest c) (world s) of
        Inl e \<Rightarrow> Inl (''connection failed: '' @ e)
      | Inr resp \<Rightarrow>
          if resp_StatusCode resp = 200 then Inr ()
          else if isSuccess (resp_StatusCode resp)
          then Inl (''unexpected status: '' @ show_int (resp_StatusCode resp))
          else Inl (''connection failed: http error '' @ show_int (resp_StatusCode resp) @ '': '' @ resp_Body resp)),
      afterCall K (pingRequest c) s)"
  by (rule Ping_run)

section \<open>Looking up\<close>

text \<open>The answer of the server to an OAuth2 query, as the decoder sees it.\<close>

definition decodedOAuth ::
    "'w env \<Rightarrow> string \<Rightarrow> GetOAuthApplicationDataByAppNameResponseBody ResponseEnvelope result" where
  "decodedOAuth K data =
     (case env_XmlParse K data of Inl e \<Rightarrow> Inl e
      | Inr x \<Rightarrow> dec_ResponseEnvelope zero_GetOAuthApplicationDataByAppNameResponseBody
                  dec_GetOAuthApplicationDataByAppNameResponseBody x)"

text \<open>
  C35. The OAuth2 lookup reads the status of a response it may not have: it panics exactly when there
  is no answer (the transport fails, the URL does not parse) or when the body of a successful answer
  cannot be decoded. It takes every answer with status 500, and no other, as the absence of the
  application.
\<close>

theorem oauth_lookup_outcome:
  "fst (GetApplicationOAuth2Config K c rid n s) =
     (case answerTo K (getOAuthRequest c n) (world s) of
        Inl e \<Rightarrow> Panicked nil_deref
      | Inr resp \<Rightarrow>
          if resp_StatusCode resp = 500 then Returned (Inr None)
          else if \<not> isSuccess (resp_StatusCode resp)
          then Returned (Inl (''http error '' @ show_int (resp_StatusCode resp) @ '': '' @ resp_Body resp))
          else if resp_Body resp = []
          then Returned (Inr (Some (mapGetOAuthApplication
                  \<lparr>rse_Body = zero_GetOAuthApplicationDataByAppNameResponseBody\<rparr>)))
          else (case decodedOAuth K (resp_Body resp) of
                  Inl e \<Rightarrow> Panicked nil_deref
                | Inr v \<Rightarrow> Returned (Inr (Some (mapGetOAuthApplication v)))))"
  by (simp add: GetApplicationOAuth2Config_run Let_def checkReply_def deref_def decodedOAuth_def
      isSuccess_def split: sum.split)

text \<open>What the two queries of the lookup by name get: the error, or the decoded value.\<close>

definition listed :: "'w env \<Rightarrow> Response result \<Rightarrow> json strmap result" where
  "listed K r =
     (case r of
        Inl e \<Rightarrow> Inl e
      | Inr resp \<Rightarrow>
          if \<not> isSuccess (resp_StatusCode resp)
          then Inl (''http error '' @ show_int (resp_StatusCode resp) @ '': '' @ resp_Body resp)
          else if resp_Body resp = [] then Inr None
          else (case env_JsonParse K (resp_Body resp) of Inl e \<Rightarrow> Inl e | Inr j \<Rightarrow> dec_anyMap K j))"

definition found :: "'w env \<Rightarrow> Response result \<Rightarrow> GetApplicationResponseBody ResponseEnvelope result" where
  "found K r =
     (case r of
        Inl e \<Rightarrow> Inl e
      | Inr resp \<Rightarrow>
          if \<not> isSuccess (resp_StatusCode resp)
          then Inl (''http error '' @ show_int (resp_StatusCode resp) @ '': '' @ resp_Body resp)
          else if resp_Body resp = [] then Inr \<lparr>rse_Body = zero_GetApplicationResponseBody\<rparr>
          else (case env_XmlParse K (resp_Body resp) of Inl e \<Rightarrow> Inl e
                | Inr x \<Rightarrow> dec_ResponseEnvelope zero_GetApplicationResponseBody dec_GetApplicationResponseBody x))"

lemma checkReply_listed:
  "rep_Error (checkReply None (\<lambda>data. case env_JsonParse K data of Inl e \<Rightarrow> Inl e | Inr j \<Rightarrow> dec_anyMap K j) r) =
     (case listed K r of Inl e \<Rightarrow> Some e | Inr _ \<Rightarrow> None)"
  "rep_Value (checkReply None (\<lambda>data. case env_JsonParse K data of Inl e \<Rightarrow> Inl e | Inr j \<Rightarrow> dec_anyMap K j) r) =
     (case listed K r of Inl e \<Rightarrow> None | Inr v \<Rightarrow> v)"
  by (simp_all add: checkReply_def listed_def split: sum.split)

lemma checkReply_found:
  "rep_Error (checkReply \<lparr>rse_Body = zero_GetApplicationResponseBody\<rparr> (\<lambda>data. case env_XmlParse K data of Inl e \<Rightarrow> Inl e
      | Inr x \<Rightarrow> dec_ResponseEnvelope zero_GetApplicationResponseBody dec_GetApplicationResponseBody x) r) =
     (case found K r of Inl e \<Rightarrow> Some e | Inr _ \<Rightarrow> None)"
  "rep_Value (checkReply \<lparr>rse_Body = zero_GetApplicationResponseBody\<rparr> (\<lambda>data. case env_XmlParse K data of Inl e \<Rightarrow> Inl e
      | Inr x \<Rightarrow> dec_ResponseEnvelope zero_GetApplicationResponseBody dec_GetApplicationResponseBody x) r) =
     (case found K r of Inl e \<Rightarrow> \<lparr>rse_Body = zero_GetApplicationResponseBody\<rparr> | Inr v \<Rightarrow> v)"
  by (simp_all add: checkReply_def found_def split: sum.split)

text \<open>The run of a lookup by name.\<close>

lemma GetApplicationByName_run:
  "GetApplicationByName K c n s =
     (let s' = afterCall K (listRequest c n) s; s'' = afterCall K (getRequest c n) s' in
      case listed K (answerTo K (listRequest c n) (world s)) of
        Inl e \<Rightarrow> (Returned (Inl e), s')
      | Inr kvs \<Rightarrow>
          (case assertArray kvs ''applications'' of
             Panicked p \<Rightarrow> (Panicked p, s')
           | Returned [] \<Rightarrow> (Returned (Inr None), s')
           | Returned (_ # _) \<Rightarrow>
               (case found K (answerTo K (getRequest c n) (world s')) of
                  Inl e \<Rightarrow> Returned (Inl e)
                | Inr v \<Rightarrow> bindO (mapGetApplication v) (\<lambda>a. Returned (Inr (Some a))), s'')))"
proof -
  let ?J = "\<lambda>data. case env_JsonParse K data of Inl e \<Rightarrow> Inl e | Inr j \<Rightarrow> dec_anyMap K j"
  let ?X = "\<lambda>data. case env_XmlParse K data of Inl e \<Rightarrow> Inl e
      | Inr x \<Rightarrow> dec_ResponseEnvelope zero_GetApplicationResponseBody dec_GetApplicationResponseBody x"
  have list: "doJSON K c ''GET'' (''/t/'' @ cl_Tenant c @ ''/api/server/v1/applications?filter=name+eq+'' @ n)
      None None (dec_anyMap K) t = (Returned (checkReply None ?J (answerTo K (listRequest c n) (world t))),
        afterCall K (listRequest c n) t)" for t
    unfolding doJSON_run listRequest_def by (rule refl)
  have get: "doSOAP K c getApplication applicationEndpoint
      (xml_RequestEnvelope xml_GetApplicationBody (buildGetApplication n)) \<lparr>rse_Body = zero_GetApplicationResponseBody\<rparr>
      (dec_ResponseEnvelope zero_GetApplicationResponseBody dec_GetApplicationResponseBody) t =
      (Returned (checkReply \<lparr>rse_Body = zero_GetApplicationResponseBody\<rparr> ?X (answerTo K (getRequest c n) (world t))),
        afterCall K (getRequest c n) t)" for t
    unfolding doSOAP_run getRequest_def by (rule refl)
  show ?thesis
    unfolding GetApplicationByName_def bind_Returned [where m = "doJSON K c _ _ _ _ _", OF list]
    by (auto simp: get checkReply_listed checkReply_found Let_def bind_def
        split: sum.split outcome.split list.split)
qed


section \<open>Updating a SAML service provider\<close>

text \<open>
  C36. The update of a SAML service provider sends \<^verbatim>\<open>deleteApplication\<close> for an application named like
  the issuer, and, if that succeeds, \<^verbatim>\<open>addRPServiceProvider\<close>. The service provider registered
  under the issuer is not removed: no \<^verbatim>\<open>removeServiceProvider\<close> is sent.
\<close>

theorem saml_update_deletes_application:
  "let q = deleteRequest c (saml_Issuer cfg); s' = afterCall K q s in
   UpdateSAMLApplication K c cfg s =
     (case answerTo K q (world s) of
        Inl e \<Rightarrow> (Returned (Inl e), s')
      | Inr resp \<Rightarrow>
          if isSuccess (resp_StatusCode resp) then CreateSAMLApplication K c cfg s'
          else (Returned (Inl (''http error '' @ show_int (resp_StatusCode resp) @ '': '' @ resp_Body resp)), s'))
   \<and> (\<forall>h. Http h \<in> set (events (UpdateSAMLApplication K c cfg) s) \<longrightarrow>
        soapActionOf h \<noteq> Some removeSAMLApplication)"
proof -
  let ?q = "deleteRequest c (saml_Issuer cfg)"
  note del = DeleteApplication_run [of K c "saml_Issuer cfg" s]
  have run: "UpdateSAMLApplication K c cfg s =
     (case answerTo K ?q (world s) of
        Inl e \<Rightarrow> (Returned (Inl e), afterCall K ?q s)
      | Inr resp \<Rightarrow>
          if isSuccess (resp_StatusCode resp) then CreateSAMLApplication K c cfg (afterCall K ?q s)
          else (Returned (Inl (''http error '' @ show_int (resp_StatusCode resp) @ '': '' @ resp_Body resp)), afterCall K ?q s))"
    unfolding UpdateSAMLApplication_def bind_def del
    by (simp add: errorOf_def rep_Error_nil split: sum.split)
  have spec: "yields (UpdateSAMLApplication K c cfg) (\<lambda>es r. \<forall>h. Http h \<in> set es \<longrightarrow>
      soapActionOf h \<noteq> Some removeSAMLApplication)"
    unfolding UpdateSAMLApplication_def
  proof (rule yields_bind [OF write_specs(5)])
    fix es and r :: "unit result"
    assume es: "es = attempt K (deleteRequest c (saml_Issuer cfg)) \<and> returns (Returned r)"
    have "\<forall>h. Http h \<in> set (es @ attempt K (createSAMLRequest c cfg)) \<longrightarrow>
        soapActionOf h \<noteq> Some removeSAMLApplication"
      using es by (auto simp: attempt_def soap_actions)
    then show "yields (case r of Inl e \<Rightarrow> ret (Inl e) | Inr _ \<Rightarrow> CreateSAMLApplication K c cfg)
        (\<lambda>es' r. \<forall>h. Http h \<in> set (es @ es') \<longrightarrow> soapActionOf h \<noteq> Some removeSAMLApplication)"
      by (intro yields_sum yields_ret yields_weaken [OF write_specs(6)]) auto
  qed auto
  show ?thesis
    using run yields_events [OF spec, of s] unfolding Let_def by blast
qed

end
