(* ===== verification/InstanceFacts.thy ===== *)
theory InstanceFacts
  imports InstanceController ClientTheorems
begin

text \<open>
  The theorems on the reconciliation of an instance: how a condition is replaced, when a status says
  \<^verbatim>\<open>Ready\<close>, which requests are sent and what is written.
\<close>

section \<open>Conditions\<close>

lemma replaceCondition_None:
  "replaceCondition new cs = None \<longleftrightarrow> cond_Type new \<notin> set (map cond_Type cs)"
  by (induction cs) auto

text \<open>The list is cut at the first condition of the type.\<close>

lemma replaceCondition_Some:
  "replaceCondition new cs = Some cs' \<Longrightarrow>
   \<exists>pre old post. cs = pre @ old # post \<and> cond_Type new \<notin> set (map cond_Type pre)
     \<and> cond_Type old = cond_Type new
     \<and> cs' = pre @ (if cond_Status old = cond_Status new
          then new\<lparr>cond_LastTransitionTime := cond_LastTransitionTime old\<rparr> else new) # post"
proof (induction cs arbitrary: cs')
  case (Cons c cs)
  show ?case
  proof (cases "cond_Type c = cond_Type new")
    case True
    with Cons.prems show ?thesis by (intro exI [of _ "[]"]) auto
  next
    case False
    with Cons.prems obtain cs1 where cs1: "replaceCondition new cs = Some cs1" "cs' = c # cs1" by auto
    from Cons.IH [OF cs1(1)] obtain pre old post where "cs = pre @ old # post"
      "cond_Type new \<notin> set (map cond_Type pre)" "cond_Type old = cond_Type new"
      "cs1 = pre @ (if cond_Status old = cond_Status new
          then new\<lparr>cond_LastTransitionTime := cond_LastTransitionTime old\<rparr> else new) # post"
      by blast
    with cs1(2) False show ?thesis by (intro exI [of _ "c # pre"]) auto
  qed
qed simp

definition lookupCondition :: "string \<Rightarrow> Condition slice \<Rightarrow> Condition option" where
  "lookupCondition t cs = (case filter (\<lambda>c. cond_Type c = t) (elems cs) of [] \<Rightarrow> None | c # _ \<Rightarrow> Some c)"

lemma filter_none: "t \<notin> set (map f xs) \<Longrightarrow> filter (\<lambda>x. f x = t) xs = []"
  by (induction xs) auto

text \<open>Setting a condition as an update of the map from types to conditions.\<close>

lemma setCondition_map:
  "lookupCondition t (setCondition now cs new) =
     (if t = cond_Type new
      then Some (new\<lparr>cond_LastTransitionTime :=
        (case lookupCondition t cs of
           Some old \<Rightarrow> if cond_Status old = cond_Status new then cond_LastTransitionTime old else now
         | None \<Rightarrow> now)\<rparr>)
      else lookupCondition t cs)
   \<and> distinct (map cond_Type (elems (setCondition now cs new))) = distinct (map cond_Type (elems cs))"
proof -
  let ?new = "new\<lparr>cond_LastTransitionTime := now\<rparr>"
  show ?thesis
  proof (cases "replaceCondition ?new (elems cs)")
    case None
    then have "cond_Type new \<notin> set (map cond_Type (elems cs))" by (simp add: replaceCondition_None)
    with None filter_none [OF this] show ?thesis
      by (auto simp: setCondition_def lookupCondition_def split: list.split)
  next
    case (Some cs')
    from replaceCondition_Some [OF this] obtain pre old post where
      c: "elems cs = pre @ old # post" "cond_Type new \<notin> set (map cond_Type pre)" "cond_Type old = cond_Type new"
      "cs' = pre @ (if cond_Status old = cond_Status new
          then new\<lparr>cond_LastTransitionTime := cond_LastTransitionTime old\<rparr> else ?new) # post"
      by auto
    from filter_none [OF c(2)] have "filter (\<lambda>x. cond_Type x = cond_Type new) pre = []" .
    with c Some show ?thesis
      by (auto simp: setCondition_def lookupCondition_def split: list.split)
  qed
qed

text \<open>
  C38. Setting a condition is an update of the map from types to conditions: the condition of that
  type is the new one, its transition time is kept when the status is unchanged and is now
  otherwise, every other condition is as it was, and types stay distinct.
\<close>

theorem set_condition_updates:
  "lookupCondition t (setCondition now cs new) =
     (if t = cond_Type new
      then Some (new\<lparr>cond_LastTransitionTime :=
        (case lookupCondition t cs of
           Some old \<Rightarrow> if cond_Status old = cond_Status new then cond_LastTransitionTime old else now
         | None \<Rightarrow> now)\<rparr>)
      else lookupCondition t cs)
   \<and> distinct (map cond_Type (elems (setCondition now cs new))) = distinct (map cond_Type (elems cs))"
  by (rule setCondition_map)

section \<open>Runs of the controller\<close>

text \<open>The client whose connection is probed, and when there is one.\<close>

definition instanceClient :: "WSO2ISInstance \<Rightarrow> Secret \<Rightarrow> Client" where
  "instanceClient inst sec =
     NewClient (ispec_BaseURL (inst_Spec inst)) (mapget (sec_Data sec) ''username'')
       (mapget (sec_Data sec) ''password'') (tenantOf inst) (ispec_InsecureSkipTLSVerify (inst_Spec inst))"

definition hasCredentials :: "Secret \<Rightarrow> bool" where
  "hasCredentials sec \<longleftrightarrow> mapget (sec_Data sec) ''username'' \<noteq> [] \<and> mapget (sec_Data sec) ''password'' \<noteq> []"

lemma setPhaseNoRequeue_spec:
  "yields (setPhaseNoRequeue K inst phase msg)
     (\<lambda>es r. \<exists>now. es = [StatusUpdateInstance (withInstancePhase now phase msg inst)])"
  unfolding setPhaseNoRequeue_def by (intro effect_intros) auto

lemma setInstancePhase_spec:
  "yields (setInstancePhase K inst phase msg after)
     (\<lambda>es r. \<exists>now. es = [StatusUpdateInstance (withInstancePhase now phase msg inst)])"
  unfolding setInstancePhase_def
  by (rule yields_bind [OF setPhaseNoRequeue_spec]) (auto intro!: effect_intros simp del: ret_apply)


text \<open>The two ways a probe ends.\<close>

definition probeFailed :: "'w env \<Rightarrow> WSO2ISInstance \<Rightarrow> string \<Rightarrow> string \<Rightarrow> string \<Rightarrow> Duration \<Rightarrow> ('w run, goresult) prog" where
  "probeFailed K inst reason note msg after =
     bind (eventf warning reason ''Reconciling'' note) (\<lambda>_. setInstancePhase K inst ''Failed'' msg after)"

definition probeSucceeded :: "'w env \<Rightarrow> WSO2ISInstance \<Rightarrow> ('w run, goresult) prog" where
  "probeSucceeded K inst =
     bind (setPhaseNoRequeue K inst ''Ready'' (''Connected to '' @ ispec_BaseURL (inst_Spec inst))) (\<lambda>r.
     case r of
       Some e \<Rightarrow> ret (failed e)
     | None \<Rightarrow>
         if istatus_Phase (inst_Status inst) = ''Ready'' then ret (ok (requeue (minute 2)))
         else bind (eventf normal ''Connected'' ''Reconciling''
                      (''Successfully connected to '' @ ispec_BaseURL (inst_Spec inst))) (\<lambda>_.
              ret (ok (requeue (minute 2)))))"

definition legalProbe :: "goresult \<Rightarrow> bool" where
  "legalProbe r \<longleftrightarrow> (\<exists>e. r = failed e) \<or> r \<in> {ok (requeue (minute 2)), ok (requeue (second 15))}"

definition instanceWrites :: "event list \<Rightarrow> event list" where
  "instanceWrites es = filter (\<lambda>e. case e of StatusUpdateInstance x \<Rightarrow> True | _ \<Rightarrow> False) es"

lemma instanceWrites_simps [simp]:
  "instanceWrites [] = []"
  "instanceWrites (StatusUpdateInstance x # es) = StatusUpdateInstance x # instanceWrites es"
  "instanceWrites (Recorded n # es) = instanceWrites es"
  "instanceWrites (GetInstance k # es) = instanceWrites es"
  "instanceWrites (GetSecret k # es) = instanceWrites es"
  "instanceWrites (attempt K q @ es) = instanceWrites es"
  by (simp_all add: instanceWrites_def attempt_def)

text \<open>A probe that ends writes one status, of its own instance, and sends nothing.\<close>

definition concludes :: "'w env \<Rightarrow> WSO2ISInstance \<Rightarrow> string \<Rightarrow> event list \<Rightarrow> goresult outcome \<Rightarrow> bool" where
  "concludes K inst phase es r \<longleftrightarrow>
     (\<exists>w msg. instanceWrites es = [StatusUpdateInstance (withInstancePhase (env_Now K w) phase msg inst)])
     \<and> (\<forall>e \<in> set es. (\<exists>n. e = Recorded n) \<or> (\<exists>x. e = StatusUpdateInstance x))
     \<and> (\<exists>res. r = Returned res \<and> legalProbe res)"

lemma probeFailed_spec:
  "after = minute 2 \<or> after = second 15 \<Longrightarrow> yields (probeFailed K inst reason note msg after) (concludes K inst ''Failed'')"
  unfolding probeFailed_def setInstancePhase_def setPhaseNoRequeue_def
  by (intro effect_intros) (auto simp: concludes_def legalProbe_def split: sum.split)

lemma probeSucceeded_spec: "yields (probeSucceeded K inst) (concludes K inst ''Ready'')"
  unfolding probeSucceeded_def setPhaseNoRequeue_def
  by (intro effect_intros) (auto simp: concludes_def legalProbe_def split: sum.splits)

text \<open>A reconciliation, after its two reads.\<close>

definition pings :: "'w env \<Rightarrow> WSO2ISInstance \<Rightarrow> KErr + Secret \<Rightarrow> Client option" where
  "pings K inst r =
     (case r of Inl e \<Rightarrow> None | Inr sec \<Rightarrow> if hasCredentials sec then Some (instanceClient inst sec) else None)"

definition reachable :: "'w env \<Rightarrow> WSO2ISInstance \<Rightarrow> KErr + Secret \<Rightarrow> 'w \<Rightarrow> bool" where
  "reachable K inst r w \<longleftrightarrow>
     (\<exists>c resp. pings K inst r = Some c \<and> answerTo K (pingRequest c) w = Inr resp \<and> resp_StatusCode resp = 200)"

lemma reconcileInstance_concludes:
  assumes "env_GetInstance K req (world s) = (Inr inst, w)"
    and "env_GetSecret K (credentialsKey inst) w = (r, w')"
  shows "\<exists>es. events (reconcileInstance K req) s =
      [GetInstance req, GetSecret (credentialsKey inst)] @
      (case pings K inst r of None \<Rightarrow> [] | Some c \<Rightarrow> attempt K (pingRequest c)) @ es
    \<and> concludes K inst (if reachable K inst r w' then ''Ready'' else ''Failed'') es (fst (reconcileInstance K req s))"
proof -
  let ?s = "\<lparr>world = w', log = log s @ [GetInstance req, GetSecret (credentialsKey inst)]\<rparr>"
  have tail: "\<exists>es. events (reconcileInstance K req) s =
      [GetInstance req, GetSecret (credentialsKey inst)] @ pre @ es
    \<and> concludes K inst phase es (fst (reconcileInstance K req s))"
    if "yields m (concludes K inst phase)" "reconcileInstance K req s = m t" "log t = log ?s @ pre" for m phase t pre
  proof -
    from that(1) obtain es where "log (snd (m t)) = log t @ es" "concludes K inst phase es (fst (m t))"
      unfolding yields_def by blast
    with that(2,3) show ?thesis by (intro exI [of _ es]) (simp add: events_def)
  qed
  have run: "reconcileInstance K req s =
     (case r of
        Inl e \<Rightarrow> probeFailed K inst ''SecretMissing''
          (''Cannot read credentials secret '' @ quote (sref_Name (ispec_CredentialsSecret (inst_Spec inst))) @ '': '' @ kerrText e)
          (''cannot read secret '' @ quote (sref_Name (ispec_CredentialsSecret (inst_Spec inst))) @ '': '' @ kerrText e)
          (minute 2) ?s
      | Inr sec \<Rightarrow>
          if \<not> hasCredentials sec
          then probeFailed K inst ''InvalidSecret'' ''Secret must contain 'username' and 'password' keys''
            ''secret missing 'username' or 'password' keys'' (minute 2) ?s
          else bind (Ping K (instanceClient inst sec)) (\<lambda>r. case r of
              Inl e \<Rightarrow> probeFailed K inst ''PingFailed'' (''Connection failed: '' @ e) e (second 15)
            | Inr _ \<Rightarrow> probeSucceeded K inst) ?s)"
    unfolding reconcileInstance_def probeFailed_def probeSucceeded_def instanceClient_def hasCredentials_def
    by (simp add: assms bind_def [of "kGetInstance K req"] bind_def [of "kGetSecret K _"] kGetInstance_def
        kGetSecret_def call_def Let_def split: sum.split)
  show ?thesis
  proof (cases r)
    case (Inl e)
    have none: "pings K inst r = None" "\<not> reachable K inst r w'"
      using Inl by (simp_all add: pings_def reachable_def)
    from tail [OF probeFailed_spec run [unfolded Inl sum.case], of "[]"] none show ?thesis by simp
  next
    case (Inr sec)
    show ?thesis
    proof (cases "hasCredentials sec")
      case False
      have none: "pings K inst r = None" "\<not> reachable K inst r w'"
        using Inr False by (simp_all add: pings_def reachable_def)
      have "reconcileInstance K req s = probeFailed K inst ''InvalidSecret''
          ''Secret must contain 'username' and 'password' keys'' ''secret missing 'username' or 'password' keys'' (minute 2) ?s"
        using run False Inr by (simp only: sum.case not_False_eq_True if_True)
      from tail [OF probeFailed_spec this, of "[]"] none show ?thesis by simp
    next
      case True
      let ?c = "instanceClient inst sec"
      have c: "pings K inst r = Some ?c" using Inr True by (simp add: pings_def)
      obtain v where v: "Ping K ?c ?s = (Returned v, afterCall K (pingRequest ?c) ?s)"
        "(\<exists>u. v = Inr u) \<longleftrightarrow> reachable K inst r w'"
        using c by (auto simp: Ping_run reachable_def split: sum.splits)
      have l: "log (afterCall K (pingRequest ?c) ?s) = log ?s @ attempt K (pingRequest ?c)"
        by (rule log_afterCall)
      show ?thesis
      proof (cases v)
        case (Inl e)
        have "reconcileInstance K req s = probeFailed K inst ''PingFailed'' (''Connection failed: '' @ e) e (second 15)
            (afterCall K (pingRequest ?c) ?s)"
          using run Inr True v(1) Inl by (simp add: bind_def)
        from tail [OF probeFailed_spec this l] v(2) Inl c show ?thesis by simp
      next
        case (Inr u)
        have "reconcileInstance K req s = probeSucceeded K inst (afterCall K (pingRequest ?c) ?s)"
          using run \<open>r = Inr sec\<close> True v(1) Inr by (simp add: bind_def)
        from tail [OF probeSucceeded_spec this l] v(2) Inr c show ?thesis by simp
      qed
    qed
  qed
qed

text \<open>
  C13. The reconciliation of an instance it can read writes exactly one status, which changes nothing
  but the phase, the message and the conditions of that instance; the phase is \<^verbatim>\<open>Ready\<close> exactly
  when the secret has both credentials and the probe with them was answered with status 200, and
  \<^verbatim>\<open>Failed\<close> in every other case.
\<close>

theorem instance_phase_is_probe:
  assumes "env_GetInstance K req (world s) = (Inr inst, w)"
    and "env_GetSecret K (credentialsKey inst) w = (r, w')"
  shows "\<exists>now msg. instanceWrites (events (reconcileInstance K req) s) =
    [StatusUpdateInstance (withInstancePhase now (if reachable K inst r w' then ''Ready'' else ''Failed'') msg inst)]"
proof -
  let ?phase = "if reachable K inst r w' then ''Ready'' else ''Failed''"
  obtain es res where es: "events (reconcileInstance K req) s =
      [GetInstance req, GetSecret (credentialsKey inst)] @
      (case pings K inst r of None \<Rightarrow> [] | Some c \<Rightarrow> attempt K (pingRequest c)) @ es"
    "concludes K inst ?phase es res"
    using reconcileInstance_concludes [OF assms] by blast
  have "instanceWrites (events (reconcileInstance K req) s) = instanceWrites es"
    using es(1) by (simp split: option.split)
  with es(2) show ?thesis unfolding concludes_def by metis
qed

text \<open>
  The reconciliation of an instance sends at most one request, the probe of the instance's own
  URL with the credentials of its secret, and none when the secret cannot be read or lacks one of
  them.
\<close>

theorem instance_sends_only_probe:
  assumes "env_GetInstance K req (world s) = (Inr inst, w)"
    and "env_GetSecret K (credentialsKey inst) w = (r, w')"
  shows "filter (\<lambda>e. case e of Http q \<Rightarrow> True | _ \<Rightarrow> False) (events (reconcileInstance K req) s) =
    (case r of
       Inl e \<Rightarrow> []
     | Inr sec \<Rightarrow> if hasCredentials sec then attempt K (pingRequest (instanceClient inst sec)) else [])"
proof -
  have none: "filter (\<lambda>e. case e of Http q \<Rightarrow> True | _ \<Rightarrow> False) es = []" if "concludes K inst p es res" for p es res
    using that by (auto simp: concludes_def filter_empty_conv)
  show ?thesis
    using reconcileInstance_concludes [OF assms]
    by (auto dest!: none simp: pings_def attempt_def split: sum.splits)
qed

text \<open>
  The reconciliation of an instance never panics. It is repeated after two minutes, after a
  failed probe after 15 seconds, unless the instance is gone or a call to the cluster fails.
\<close>

theorem instance_reconcile_returns:
  "\<exists>res. fst (reconcileInstance K req s) = Returned res \<and>
     (case fst (env_GetInstance K req (world s)) of
        Inl e \<Rightarrow> res = (if isNotFound e then ok noRequeue else failed (kerrText e))
      | Inr inst \<Rightarrow> legalProbe res)"
proof -
  obtain g w where g: "env_GetInstance K req (world s) = (g, w)" by (cases "env_GetInstance K req (world s)")
  show ?thesis
  proof (cases g)
    case (Inl e)
    with g show ?thesis by (simp add: reconcileInstance_def kGetInstance_def call_def bind_def)
  next
    case (Inr inst)
    obtain r w' where "env_GetSecret K (credentialsKey inst) w = (r, w')"
      by (cases "env_GetSecret K (credentialsKey inst) w")
    from reconcileInstance_concludes [OF g [unfolded Inr] this] g Inr show ?thesis
      by (auto simp: concludes_def)
  qed
qed

end
