(* ===== verification/SecretFacts.thy ===== *)
theory SecretFacts
  imports SpController ClientFacts
begin

text \<open>
  The inbound secret of a service provider: how the operator writes the credentials of the remote
  application into it, and how it reads them back into the application it sends.
\<close>

lemma nonEmptyEntries_values: "map_of (nonEmptyEntries kv) k = Some v \<Longrightarrow> k \<noteq> [] \<and> v \<noteq> []"
  by (induction kv) (auto simp: nonEmptyEntries_def split: if_splits)

text \<open>What a map of strings holds after new entries were written over it.\<close>

lemma mapget_merged:
  "mapget (Some ((case m of None \<Rightarrow> Map.empty | Some f \<Rightarrow> f) ++ new)) k =
     (case new k of Some v \<Rightarrow> v | None \<Rightarrow> mapget m k)"
  by (simp add: mapget_def map_add_def split: option.split)



end
