(* ===== verification/Demo.thy ===== *)
theory Demo
  imports SpTheorems Convergence SamlWire InstanceFacts SecretFacts
begin

text \<open>
  Concrete inputs: a cluster with one object, one instance and its secret, and a server that gives
  one answer to every request. They show that the hypotheses of the theorems can hold, and are the
  inputs of the witnesses.
\<close>

section \<open>Objects\<close>

definition demoMeta :: "string \<Rightarrow> ObjectMeta" where
  "demoMeta name = \<lparr>om_Name = name, om_Namespace = ''apps'', om_Annotations = None,
     om_Finalizers = Some [spFinalizer], om_DeletionTimestamp = None, om_Generation = 1,
     om_ResourceVersion = ''7''\<rparr>"

definition demoSpec :: WSO2SPSpec where
  "demoSpec = \<lparr>spec_InstanceRef = Some \<lparr>ref_Name = ''is''\<rparr>, spec_Name = ''portal'', spec_Claims = None,
     spec_Description = ''d'', spec_SubjectClaimURI = [], spec_SAML = None, spec_OAuth2 = None,
     spec_AuthenticationSteps = None, spec_AuthenticationScript = None,
     spec_AlwaysSendBackAuthenticatedListOfIDPs = False, spec_EnableAuthorization = False,
     spec_SkipConsent = False, spec_SkipLogoutConsent = False, spec_UseTenantInSub = False,
     spec_UseUserstoreInSub = False, spec_UseUserstoreInRoles = False, spec_StepForSubject = 1,
     spec_StepForAttributes = 1\<rparr>"

definition demoStatus :: WSO2SPStatus where
  "demoStatus = \<lparr>status_ID = 3, status_ResourceID = ''r3'', status_Phase = phasePending,
     status_AdminCanView = True, status_Message = [], status_Conditions = None\<rparr>"

definition demoSP :: WSO2SP where
  "demoSP = \<lparr>sp_Meta = demoMeta ''portal'', sp_Spec = demoSpec, sp_Status = demoStatus\<rparr>"

definition freshSP :: WSO2SP where
  "freshSP = demoSP\<lparr>sp_Meta := (demoMeta ''portal'')\<lparr>om_Finalizers := None\<rparr>\<rparr>"

definition deletingSP :: WSO2SP where
  "deletingSP = demoSP\<lparr>sp_Meta := (demoMeta ''portal'')\<lparr>om_DeletionTimestamp := Some 1\<rparr>\<rparr>"

definition pausedDemo :: WSO2SP where
  "pausedDemo = demoSP\<lparr>sp_Meta := (demoMeta ''portal'')
     \<lparr>om_Annotations := Some (Map.empty(''wso2.it.auth.gr/reconcile'' \<mapsto> ''false''))\<rparr>\<rparr>"

definition demoOAuth2 :: V1_OAuth2Config where
  "demoOAuth2 = \<lparr>v1o_CallbackURL = ''https://app/cb'', v1o_GrantTypes = Some [''code''], v1o_PKCEMandatory = True,
     v1o_PKCEPlain = True, v1o_PublicClient = False, v1o_TokenBinding = ''cookie'', v1o_Audiences = None,
     v1o_ScopeValidators = None, v1o_RefreshTokenExpiry = 60, v1o_AccessTokenExpiry = 60\<rparr>"

definition oauthSP :: WSO2SP where
  "oauthSP = demoSP\<lparr>sp_Spec := demoSpec\<lparr>spec_OAuth2 := Some demoOAuth2\<rparr>\<rparr>"

definition demoInstance :: WSO2ISInstance where
  "demoInstance = \<lparr>inst_Meta = (demoMeta ''is'')\<lparr>om_Finalizers := None\<rparr>,
     inst_Spec = \<lparr>ispec_BaseURL = ''https://is'', ispec_CredentialsSecret = \<lparr>sref_Name = ''cred'', sref_Namespace = []\<rparr>,
       ispec_InsecureSkipTLSVerify = False, ispec_TenantDomain = []\<rparr>,
     inst_Status = \<lparr>istatus_Ready = False, istatus_Message = [], istatus_Phase = ''Ready'', istatus_Conditions = None\<rparr>\<rparr>"

definition demoSecret :: Secret where
  "demoSecret = emptySecret\<lparr>sec_Name := ''cred'', sec_Namespace := ''apps'',
     sec_Data := Some (Map.empty(''username'' \<mapsto> ''u'', ''password'' \<mapsto> ''p''))\<rparr>"

definition demoClient :: Client where
  "demoClient = NewClient ''https://is'' ''u'' ''p'' ''carbon.super'' False"

section \<open>The cluster and the server\<close>

definition demoAnswer :: "int \<Rightarrow> string \<Rightarrow> HttpAnswer" where
  "demoAnswer code text = \<lparr>ha_StatusCode = code, ha_Status = [], ha_Location = [], ha_Body = text, ha_ReadError = None\<rparr>"

text \<open>The answer with one application that has no steps, claims or protocols.\<close>

definition demoApplication :: Application where
  "demoApplication = zeroApplication\<lparr>app_ID := 3, app_Name := ''portal''\<rparr>"

definition demoTree :: xtree where
  "demoTree = XElem soapEnvNS ''Envelope'' [] [XElem soapEnvNS ''Body'' []
     [XElem axisNS ''getApplicationResponse'' [] [XElem axisNS ''return'' []
       (map (answer commonNS) (xml_ServiceProviderRequest (sentProvider demoApplication)))]]]"

definition withFinalizers :: "(string list \<Rightarrow> string list) \<Rightarrow> WSO2SP \<Rightarrow> WSO2SP" where
  "withFinalizers f sp = sp\<lparr>sp_Meta := (sp_Meta sp)\<lparr>om_Finalizers := Some (f (elems (om_Finalizers (sp_Meta sp))))\<rparr>\<rparr>"

definition demoEnv :: "WSO2SP \<Rightarrow> HttpAnswer \<Rightarrow> unit env" where
  "demoEnv sp a =
     \<lparr>env_GetSP = \<lambda>n w. (Inr sp, w), env_GetInstance = \<lambda>n w. (Inr demoInstance, w),
      env_GetSecret = \<lambda>n w. (Inr demoSecret, w), env_GetConfigMap = \<lambda>n w. (Inl (KNotFound ''no''), w),
      env_CreateSecret = \<lambda>x w. (Inr x, w), env_UpdateSecret = \<lambda>x w. (Inr x, w),
      env_UpdateSP = \<lambda>x w. (Inr x, w), env_StatusUpdateSP = \<lambda>x w. (Inr x, w),
      env_StatusPatchSP = \<lambda>b x w. (Inr x, w), env_StatusUpdateInstance = \<lambda>x w. (Inr x, w),
      env_Http = \<lambda>q w. (Inr a, w), env_Now = \<lambda>w. 100, env_UrlError = \<lambda>u. None,
      env_XmlParse = \<lambda>t. Inr demoTree, env_JsonParse = \<lambda>t. Inr (JObj [(''applications'', JArr [JNull])]),
      env_JsonTypeError = \<lambda>t j. ''bad'', env_JsonAnyError = \<lambda>j. None,
      env_ContainsFinalizer = \<lambda>sp f. f \<in> set (elems (om_Finalizers (sp_Meta sp))),
      env_AddFinalizer = \<lambda>sp f. withFinalizers (\<lambda>fs. if f \<in> set fs then fs else fs @ [f]) sp,
      env_RemoveFinalizer = \<lambda>sp f. withFinalizers (filter (\<lambda>x. x \<noteq> f)) sp,
      env_SetControllerReference = \<lambda>sp x. Inr (x\<lparr>sec_OwnerReferences := [om_Name (sp_Meta sp)]\<rparr>)\<rparr>"

lemma demoEnv_laws: "finalizer_laws (demoEnv sp a)"
  unfolding finalizer_laws_def
proof (intro conjI allI)
  fix x :: WSO2SP and f
  let ?fs = "elems (om_Finalizers (sp_Meta x))"
  show "env_ContainsFinalizer (demoEnv sp a) x f = (f \<in> set ?fs)" by (simp add: demoEnv_def)
  show "\<exists>fs. f \<in> set (elems fs) \<and>
      env_AddFinalizer (demoEnv sp a) x f = x\<lparr>sp_Meta := (sp_Meta x)\<lparr>om_Finalizers := fs\<rparr>\<rparr>"
    by (rule exI [of _ "Some (if f \<in> set ?fs then ?fs else ?fs @ [f])"]) (simp add: demoEnv_def withFinalizers_def)
  show "\<exists>fs. set (elems fs) = set ?fs - {f} \<and>
      env_RemoveFinalizer (demoEnv sp a) x f = x\<lparr>sp_Meta := (sp_Meta x)\<lparr>om_Finalizers := fs\<rparr>\<rparr>"
    by (rule exI [of _ "Some (filter (\<lambda>x. x \<noteq> f) ?fs)"]) (auto simp: demoEnv_def withFinalizers_def)
qed

definition demoRun :: "unit run" where
  "demoRun = \<lparr>world = (), log = []\<rparr>"

definition demoKey :: NamespacedName where
  "demoKey = \<lparr>nn_Name = ''portal'', nn_Namespace = ''apps''\<rparr>"

lemmas demo_objects = demoMeta_def demoSpec_def demoStatus_def demoSP_def freshSP_def deletingSP_def pausedDemo_def


section \<open>Runs\<close>

lemma demoEnv_simps [simp]:
  "env_GetSP (demoEnv sp a) n w = (Inr sp, w)"
  "env_GetInstance (demoEnv sp a) n w = (Inr demoInstance, w)"
  "env_GetSecret (demoEnv sp a) n w = (Inr demoSecret, w)"
  "env_Http (demoEnv sp a) q w = (Inr a, w)"
  "env_UrlError (demoEnv sp a) u = None"
  "env_UpdateSP (demoEnv sp a) x w = (Inr x, w)"
  "env_UpdateSecret (demoEnv sp a) z w = (Inr z, w)"
  "env_StatusUpdateSP (demoEnv sp a) x w = (Inr x, w)"
  "env_StatusPatchSP (demoEnv sp a) y x w = (Inr x, w)"
  "env_StatusUpdateInstance (demoEnv sp a) i w = (Inr i, w)"
  "env_XmlParse (demoEnv sp a) t = Inr demoTree"
  "env_JsonParse (demoEnv sp a) t = Inr (JObj [(''applications'', JArr [JNull])])"
  "env_JsonAnyError (demoEnv sp a) j = None"
  by (simp_all add: demoEnv_def)

lemma answerTo_demo [simp]:
  "answerTo (demoEnv sp (demoAnswer code text)) q w =
     Inr \<lparr>resp_Body = text, resp_StatusCode = code, resp_Location = []\<rparr>"
  by (simp add: answerTo_def readAnswer_def demoAnswer_def)

lemma afterCall_demo [simp]: "afterCall (demoEnv sp a) q s = \<lparr>world = world s, log = log s @ [Http q]\<rparr>"
  by (simp add: afterCall_def)

lemma buildClient_demo:
  assumes "spec_InstanceRef (sp_Spec x) = Some r"
  shows "buildClient (demoEnv sp a) x s = (Returned (Inr demoClient), \<lparr>world = world s, log = log s @
    [GetInstance \<lparr>nn_Name = ref_Name r, nn_Namespace = om_Namespace (sp_Meta x)\<rparr>, GetSecret (credentialsKey demoInstance)]\<rparr>)"
  using assms by (simp add: buildClient_def deref_def bind_def kGetInstance_def kGetSecret_def call_def demoInstance_def
      phaseReady_def demoSecret_def demoClient_def tenantOf_def)

text \<open>Deleting the remote application and the object.\<close>

lemma demo_deleting:
  "events (Reconcile (demoEnv deletingSP (demoAnswer 200 [])) demoKey) demoRun =
     [GetSP demoKey, GetInstance \<lparr>nn_Name = ''is'', nn_Namespace = ''apps''\<rparr>, GetSecret (credentialsKey demoInstance),
      Http (deleteRequest demoClient ''portal''),
      Recorded \<lparr>rec_Type = normal, rec_Reason = ''Deleted'', rec_Action = ''Deleting'',
        rec_Note = ''Application '' @ quote ''portal'' @ '' deleted from WSO2IS''\<rparr>,
      UpdateSP (withFinalizers (\<lambda>_. []) deletingSP)]"
proof -
  have "skipReconcile APP deletingSP = False" "timeIsZero (om_DeletionTimestamp (sp_Meta deletingSP)) = False"
    by (simp_all add: demo_objects skipReconcile_def timeIsZero_def)
  moreover have "env_RemoveFinalizer (demoEnv x a) deletingSP spFinalizer = withFinalizers (\<lambda>_. []) deletingSP" for x a
    by (simp add: demoEnv_def withFinalizers_def demo_objects)
  moreover have "spec_InstanceRef (sp_Spec deletingSP) = Some \<lparr>ref_Name = ''is''\<rparr>"
    "om_Namespace (sp_Meta deletingSP) = ''apps''" "status_ResourceID (sp_Status deletingSP) = ''r3''"
    "spec_Name (sp_Spec deletingSP) = ''portal''"
    by (simp_all add: demo_objects)
  ultimately show ?thesis
    by (simp add: events_def Reconcile_def kGetSP_def call_def bind_def reconcileSP_def buildClient_demo handleDelete_def
        DeleteApplication_run errorOf_def checkReply_def isSuccess_def eventf_def kUpdateSP_def Let_def demoRun_def)
qed


text \<open>The remote application is found, and the run ends in sync.\<close>

lemma demo_found:
  "found (demoEnv sp (demoAnswer 200 ''x'')) (Inr \<lparr>resp_Body = ''x'', resp_StatusCode = 200, resp_Location = []\<rparr>) =
     Inr \<lparr>rse_Body = \<lparr>garb_GetApplicationResponse = \<lparr>gares_ServiceProvider = serviceProviderAnswer (sentProvider demoApplication)\<rparr>\<rparr>\<rparr>"
proof -
  have "spr_ApplicationResourceID (sentProvider demoApplication) = []"
    by (simp add: sentProvider_def buildUpdateApplication_def envelope_def)
  then show ?thesis
    by (simp add: found_def isSuccess_def demoTree_def dec_ResponseEnvelope_def checkRoot.simps decodeElem_def
        dec_GetApplicationResponseBody_def dec_GetApplicationResponse_def f_defs field_simps wire_ServiceProvider
        zero_GetApplicationResponseBody_def zero_GetApplicationResponse_def)
qed

lemma demo_mapped:
  "mapGetApplication \<lparr>rse_Body = \<lparr>garb_GetApplicationResponse = \<lparr>gares_ServiceProvider =
     serviceProviderAnswer (sentProvider demoApplication)\<rparr>\<rparr>\<rparr> = Returned (echoApplication demoApplication)"
proof -
  have "spr_ApplicationResourceID (sentProvider demoApplication) = []"
    by (simp add: sentProvider_def buildUpdateApplication_def envelope_def)
  then have "mapServiceProvider (serviceProviderAnswer (sentProvider demoApplication)) = readBackApplication demoApplication"
    by (simp add: readBackApplication_def wire_ServiceProvider)
  also have "\<dots> = Returned (echoApplication demoApplication)"
    by (simp add: application_read_back demoApplication_def zeroApplication_def)
  finally show ?thesis by (simp add: mapGetApplication_def)
qed

lemma demo_lookup:
  "GetApplicationByName (demoEnv sp (demoAnswer 200 ''x'')) c n s =
     (Returned (Inr (Some (echoApplication demoApplication))),
      \<lparr>world = world s, log = log s @ [Http (listRequest c n), Http (getRequest c n)]\<rparr>)"
  by (simp add: GetApplicationByName_run Let_def listed_def isSuccess_def dec_anyMap_def assertArray_def
      demo_found demo_mapped)

definition syncedSP :: WSO2SP where
  "syncedSP = withPhase phaseReady (''Application in sync (ID: '' @ [] @ '')'') (withIDs (echoApplication demoApplication) demoSP)"

lemma log_bind_ret: "log (snd (bind m (\<lambda>(a, b). ret b) s)) = log (snd (m s))"
  by (simp add: bind_def split: prod.split outcome.split)

lemma demo_sync:
  "StatusPatchSP demoSP syncedSP \<in> set (events (Reconcile (demoEnv demoSP (demoAnswer 200 ''x'')) demoKey) demoRun)"
proof -
  let ?K = "demoEnv demoSP (demoAnswer 200 ''x'')" and ?e = "echoApplication demoApplication"
  have sp: "skipReconcile APP demoSP = False" "timeIsZero (om_DeletionTimestamp (sp_Meta demoSP)) = True"
    "env_ContainsFinalizer ?K demoSP spFinalizer = True" "wantsSAML demoSP = False"
    "spec_OAuth2 (sp_Spec demoSP) = None" "spec_SAML (sp_Spec demoSP) = None"
    "spec_AuthenticationScript (sp_Spec demoSP) = None"
    "spec_InstanceRef (sp_Spec demoSP) = Some \<lparr>ref_Name = ''is''\<rparr>" "status_AdminCanView (sp_Status demoSP)"
    by (simp_all add: demo_objects skipReconcile_def timeIsZero_def demoEnv_def wantsSAML_def)
  have ids: "status_AdminCanView (sp_Status (withIDs a demoSP))"
    "spec_AuthenticationScript (sp_Spec (withIDs a demoSP)) = None" "spec_OAuth2 (sp_Spec (withIDs a demoSP)) = None"
    "spec_SAML (sp_Spec (withIDs a demoSP)) = None" for a
    using sp by (simp_all add: withIDs_def)
  have rid: "app_ResourceID ?e = []" by (simp add: echoApplication_def)
  obtain ch a b where ch: "appHasChanged ?e (applicationFromSpec demoSP) = (ch, a, b)" by (metis prod_cases3)
  have upd: "\<exists>es. updateRemote ?K (withIDs ?e demoSP) c ?e (applicationFromSpec demoSP) s =
      (Returned (Inr ()), \<lparr>world = world s, log = log s @ es\<rparr>)" for c s
  proof (cases ch)
    case False
    then show ?thesis by (cases s) (simp add: updateRemote_def ch)
  next
    case True
    have "UpdateApplication ?K c b s = (Returned (Inr ()), \<lparr>world = world s, log = log s @ [Http (updateRequest c b)]\<rparr>)"
      unfolding UpdateApplication_def bind_def doSOAPnil_run updateRequest_def [symmetric]
      by (simp add: errorOf_def checkReply_def isSuccess_def)
    with True show ?thesis
      by (simp add: updateRemote_def ch populateInboundSecrets_def ids bind_def eventf_def call_def)
  qed
  have step: "\<exists>es. log (snd (reconcileRemote ?K c demoSP s)) = log s @ es @ [StatusPatchSP demoSP syncedSP]" for c s
  proof -
    obtain es where u: "updateRemote ?K (withIDs ?e demoSP) c ?e (applicationFromSpec demoSP)
        \<lparr>world = (), log = log s @ [Http (listRequest c (spec_Name (sp_Spec demoSP))), Http (getRequest c (spec_Name (sp_Spec demoSP)))]\<rparr> =
        (Returned (Inr ()), \<lparr>world = (), log = (log s @ [Http (listRequest c (spec_Name (sp_Spec demoSP))), Http (getRequest c (spec_Name (sp_Spec demoSP)))]) @ es\<rparr>)"
      using upd [of c "\<lparr>world = (), log = log s @ [Http (listRequest c (spec_Name (sp_Spec demoSP))), Http (getRequest c (spec_Name (sp_Spec demoSP)))]\<rparr>"]
      by auto
    show ?thesis
      by (simp add: reconcileRemote_def Let_def bind_def demo_lookup syncRemote_def withScript_def ids u
          reconcileAdminAccess_def patchStatus_def kStatusPatchSP_def call_def syncedSP_def rid)
  qed
  let ?s = "\<lparr>world = (), log = [GetSP demoKey, GetInstance \<lparr>nn_Name = ''is'', nn_Namespace = om_Namespace (sp_Meta demoSP)\<rparr>,
        GetSecret (credentialsKey demoInstance)]\<rparr>"
  have "snd (Reconcile ?K demoKey demoRun) = snd (bind (reconcileSP ?K demoSP) (\<lambda>(sp', res). ret res)
      \<lparr>world = (), log = [GetSP demoKey]\<rparr>)"
    by (simp add: Reconcile_def kGetSP_def call_def bind_def [of "\<lambda>s. (_, _)"] demoRun_def)
  then have "log (snd (Reconcile ?K demoKey demoRun)) = log (snd (reconcileSP ?K demoSP \<lparr>world = (), log = [GetSP demoKey]\<rparr>))"
    by (simp add: log_bind_ret)
  also have "reconcileSP ?K demoSP \<lparr>world = (), log = [GetSP demoKey]\<rparr> = reconcileRemote ?K demoClient demoSP ?s"
    using sp by (simp add: reconcileSP_def bind_def [of "buildClient _ _"] buildClient_demo reconcileApplication_def substep_def)
  finally show ?thesis
    using step [of demoClient ?s] by (auto simp: events_def demoRun_def)
qed


section \<open>Valid texts\<close>

lemma valid_ascii: "list_all (\<lambda>c. byte c < 128) s \<Longrightarrow> valid_utf8 s"
  by (fastforce simp: valid_utf8_def runes_ascii list_all_iff bad_rune_def rune_error_def)

lemma ok_int [simp]: "num_ok (show_goint w)"
proof -
  have d: "c \<in> set ''0123456789''" if "48 \<le> byte c" "byte c < 58" for c
  proof -
    have "byte c \<in> {48,49,50,51,52,53,54,55,56,57}" using that by simp presburger
    then have "byte c \<in> byte ` set ''0123456789''" by (simp add: byte_def)
    moreover have "inj byte" by (simp add: inj_def byte_def)
    ultimately show ?thesis by (simp only: inj_image_mem_iff)
  qed
  have all: "set (show_nat n) \<subseteq> set ''0123456789''" for n
    using d show_nat_digits by blast
  have sub: "set ''0123456789'' \<subseteq> set numChars" "CHR ''-'' \<in> set numChars" by (simp_all add: numChars_def)
  have "show_nat n \<noteq> [] \<and> hd (show_nat n) \<in> set ''0123456789''" for n
    using all [of n] show_nat_not_Nil [of n] hd_in_set by blast
  with all sub show ?thesis
    by (auto simp: num_ok_def show_goint_def show_int_def list_all_iff)
qed

lemmas json_evals = json_Application_def fld_def omitStr_def omitBool_def omitInt_def omitSlice_def jsonSlice_def
  jsonPtr_def jsonInt_def

end
