(* ===== verification/Lifecycle.thy ===== *)
theory Lifecycle
  imports SpTheorems
begin

text \<open>
  The life of one service provider: its users edit and delete it, the operator reconciles it over and
  over, and the API server accepts or refuses each write. The steps of the operator are the events of
  \<^verbatim>\<open>Reconcile\<close>, one by one, so that users act between the read and the writes of a reconciliation,
  and the operator can stop at any point. What holds in every reached state is an invariant of
  this step relation.
\<close>

section \<open>The system\<close>

text \<open>
  The stored object, whether it has been removed, the reconciliation in progress (the object it read,
  the events it has performed and those to come), and every event performed so far. An object that
  is created again under the same name is another object.
\<close>

record system =
  sys_obj :: WSO2SP
  sys_gone :: bool
  sys_run :: "(WSO2SP \<times> event list \<times> event list) option"
  sys_log :: "event list"

definition hasFinalizer :: "WSO2SP \<Rightarrow> bool" where
  "hasFinalizer sp \<longleftrightarrow> spFinalizer \<in> set (elems (om_Finalizers (sp_Meta sp)))"

text \<open>
  What the API server stores for a write: the status resource changes the status only, and a merge
  patch only those of its fields that differ between the two objects it was computed from; an update
  of the object leaves the status alone.
\<close>

definition merged :: "'a \<Rightarrow> 'a \<Rightarrow> 'a \<Rightarrow> 'a" where
  "merged b x cur = (if b = x then cur else x)"

definition mergeStatus :: "WSO2SPStatus \<Rightarrow> WSO2SPStatus \<Rightarrow> WSO2SPStatus \<Rightarrow> WSO2SPStatus" where
  "mergeStatus b x cur =
     \<lparr>status_ID = merged (status_ID b) (status_ID x) (status_ID cur),
      status_ResourceID = merged (status_ResourceID b) (status_ResourceID x) (status_ResourceID cur),
      status_Phase = merged (status_Phase b) (status_Phase x) (status_Phase cur),
      status_AdminCanView = merged (status_AdminCanView b) (status_AdminCanView x) (status_AdminCanView cur),
      status_Message = merged (status_Message b) (status_Message x) (status_Message cur),
      status_Conditions = merged (status_Conditions b) (status_Conditions x) (status_Conditions cur)\<rparr>"

primrec written :: "event \<Rightarrow> WSO2SP \<Rightarrow> WSO2SP" where
  "written (GetSP n) cur = cur"
| "written (GetInstance n) cur = cur"
| "written (GetSecret n) cur = cur"
| "written (GetConfigMap n) cur = cur"
| "written (CreateSecret x) cur = cur"
| "written (UpdateSecret x) cur = cur"
| "written (UpdateSP x) cur = cur\<lparr>sp_Meta := sp_Meta x, sp_Spec := sp_Spec x\<rparr>"
| "written (StatusUpdateSP x) cur = cur\<lparr>sp_Status := sp_Status x\<rparr>"
| "written (StatusPatchSP b x) cur = cur\<lparr>sp_Status := mergeStatus (sp_Status b) (sp_Status x) (sp_Status cur)\<rparr>"
| "written (StatusUpdateInstance x) cur = cur"
| "written (Http q) cur = cur"
| "written (Recorded r) cur = cur"

text \<open>An update from an outdated object is refused; an object that is being deleted goes with its last finalizer.\<close>

definition conflictFree :: "event \<Rightarrow> WSO2SP \<Rightarrow> WSO2SP \<Rightarrow> bool" where
  "conflictFree e read cur \<longleftrightarrow>
     (\<forall>x. e = UpdateSP x \<longrightarrow> sp_Meta cur = sp_Meta read \<and> sp_Spec cur = sp_Spec read)"

definition collected :: "WSO2SP \<Rightarrow> bool" where
  "collected cur \<longleftrightarrow> om_DeletionTimestamp (sp_Meta cur) \<noteq> None \<and> elems (om_Finalizers (sp_Meta cur)) = []"

definition noStatus :: WSO2SPStatus where
  "noStatus = \<lparr>status_ID = 0, status_ResourceID = [], status_Phase = [], status_AdminCanView = False,
     status_Message = [], status_Conditions = None\<rparr>"

definition created :: "WSO2SP \<Rightarrow> system" where
  "created sp = \<lparr>sys_obj = sp\<lparr>sp_Status := noStatus\<rparr>, sys_gone = False, sys_run = None, sys_log = []\<rparr>"

text \<open>
  The steps. Users leave the operator's finalizer and the status to the operator. A reconciliation may
  read an old version of the spec and of the metadata, but it sees the status and the finalizer that
  earlier reconciliations of the object wrote; one object is reconciled by one worker at a time.
\<close>

inductive sys_step :: "'w env \<Rightarrow> NamespacedName \<Rightarrow> system \<Rightarrow> system \<Rightarrow> bool" for K req where
  edit: "\<not> sys_gone S \<Longrightarrow> cur = (sys_obj S)\<lparr>sp_Meta := m, sp_Spec := spec\<rparr> \<Longrightarrow>
     hasFinalizer cur = hasFinalizer (sys_obj S) \<Longrightarrow>
     om_DeletionTimestamp m = om_DeletionTimestamp (sp_Meta (sys_obj S)) \<Longrightarrow>
     sys_step K req S (S\<lparr>sys_obj := cur, sys_gone := collected cur\<rparr>)"
| delete: "\<not> sys_gone S \<Longrightarrow>
     cur = (sys_obj S)\<lparr>sp_Meta := (sp_Meta (sys_obj S))\<lparr>om_DeletionTimestamp := Some t\<rparr>\<rparr> \<Longrightarrow>
     sys_step K req S (S\<lparr>sys_obj := cur, sys_gone := collected cur\<rparr>)"
| begin_run: "sys_run S = None \<Longrightarrow> env_GetSP K req (world s) = (Inr sp, w) \<Longrightarrow>
     sp_Status sp = sp_Status (sys_obj S) \<Longrightarrow> hasFinalizer sp = hasFinalizer (sys_obj S) \<Longrightarrow>
     sys_step K req S (S\<lparr>sys_run := Some (sp, [], events (Reconcile K req) s)\<rparr>)"
| refuse: "sys_run S = Some (sp, pre, e # post) \<Longrightarrow>
     sys_step K req S (S\<lparr>sys_run := Some (sp, pre @ [e], post), sys_log := sys_log S @ [e]\<rparr>)"
| accept: "sys_run S = Some (sp, pre, e # post) \<Longrightarrow> \<not> sys_gone S \<Longrightarrow> conflictFree e sp (sys_obj S) \<Longrightarrow>
     cur = written e (sys_obj S) \<Longrightarrow>
     sys_step K req S (S\<lparr>sys_obj := cur, sys_gone := collected cur,
       sys_run := Some (sp, pre @ [e], post), sys_log := sys_log S @ [e]\<rparr>)"
| end_run: "sys_step K req S (S\<lparr>sys_run := None\<rparr>)"

inductive reached :: "'w env \<Rightarrow> NamespacedName \<Rightarrow> system \<Rightarrow> bool" for K req where
  start: "reached K req (created sp)"
| step: "reached K req S \<Longrightarrow> sys_step K req S S' \<Longrightarrow> reached K req S'"

inductive_cases sys_stepE: "sys_step K req S S'"

section \<open>What a reconciliation can write\<close>

text \<open>An attempt to delete the remote application: the request, or the event that says that it failed.\<close>

definition deletionTried :: "event list \<Rightarrow> bool" where
  "deletionTried l \<longleftrightarrow> (\<exists>c n. Http (deleteRequest c n) \<in> set l) \<or> (\<exists>n. deleteFailed n \<in> set l)"

definition legalPhases :: "string set" where
  "legalPhases = {[], phasePending, phaseFailed, phaseReady, phasePaused}"

primrec runWrite :: "WSO2SP \<Rightarrow> event \<Rightarrow> bool" where
  "runWrite sp (GetSP n) = True"
| "runWrite sp (GetInstance n) = True"
| "runWrite sp (GetSecret n) = True"
| "runWrite sp (GetConfigMap n) = True"
| "runWrite sp (CreateSecret x) = True"
| "runWrite sp (UpdateSecret x) = True"
| "runWrite sp (UpdateSP x) = True"
| "runWrite sp (StatusUpdateSP x) = (sameSpec x sp \<and> status_Phase (sp_Status x) \<in> legalPhases - {phaseReady}
     \<and> (status_ResourceID (sp_Status x) = status_ResourceID (sp_Status sp) \<or> hasFinalizer sp))"
| "runWrite sp (StatusPatchSP b x) = (sameObject b sp \<and> sameSpec x sp \<and> status_Phase (sp_Status x) \<in> legalPhases
     \<and> (status_Phase (sp_Status x) = phaseReady \<longrightarrow> status_AdminCanView (sp_Status x)) \<and> hasFinalizer sp)"
| "runWrite sp (StatusUpdateInstance x) = True"
| "runWrite sp (Http q) = True"
| "runWrite sp (Recorded r) = True"

lemma readsOnly_runWrite: "readsOnly e \<Longrightarrow> runWrite sp e"
  by (cases e) simp_all

lemma allowed_runWrite: "allowed c sp e \<Longrightarrow> hasFinalizer sp \<Longrightarrow> runWrite sp e"
  by (cases e) (auto simp: legalPhases_def phases)

lemma reconcile_runWrite:
  assumes "finalizer_laws K" "env_GetSP K req (world s) = (Inr sp, w)" "e \<in> set (events (Reconcile K req) s)"
  shows "runWrite sp e"
proof -
  consider "e = GetSP req" | "e \<in> set (events (reconcileSP K sp) (afterGet req w s))"
    using assms(3) events_Reconcile_found [OF assms(2)] by auto
  then show ?thesis
  proof cases
    case 2
    then show ?thesis
    proof (cases rule: reconcileSP_cases)
      case (application c)
      then show ?thesis
        using assms(1) by (intro allowed_runWrite) (auto simp: finalizer_laws_def hasFinalizer_def)
    next
      case paused
      have "sameSpec (pausedSP sp) sp" by simp
      with paused show ?thesis by (simp add: pausedSP_def legalPhases_def phases)
    next
      case (notReady n x)
      then show ?thesis by (auto simp: legalPhases_def phases withPhase_def sameSpec_def)
    qed (auto simp: readsOnly_runWrite)
  qed simp
qed

section \<open>The invariant\<close>

text \<open>Of the stored object, given what has been performed.\<close>

definition objectOk :: "WSO2SP \<Rightarrow> event list \<Rightarrow> bool" where
  "objectOk cur l \<longleftrightarrow>
     (status_Phase (sp_Status cur) = phaseReady \<longrightarrow> status_AdminCanView (sp_Status cur))
   \<and> status_Phase (sp_Status cur) \<in> legalPhases
   \<and> status_Conditions (sp_Status cur) = None
   \<and> (status_ResourceID (sp_Status cur) \<noteq> [] \<longrightarrow> hasFinalizer cur \<or> deletionTried l)"

text \<open>Of the reconciliation in progress: what the object it read has to do with the stored one.\<close>

definition inStep :: "WSO2SP \<Rightarrow> event list \<Rightarrow> WSO2SP \<Rightarrow> event list \<Rightarrow> bool" where
  "inStep sp pre cur l \<longleftrightarrow>
     hasFinalizer sp = hasFinalizer cur
   \<and> (status_AdminCanView (sp_Status sp) \<longrightarrow> status_AdminCanView (sp_Status cur))
   \<and> (status_ResourceID (sp_Status sp) \<noteq> [] \<longrightarrow> hasFinalizer cur \<or> deletionTried l)
   \<and> ((\<forall>e \<in> set pre. announced e = None) \<longrightarrow> status_ResourceID (sp_Status cur) = status_ResourceID (sp_Status sp))"

definition runOk :: "'w env \<Rightarrow> NamespacedName \<Rightarrow> WSO2SP \<Rightarrow> event list \<Rightarrow> event list \<Rightarrow> WSO2SP \<Rightarrow> event list \<Rightarrow> bool" where
  "runOk K req sp pre post cur l \<longleftrightarrow>
     (\<exists>s w. env_GetSP K req (world s) = (Inr sp, w) \<and> events (Reconcile K req) s = pre @ post)
   \<and> set pre \<subseteq> set l \<and> status_Conditions (sp_Status sp) = None \<and> (post \<noteq> [] \<longrightarrow> inStep sp pre cur l)"

definition systemOk :: "'w env \<Rightarrow> NamespacedName \<Rightarrow> system \<Rightarrow> bool" where
  "systemOk K req S \<longleftrightarrow> objectOk (sys_obj S) (sys_log S) \<and> (sys_gone S \<longrightarrow> \<not> hasFinalizer (sys_obj S))
     \<and> (case sys_run S of None \<Rightarrow> True | Some (sp, pre, post) \<Rightarrow> runOk K req sp pre post (sys_obj S) (sys_log S))"

lemma deletionTried_mono: "deletionTried l \<Longrightarrow> set l \<subseteq> set l' \<Longrightarrow> deletionTried l'"
  unfolding deletionTried_def by blast

lemma collected_no_finalizer: "collected cur \<Longrightarrow> \<not> hasFinalizer cur"
  by (simp add: collected_def hasFinalizer_def)

lemma runOk_next:
  assumes "runOk K req sp pre (e # post) cur l"
    and "inStep sp pre cur l \<Longrightarrow> post \<noteq> [] \<Longrightarrow> inStep sp (pre @ [e]) cur' (l @ [e])"
  shows "runOk K req sp (pre @ [e]) post cur' (l @ [e])"
  using assms by (auto simp: runOk_def)

lemma inStep_silent:
  "inStep sp pre cur l \<Longrightarrow> inStep sp (pre @ [e]) cur (l @ [e])"
  by (auto simp: inStep_def intro: deletionTried_mono)

lemma runOk_silent:
  "runOk K req sp pre (e # post) cur l \<Longrightarrow> runOk K req sp (pre @ [e]) post cur (l @ [e])"
  by (erule runOk_next) (rule inStep_silent)

lemma objectOk_more: "objectOk cur l \<Longrightarrow> objectOk cur (l @ [e])"
  by (auto simp: objectOk_def intro: deletionTried_mono)

text \<open>An accepted status write.\<close>

lemma status_update_ok:
  assumes "objectOk cur l" "inStep sp pre cur l" "status_Conditions (sp_Status sp) = None"
    and "runWrite sp (StatusUpdateSP x)"
  shows "objectOk (cur\<lparr>sp_Status := sp_Status x\<rparr>) (l @ [e])"
    "announced e \<noteq> None \<Longrightarrow> inStep sp (pre @ [e]) (cur\<lparr>sp_Status := sp_Status x\<rparr>) (l @ [e])"
  using assms
  by (auto simp: objectOk_def inStep_def sameSpec_def hasFinalizer_def intro: deletionTried_mono)

lemma status_patch_ok:
  assumes "objectOk cur l" "inStep sp pre cur l" "status_Conditions (sp_Status sp) = None"
    and "runWrite sp (StatusPatchSP b x)"
  shows "objectOk (cur\<lparr>sp_Status := mergeStatus (sp_Status b) (sp_Status x) (sp_Status cur)\<rparr>) (l @ [e])"
    "announced e \<noteq> None \<Longrightarrow>
     inStep sp (pre @ [e]) (cur\<lparr>sp_Status := mergeStatus (sp_Status b) (sp_Status x) (sp_Status cur)\<rparr>) (l @ [e])"
proof -
  let ?cur = "cur\<lparr>sp_Status := mergeStatus (sp_Status b) (sp_Status x) (sp_Status cur)\<rparr>"
  have b: "status_AdminCanView (sp_Status b) = status_AdminCanView (sp_Status sp)"
    "status_Conditions (sp_Status b) = status_Conditions (sp_Status x)"
    "status_AdminCanView (sp_Status sp) \<longrightarrow> status_AdminCanView (sp_Status x)"
    and x: "status_Phase (sp_Status x) \<in> legalPhases"
    "status_Phase (sp_Status x) = phaseReady \<longrightarrow> status_AdminCanView (sp_Status x)" "hasFinalizer sp"
    using assms(4) by (simp_all add: sameObject_def sameSpec_def)
  have cur: "status_AdminCanView (sp_Status sp) \<longrightarrow> status_AdminCanView (sp_Status cur)" "hasFinalizer cur"
    "hasFinalizer ?cur"
    using assms(2) x(3) by (simp_all add: inStep_def hasFinalizer_def)
  have admin: "status_AdminCanView (sp_Status ?cur) \<longleftrightarrow> status_AdminCanView (sp_Status x) \<or> status_AdminCanView (sp_Status cur)"
    using b cur(1) by (simp add: mergeStatus_def merged_def) blast
  have phase: "status_Phase (sp_Status ?cur) \<in> {status_Phase (sp_Status x), status_Phase (sp_Status cur)}"
    by (simp add: mergeStatus_def merged_def)
  have conds: "status_Conditions (sp_Status ?cur) = status_Conditions (sp_Status cur)"
    by (simp add: mergeStatus_def merged_def b(2))
  show "objectOk ?cur (l @ [e])"
    using assms(1) phase x(1,2) cur(3) admin conds unfolding objectOk_def by force
  show "inStep sp (pre @ [e]) ?cur (l @ [e])" if "announced e \<noteq> None"
    using that x(3) cur(1,3) admin unfolding inStep_def by auto
qed

text \<open>An accepted update of the object.\<close>

lemma update_ok:
  assumes "finalizer_laws K" "env_GetSP K req (world s) = (Inr sp, w)"
    and "events (Reconcile K req) s = pre @ UpdateSP x # post" "set pre \<subseteq> set l"
    and "objectOk cur l" "inStep sp pre cur l"
  shows "objectOk (cur\<lparr>sp_Meta := sp_Meta x, sp_Spec := sp_Spec x\<rparr>) (l @ [e]) \<and> post = []"
  using assms(1-3)
proof (cases rule: update_facts)
  case (1 fs)
  then show ?thesis using assms(5) by (simp add: objectOk_def hasFinalizer_def)
next
  case (2 c fs dpre)
  have "status_ResourceID (sp_Status cur) = status_ResourceID (sp_Status sp)"
    using assms(6) 2(2) by (simp add: inStep_def)
  moreover have "deletionTried dpre" if "status_ResourceID (sp_Status sp) \<noteq> []"
    using that 2(9) by (auto simp: deletionTried_def)
  moreover have "set dpre \<subseteq> set (l @ [e])" using 2(7) assms(4) by auto
  ultimately have "status_ResourceID (sp_Status cur) \<noteq> [] \<longrightarrow> deletionTried (l @ [e])"
    using deletionTried_mono by metis
  then show ?thesis using assms(5) 2(1) by (simp add: objectOk_def)
qed

lemma accept_ok:
  assumes "finalizer_laws K" "objectOk cur l" "runOk K req sp pre (e # post) cur l"
  shows "objectOk (written e cur) (l @ [e]) \<and> runOk K req sp (pre @ [e]) post (written e cur) (l @ [e])"
proof -
  obtain s w where s: "env_GetSP K req (world s) = (Inr sp, w)" "events (Reconcile K req) s = pre @ e # post"
    and l: "set pre \<subseteq> set l" "status_Conditions (sp_Status sp) = None" "inStep sp pre cur l"
    using assms(3) by (auto simp: runOk_def)
  have w: "runWrite sp e" by (rule reconcile_runWrite [OF assms(1) s(1)]) (simp add: s(2))
  show ?thesis
  proof (cases e)
    case (UpdateSP x)
    with update_ok [OF assms(1) s(1) s(2) [unfolded UpdateSP] l(1) assms(2) l(3), of e]
    show ?thesis using runOk_next [OF assms(3)] by simp
  next
    case (StatusUpdateSP x)
    note facts = status_update_ok [OF assms(2) l(3,2) w [unfolded StatusUpdateSP], of e]
    show ?thesis using facts StatusUpdateSP runOk_next [OF assms(3)] by simp
  next
    case (StatusPatchSP b x)
    note facts = status_patch_ok [OF assms(2) l(3,2) w [unfolded StatusPatchSP], of e]
    show ?thesis using facts StatusPatchSP runOk_next [OF assms(3)] by simp
  qed (use assms(2) runOk_silent [OF assms(3)] in \<open>simp_all add: objectOk_more\<close>)
qed

lemma same_ok:
  assumes "sp_Status cur' = sp_Status cur" "hasFinalizer cur' = hasFinalizer cur"
  shows "objectOk cur' l = objectOk cur l" "runOk K req sp pre post cur' l = runOk K req sp pre post cur l"
  by (simp_all add: objectOk_def runOk_def inStep_def assms)

lemma systemOk_same:
  assumes "systemOk K req S" "sp_Status cur = sp_Status (sys_obj S)" "hasFinalizer cur = hasFinalizer (sys_obj S)"
  shows "systemOk K req (S\<lparr>sys_obj := cur, sys_gone := collected cur\<rparr>)"
  using assms(1)
  by (cases "sys_run S") (auto simp: systemOk_def same_ok [OF assms(2,3)] collected_no_finalizer)

lemma systemOk_step:
  assumes "finalizer_laws K" "systemOk K req S" "sys_step K req S S'"
  shows "systemOk K req S'"
  using assms(3,2)
proof cases
  case (edit cur m spec)
  then show ?thesis using systemOk_same [OF assms(2), of cur] by simp
next
  case (delete cur t)
  then show ?thesis using systemOk_same [OF assms(2), of cur] by (simp add: hasFinalizer_def)
next
  case (begin_run s sp w)
  have "runOk K req sp [] (events (Reconcile K req) s) (sys_obj S) (sys_log S)"
    using begin_run assms(2) unfolding runOk_def
    by (intro conjI exI [of _ s] exI [of _ w]) (simp_all add: systemOk_def objectOk_def inStep_def)
  then show ?thesis using begin_run assms(2) by (simp add: systemOk_def)
next
  case (refuse sp pre e post)
  then show ?thesis using assms(2) by (simp add: systemOk_def objectOk_more runOk_silent)
next
  case (accept sp pre e post cur)
  then show ?thesis
    using assms(2) accept_ok [OF assms(1), of "sys_obj S" "sys_log S" req sp pre e post]
    by (simp add: systemOk_def collected_no_finalizer)
next
  case end_run
  then show ?thesis using assms(2) by (simp add: systemOk_def)
qed

lemma reached_systemOk:
  assumes "finalizer_laws K" "reached K req S"
  shows "systemOk K req S"
  using assms(2)
proof (induction rule: reached.induct)
  case (start sp)
  show ?case by (simp add: systemOk_def created_def objectOk_def noStatus_def legalPhases_def phases)
next
  case (step S S')
  then show ?case by (blast intro: systemOk_step [OF assms(1)])
qed


end
