(* ===== verification/Liveness.thy ===== *)
theory Liveness
  imports Lifecycle InstanceFacts
begin

text \<open>
  Repeated reconciliation gets there, first part: the remote application. Against a cluster and a
  server that do what they are asked, the steps that need neither OAuth2 nor SAML take an object to
  \<^verbatim>\<open>Ready\<close> in at most four reconciliations, one for each thing that can be missing: the finalizer,
  the remote application, the membership of the admin, and the status that says so. \<^verbatim>\<open>Protocols\<close> adds
  the two protocols.
\<close>

section \<open>A cooperative environment\<close>

text \<open>A stored object is the one that was written, except for the version the server gives it.\<close>

definition storedAs :: "WSO2SP \<Rightarrow> WSO2SP \<Rightarrow> bool" where
  "storedAs x y \<longleftrightarrow> sp_Spec y = sp_Spec x \<and> sp_Status y = sp_Status x
     \<and> (\<exists>v. sp_Meta y = (sp_Meta x)\<lparr>om_ResourceVersion := v\<rparr>)"

text \<open>
  The observations of the world -- the stored object, the remote application of the name in its spec,
  whether the admin is in the application's group, and whatever else is on the side -- and what it
  means that a call changes none of them.
\<close>

definition unmoved :: "('w \<Rightarrow> WSO2SP) \<Rightarrow> ('w \<Rightarrow> Application option) \<Rightarrow> ('w \<Rightarrow> bool) \<Rightarrow> ('w \<Rightarrow> 'x) \<Rightarrow> 'w \<Rightarrow> 'w \<Rightarrow> bool" where
  "unmoved obj remote member side w w' \<longleftrightarrow>
     obj w' = obj w \<and> remote w' = remote w \<and> member w' = member w \<and> side w' = side w"

lemma unmoved_refl [simp]: "unmoved obj remote member side w w"
  by (simp add: unmoved_def)

lemma unmoved_trans: "unmoved obj remote member side u v \<Longrightarrow> unmoved obj remote member side v w \<Longrightarrow> unmoved obj remote member side u w"
  by (simp add: unmoved_def)

text \<open>
  The interface: what the calls of the operator do to the observations. Nothing else is said about
  the world. The instance the object names is on the side, ready or not, its credentials can be read,
  secrets can be written, config maps exist, and the spec is one that survives an update of the
  object (which specs do is the matter of \<^verbatim>\<open>StoredSpec\<close>).
\<close>

definition instanceReady :: "WSO2ISInstance \<Rightarrow> bool" where
  "instanceReady inst \<longleftrightarrow> istatus_Phase (inst_Status inst) = phaseReady"

locale cooperative =
  fixes K :: "'w env" and req :: NamespacedName and c :: Client and spec :: WSO2SPSpec
    and obj :: "'w \<Rightarrow> WSO2SP" and remote :: "'w \<Rightarrow> Application option" and member :: "'w \<Rightarrow> bool" and side :: "'w \<Rightarrow> 'x"
    and inst :: "'x \<Rightarrow> WSO2ISInstance"
  assumes finalizers: "finalizer_laws K"
    and get: "env_GetSP K req w = (Inr (obj w), w)"
    and its_instance: "\<exists>r sec. spec_InstanceRef spec = Some r
      \<and> env_GetInstance K \<lparr>nn_Name = ref_Name r, nn_Namespace = om_Namespace (sp_Meta (obj w))\<rparr> w = (Inr (inst (side w)), w)
      \<and> env_GetSecret K (credentialsKey (inst (side w))) w = (Inr sec, w) \<and> c = instanceClient (inst (side w)) sec"
    and read_secret: "\<exists>r w'. env_GetSecret K n w = (r, w') \<and> (\<forall>e. r = Inl e \<longrightarrow> isNotFound e) \<and> unmoved obj remote member side w w'"
    and create_secret: "\<exists>y w'. env_CreateSecret K secret w = (Inr y, w') \<and> unmoved obj remote member side w w'"
    and update_secret: "\<exists>y w'. env_UpdateSecret K secret w = (Inr y, w') \<and> unmoved obj remote member side w w'"
    and own_secret: "\<exists>y. env_SetControllerReference K sp secret = Inr y"
    and config_map: "\<exists>cm w'. env_GetConfigMap K n w = (Inr cm, w') \<and> unmoved obj remote member side w w'"
    and update_object: "sp_Spec (obj w) = spec \<Longrightarrow> sp_Spec x = spec \<Longrightarrow> sp_Status x = sp_Status (obj w) \<Longrightarrow>
      \<exists>y w'. env_UpdateSP K x w = (Inr y, w') \<and> storedAs x (obj w')
        \<and> remote w' = remote w \<and> member w' = member w \<and> side w' = side w"
    and patch_status: "sp_Spec x = sp_Spec (obj w) \<Longrightarrow> sp_Meta x = sp_Meta (obj w) \<Longrightarrow>
      \<exists>y w'. env_StatusPatchSP K (obj w) x w = (Inr y, w') \<and> storedAs x (obj w')
        \<and> remote w' = remote w \<and> member w' = member w \<and> side w' = side w"
    and lookup: "\<exists>t. GetApplicationByName K c (spec_Name spec) s = (Returned (Inr (remote (world s))), t)
      \<and> unmoved obj remote member side (world s) (world t)"
    and create: "remote (world s) = None \<Longrightarrow> \<exists>t b. CreateApplication K c a s = (Returned (Inr b), t)
      \<and> obj (world t) = obj (world s) \<and> remote (world t) \<noteq> None \<and> side (world t) = side (world s)"
    and update: "remote (world s) \<noteq> None \<Longrightarrow> \<exists>t. UpdateApplication K c a s = (Returned (Inr ()), t)
      \<and> obj (world t) = obj (world s) \<and> remote (world t) \<noteq> None \<and> member (world t) = member (world s)
      \<and> side (world t) = side (world s)"
    and membership: "\<exists>g t. GetAdminGroupMembership K c (spec_Name spec) s = (Returned (Inr (member (world s), g)), t)
      \<and> unmoved obj remote member side (world s) (world t)"
    and join: "\<exists>t. JoinAdminToGroup K c g s = (Returned (Inr ()), t)
      \<and> obj (world t) = obj (world s) \<and> remote (world t) = remote (world s) \<and> member (world t) \<and> side (world t) = side (world s)"

text \<open>The objects the theorems are about, and how many reconciliations they are away from \<^verbatim>\<open>Ready\<close>.\<close>

definition active :: "WSO2SPSpec \<Rightarrow> WSO2SP \<Rightarrow> bool" where
  "active spec sp \<longleftrightarrow> sp_Spec sp = spec \<and> (\<forall>k. \<not> skipReconcile k sp) \<and> timeIsZero (om_DeletionTimestamp (sp_Meta sp))"

definition announcedReady :: "WSO2SP \<Rightarrow> bool" where
  "announcedReady sp \<longleftrightarrow> status_Phase (sp_Status sp) = phaseReady \<and> status_AdminCanView (sp_Status sp)"

definition distance :: "WSO2SP \<Rightarrow> Application option \<Rightarrow> bool \<Rightarrow> nat" where
  "distance sp remote member =
     (if \<not> hasFinalizer sp then 4
      else if remote = None then 3
      else if status_AdminCanView (sp_Status sp) then (if status_Phase (sp_Status sp) = phaseReady then 0 else 1)
      else if member then 1 else 2)"

lemma active_stored: "storedAs x y \<Longrightarrow> active spec y = active spec x"
  by (auto simp: active_def storedAs_def skipReconcile_def)

lemma hasFinalizer_stored: "storedAs x y \<Longrightarrow> hasFinalizer y = hasFinalizer x"
  by (auto simp: storedAs_def hasFinalizer_def)

lemma active_with [simp]:
  "active spec (withPhase ph m sp) = active spec sp" "active spec (withIDs a sp) = active spec sp"
  "active spec (sp\<lparr>sp_Status := st\<rparr>) = active spec sp"
  by (simp_all add: active_def withPhase_def withIDs_def skipReconcile_def)

lemma hasFinalizer_with [simp]:
  "hasFinalizer (withPhase ph m sp) = hasFinalizer sp" "hasFinalizer (withIDs a sp) = hasFinalizer sp"
  "hasFinalizer (sp\<lparr>sp_Status := st\<rparr>) = hasFinalizer sp"
  by (simp_all add: hasFinalizer_def withPhase_def withIDs_def)

lemma admin_withIDs [simp]: "status_AdminCanView (sp_Status (withIDs a sp)) = status_AdminCanView (sp_Status sp)"
  "sp_Spec (withIDs a sp) = sp_Spec sp" "sp_Meta (withIDs a sp) = sp_Meta sp"
  by (simp_all add: withIDs_def)

text \<open>
  One reconciliation: it returns without an error, asks to be repeated unless it has just added the
  finalizer (and then the status is as it was), and gets closer.
\<close>

definition progress :: "('w \<Rightarrow> WSO2SP) \<Rightarrow> ('w \<Rightarrow> Application option) \<Rightarrow> ('w \<Rightarrow> bool) \<Rightarrow> ('w \<Rightarrow> 'x) \<Rightarrow> WSO2SPSpec
    \<Rightarrow> 'w run \<Rightarrow> (WSO2SP \<times> goresult) outcome \<times> 'w run \<Rightarrow> bool" where
  "progress obj remote member side spec s r \<longleftrightarrow> (\<exists>sp' d t. r = (Returned (sp', ok (requeue d)), t)
     \<and> active spec (obj (world t)) \<and> (d = 0 \<longrightarrow> \<not> hasFinalizer (obj (world s)))
     \<and> (\<not> hasFinalizer (obj (world s)) \<longrightarrow> sp_Status (obj (world t)) = sp_Status (obj (world s)))
     \<and> side (world t) = side (world s)
     \<and> distance (obj (world t)) (remote (world t)) (member (world t))
         \<le> distance (obj (world s)) (remote (world s)) (member (world s)) - 1)"

lemma progressI:
  assumes "r = (Returned (sp', ok (requeue d)), t)" "active spec (obj (world t))" "d \<noteq> 0"
    and "hasFinalizer (obj (world s))" "side (world t) = side (world s)"
    and "distance (obj (world t)) (remote (world t)) (member (world t))
           \<le> distance (obj (world s)) (remote (world s)) (member (world s)) - 1"
  shows "progress obj remote member side spec s r"
  unfolding progress_def using assms by blast

context cooperative
begin

lemma build_client:
  assumes "sp_Spec (obj (world s)) = spec" "instanceReady (inst (side (world s)))"
  obtains t where "buildClient K (obj (world s)) s = (Returned (Inr c), t)" "world t = world s"
proof -
  let ?inst = "inst (side (world s))"
  obtain r sec where r: "spec_InstanceRef spec = Some r"
    "env_GetInstance K \<lparr>nn_Name = ref_Name r, nn_Namespace = om_Namespace (sp_Meta (obj (world s)))\<rparr> (world s) = (Inr ?inst, world s)"
    "env_GetSecret K (credentialsKey ?inst) (world s) = (Inr sec, world s)" "c = instanceClient ?inst sec"
    using its_instance by blast
  show ?thesis
    by (rule that [of "snd (buildClient K (obj (world s)) s)"])
      (use assms(2) in \<open>simp_all add: buildClient_def deref_def bind_def kGetInstance_def kGetSecret_def call_def assms(1) r
        instanceClient_def instanceReady_def\<close>)
qed

text \<open>While the instance is not ready there is no client, and nothing has changed but the log.\<close>

lemma no_client:
  assumes "sp_Spec (obj (world s)) = spec" "\<not> instanceReady (inst (side (world s)))"
  obtains t m where "buildClient K (obj (world s)) s = (Returned (Inl m), t)" "world t = world s"
proof -
  let ?inst = "inst (side (world s))"
  obtain r where r: "spec_InstanceRef spec = Some r"
    "env_GetInstance K \<lparr>nn_Name = ref_Name r, nn_Namespace = om_Namespace (sp_Meta (obj (world s)))\<rparr> (world s) = (Inr ?inst, world s)"
    using its_instance by blast
  show ?thesis
    by (rule that [of _ "snd (buildClient K (obj (world s)) s)"])
      (use assms(2) in \<open>simp_all add: buildClient_def deref_def bind_def kGetInstance_def call_def assms(1) r instanceReady_def\<close>)
qed

lemma get_secret:
  obtains r t where "kGetSecret K n s = (Returned r, t)" "\<forall>e. r = Inl e \<longrightarrow> isNotFound e"
    "unmoved obj remote member side (world s) (world t)"
proof -
  obtain r w' where r: "env_GetSecret K n (world s) = (r, w')" "\<forall>e. r = Inl e \<longrightarrow> isNotFound e"
    "unmoved obj remote member side (world s) w'"
    using read_secret by blast
  show ?thesis
    by (rule that [of r "\<lparr>world = w', log = log s @ [GetSecret n]\<rparr>"]) (use r in \<open>simp_all add: kGetSecret_def call_def\<close>)
qed

lemma fetch_secret:
  obtains d t where "fetchSecret K sp s = (Returned (Inr d), t)" "unmoved obj remote member side (world s) (world t)"
proof -
  obtain r t where r: "kGetSecret K (inboundSecretKey sp) s = (Returned r, t)" "\<forall>e. r = Inl e \<longrightarrow> isNotFound e"
    "unmoved obj remote member side (world s) (world t)"
    by (rule get_secret)
  show ?thesis
    by (cases r) (use r in \<open>auto simp: fetchSecret_def bind_def intro!: that\<close>)
qed

lemma upsert:
  obtains t where "upsertApplicationSecret K sp kv s = (Returned None, t)" "unmoved obj remote member side (world s) (world t)"
proof (cases "nonEmptyEntries kv = []")
  case True
  show ?thesis by (rule that [of s]) (simp_all add: upsertApplicationSecret_def True)
next
  case False
  obtain r t where r: "kGetSecret K (inboundSecretKey sp) s = (Returned r, t)" "\<forall>e. r = Inl e \<longrightarrow> isNotFound e"
    "unmoved obj remote member side (world s) (world t)"
    by (rule get_secret)
  have run: "upsertApplicationSecret K sp kv s = (case r of
      Inl e \<Rightarrow> (case env_SetControllerReference K sp
            (emptySecret\<lparr>sec_Name := inboundSecretName sp, sec_Namespace := om_Namespace (sp_Meta sp),
              sec_StringData := Some (map_of (nonEmptyEntries kv))\<rparr>) of
          Inl e \<Rightarrow> ret (Some e) t
        | Inr x \<Rightarrow> bind (kCreateSecret K x) (\<lambda>r. ret (case r of Inl e \<Rightarrow> Some (kerrText e) | Inr _ \<Rightarrow> None)) t)
    | Inr x \<Rightarrow> bind (kUpdateSecret K (x\<lparr>sec_StringData := Some
          ((case sec_StringData x of None \<Rightarrow> Map.empty | Some m \<Rightarrow> m) ++ map_of (nonEmptyEntries kv))\<rparr>))
        (\<lambda>r. ret (case r of Inl e \<Rightarrow> Some (kerrText e) | Inr _ \<Rightarrow> None)) t)"
    using False r(1,2) by (simp add: upsertApplicationSecret_def Let_def bind_def [of "kGetSecret K _"] split: sum.splits)
  show ?thesis
  proof (cases r)
    case (Inl e)
    obtain x where x: "env_SetControllerReference K sp
            (emptySecret\<lparr>sec_Name := inboundSecretName sp, sec_Namespace := om_Namespace (sp_Meta sp),
              sec_StringData := Some (map_of (nonEmptyEntries kv))\<rparr>) = Inr x"
      using own_secret by blast
    obtain y w' where y: "env_CreateSecret K x (world t) = (Inr y, w')" "unmoved obj remote member side (world t) w'"
      using create_secret by blast
    show ?thesis
      by (rule that [of "\<lparr>world = w', log = log t @ [CreateSecret x]\<rparr>"])
        (use unmoved_trans [OF r(3) y(2)] in \<open>simp_all add: run Inl x bind_def kCreateSecret_def call_def y(1)\<close>)
  next
    case (Inr x)
    let ?x = "x\<lparr>sec_StringData := Some
          ((case sec_StringData x of None \<Rightarrow> Map.empty | Some m \<Rightarrow> m) ++ map_of (nonEmptyEntries kv))\<rparr>"
    obtain y w' where y: "env_UpdateSecret K ?x (world t) = (Inr y, w')" "unmoved obj remote member side (world t) w'"
      using update_secret by blast
    show ?thesis
      by (rule that [of "\<lparr>world = w', log = log t @ [UpdateSecret ?x]\<rparr>"])
        (use unmoved_trans [OF r(3) y(2)] in \<open>simp_all add: run Inr bind_def kUpdateSecret_def call_def y(1)\<close>)
  qed
qed

lemma script:
  obtains d' t where "withScript K sp d s = (Returned (Inr d'), t)" "unmoved obj remote member side (world s) (world t)"
proof (cases "spec_AuthenticationScript (sp_Spec sp) = None \<or> spec_AuthenticationSteps (sp_Spec sp) = None")
  case True
  show ?thesis by (rule that [of d s]) (use True in \<open>auto simp: withScript_def split: option.split\<close>)
next
  case False
  then obtain ref steps where ref: "spec_AuthenticationScript (sp_Spec sp) = Some ref" "spec_AuthenticationSteps (sp_Spec sp) = Some steps"
    by auto
  let ?n = "\<lparr>nn_Name = ref_Name ref, nn_Namespace = om_Namespace (sp_Meta sp)\<rparr>"
  obtain cm w' where cm: "env_GetConfigMap K ?n (world s) = (Inr cm, w')" "unmoved obj remote member side (world s) w'"
    using config_map by blast
  show ?thesis
    by (rule that [of _ "\<lparr>world = w', log = log s @ [GetConfigMap ?n]\<rparr>"])
      (use cm in \<open>simp_all add: withScript_def ref bind_def kGetConfigMap_def call_def\<close>)
qed

lemma populate:
  obtains d' t where "populateInboundSecrets K sp d s = (Returned (Inr d'), t)" "unmoved obj remote member side (world s) (world t)"
proof -
  obtain a t where a: "fetchSecret K sp s = (Returned (Inr a), t)" "unmoved obj remote member side (world s) (world t)"
    by (rule fetch_secret)
  obtain b u where b: "fetchSecret K sp t = (Returned (Inr b), u)" "unmoved obj remote member side (world t) (world u)"
    by (rule fetch_secret)
  show ?thesis
    by (cases "spec_OAuth2 (sp_Spec sp) = None"; cases "spec_SAML (sp_Spec sp) = None")
      (use a b unmoved_trans [OF a(2) b(2)] in \<open>auto simp: populateInboundSecrets_def bind_def intro!: that\<close>)
qed

lemma patched:
  assumes "active spec x" "sp_Meta x = sp_Meta (obj w)" "sp_Spec x = sp_Spec (obj w)"
  obtains y w' where "env_StatusPatchSP K (obj w) x w = (Inr y, w')" "active spec (obj w')"
    "hasFinalizer (obj w') = hasFinalizer x" "sp_Status (obj w') = sp_Status x"
    "remote w' = remote w" "member w' = member w" "side w' = side w"
proof -
  obtain y w' where w: "env_StatusPatchSP K (obj w) x w = (Inr y, w')" "storedAs x (obj w')"
    "remote w' = remote w" "member w' = member w" "side w' = side w"
    using patch_status [OF assms(3,2)] by blast
  show ?thesis
    by (rule that [OF w(1) _ _ _ w(3-5)])
      (use active_stored [OF w(2)] hasFinalizer_stored [OF w(2)] w(2) assms(1) in \<open>simp_all add: storedAs_def\<close>)
qed

lemma finalizer_step:
  assumes "active spec (obj (world s))" "\<not> hasFinalizer (obj (world s))"
  shows "progress obj remote member side spec s (addFinalizerStep K (obj (world s)) s)"
proof -
  let ?sp = "obj (world s)"
  obtain fs where fs: "spFinalizer \<in> set (elems fs)"
    "env_AddFinalizer K ?sp spFinalizer = ?sp\<lparr>sp_Meta := (sp_Meta ?sp)\<lparr>om_Finalizers := fs\<rparr>\<rparr>"
    using finalizers unfolding finalizer_laws_def by blast
  let ?x = "?sp\<lparr>sp_Meta := (sp_Meta ?sp)\<lparr>om_Finalizers := fs\<rparr>\<rparr>"
  have x: "active spec ?x" "hasFinalizer ?x"
    using assms(1) fs(1) by (simp_all add: active_def skipReconcile_def hasFinalizer_def)
  have same: "sp_Spec ?sp = spec" "sp_Spec ?x = spec" "sp_Status ?x = sp_Status ?sp"
    using assms(1) by (simp_all add: active_def)
  obtain y w' where y: "env_UpdateSP K ?x (world s) = (Inr y, w')" "storedAs ?x (obj w')" "side w' = side (world s)"
    using update_object [OF same] by blast
  have "active spec (obj w')" "hasFinalizer (obj w')" "sp_Status (obj w') = sp_Status (obj (world s))"
    using y(2) x active_stored [OF y(2)] hasFinalizer_stored [OF y(2)] by (simp_all add: storedAs_def)
  with y(1,3) assms(2) fs(2) show ?thesis
    by (auto simp: progress_def addFinalizerStep_def kUpdateSP_def call_def bind_def distance_def Let_def
        noRequeue_def requeue_def)
qed

lemma create_step:
  assumes "active spec (obj (world s))" "hasFinalizer (obj (world s))" "remote (world s) = None" "obj (world s) = sp"
  shows "progress obj remote member side spec s (createRemote K sp sp c a s)"
proof -
  let ?x = "withPhase phasePending ''Application created, waiting for remote sync'' sp"
  obtain t b where t: "CreateApplication K c a s = (Returned (Inr b), t)" "obj (world t) = sp" "remote (world t) \<noteq> None"
    "side (world t) = side (world s)"
    using create [OF assms(3)] assms(4) by metis
  obtain y w' where y: "env_StatusPatchSP K sp ?x (world t) = (Inr y, w')" "active spec (obj w')"
    "hasFinalizer (obj w') = hasFinalizer ?x" "remote w' = remote (world t)" "side w' = side (world t)"
    by (rule patched [of ?x "world t"]) (use assms t(2) in \<open>simp_all\<close>)
  show ?thesis
    using t(3,4) y(2-5) assms(2,3,4)
    by (auto simp: progress_def createRemote_def bind_def t(1) eventf_def call_def patchStatus_def
        kStatusPatchSP_def y(1) distance_def)
qed

lemma update_remote:
  assumes "remote (world s) \<noteq> None"
  obtains t where "updateRemote K sp c existing d s = (Returned (Inr ()), t)" "obj (world t) = obj (world s)"
    "remote (world t) \<noteq> None" "member (world t) = member (world s)" "side (world t) = side (world s)"
proof -
  obtain changed existing' d' where ch: "appHasChanged existing d = (changed, existing', d')" by (metis prod_cases3)
  show ?thesis
  proof (cases changed)
    case False
    then have "updateRemote K sp c existing d s = (Returned (Inr ()), s)" by (simp add: updateRemote_def ch)
    then show ?thesis by (rule that) (simp_all add: assms)
  next
    case True
    obtain d1 s1 where p: "populateInboundSecrets K sp d' s = (Returned (Inr d1), s1)"
      "unmoved obj remote member side (world s) (world s1)"
      by (rule populate)
    have "remote (world s1) \<noteq> None" using assms p(2) by (simp add: unmoved_def)
    from update [OF this, of d1] p(2) obtain t where t: "UpdateApplication K c d1 s1 = (Returned (Inr ()), t)"
      "obj (world t) = obj (world s)" "remote (world t) \<noteq> None" "member (world t) = member (world s)"
      "side (world t) = side (world s)"
      by (auto simp: unmoved_def)
    let ?e = "Recorded \<lparr>rec_Type = normal, rec_Reason = ''Updated'', rec_Action = ''Updating'',
      rec_Note = ''Application '' @ quote (spec_Name (sp_Spec sp)) @ '' updated''\<rparr>"
    have "updateRemote K sp c existing d s = (Returned (Inr ()), \<lparr>world = world t, log = log t @ [?e]\<rparr>)"
      by (simp add: updateRemote_def ch True p(1) bind_def t(1) eventf_def call_def)
    then show ?thesis by (rule that) (simp_all add: t)
  qed
qed

text \<open>The last part of a synchronisation: the patch that says \<^verbatim>\<open>Ready\<close>.\<close>

lemma ready_patch:
  assumes "active spec sp" "hasFinalizer sp" "obj (world t) = sp" "remote (world t) \<noteq> None"
    and "sp_Spec y = sp_Spec sp" "sp_Meta y = sp_Meta sp" "announcedReady y"
  obtains z u where "patchStatus K sp y (minute 5) t = (Returned (z, ok (requeue (minute 5))), u)"
    "active spec (obj (world u))" "distance (obj (world u)) (remote (world u)) (member (world u)) = 0"
    "side (world u) = side (world t)"
proof -
  have p: "active spec y" "hasFinalizer y"
    using assms(1,2,5,6) by (simp_all add: active_def skipReconcile_def hasFinalizer_def)
  obtain z w' where z: "env_StatusPatchSP K sp y (world t) = (Inr z, w')" "active spec (obj w')"
    "hasFinalizer (obj w') = hasFinalizer y" "sp_Status (obj w') = sp_Status y" "remote w' = remote (world t)"
    "side w' = side (world t)"
    by (rule patched [OF p(1), of "world t"]) (use assms in simp_all)
  let ?u = "\<lparr>world = w', log = log t @ [StatusPatchSP sp y]\<rparr>"
  have "patchStatus K sp y (minute 5) t = (Returned (z, ok (requeue (minute 5))), ?u)"
    by (simp add: patchStatus_def kStatusPatchSP_def call_def bind_def z(1))
  moreover have "distance (obj (world ?u)) (remote (world ?u)) (member (world ?u)) = 0"
    using z(3,4,5) p(2) assms(4,7) by (simp add: distance_def announcedReady_def)
  ultimately show ?thesis by (intro that [of z ?u]) (simp_all add: z)
qed

lemma sync_step:
  assumes "active spec (obj (world s))" "hasFinalizer (obj (world s))" "remote (world s) \<noteq> None" "obj (world s) = sp"
  shows "progress obj remote member side spec s (syncRemote K sp sp c e d s)"
proof -
  let ?x = "withIDs e sp"
  define msg where "msg = ''Application in sync (ID: '' @ app_ResourceID e @ '')''"
  let ?y = "withPhase phaseReady msg ?x"
  let ?z = "?y\<lparr>sp_Status := (sp_Status ?y)\<lparr>status_AdminCanView := True\<rparr>\<rparr>"
  obtain d' s1 where script: "withScript K ?x d s = (Returned (Inr d'), s1)" "unmoved obj remote member side (world s) (world s1)"
    by (rule script)
  have "remote (world s1) \<noteq> None" using script(2) assms(3) by (simp add: unmoved_def)
  then obtain t where "updateRemote K ?x c e d' s1 = (Returned (Inr ()), t)" "obj (world t) = obj (world s1)"
    "remote (world t) \<noteq> None" "member (world t) = member (world s1)" "side (world t) = side (world s1)"
    by (rule update_remote)
  with script(2) assms(4) have t: "updateRemote K ?x c e d' s1 = (Returned (Inr ()), t)" "obj (world t) = sp"
    "remote (world t) \<noteq> None" "member (world t) = member (world s)" "side (world t) = side (world s)"
    by (simp_all add: unmoved_def)
  have name: "spec_Name (sp_Spec sp) = spec_Name spec" using assms(1,4) by (simp add: active_def)
  have sync: "syncRemote K sp sp c e d s = bind (reconcileAdminAccess K ?y c)
      (\<lambda>(sp', res). if stops res then ret (sp', res) else patchStatus K sp sp' (minute 5)) t"
    unfolding syncRemote_def Let_def msg_def [symmetric]
    by (simp add: bind_def [of "withScript K ?x d"] script(1) bind_def [of "updateRemote K ?x c e d'"] t(1))
  have near: "distance sp (remote (world s)) (member (world s)) \<ge> 1 \<or> status_AdminCanView (sp_Status sp)"
    using assms(2,3,4) by (simp add: distance_def)
  have sp: "active spec sp" "hasFinalizer sp" "hasFinalizer (obj (world s))" using assms by simp_all
  show ?thesis
  proof (cases "status_AdminCanView (sp_Status sp)")
    case True
    obtain z u where u: "patchStatus K sp ?y (minute 5) t = (Returned (z, ok (requeue (minute 5))), u)"
      "active spec (obj (world u))" "distance (obj (world u)) (remote (world u)) (member (world u)) = 0"
      "side (world u) = side (world t)"
      by (rule ready_patch [of sp t ?y]) (use assms t(2,3) True in \<open>simp_all add: announcedReady_def\<close>)
    have "syncRemote K sp sp c e d s = (Returned (z, ok (requeue (minute 5))), u)"
      by (simp add: sync reconcileAdminAccess_def True bind_def u(1))
    then show ?thesis by (rule progressI) (simp_all add: u(2-4) t(5) sp)
  next
    case False
    obtain g t1 where t1: "GetAdminGroupMembership K c (spec_Name spec) t = (Returned (Inr (member (world s), g)), t1)"
      "obj (world t1) = sp" "remote (world t1) \<noteq> None" "side (world t1) = side (world s)"
      using membership [of t] t(2-5) by (auto simp: unmoved_def)
    show ?thesis
    proof (cases "member (world s)")
      case True
      obtain z u where u: "patchStatus K sp ?z (minute 5) t1 = (Returned (z, ok (requeue (minute 5))), u)"
        "active spec (obj (world u))" "distance (obj (world u)) (remote (world u)) (member (world u)) = 0"
        "side (world u) = side (world t1)"
        by (rule ready_patch [of sp t1 ?z]) (use assms t1(2,3) in \<open>simp_all add: announcedReady_def\<close>)
      have "syncRemote K sp sp c e d s = (Returned (z, ok (requeue (minute 5))), u)"
        using False True by (simp add: sync reconcileAdminAccess_def name t1(1) bind_def u(1))
      then show ?thesis by (rule progressI) (simp_all add: u(2-4) t1(4) sp)
    next
      case notMember: False
      obtain t2 where t2: "JoinAdminToGroup K c g t1 = (Returned (Inr ()), t2)" "obj (world t2) = sp"
        "remote (world t2) \<noteq> None" "member (world t2)" "side (world t2) = side (world s)"
        using join [of g t1] t1(2-4) by auto
      have "syncRemote K sp sp c e d s = (Returned (?y, ok (requeue (second 5))), t2)"
        using False notMember by (simp add: sync reconcileAdminAccess_def name t1(1) bind_def t2(1))
      moreover have "distance sp (remote (world s)) (member (world s)) = 2"
        "distance sp (remote (world t2)) (member (world t2)) = 1"
        using assms(2,3,4) False notMember t2(3,4) by (simp_all add: distance_def)
      ultimately show ?thesis using t2(2,5) assms(4) sp by (auto intro!: progressI)
    qed
  qed
qed

lemma progress_from:
  assumes "progress obj remote member side spec t r" "unmoved obj remote member side (world s) (world t)"
  shows "progress obj remote member side spec s r"
  using assms by (simp add: progress_def unmoved_def)

text \<open>The part of a reconciliation that is about the remote application.\<close>

lemma remote_step:
  assumes "active spec (obj (world s))" "hasFinalizer (obj (world s))" "obj (world s) = sp"
  shows "progress obj remote member side spec s (reconcileRemote K c sp s)"
proof -
  have name: "spec_Name (sp_Spec sp) = spec_Name spec" using assms by (auto simp: active_def)
  obtain t where t: "GetApplicationByName K c (spec_Name spec) s = (Returned (Inr (remote (world s))), t)"
    "unmoved obj remote member side (world s) (world t)"
    using lookup by blast
  have "reconcileRemote K c sp s = (case remote (world s) of None \<Rightarrow> createRemote K sp sp c (applicationFromSpec sp) t
      | Some e \<Rightarrow> syncRemote K sp sp c e (applicationFromSpec sp) t)"
    by (simp add: reconcileRemote_def Let_def bind_def name t(1) split: option.split)
  also have "progress obj remote member side spec t \<dots>"
    using create_step [of t sp] sync_step [of t sp] assms t(2) by (simp add: unmoved_def split: option.split)
  finally show ?thesis by (rule progress_from [OF _ t(2)])
qed

text \<open>A reconciliation up to the steps of the application.\<close>

lemma reconcile_run:
  assumes "active spec (obj (world s))" "instanceReady (inst (side (world s)))"
  obtains s1 where "world s1 = world s"
    "Reconcile K req s = (let r = (if hasFinalizer (obj (world s)) then reconcileApplication K (obj (world s)) c s1
        else addFinalizerStep K (obj (world s)) s1)
      in case r of (Returned (sp', res), t) \<Rightarrow> (Returned res, t) | (Panicked p, t) \<Rightarrow> (Panicked p, t))"
proof -
  let ?sp = "obj (world s)" and ?s = "afterGet req (world s) s"
  have w: "world ?s = world s" by (simp add: afterGet_def)
  have spec: "sp_Spec (obj (world ?s)) = spec" using assms(1) by (simp add: active_def w)
  obtain s1 where s1: "buildClient K ?sp ?s = (Returned (Inr c), s1)" "world s1 = world s"
    using build_client [OF spec] assms(2) unfolding w by blast
  have fin: "env_ContainsFinalizer K ?sp spFinalizer = hasFinalizer ?sp"
    using finalizers by (simp add: finalizer_laws_def hasFinalizer_def)
  have "reconcileSP K ?sp ?s = (if hasFinalizer ?sp then reconcileApplication K ?sp c s1 else addFinalizerStep K ?sp s1)"
    using assms(1) by (simp add: reconcileSP_alt active_def bind_def s1(1) afterClient_def proceed_def fin)
  then show ?thesis
    by (intro that [OF s1(2)])
      (simp add: Reconcile_def kGetSP_def call_def get bind_def afterGet_def [symmetric] Let_def
        split: prod.split outcome.split)
qed

end

section \<open>Reconciling over and over\<close>

definition afterRuns :: "'w env \<Rightarrow> NamespacedName \<Rightarrow> nat \<Rightarrow> 'w run \<Rightarrow> 'w run" where
  "afterRuns K req n s = ((\<lambda>s. snd (Reconcile K req s)) ^^ n) s"

lemma afterRuns_simps [simp]:
  "afterRuns K req 0 s = s" "afterRuns K req (Suc n) s = snd (Reconcile K req (afterRuns K req n s))"
  by (simp_all add: afterRuns_def)

lemma distance_bound: "distance sp r m \<le> 4"
  by (simp add: distance_def)

lemma distance_zero: "distance sp r m = 0 \<longleftrightarrow> hasFinalizer sp \<and> r \<noteq> None \<and> announcedReady sp"
  by (simp add: distance_def announcedReady_def)

end
