(* ===== verification/Protocols.thy ===== *)
theory Protocols
  imports Liveness Convergence SamlWire "HOL-Library.While_Combinator"
begin

text \<open>
  Repeated reconciliation gets there, second part: the two protocols. A service provider with OAuth2 or
  SAML settings needs one more reconciliation for each of them, if the operator can come to rest on
  its settings; if it cannot, it registers or updates for ever and the object never becomes
  \<^verbatim>\<open>Ready\<close>.
\<close>

section \<open>What is left to do for a protocol\<close>

text \<open>The configuration the operator wants, with the credentials of the one that exists.\<close>

definition withCredentials :: "string \<Rightarrow> string \<Rightarrow> OAuth2Config \<Rightarrow> OAuth2Config" where
  "withCredentials k x d = d\<lparr>oauth_OAuthConsumerKey := k, oauth_OAuthConsumerSecret := x\<rparr>"

definition oauthPending :: "WSO2SP \<Rightarrow> OAuth2Config option \<Rightarrow> bool" where
  "oauthPending sp o2 =
     (case oauth2FromSpec sp of
        Panicked p \<Rightarrow> False
      | Returned d \<Rightarrow> (case o2 of
            None \<Rightarrow> True
          | Some e \<Rightarrow> oauth2HasChanged e (withCredentials (oauth_OAuthConsumerKey e) (oauth_OAuthConsumerSecret e) d)))"

definition samlDesired :: "V1_SAMLConfig \<Rightarrow> SAMLConfig \<Rightarrow> SAMLConfig" where
  "samlDesired sm metadata = metadata\<lparr>saml_EnableAttributeProfile := v1s_EnableAttributeProfile sm,
     saml_EnableAttributesByDefault := v1s_IncludeAttributesByDefault sm\<rparr>"

definition samlPending :: "WSO2SP \<Rightarrow> SAMLConfig option \<Rightarrow> bool" where
  "samlPending sp s =
     (case spec_SAML (sp_Spec sp) of
        None \<Rightarrow> False
      | Some sm \<Rightarrow> v1s_MetadataURL sm \<noteq> [] \<and> (case s of None \<Rightarrow> True | Some e \<Rightarrow> saml_Issuer e = []))"

text \<open>A registered service provider, if there is one, is the one of the metadata.\<close>

definition samlFits :: "SAMLConfig \<Rightarrow> WSO2SP \<Rightarrow> SAMLConfig option \<Rightarrow> bool" where
  "samlFits metadata sp s \<longleftrightarrow>
     (\<forall>e sm. s = Some e \<longrightarrow> spec_SAML (sp_Spec sp) = Some sm \<longrightarrow>
        saml_Issuer e = [] \<or> \<not> samlSPHasChanged e (samlDesired sm metadata))"

text \<open>The settings on which the operator can come to rest.\<close>

definition oauth2Rests :: "V1_OAuth2Config \<Rightarrow> bool" where
  "oauth2Rests o2 \<longleftrightarrow> \<not> v1o_PublicClient o2 \<and>
     (\<exists>gs. v1o_GrantTypes o2 = Some gs \<and> gs \<noteq> [] \<and> (\<forall>g \<in> set gs. CHR '' '' \<notin> set g))"

definition protocolsRest :: "WSO2SPSpec \<Rightarrow> bool" where
  "protocolsRest spec \<longleftrightarrow> (case spec_OAuth2 spec of None \<Rightarrow> True | Some o2 \<Rightarrow> oauth2Rests o2)"

definition protocols :: "WSO2SPSpec \<Rightarrow> nat" where
  "protocols spec = (if spec_OAuth2 spec = None then 0 else 1)
     + (case spec_SAML spec of None \<Rightarrow> 0 | Some sm \<Rightarrow> if v1s_MetadataURL sm = [] then 0 else 1)"

lemma pending_spec:
  "sp_Spec x = sp_Spec y \<Longrightarrow> oauthPending x = oauthPending y"
  "sp_Spec x = sp_Spec y \<Longrightarrow> samlPending x = samlPending y"
  "sp_Spec x = sp_Spec y \<Longrightarrow> samlFits metadata x = samlFits metadata y"
  by (intro ext; simp add: oauthPending_def samlPending_def samlFits_def oauth2FromSpec_def)+

lemma oauth2FromSpec_cases:
  obtains (none) p where "spec_OAuth2 (sp_Spec sp) = None" "oauth2FromSpec sp = Panicked p"
  | (some) o2 d where "spec_OAuth2 (sp_Spec sp) = Some o2" "oauth2FromSpec sp = Returned d"
      "oauth_PublicClient d = v1o_PublicClient o2" "oauth_GrantTypes d = v1o_GrantTypes o2"
  by (cases "spec_OAuth2 (sp_Spec sp)") (auto simp: oauth2FromSpec_def deref_def)

text \<open>After the operator has sent what it wants, something is left to do exactly if the settings do not rest.\<close>

lemma readBack_credentials:
  "readBackOAuth2 n (withCredentials k x d) = Inr e \<Longrightarrow> oauth_OAuthConsumerKey e = k \<and> oauth_OAuthConsumerSecret e = x"
  by (auto simp: oauth2_read_back withCredentials_def)

lemma oauth_rests:
  assumes "oauth2FromSpec sp = Returned d" "spec_OAuth2 (sp_Spec sp) = Some o2"
    and "readBackOAuth2 n (withCredentials k x d) = Inr e"
  shows "oauth2Rests o2 \<Longrightarrow> \<not> oauthPending sp (Some e)"
    "\<lbrakk>\<not> oauth2Rests o2; json_ok (json_OAuth2Config e); json_ok (json_OAuth2Config (withCredentials k x d));
      \<not> sha256_collision (jsonText (json_OAuth2Config e)) (jsonText (json_OAuth2Config (withCredentials k x d)))\<rbrakk>
     \<Longrightarrow> oauthPending sp (Some e)"
proof -
  have d: "oauth_PublicClient d = v1o_PublicClient o2" "oauth_GrantTypes d = v1o_GrantTypes o2"
    using assms(1,2) by (auto simp: oauth2FromSpec_def deref_def)
  have iff: "norm_OAuth2Config e = norm_OAuth2Config (withCredentials k x d) \<longleftrightarrow> oauth2Rests o2"
    unfolding withCredentials_def oauth2Rests_def d [symmetric]
    by (rule oauth2_settles [OF assms(1) assms(3) [unfolded withCredentials_def]])
  have pending: "oauthPending sp (Some e) = oauth2HasChanged e (withCredentials k x d)"
    using readBack_credentials [OF assms(3)] assms(1) by (simp add: oauthPending_def)
  show "\<not> oauthPending sp (Some e)" if "oauth2Rests o2"
    using that iff pending oauth2_detector.same_view [of e "withCredentials k x d"] json_OAuth2Config_eq by blast
  show "oauthPending sp (Some e)"
    if "\<not> oauth2Rests o2" "json_ok (json_OAuth2Config e)" "json_ok (json_OAuth2Config (withCredentials k x d))"
      "\<not> sha256_collision (jsonText (json_OAuth2Config e)) (jsonText (json_OAuth2Config (withCredentials k x d)))"
    using that iff pending oauth2_detector.unchanged_view [of e "withCredentials k x d"] json_OAuth2Config_eq by blast
qed

lemma saml_fits:
  assumes "readBackSAML (samlDesired sm (spConfigFromDescriptor i d)) = Inr e" "spec_SAML (sp_Spec sp) = Some sm"
  shows "samlFits (spConfigFromDescriptor i d) sp (Some e)"
  using saml_rests [OF refl assms(1) [unfolded samlDesired_def]] assms(2) by (auto simp: samlFits_def samlDesired_def)

section \<open>A cooperative server with both protocols\<close>

text \<open>
  The side of the world is what the server has registered for the two protocols. A server that is asked
  for an OAuth2 application stores what it is sent, with credentials of its own choice; asked for
  an update, it stores what it is sent. A service provider that is not registered is answered for
  with one that has no issuer. The metadata the spec points to does not change.
\<close>

locale cooperative_protocols = cooperative K req c spec obj remote member "\<lambda>w. (oauth w, saml w, inst w)" "\<lambda>x. snd (snd x)"
  for K :: "'w env" and req :: NamespacedName and c :: Client and spec :: WSO2SPSpec
    and obj :: "'w \<Rightarrow> WSO2SP" and remote :: "'w \<Rightarrow> Application option" and member :: "'w \<Rightarrow> bool"
    and oauth :: "'w \<Rightarrow> OAuth2Config option" and saml :: "'w \<Rightarrow> SAMLConfig option"
    and inst :: "'w \<Rightarrow> WSO2ISInstance" +
  fixes key :: string and secret :: string and metadata :: SAMLConfig
  assumes oauth_lookup: "\<exists>t. GetApplicationOAuth2Config K c rid (spec_Name spec) s = (Returned (Inr (oauth (world s))), t)
      \<and> unmoved obj remote member (\<lambda>w. (oauth w, saml w, inst w)) (world s) (world t)"
    and oauth_create: "oauth (world s) = None \<Longrightarrow> sp_Spec (obj (world s)) = spec \<Longrightarrow> oauth2FromSpec (obj (world s)) = Returned d \<Longrightarrow>
      \<exists>t. CreateApplicationOAuth2Config K c (spec_Name spec) d s = (Returned (Inr ()), t)
        \<and> readBackOAuth2 (spec_Name spec) (withCredentials key secret d) = Inr (the (oauth (world t))) \<and> oauth (world t) \<noteq> None
        \<and> saml (world t) = saml (world s) \<and> obj (world t) = obj (world s)
        \<and> remote (world t) = remote (world s) \<and> member (world t) = member (world s)
        \<and> inst (world t) = inst (world s)"
    and oauth_update: "oauth (world s) = Some e \<Longrightarrow> sp_Spec (obj (world s)) = spec \<Longrightarrow> oauth2FromSpec (obj (world s)) = Returned d \<Longrightarrow>
      \<exists>t. UpdateApplicationOAuth2Config K c (spec_Name spec)
          (withCredentials (oauth_OAuthConsumerKey e) (oauth_OAuthConsumerSecret e) d) s = (Returned (Inr ()), t)
        \<and> readBackOAuth2 (spec_Name spec) (withCredentials (oauth_OAuthConsumerKey e) (oauth_OAuthConsumerSecret e) d)
            = Inr (the (oauth (world t))) \<and> oauth (world t) \<noteq> None
        \<and> saml (world t) = saml (world s) \<and> obj (world t) = obj (world s)
        \<and> remote (world t) = remote (world s) \<and> member (world t) = member (world s)
        \<and> inst (world t) = inst (world s)"
    and fetch: "spec_SAML spec = Some sm \<Longrightarrow> v1s_MetadataURL sm \<noteq> [] \<Longrightarrow>
      \<exists>t. Fetch K (v1s_MetadataURL sm) s = (Returned (Inr metadata), t)
        \<and> unmoved obj remote member (\<lambda>w. (oauth w, saml w, inst w)) (world s) (world t)"
    and saml_lookup: "\<exists>t x. GetApplicationSAMLConfig K c (saml_Issuer metadata) s = (Returned (Inr (Some x)), t)
      \<and> (case saml (world s) of None \<Rightarrow> saml_Issuer x = [] | Some e \<Rightarrow> x = e)
      \<and> unmoved obj remote member (\<lambda>w. (oauth w, saml w, inst w)) (world s) (world t)"
    and saml_create: "samlPending (obj (world s)) (saml (world s)) \<Longrightarrow> spec_SAML spec = Some sm \<Longrightarrow>
      \<exists>t. CreateSAMLApplication K c (samlDesired sm metadata) s = (Returned (Inr ()), t)
        \<and> readBackSAML (samlDesired sm metadata) = Inr (the (saml (world t))) \<and> saml (world t) \<noteq> None
        \<and> oauth (world t) = oauth (world s) \<and> obj (world t) = obj (world s)
        \<and> remote (world t) = remote (world s) \<and> member (world t) = member (world s)
        \<and> inst (world t) = inst (world s)"
begin

lemma oauth_step:
  assumes "sp_Spec (obj (world s)) = spec" "obj (world s) = sp" "oauth2FromSpec sp = Returned d"
  obtains (rest) t where "\<not> oauthPending sp (oauth (world s))"
      "reconcileApplicationOAuth2 K sp c s = (Returned (sp, ok noRequeue), t)"
      "unmoved obj remote member (\<lambda>w. (oauth w, saml w, inst w)) (world s) (world t)"
  | (act) t e k x where "oauthPending sp (oauth (world s))"
      "reconcileApplicationOAuth2 K sp c s = (Returned (sp, ok (requeue (second 5))), t)"
      "obj (world t) = sp" "remote (world t) = remote (world s)" "member (world t) = member (world s)" "inst (world t) = inst (world s)"
      "saml (world t) = saml (world s)" "oauth (world t) = Some e"
      "readBackOAuth2 (spec_Name spec) (withCredentials k x d) = Inr e"
      "(k, x) = (case oauth (world s) of None \<Rightarrow> (key, secret) | Some e0 \<Rightarrow> (oauth_OAuthConsumerKey e0, oauth_OAuthConsumerSecret e0))"
proof -
  have name: "spec_Name (sp_Spec sp) = spec_Name spec" using assms by auto
  obtain s1 where s1: "GetApplicationOAuth2Config K c (status_ResourceID (sp_Status sp)) (spec_Name spec) s =
      (Returned (Inr (oauth (world s))), s1)" "unmoved obj remote member (\<lambda>w. (oauth w, saml w, inst w)) (world s) (world s1)"
    using oauth_lookup by blast
  have o1: "obj (world s1) = sp" "oauth (world s1) = oauth (world s)" "saml (world s1) = saml (world s)"
    "remote (world s1) = remote (world s)" "member (world s1) = member (world s)" "inst (world s1) = inst (world s)"
    using s1(2) assms(2) by (simp_all add: unmoved_def)
  have d1: "sp_Spec (obj (world s1)) = spec" "oauth2FromSpec (obj (world s1)) = Returned d" using o1 assms by simp_all
  show thesis
  proof (cases "oauth (world s)")
    case None
    obtain t where t: "CreateApplicationOAuth2Config K c (spec_Name spec) d s1 = (Returned (Inr ()), t)"
      "readBackOAuth2 (spec_Name spec) (withCredentials key secret d) = Inr (the (oauth (world t)))" "oauth (world t) \<noteq> None"
      "saml (world t) = saml (world s1)" "obj (world t) = obj (world s1)"
      "remote (world t) = remote (world s1)" "member (world t) = member (world s1)" "inst (world t) = inst (world s1)"
      using oauth_create [OF _ d1] o1(2) None by auto
    have "reconcileApplicationOAuth2 K sp c s = (Returned (sp, ok (requeue (second 5))), t)"
      by (simp add: reconcileApplicationOAuth2_def Let_def assms(3) bind_def [of "GetApplicationOAuth2Config K c _ _"]
          name s1(1) None bind_def [of "CreateApplicationOAuth2Config K c _ _"] t(1))
    then show thesis
      by (rule act [rotated, OF _ _ _ _ _ _ _ t(2)]) (use t o1 None assms(3) in \<open>simp_all add: oauthPending_def\<close>)
  next
    case (Some e0)
    let ?d = "withCredentials (oauth_OAuthConsumerKey e0) (oauth_OAuthConsumerSecret e0) d"
    let ?kv = "[(''client_id'', oauth_OAuthConsumerKey e0), (''client_secret'', oauth_OAuthConsumerSecret e0)]"
    obtain s2 where s2: "upsertApplicationSecret K sp ?kv s1 = (Returned None, s2)"
      "unmoved obj remote member (\<lambda>w. (oauth w, saml w, inst w)) (world s1) (world s2)"
      by (rule upsert)
    have o2: "obj (world s2) = sp" "oauth (world s2) = Some e0" "saml (world s2) = saml (world s)"
      "remote (world s2) = remote (world s)" "member (world s2) = member (world s)" "inst (world s2) = inst (world s)"
      using s2(2) o1 Some by (simp_all add: unmoved_def)
    have d2: "sp_Spec (obj (world s2)) = spec" "oauth2FromSpec (obj (world s2)) = Returned d" using o2 assms by simp_all
    have pending: "oauthPending sp (oauth (world s)) = oauth2HasChanged e0 ?d"
      by (simp add: oauthPending_def assms(3) Some)
    note run = reconcileApplicationOAuth2_def Let_def assms(3) name Some withCredentials_def [symmetric]
      bind_def [of "GetApplicationOAuth2Config K c _ _"] s1(1) bind_def [of "upsertApplicationSecret K sp _"] s2(1)
    show thesis
    proof (cases "oauth2HasChanged e0 ?d")
      case False
      have "reconcileApplicationOAuth2 K sp c s = (Returned (sp, ok noRequeue), s2)"
        by (simp add: run False)
      then show thesis
        by (rule rest [rotated]) (use False pending unmoved_trans [OF s1(2) s2(2)] in simp_all)
    next
      case True
      obtain t where t: "UpdateApplicationOAuth2Config K c (spec_Name spec) ?d s2 = (Returned (Inr ()), t)"
        "readBackOAuth2 (spec_Name spec) ?d = Inr (the (oauth (world t)))" "oauth (world t) \<noteq> None"
        "saml (world t) = saml (world s2)" "obj (world t) = obj (world s2)"
        "remote (world t) = remote (world s2)" "member (world t) = member (world s2)" "inst (world t) = inst (world s2)"
        using oauth_update [OF o2(2) d2] by blast
      let ?t = "\<lparr>world = world t, log = log t @ [Recorded \<lparr>rec_Type = normal, rec_Reason = ''OAuth2Updated'',
        rec_Action = ''Updating'', rec_Note = ''OAuth2Application '' @ quote (spec_Name spec) @ '' updated''\<rparr>]\<rparr>"
      have "reconcileApplicationOAuth2 K sp c s = (Returned (sp, ok (requeue (second 5))), ?t)"
        by (simp add: run True bind_def t(1) eventf_def call_def)
      then show thesis
        by (rule act [rotated, OF _ _ _ _ _ _ _ t(2)]) (use t o2 True pending Some in simp_all)
    qed
  qed
qed

lemma saml_step:
  assumes "obj (world s) = sp" "sp_Spec sp = spec" "spec_SAML spec = Some sm" "v1s_MetadataURL sm \<noteq> []"
    and "samlFits metadata sp (saml (world s))"
  obtains (rest) t where "\<not> samlPending sp (saml (world s))"
      "reconcileSAMLApplication K sp c s = (Returned (sp, ok noRequeue), t)"
      "unmoved obj remote member (\<lambda>w. (oauth w, saml w, inst w)) (world s) (world t)"
  | (act) t e where "samlPending sp (saml (world s))"
      "reconcileSAMLApplication K sp c s = (Returned (sp, ok (requeue (second 5))), t)"
      "obj (world t) = sp" "remote (world t) = remote (world s)" "member (world t) = member (world s)" "inst (world t) = inst (world s)"
      "oauth (world t) = oauth (world s)" "saml (world t) = Some e" "readBackSAML (samlDesired sm metadata) = Inr e"
proof -
  have sm: "spec_SAML (sp_Spec sp) = Some sm" using assms by simp
  have issuer: "saml_Issuer (samlDesired sm metadata) = saml_Issuer metadata" by (simp add: samlDesired_def)
  obtain s1 where s1: "Fetch K (v1s_MetadataURL sm) s = (Returned (Inr metadata), s1)"
    "unmoved obj remote member (\<lambda>w. (oauth w, saml w, inst w)) (world s) (world s1)"
    using fetch [OF assms(3,4)] by blast
  obtain s2 x where s2: "GetApplicationSAMLConfig K c (saml_Issuer metadata) s1 = (Returned (Inr (Some x)), s2)"
    "case saml (world s1) of None \<Rightarrow> saml_Issuer x = [] | Some e \<Rightarrow> x = e"
    "unmoved obj remote member (\<lambda>w. (oauth w, saml w, inst w)) (world s1) (world s2)"
    using saml_lookup by blast
  have u2: "unmoved obj remote member (\<lambda>w. (oauth w, saml w, inst w)) (world s) (world s2)" by (rule unmoved_trans [OF s1(2) s2(3)])
  have o2: "obj (world s2) = sp" "oauth (world s2) = oauth (world s)" "saml (world s2) = saml (world s)"
    "remote (world s2) = remote (world s)" "member (world s2) = member (world s)" "inst (world s2) = inst (world s)"
    using u2 assms(1) by (simp_all add: unmoved_def)
  have pending: "samlPending sp (saml (world s)) \<longleftrightarrow> saml_Issuer x = []"
    using s2(2) s1(2) assms(4) sm by (auto simp: samlPending_def unmoved_def split: option.splits)
  note run = reconcileSAMLApplication_def Let_def sm deref_def samlDesired_def [symmetric] issuer
    bind_def [of "Fetch K _"] s1(1) bind_def [of "GetApplicationSAMLConfig K c _"] s2(1)
  show thesis
  proof (cases "saml_Issuer x = []")
    case True
    have "samlPending (obj (world s2)) (saml (world s2))" using True pending o2 by simp
    from saml_create [OF this assms(3)]
    obtain t where t: "CreateSAMLApplication K c (samlDesired sm metadata) s2 = (Returned (Inr ()), t)"
      "readBackSAML (samlDesired sm metadata) = Inr (the (saml (world t)))" "saml (world t) \<noteq> None"
      "oauth (world t) = oauth (world s2)" "obj (world t) = obj (world s2)"
      "remote (world t) = remote (world s2)" "member (world t) = member (world s2)" "inst (world t) = inst (world s2)"
      by blast
    let ?t = "\<lparr>world = world t, log = log t @ [Recorded \<lparr>rec_Type = normal, rec_Reason = ''SAMLCreated'',
      rec_Action = ''Creating'', rec_Note = ''SAML SP '' @ quote (saml_Issuer metadata) @ '' created''\<rparr>]\<rparr>"
    have "reconcileSAMLApplication K sp c s = (Returned (sp, ok (requeue (second 5))), ?t)"
      by (simp add: run True bind_def [of "CreateSAMLApplication K c _"] t(1) bind_def [of "eventf _ _ _ _"] eventf_def call_def)
    then show thesis
      by (rule act [rotated, OF _ _ _ _ _ _ _ t(2)]) (use t o2 True pending in simp_all)
  next
    case False
    let ?kv = "[(''saml_issuer'', saml_Issuer x), (''saml_attrConsumingServiceIndex'', saml_AttributeConsumingServiceIndex x)]"
    obtain s3 where s3: "upsertApplicationSecret K sp ?kv s2 = (Returned None, s3)"
      "unmoved obj remote member (\<lambda>w. (oauth w, saml w, inst w)) (world s2) (world s3)"
      by (rule upsert)
    have "saml (world s) = Some x" using False s2(2) s1(2) by (auto simp: unmoved_def split: option.splits)
    then have quiet: "\<not> samlSPHasChanged x (samlDesired sm metadata)"
      using assms(5) False sm by (simp add: samlFits_def)
    have "reconcileSAMLApplication K sp c s = (Returned (sp, ok noRequeue), s3)"
      by (simp add: run False quiet bind_def [of "upsertApplicationSecret K sp _"] s3(1))
    then show thesis
      by (rule rest [rotated]) (use False pending unmoved_trans [OF u2 s3(2)] in simp_all)
  qed
qed

text \<open>What comes after the OAuth2 step.\<close>

lemma rest_step:
  assumes "active spec sp" "obj (world s) = sp" "hasFinalizer sp" "samlFits metadata sp (saml (world s))"
  obtains (saml) t e sm where
      "substep (wantsSAML sp) (\<lambda>sp. reconcileSAMLApplication K sp c) sp (reconcileRemote K c) s =
        (Returned (sp, ok (requeue (second 5))), t)"
      "samlPending sp (saml (world s))"
      "obj (world t) = sp" "remote (world t) = remote (world s)" "member (world t) = member (world s)" "inst (world t) = inst (world s)"
      "oauth (world t) = oauth (world s)" "spec_SAML spec = Some sm" "v1s_MetadataURL sm \<noteq> []" "saml (world t) = Some e"
      "readBackSAML (samlDesired sm metadata) = Inr e"
  | (remote) sp' d t where
      "substep (wantsSAML sp) (\<lambda>sp. reconcileSAMLApplication K sp c) sp (reconcileRemote K c) s =
        (Returned (sp', ok (requeue d)), t)"
      "\<not> samlPending sp (saml (world s))" "active spec (obj (world t))" "d \<noteq> 0"
      "oauth (world t) = oauth (world s)" "saml (world t) = saml (world s)" "inst (world t) = inst (world s)"
      "distance (obj (world t)) (remote (world t)) (member (world t))
         \<le> distance sp (remote (world s)) (member (world s)) - 1"
proof -
  have spec: "sp_Spec sp = spec" "\<not> skipReconcile SAML sp" using assms(1) by (simp_all add: active_def)
  have final: thesis if "unmoved obj remote member (\<lambda>w. (oauth w, saml w, inst w)) (world s) (world t)" "\<not> samlPending sp (saml (world s))"
    "substep (wantsSAML sp) (\<lambda>sp. reconcileSAMLApplication K sp c) sp (reconcileRemote K c) s = reconcileRemote K c sp t" for t
  proof -
    have "progress obj remote member (\<lambda>w. (oauth w, saml w, inst w)) spec t (reconcileRemote K c sp t)"
      using remote_step [of t sp] assms that(1) by (simp add: unmoved_def)
    from progress_from [OF this that(1)] assms that show thesis
      by (auto simp: progress_def intro: remote)
  qed
  show thesis
  proof (cases "wantsSAML sp")
    case False
    then have "\<not> samlPending sp (saml (world s))" using spec by (auto simp: wantsSAML_def samlPending_def split: option.splits)
    then show thesis by (rule final [rotated, where t = s]) (simp_all add: substep_def False)
  next
    case True
    then obtain sm where sm: "spec_SAML spec = Some sm" "v1s_MetadataURL sm \<noteq> []"
      using spec by (auto simp: wantsSAML_def split: option.splits)
    from assms(2) spec(1) sm assms(4) show thesis
    proof (cases rule: saml_step)
      case (rest t)
      then show thesis by (intro final [of t]) (simp_all add: substep_def True bind_def)
    next
      case (act t e)
      then show thesis by (intro saml [of t sm e]) (simp_all add: substep_def True bind_def sm)
    qed
  qed
qed

text \<open>One reconciliation: the finalizer, a protocol, or the remote application.\<close>

lemma reconcile_cases:
  assumes "active spec (obj (world s))" "samlFits metadata (obj (world s)) (saml (world s))" "instanceReady (inst (world s))"
  obtains (finalizer_case) d t where "Reconcile K req s = (Returned (ok (requeue d)), t)" "active spec (obj (world t))"
      "\<not> hasFinalizer (obj (world s))" "sp_Status (obj (world t)) = sp_Status (obj (world s))"
      "oauth (world t) = oauth (world s)" "saml (world t) = saml (world s)" "inst (world t) = inst (world s)"
      "distance (obj (world t)) (remote (world t)) (member (world t))
         \<le> distance (obj (world s)) (remote (world s)) (member (world s)) - 1"
  | (oauth_case) t e k x d where "Reconcile K req s = (Returned (ok (requeue (second 5))), t)" "hasFinalizer (obj (world s))"
      "oauthPending (obj (world s)) (oauth (world s))"
      "obj (world t) = obj (world s)" "remote (world t) = remote (world s)" "member (world t) = member (world s)" "inst (world t) = inst (world s)"
      "saml (world t) = saml (world s)" "oauth (world t) = Some e" "oauth2FromSpec (obj (world s)) = Returned d"
      "readBackOAuth2 (spec_Name spec) (withCredentials k x d) = Inr e"
      "(k, x) = (case oauth (world s) of None \<Rightarrow> (key, secret) | Some e0 \<Rightarrow> (oauth_OAuthConsumerKey e0, oauth_OAuthConsumerSecret e0))"
  | (saml_case) t e sm where "Reconcile K req s = (Returned (ok (requeue (second 5))), t)" "hasFinalizer (obj (world s))"
      "\<not> oauthPending (obj (world s)) (oauth (world s))" "samlPending (obj (world s)) (saml (world s))"
      "obj (world t) = obj (world s)" "remote (world t) = remote (world s)" "member (world t) = member (world s)" "inst (world t) = inst (world s)"
      "oauth (world t) = oauth (world s)" "spec_SAML spec = Some sm" "v1s_MetadataURL sm \<noteq> []" "saml (world t) = Some e"
      "readBackSAML (samlDesired sm metadata) = Inr e"
  | (remote_case) d t where "Reconcile K req s = (Returned (ok (requeue d)), t)" "active spec (obj (world t))"
      "hasFinalizer (obj (world s))" "d \<noteq> 0"
      "\<not> oauthPending (obj (world s)) (oauth (world s))" "\<not> samlPending (obj (world s)) (saml (world s))"
      "oauth (world t) = oauth (world s)" "saml (world t) = saml (world s)" "inst (world t) = inst (world s)"
      "distance (obj (world t)) (remote (world t)) (member (world t))
         \<le> distance (obj (world s)) (remote (world s)) (member (world s)) - 1"
proof -
  let ?sp = "obj (world s)"
  have spec: "sp_Spec ?sp = spec" "\<not> skipReconcile OAuth ?sp" "\<not> skipReconcile SAML ?sp"
    using assms(1) by (simp_all add: active_def)
  have id: "obj w = obj w" for w by (rule refl)
  obtain s1 where s1: "world s1 = world s"
    "Reconcile K req s = (let r = (if hasFinalizer ?sp then reconcileApplication K ?sp c s1 else addFinalizerStep K ?sp s1)
      in case r of (Returned (sp', res), t) \<Rightarrow> (Returned res, t) | (Panicked p, t) \<Rightarrow> (Panicked p, t))"
    by (rule reconcile_run [OF assms(1)]) (simp add: assms(3))
  show thesis
  proof (cases "hasFinalizer ?sp")
    case False
    with finalizer_step [of s1] assms(1) s1 show thesis
      by (auto simp: progress_def intro: finalizer_case)
  next
    case fin: True
    let ?rest = "\<lambda>sp. substep (wantsSAML sp) (\<lambda>sp. reconcileSAMLApplication K sp c) sp (reconcileRemote K c)"
    have app: "reconcileApplication K ?sp c s1 =
        (if spec_OAuth2 spec \<noteq> None then bind (reconcileApplicationOAuth2 K ?sp c)
           (\<lambda>(sp', res). if stops res then ret (sp', res) else ?rest sp') s1 else ?rest ?sp s1)"
      unfolding reconcileApplication_def substep_def [of "_ \<and> _"] spec(1) using spec(2) by (simp only: simp_thms if_distribR)
    have final: thesis if "unmoved obj remote member (\<lambda>w. (oauth w, saml w, inst w)) (world s) (world t)"
      "\<not> oauthPending ?sp (oauth (world s))" "reconcileApplication K ?sp c s1 = ?rest ?sp t" for t
    proof -
      have t: "obj (world t) = ?sp" "samlFits metadata ?sp (saml (world t))"
        "oauth (world t) = oauth (world s)" "saml (world t) = saml (world s)" "inst (world t) = inst (world s)"
        "remote (world t) = remote (world s)" "member (world t) = member (world s)" "inst (world t) = inst (world s)"
        using that(1) assms(2) by (simp_all add: unmoved_def)
      from assms(1) t(1) fin t(2) show thesis
      proof (cases rule: rest_step)
        case (saml u e sm)
        then show thesis using that t fin by (intro saml_case [of u sm e]) (simp_all add: s1(2))
      next
        case (remote sp' d u)
        then show thesis using that t fin by (intro remote_case [of d u]) (simp_all add: s1(2))
      qed
    qed
    show thesis
    proof (cases rule: oauth2FromSpec_cases [of ?sp])
      case (none p)
      then have "\<not> oauthPending ?sp (oauth (world s))" "spec_OAuth2 spec = None"
        using spec(1) by (simp_all add: oauthPending_def)
      then show thesis using s1(1) by (intro final [of s1]) (simp_all add: app)
    next
      case (some o2 d)
      have "sp_Spec (obj (world s1)) = spec" "obj (world s1) = ?sp" using spec(1) s1(1) by simp_all
      from this some(2) show thesis
      proof (cases rule: oauth_step)
        case (rest t)
        then show thesis using some spec(1) s1(1) by (intro final [of t]) (simp_all add: app bind_def)
      next
        case (act t e k x)
        then show thesis using some spec(1) s1 fin
          by (intro oauth_case [of t e d k x]) (simp_all add: app bind_def)
      qed
    qed
  qed
qed

end

section \<open>Ready in time\<close>

text \<open>Metadata that can be fetched names its entity.\<close>

lemma Fetch_descriptor: "Fetch K url s = (Returned (Inr m), t) \<Longrightarrow> \<exists>i d. m = spConfigFromDescriptor i d \<and> i \<noteq> []"
  by (auto simp: Fetch_def bind_def spMetadata_def fetchAndParse_def metadataAnswer_def parseXML_def Let_def
      split: prod.splits outcome.splits sum.splits option.splits if_splits)

lemma readBack_issuer: "readBackSAML d = Inr e \<Longrightarrow> saml_Issuer e = saml_Issuer d"
  by (auto simp: saml_read_back)

text \<open>How many reconciliations an object is away from \<^verbatim>\<open>Ready\<close>, with the protocols.\<close>

definition gap :: "WSO2SP \<Rightarrow> Application option \<Rightarrow> bool \<Rightarrow> OAuth2Config option \<Rightarrow> SAMLConfig option \<Rightarrow> nat" where
  "gap sp remote member o2 s = distance sp remote member
     + (if oauthPending sp o2 then 1 else 0) + (if samlPending sp s then 1 else 0)"

lemma gap_bound: "gap sp r m o2 s \<le> 4 + protocols (sp_Spec sp)"
proof -
  have "oauthPending sp o2 \<Longrightarrow> spec_OAuth2 (sp_Spec sp) \<noteq> None"
    by (cases rule: oauth2FromSpec_cases [of sp]) (auto simp: oauthPending_def)
  moreover have "samlPending sp s \<Longrightarrow> \<exists>sm. spec_SAML (sp_Spec sp) = Some sm \<and> v1s_MetadataURL sm \<noteq> []"
    by (auto simp: samlPending_def split: option.splits)
  ultimately show ?thesis
    using distance_bound [of sp r m] by (auto simp: gap_def protocols_def split: option.split)
qed

lemma gap_zero: "gap sp r m o2 s = 0 \<Longrightarrow> hasFinalizer sp \<and> r \<noteq> None \<and> announcedReady sp"
  by (simp add: gap_def distance_zero split: if_splits)

context cooperative_protocols
begin

lemma gets_closer:
  assumes "active spec (obj (world s))" "samlFits metadata (obj (world s)) (saml (world s))" "protocolsRest spec"
    and "instanceReady (inst (world s))"
  obtains t d where "Reconcile K req s = (Returned (ok (requeue d)), t)" "active spec (obj (world t))"
    "samlFits metadata (obj (world t)) (saml (world t))" "d = 0 \<longrightarrow> \<not> hasFinalizer (obj (world s))"
    "inst (world t) = inst (world s)"
    "gap (obj (world t)) (remote (world t)) (member (world t)) (oauth (world t)) (saml (world t))
      \<le> gap (obj (world s)) (remote (world s)) (member (world s)) (oauth (world s)) (saml (world s)) - 1"
proof -
  let ?sp = "obj (world s)"
  have sp: "sp_Spec ?sp = spec" using assms(1) by (simp add: active_def)
  have same: "oauthPending (obj w) = oauthPending ?sp" "samlPending (obj w) = samlPending ?sp"
    "samlFits metadata (obj w) = samlFits metadata ?sp" if "active spec (obj w)" for w
    by (rule pending_spec; use that sp in \<open>simp add: active_def\<close>)+
  from assms(1,2,4) show thesis
  proof (cases rule: reconcile_cases)
    case (finalizer_case d t)
    have "distance (obj (world t)) (remote (world t)) (member (world t)) \<le> 3"
      "distance ?sp (remote (world s)) (member (world s)) = 4"
      using finalizer_case(3,8) by (simp_all add: distance_def [of ?sp])
    then show thesis
      using finalizer_case assms(2) same [OF finalizer_case(2)] by (intro that [of d t]) (simp_all add: gap_def)
  next
    case (oauth_case t e k x d)
    obtain o2 where o2: "spec_OAuth2 (sp_Spec ?sp) = Some o2"
      using oauth_case(10) by (cases rule: oauth2FromSpec_cases [of ?sp]) auto
    have "\<not> oauthPending ?sp (Some e)"
      by (rule oauth_rests(1) [OF oauth_case(10) o2 oauth_case(11)]) (use assms(3) o2 sp in \<open>simp add: protocolsRest_def\<close>)
    then show thesis
      using oauth_case assms(1,2) by (intro that [of "second 5" t]) (simp_all add: gap_def)
  next
    case (saml_case t e sm)
    obtain i dsc where m: "metadata = spConfigFromDescriptor i dsc" "i \<noteq> []"
      using Fetch_descriptor fetch [OF saml_case(10,11)] by blast
    have fits: "samlFits metadata ?sp (Some e)"
      unfolding m(1) by (rule saml_fits) (use saml_case m sp in simp_all)
    have "saml_Issuer e \<noteq> []"
      using readBack_issuer [OF saml_case(13)] m by (simp add: samlDesired_def spConfig_identity)
    then have "\<not> samlPending ?sp (Some e)" by (simp add: samlPending_def split: option.split)
    then show thesis
      using saml_case assms(1) fits by (intro that [of "second 5" t]) (simp_all add: gap_def)
  next
    case (remote_case d t)
    then show thesis
      using assms(2) same [OF remote_case(2)] by (intro that [of d t]) (simp_all add: gap_def)
  qed
qed

lemma runs_get_closer:
  assumes "active spec (obj (world s))" "samlFits metadata (obj (world s)) (saml (world s))" "protocolsRest spec"
    and "instanceReady (inst (world s))"
  shows "active spec (obj (world (afterRuns K req n s)))
    \<and> samlFits metadata (obj (world (afterRuns K req n s))) (saml (world (afterRuns K req n s)))
    \<and> inst (world (afterRuns K req n s)) = inst (world s)
    \<and> (let w = world (afterRuns K req n s) in
        gap (obj w) (remote w) (member w) (oauth w) (saml w)
          \<le> gap (obj (world s)) (remote (world s)) (member (world s)) (oauth (world s)) (saml (world s)) - n)"
proof (induction n)
  case 0
  then show ?case using assms by simp
next
  case (Suc n)
  obtain t d where "Reconcile K req (afterRuns K req n s) = (Returned (ok (requeue d)), t)" "active spec (obj (world t))"
    "samlFits metadata (obj (world t)) (saml (world t))" "inst (world t) = inst (world (afterRuns K req n s))"
    "gap (obj (world t)) (remote (world t)) (member (world t)) (oauth (world t)) (saml (world t))
      \<le> (let w = world (afterRuns K req n s) in gap (obj w) (remote w) (member w) (oauth w) (saml w)) - 1"
    using gets_closer [of "afterRuns K req n s"] Suc assms(3,4) unfolding Let_def by metis
  moreover have "a \<le> b - 1 \<Longrightarrow> b \<le> k - n \<Longrightarrow> a \<le> k - Suc n" for a b k :: nat by simp
  ultimately show ?case using Suc by (simp add: Let_def)
qed

end

lemma becomes_ready:
  assumes "cooperative_protocols K req c spec obj remote member oauth saml inst key secret metadata"
    and "active spec (obj (world s))" "samlFits metadata (obj (world s)) (saml (world s))" "protocolsRest spec"
    and "instanceReady (inst (world s))" "4 + protocols spec \<le> n"
  shows "hasFinalizer (obj (world (afterRuns K req n s)))" "remote (world (afterRuns K req n s)) \<noteq> None"
    "announcedReady (obj (world (afterRuns K req n s)))"
proof -
  let ?w = "world (afterRuns K req n s)"
  have "gap (obj (world s)) (remote (world s)) (member (world s)) (oauth (world s)) (saml (world s)) \<le> 4 + protocols spec"
    using gap_bound [of "obj (world s)"] assms(2) by (simp add: active_def)
  then have "gap (obj ?w) (remote ?w) (member ?w) (oauth ?w) (saml ?w) = 0"
    using cooperative_protocols.runs_get_closer [OF assms(1-5), of n] assms(6) by (simp add: Let_def)
  then show "hasFinalizer (obj ?w)" "remote ?w \<noteq> None" "announcedReady (obj ?w)"
    using gap_zero by blast+
qed


text \<open>Without protocols, four reconciliations are enough.\<close>

corollary ready_after_four:
  assumes "cooperative_protocols K req c spec obj remote member oauth saml inst key secret metadata"
    and "active spec (obj (world s))" "spec_OAuth2 spec = None" "spec_SAML spec = None" "4 \<le> n"
    and "instanceReady (inst (world s))"
  shows "announcedReady (obj (world (afterRuns K req n s)))"
  by (rule becomes_ready [OF assms(1,2)])
    (use assms(2-6) in \<open>simp_all add: protocolsRest_def samlFits_def active_def protocols_def\<close>)

section \<open>Never ready\<close>

text \<open>The texts that are compared are ones the encoding is injective on.\<close>

definition oauthTextsOk :: "WSO2SP \<Rightarrow> string \<Rightarrow> string \<Rightarrow> bool" where
  "oauthTextsOk sp k x \<longleftrightarrow>
     (case oauth2FromSpec sp of
        Panicked p \<Rightarrow> True
      | Returned d \<Rightarrow> json_ok (json_OAuth2Config (withCredentials k x d)) \<and>
          (case readBackOAuth2 (spec_Name (sp_Spec sp)) (withCredentials k x d) of
             Inl e \<Rightarrow> True
           | Inr e \<Rightarrow> json_ok (json_OAuth2Config e)))"

definition oauthCollision :: "WSO2SP \<Rightarrow> string \<Rightarrow> string \<Rightarrow> bool" where
  "oauthCollision sp k x \<longleftrightarrow>
     (case oauth2FromSpec sp of
        Panicked p \<Rightarrow> False
      | Returned d \<Rightarrow>
          (case readBackOAuth2 (spec_Name (sp_Spec sp)) (withCredentials k x d) of
             Inl e \<Rightarrow> False
           | Inr e \<Rightarrow> sha256_collision (jsonText (json_OAuth2Config e)) (jsonText (json_OAuth2Config (withCredentials k x d)))))"

lemma oauth_texts_spec:
  assumes "sp_Spec x = sp_Spec y"
  shows "oauthTextsOk x k z = oauthTextsOk y k z" "oauthCollision x k z = oauthCollision y k z"
proof -
  have d: "oauth2FromSpec x = oauth2FromSpec y" using assms by (simp add: oauth2FromSpec_def)
  show "oauthTextsOk x k z = oauthTextsOk y k z" "oauthCollision x k z = oauthCollision y k z"
    unfolding oauthTextsOk_def oauthCollision_def d assms by (rule refl)+
qed

text \<open>An object on its way in vain: whatever is registered is what the operator registered.\<close>

definition vain :: "WSO2SPSpec \<Rightarrow> string \<Rightarrow> string \<Rightarrow> SAMLConfig \<Rightarrow> WSO2SP \<Rightarrow> OAuth2Config option \<Rightarrow> SAMLConfig option \<Rightarrow> bool" where
  "vain spec key secret metadata sp o2 s \<longleftrightarrow> active spec sp \<and> \<not> announcedReady sp
     \<and> (\<forall>e. o2 = Some e \<longrightarrow> (\<exists>d. oauth2FromSpec sp = Returned d
          \<and> readBackOAuth2 (spec_Name spec) (withCredentials key secret d) = Inr e))
     \<and> samlFits metadata sp s"

lemma vain_pending:
  assumes "vain spec key secret metadata sp o2 s" "\<not> protocolsRest spec" "oauthTextsOk sp key secret"
    and "\<not> oauthCollision sp key secret"
  shows "oauthPending sp o2"
proof -
  have spec: "sp_Spec sp = spec" using assms(1) by (simp add: vain_def active_def)
  obtain oc where oc: "spec_OAuth2 spec = Some oc" "\<not> oauth2Rests oc"
    using assms(2) by (auto simp: protocolsRest_def split: option.splits)
  then obtain d where d: "oauth2FromSpec sp = Returned d"
    using spec by (cases rule: oauth2FromSpec_cases [of sp]) auto
  show ?thesis
  proof (cases o2)
    case None
    then show ?thesis by (simp add: oauthPending_def d)
  next
    case (Some e)
    then have e: "readBackOAuth2 (spec_Name spec) (withCredentials key secret d) = Inr e"
      using assms(1) d by (auto simp: vain_def)
    have "oauthPending sp (Some e)"
      by (rule oauth_rests(2) [OF d _ e]) (use oc spec assms(3,4) d e in \<open>simp_all add: oauthTextsOk_def oauthCollision_def\<close>)
    then show ?thesis using Some by simp
  qed
qed

context cooperative_protocols
begin

lemma stays_vain:
  assumes "vain spec key secret metadata (obj (world s)) (oauth (world s)) (saml (world s))"
    and "\<not> protocolsRest spec" "oauthTextsOk (obj (world s)) key secret" "\<not> oauthCollision (obj (world s)) key secret"
    and "instanceReady (inst (world s))"
  shows "let w = world (snd (Reconcile K req s)) in
    vain spec key secret metadata (obj w) (oauth w) (saml w) \<and> sp_Spec (obj w) = sp_Spec (obj (world s))
    \<and> inst w = inst (world s)"
proof -
  let ?sp = "obj (world s)"
  have sp: "active spec ?sp" "samlFits metadata ?sp (saml (world s))" "sp_Spec ?sp = spec"
    using assms(1) by (simp_all add: vain_def active_def)
  have pending: "oauthPending ?sp (oauth (world s))" by (rule vain_pending [OF assms(1-4)])
  from sp(1,2) assms(5) show ?thesis
  proof (cases rule: reconcile_cases)
    case (finalizer_case d t)
    have spec: "sp_Spec (obj (world t)) = sp_Spec ?sp" using finalizer_case(2) sp(3) by (simp add: active_def)
    show ?thesis
      using finalizer_case assms(1) pending_spec(3) [OF spec] spec
      by (simp add: Let_def vain_def announcedReady_def oauth2FromSpec_def)
  next
    case (oauth_case t e k x d)
    have "k = key \<and> x = secret"
    proof (cases "oauth (world s)")
      case None
      then show ?thesis using oauth_case(12) by simp
    next
      case (Some e0)
      then obtain d0 where "readBackOAuth2 (spec_Name spec) (withCredentials key secret d0) = Inr e0"
        using assms(1) by (auto simp: vain_def)
      from readBack_credentials [OF this] Some oauth_case(12) show ?thesis by simp
    qed
    then show ?thesis using oauth_case assms(1) by (simp add: Let_def vain_def)
  next
    case (saml_case t e sm)
    then show ?thesis using pending by blast
  next
    case (remote_case d t)
    then show ?thesis using pending by blast
  qed
qed

lemma runs_stay_vain:
  assumes "vain spec key secret metadata (obj (world s)) (oauth (world s)) (saml (world s))"
    and "\<not> protocolsRest spec" "oauthTextsOk (obj (world s)) key secret" "\<not> oauthCollision (obj (world s)) key secret"
    and "instanceReady (inst (world s))"
  shows "let w = world (afterRuns K req n s) in
    vain spec key secret metadata (obj w) (oauth w) (saml w) \<and> sp_Spec (obj w) = sp_Spec (obj (world s))
    \<and> inst w = inst (world s)"
proof (induction n)
  case 0
  then show ?case using assms(1) by simp
next
  case (Suc n)
  let ?s = "afterRuns K req n s"
  have "sp_Spec (obj (world ?s)) = sp_Spec (obj (world s))" using Suc by (simp add: Let_def)
  then show ?case
    using stays_vain [of ?s] Suc assms(2-5) oauth_texts_spec [of "obj (world ?s)" "obj (world s)"] by (simp add: Let_def)
qed

end

lemma never_ready:
  assumes "cooperative_protocols K req c spec obj remote member oauth saml inst key secret metadata"
    and "active spec (obj (world s))" "samlFits metadata (obj (world s)) (saml (world s))"
    and "oauth (world s) = None" "\<not> announcedReady (obj (world s))"
    and "\<not> protocolsRest spec" "oauthTextsOk (obj (world s)) key secret" "\<not> oauthCollision (obj (world s)) key secret"
    and "instanceReady (inst (world s))"
  shows "\<not> announcedReady (obj (world (afterRuns K req n s)))"
proof -
  have "vain spec key secret metadata (obj (world s)) (oauth (world s)) (saml (world s))"
    using assms(2-5) by (simp add: vain_def)
  from cooperative_protocols.runs_stay_vain [OF assms(1) this assms(6-9), of n] show ?thesis
    by (simp add: Let_def vain_def)
qed

section \<open>Waiting for Ready\<close>

text \<open>The loop that reconciles an object until its status says \<^verbatim>\<open>Ready\<close>, and the state it ends in.\<close>

definition waitReady :: "'w env \<Rightarrow> NamespacedName \<Rightarrow> ('w \<Rightarrow> WSO2SP) \<Rightarrow> 'w run \<Rightarrow> 'w run option" where
  "waitReady K req obj s =
     while_option (\<lambda>s. \<not> announcedReady (obj (world s))) (\<lambda>s. snd (Reconcile K req s)) s"

lemma waitReady_ends: "(\<exists>t. waitReady K req obj s = Some t) \<longleftrightarrow> (\<exists>n. announcedReady (obj (world (afterRuns K req n s))))"
  by (auto simp: waitReady_def while_option_def afterRuns_def)


end
