(* ===== verification/Operator.thy ===== *)
theory Operator
  imports Protocols
begin

text \<open>
  The two controllers together. The controller of the instances probes a server and says in the status
  of its instance whether it is \<^verbatim>\<open>Ready\<close>; the controller of the service providers reads that status
  before anything else. The manager runs each of them in a worker of its own, so their
  reconciliations come in any order: here a sequence of turns. The theorem is about every such
  sequence.
\<close>

section \<open>Turns\<close>

datatype turn = InstanceTurn | ProviderTurn

primrec takeTurn :: "'w env \<Rightarrow> NamespacedName \<Rightarrow> NamespacedName \<Rightarrow> turn \<Rightarrow> ('w run, goresult) prog" where
  "takeTurn K ireq req InstanceTurn = reconcileInstance K ireq"
| "takeTurn K ireq req ProviderTurn = Reconcile K req"

primrec operate :: "'w env \<Rightarrow> NamespacedName \<Rightarrow> NamespacedName \<Rightarrow> turn list \<Rightarrow> 'w run \<Rightarrow> 'w run" where
  "operate K ireq req [] s = s"
| "operate K ireq req (t # ts) s = operate K ireq req ts (snd (takeTurn K ireq req t s))"

lemma operate_append: "operate K ireq req (us @ vs) s = operate K ireq req vs (operate K ireq req us s)"
  by (induction us arbitrary: s) simp_all

abbreviation provider_turns :: "turn list \<Rightarrow> nat" where
  "provider_turns ts \<equiv> length (filter (\<lambda>t. t = ProviderTurn) ts)"

text \<open>An object the theorem is about: it is to be reconciled, and what is registered is what the operator registers.\<close>

definition onCourse :: "WSO2SPSpec \<Rightarrow> SAMLConfig \<Rightarrow> WSO2SP \<Rightarrow> SAMLConfig option \<Rightarrow> bool" where
  "onCourse spec metadata sp s \<longleftrightarrow> active spec sp \<and> samlFits metadata sp s"

section \<open>A cooperative environment for both\<close>

text \<open>
  The instance is the one the service provider names. Its secret has both credentials, the probe with
  them is answered, and the status of either object can be written.
\<close>

locale cooperative_operator = cooperative_protocols K req c spec obj remote member oauth saml inst key secret metadata
  for K :: "'w env" and req :: NamespacedName and c :: Client and spec :: WSO2SPSpec
    and obj :: "'w \<Rightarrow> WSO2SP" and remote :: "'w \<Rightarrow> Application option" and member :: "'w \<Rightarrow> bool"
    and oauth :: "'w \<Rightarrow> OAuth2Config option" and saml :: "'w \<Rightarrow> SAMLConfig option" and inst :: "'w \<Rightarrow> WSO2ISInstance"
    and key :: string and secret :: string and metadata :: SAMLConfig +
  fixes ireq :: NamespacedName
  assumes get_instance: "env_GetInstance K ireq w = (Inr (inst w), w)"
    and credentials: "env_GetSecret K (credentialsKey (inst w)) w = (Inr sec, w') \<Longrightarrow> hasCredentials sec"
    and probe: "\<exists>t. Ping K c s = (Returned (Inr ()), t)
      \<and> unmoved obj remote member (\<lambda>w. (oauth w, saml w, inst w)) (world s) (world t)"
    and write_instance: "inst_Meta i = inst_Meta (inst w) \<Longrightarrow> inst_Spec i = inst_Spec (inst w) \<Longrightarrow>
      \<exists>y w'. env_StatusUpdateInstance K i w = (Inr y, w') \<and> inst_Status (inst w') = inst_Status i
        \<and> unmoved obj remote member (\<lambda>w. (oauth w, saml w)) w w'"
    and write_status: "sp_Spec x = sp_Spec (obj w) \<Longrightarrow> sp_Meta x = sp_Meta (obj w) \<Longrightarrow>
      \<exists>y w'. env_StatusUpdateSP K x w = (Inr y, w') \<and> storedAs x (obj w') \<and> remote w' = remote w \<and> member w' = member w
        \<and> oauth w' = oauth w \<and> saml w' = saml w \<and> inst w' = inst w"
begin

text \<open>A turn of the instance: whatever its status was, it is \<^verbatim>\<open>Ready\<close> now.\<close>

lemma instance_turn:
  obtains t where "reconcileInstance K ireq s = (Returned (ok (requeue (minute 2))), t)"
    "unmoved obj remote member (\<lambda>w. (oauth w, saml w)) (world s) (world t)" "instanceReady (inst (world t))"
proof -
  let ?i = "inst (world s)"
  let ?x = "\<lambda>w m. withInstancePhase (env_Now K w) ''Ready'' m ?i"
  obtain sec where sec: "env_GetSecret K (credentialsKey ?i) (world s) = (Inr sec, world s)" "c = instanceClient ?i sec"
    using its_instance [of "world s"] by auto
  have some: "mapget (sec_Data sec) ''username'' \<noteq> []" "mapget (sec_Data sec) ''password'' \<noteq> []"
    using credentials [OF sec(1)] by (simp_all add: hasCredentials_def)
  let ?s = "\<lparr>world = world s, log = log s @ [GetInstance ireq, GetSecret (credentialsKey ?i)]\<rparr>"
  let ?msg = "''Connected to '' @ ispec_BaseURL (inst_Spec ?i)"
  obtain u where u: "Ping K c ?s = (Returned (Inr ()), u)"
    "unmoved obj remote member (\<lambda>w. (oauth w, saml w, inst w)) (world s) (world u)"
    using probe [of ?s] by auto
  have "inst (world u) = ?i" using u(2) by (simp add: unmoved_def)
  then obtain y w' where w': "env_StatusUpdateInstance K (?x (world u) ?msg) (world u) = (Inr y, w')"
    "inst_Status (inst w') = inst_Status (?x (world u) ?msg)"
    "unmoved obj remote member (\<lambda>w. (oauth w, saml w)) (world u) w'"
    using write_instance [of "?x (world u) ?msg" "world u"] by (auto simp: withInstancePhase_def)
  have final: "world (snd (reconcileInstance K ireq s)) = w'
    \<and> fst (reconcileInstance K ireq s) = Returned (ok (requeue (minute 2)))"
    using some sec u(1) w'(1)
    by (simp add: reconcileInstance_def bind_def kGetInstance_def kGetSecret_def call_def get_instance Let_def
        instanceClient_def setPhaseNoRequeue_def timeNow_def kStatusUpdateInstance_def eventf_def)
  have "unmoved obj remote member (\<lambda>w. (oauth w, saml w)) (world s) w'"
    using u(2) w'(3) by (simp add: unmoved_def)
  moreover have "instanceReady (inst w')" using w'(2) by (simp add: instanceReady_def withInstancePhase_def phaseReady_def)
  ultimately show thesis using final by (intro that [of "snd (reconcileInstance K ireq s)"]) (simp_all add: prod_eq_iff)
qed

text \<open>A turn of the service provider while the instance is not ready: the status says \<^verbatim>\<open>Pending\<close>.\<close>

lemma waiting_turn:
  assumes "active spec (obj (world s))" "\<not> instanceReady (inst (world s))"
  obtains t where "Reconcile K req s = (Returned (ok (requeue (second 15))), t)" "active spec (obj (world t))"
    "status_Phase (sp_Status (obj (world t))) = phasePending" "remote (world t) = remote (world s)"
    "member (world t) = member (world s)" "oauth (world t) = oauth (world s)" "saml (world t) = saml (world s)"
    "inst (world t) = inst (world s)"
proof -
  let ?sp = "obj (world s)" and ?s = "afterGet req (world s) s"
  have w: "world ?s = world s" by (simp add: afterGet_def)
  have spec: "sp_Spec (obj (world ?s)) = spec" "\<not> instanceReady (snd (snd (oauth (world ?s), saml (world ?s), inst (world ?s))))"
    using assms by (simp_all add: active_def w)
  obtain s1 m where s1: "buildClient K ?sp ?s = (Returned (Inl m), s1)" "world s1 = world s"
    using no_client [OF spec] unfolding w by blast
  let ?s2 = "\<lparr>world = world s, log = log s1 @ [Recorded \<lparr>rec_Type = warning, rec_Reason = ''InstanceNotReady'',
    rec_Action = ''Reconciling'', rec_Note = m\<rparr>]\<rparr>"
  have "\<not> skipReconcile APP ?sp" using assms(1) by (simp add: active_def)
  then have "reconcileSP K ?sp ?s = setPhase K ?sp phasePending m (second 15) ?s2"
    by (simp add: reconcileSP_alt afterClient_def bind_def s1 eventf_def call_def)
  then have run: "Reconcile K req s = (case setPhase K ?sp phasePending m (second 15) ?s2 of
      (Returned (sp', res), t) \<Rightarrow> (Returned res, t) | (Panicked p, t) \<Rightarrow> (Panicked p, t))"
    by (simp add: Reconcile_def kGetSP_def call_def get bind_def afterGet_def [symmetric] split: prod.split outcome.split)
  show thesis
  proof (cases "status_Phase (sp_Status ?sp) = phasePending \<and> status_Message (sp_Status ?sp) = m")
    case True
    then show thesis using assms(1) by (intro that [of ?s2]) (simp_all add: run setPhase_def)
  next
    case False
    let ?x = "withPhase phasePending m ?sp"
    obtain y w' where y: "env_StatusUpdateSP K ?x (world s) = (Inr y, w')" "storedAs ?x (obj w')"
      "remote w' = remote (world s)" "member w' = member (world s)" "oauth w' = oauth (world s)" "saml w' = saml (world s)"
      "inst w' = inst (world s)"
      using write_status [of ?x "world s"] by (auto simp: withPhase_def)
    have "active spec (obj w')" "sp_Status (obj w') = sp_Status ?x"
      using active_stored [OF y(2)] y(2) assms(1) by (simp_all add: storedAs_def)
    then show thesis
      using False y by (intro that [of "\<lparr>world = w', log = log ?s2 @ [StatusUpdateSP ?x]\<rparr>"])
        (simp_all add: run setPhase_def bind_def kStatusUpdateSP_def call_def withPhase_def)
  qed
qed

text \<open>Either turn succeeds and keeps the object on its course.\<close>

lemma turn_succeeds:
  assumes "onCourse spec metadata (obj (world s)) (saml (world s))" "protocolsRest spec"
  obtains d u where "takeTurn K ireq req t s = (Returned (ok (requeue d)), u)" "onCourse spec metadata (obj (world u)) (saml (world u))"
    "instanceReady (inst (world u)) \<longleftrightarrow> t = InstanceTurn \<or> instanceReady (inst (world s))"
    "instanceReady (inst (world s)) \<Longrightarrow> gap (obj (world u)) (remote (world u)) (member (world u)) (oauth (world u)) (saml (world u))
       \<le> gap (obj (world s)) (remote (world s)) (member (world s)) (oauth (world s)) (saml (world s)) - (if t = ProviderTurn then 1 else 0)"
    "t = ProviderTurn \<Longrightarrow> \<not> instanceReady (inst (world s)) \<Longrightarrow> \<not> announcedReady (obj (world u))"
proof (cases t)
  case InstanceTurn
  obtain u where u: "reconcileInstance K ireq s = (Returned (ok (requeue (minute 2))), u)"
    "unmoved obj remote member (\<lambda>w. (oauth w, saml w)) (world s) (world u)" "instanceReady (inst (world u))"
    by (rule instance_turn)
  then show thesis
    using assms(1) InstanceTurn by (intro that [of "minute 2" u]) (simp_all add: onCourse_def unmoved_def)
next
  case ProviderTurn
  have on: "active spec (obj (world s))" "samlFits metadata (obj (world s)) (saml (world s))"
    using assms(1) by (simp_all add: onCourse_def)
  show thesis
  proof (cases "instanceReady (inst (world s))")
    case True
    from on assms(2) True show thesis
      by (rule gets_closer)
        (use True ProviderTurn in \<open>auto simp: onCourse_def intro: that\<close>)
  next
    case False
    obtain u where u: "Reconcile K req s = (Returned (ok (requeue (second 15))), u)" "active spec (obj (world u))"
      "status_Phase (sp_Status (obj (world u))) = phasePending" "saml (world u) = saml (world s)"
      "inst (world u) = inst (world s)"
      by (rule waiting_turn [OF on(1) False])
    have "sp_Spec (obj (world u)) = sp_Spec (obj (world s))" using u(2) on(1) by (simp add: active_def)
    from pending_spec(3) [OF this, of metadata] u on(2) False ProviderTurn show thesis
      by (intro that [of "second 15" u]) (simp_all add: onCourse_def announcedReady_def phasePending_def phaseReady_def)
  qed
qed

text \<open>Any sequence of turns.\<close>

lemma turns_keep_course:
  assumes "onCourse spec metadata (obj (world s)) (saml (world s))" "protocolsRest spec"
  shows "onCourse spec metadata (obj (world (operate K ireq req ts s))) (saml (world (operate K ireq req ts s)))"
  using assms(1)
proof (induction ts arbitrary: s)
  case (Cons t ts)
  show ?case
    by (rule turn_succeeds [OF Cons.prems assms(2), of t]) (simp add: Cons.IH)
qed simp

lemma turns_without_instance:
  assumes "onCourse spec metadata (obj (world s)) (saml (world s))" "protocolsRest spec"
    and "InstanceTurn \<notin> set ts" "\<not> instanceReady (inst (world s))"
  shows "\<not> instanceReady (inst (world (operate K ireq req ts s)))"
    and "\<not> announcedReady (obj (world s)) \<Longrightarrow> \<not> announcedReady (obj (world (operate K ireq req ts s)))"
proof -
  have "\<not> instanceReady (inst (world (operate K ireq req ts s)))
    \<and> (\<not> announcedReady (obj (world s)) \<longrightarrow> \<not> announcedReady (obj (world (operate K ireq req ts s))))"
    using assms(1,3,4)
  proof (induction ts arbitrary: s)
    case (Cons t ts)
    then have "t = ProviderTurn" by (cases t) simp_all
    show ?case
      by (rule turn_succeeds [OF Cons.prems(1) assms(2), of t]) (use Cons \<open>t = ProviderTurn\<close> in simp)
  qed simp
  then show "\<not> instanceReady (inst (world (operate K ireq req ts s)))"
    and "\<not> announcedReady (obj (world s)) \<Longrightarrow> \<not> announcedReady (obj (world (operate K ireq req ts s)))" by simp_all
qed

lemma turns_get_closer:
  assumes "onCourse spec metadata (obj (world s)) (saml (world s))" "protocolsRest spec" "instanceReady (inst (world s))"
  shows "instanceReady (inst (world (operate K ireq req ts s)))
    \<and> (let w = world (operate K ireq req ts s) in
        gap (obj w) (remote w) (member w) (oauth w) (saml w)
          \<le> gap (obj (world s)) (remote (world s)) (member (world s)) (oauth (world s)) (saml (world s)) - provider_turns ts)"
  using assms(1,3)
proof (induction ts arbitrary: s)
  case (Cons t ts)
  show ?case
  proof (rule turn_succeeds [OF Cons.prems(1) assms(2), of t])
    fix d u
    assume u: "takeTurn K ireq req t s = (Returned (ok (requeue d)), u)"
      "onCourse spec metadata (obj (world u)) (saml (world u))"
      "instanceReady (inst (world u)) = (t = InstanceTurn \<or> instanceReady (inst (world s)))"
      "instanceReady (inst (world s)) \<Longrightarrow> gap (obj (world u)) (remote (world u)) (member (world u)) (oauth (world u)) (saml (world u))
         \<le> gap (obj (world s)) (remote (world s)) (member (world s)) (oauth (world s)) (saml (world s)) - (if t = ProviderTurn then 1 else 0)"
    have "instanceReady (inst (world u))" using u(3) Cons.prems(2) by simp
    from Cons.IH [OF u(2) this] u(1) u(4) [OF Cons.prems(2)] show ?thesis by (auto simp: Let_def split: if_splits)
  qed
qed simp

lemma turns_make_ready:
  assumes "onCourse spec metadata (obj (world s)) (saml (world s))" "protocolsRest spec"
    and "4 + protocols spec \<le> provider_turns (dropWhile (\<lambda>t. t = ProviderTurn) ts)"
  shows "instanceReady (inst (world (operate K ireq req ts s)))" "announcedReady (obj (world (operate K ireq req ts s)))"
proof -
  let ?P = "\<lambda>t. t = ProviderTurn"
  have "dropWhile ?P ts \<noteq> []"
  proof
    assume "dropWhile ?P ts = []"
    with assms(3) show False by simp
  qed
  then obtain t vs where "dropWhile ?P ts = t # vs" by (cases "dropWhile ?P ts") simp_all
  moreover from this have "t = InstanceTurn" using hd_dropWhile [of ?P ts] by (cases t) simp_all
  ultimately have ts: "ts = takeWhile ?P ts @ InstanceTurn # vs" "4 + protocols spec \<le> provider_turns vs"
    using takeWhile_dropWhile_id [of ?P ts] assms(3) by simp_all
  let ?s1 = "operate K ireq req (takeWhile ?P ts) s"
  have on1: "onCourse spec metadata (obj (world ?s1)) (saml (world ?s1))" by (rule turns_keep_course [OF assms(1,2)])
  let ?s2 = "snd (takeTurn K ireq req InstanceTurn ?s1)"
  have on2: "onCourse spec metadata (obj (world ?s2)) (saml (world ?s2))" "instanceReady (inst (world ?s2))"
    by (rule turn_succeeds [OF on1 assms(2), of InstanceTurn]; simp)+
  have run: "operate K ireq req ts s = operate K ireq req vs ?s2"
    using operate_append [of K ireq req "takeWhile ?P ts" "InstanceTurn # vs" s] ts(1) by simp
  have "gap (obj (world ?s2)) (remote (world ?s2)) (member (world ?s2)) (oauth (world ?s2)) (saml (world ?s2)) \<le> 4 + protocols spec"
    using gap_bound [of "obj (world ?s2)"] on2(1) by (simp add: onCourse_def active_def)
  with turns_get_closer [OF on2(1) assms(2) on2(2), of vs] ts(2)
  have "instanceReady (inst (world (operate K ireq req ts s)))"
    "(let w = world (operate K ireq req ts s) in gap (obj w) (remote w) (member w) (oauth w) (saml w)) = 0"
    by (simp_all add: run Let_def)
  then show "instanceReady (inst (world (operate K ireq req ts s)))" "announcedReady (obj (world (operate K ireq req ts s)))"
    using gap_zero unfolding Let_def by blast+
qed

lemma turns_succeed:
  assumes "onCourse spec metadata (obj (world s)) (saml (world s))" "protocolsRest spec"
  shows "\<exists>d. fst (takeTurn K ireq req t (operate K ireq req ts s)) = Returned (ok (requeue d))"
  by (rule turn_succeeds [OF turns_keep_course [OF assms, of ts] assms(2), of t]) auto

end

section \<open>The theorem\<close>


end
