(* ===== verification/Schema.thy ===== *)
theory Schema
  imports JsonViews GoXml
begin

text \<open>
  The schemas of the CRDs under \<^verbatim>\<open>config/crd/bases\<close>, which controller-gen derives from the types and
  their markers, and what they mean: which values an object may have, and what is filled in for a
  field that is absent. A field that is null counts as absent, since no field is nullable; a field the
  schema does not name is dropped.
\<close>

section \<open>Schemas\<close>

text \<open>
  A string with its enum, length and pattern; an integer with its bounds; an array with the key by
  which its items are told apart (\<^verbatim>\<open>x-kubernetes-list-map-keys\<close>); an object with its properties, each
  with a default, and the names of the required ones.
\<close>

datatype schema =
    StringS "string \<Rightarrow> bool"
  | IntegerS "int \<Rightarrow> bool"
  | BooleanS
  | ArrayS schema "string option"
  | ObjectS "(string \<times> schema \<times> json option) list" "string list"

definition valueOf :: "(string \<times> json) list \<Rightarrow> string \<Rightarrow> json option" where
  "valueOf kvs k = (case map_of kvs k of None \<Rightarrow> None | Some v \<Rightarrow> if v = JNull then None else Some v)"

definition keyOf :: "string \<Rightarrow> json \<Rightarrow> json option" where
  "keyOf k j = (case j of JObj kvs \<Rightarrow> valueOf kvs k | _ \<Rightarrow> None)"

lemma property_smaller: "(k, s, d) \<in> set ps \<Longrightarrow> size s < Suc (size_list (size_prod (\<lambda>x. 0) (size_prod size (\<lambda>x. 0))) ps)"
  by (induction ps) auto

text \<open>Whether a value may be stored.\<close>

function admits :: "schema \<Rightarrow> json \<Rightarrow> bool" where
  "admits (StringS p) j = (case j of JStr s \<Rightarrow> p s | _ \<Rightarrow> False)"
| "admits (IntegerS p) j = (case j of JNum w \<Rightarrow> (case parseInt w of Inl e \<Rightarrow> False | Inr i \<Rightarrow> p (sint i)) | _ \<Rightarrow> False)"
| "admits BooleanS j = (case j of JBool b \<Rightarrow> True | _ \<Rightarrow> False)"
| "admits (ArrayS s key) j = (case j of
     JArr xs \<Rightarrow> list_all (\<lambda>x. admits s x) xs \<and> (case key of None \<Rightarrow> True | Some k \<Rightarrow> distinct (map (keyOf k) xs))
   | _ \<Rightarrow> False)"
| "admits (ObjectS ps req) j = (case j of
     JObj kvs \<Rightarrow> list_all (\<lambda>k. valueOf kvs k \<noteq> None) req
       \<and> list_all (\<lambda>(k, s, d). case valueOf kvs k of None \<Rightarrow> True | Some v \<Rightarrow> admits s v) ps
   | _ \<Rightarrow> False)"
  by pat_completeness auto
termination
  by (relation "measure (\<lambda>(s, j). size s)") (auto dest: property_smaller)

text \<open>What is stored: absent properties get their defaults, in objects that are there.\<close>

function fill :: "schema \<Rightarrow> json \<Rightarrow> json" where
  "fill (StringS p) j = j"
| "fill (IntegerS p) j = j"
| "fill BooleanS j = j"
| "fill (ArrayS s key) j = (case j of JArr xs \<Rightarrow> JArr (map (\<lambda>x. fill s x) xs) | _ \<Rightarrow> j)"
| "fill (ObjectS ps req) j = (case j of
     JObj kvs \<Rightarrow> JObj (flds (map (\<lambda>(k, s, d). (k, case valueOf kvs k of None \<Rightarrow> d | Some v \<Rightarrow> Some (fill s v))) ps))
   | _ \<Rightarrow> j)"
  by pat_completeness auto
termination
  by (relation "measure (\<lambda>(s, j). size s)") (auto dest: property_smaller)

definition stored :: "schema \<Rightarrow> json \<Rightarrow> json option" where
  "stored s j = (let j' = fill s j in if admits s j' then Some j' else None)"

section \<open>Objects with optional fields\<close>

fun there :: "json option \<Rightarrow> json option" where
  "there (Some JNull) = None"
| "there v = v"

fun fieldOf :: "(string \<times> json option) list \<Rightarrow> string \<Rightarrow> json option" where
  "fieldOf [] k = None"
| "fieldOf ((k', v) # fs) k = (if k = k' then v else fieldOf fs k)"

lemma fieldOf_None: "k \<notin> set (map fst fs) \<Longrightarrow> fieldOf fs k = None"
  by (induction fs) auto

lemma map_of_flds: "distinct (map fst fs) \<Longrightarrow> map_of (flds fs) k = fieldOf fs k"
  by (induction fs rule: flds.induct) (auto simp: fieldOf_None)

lemma valueOf_there: "valueOf kvs k = there (map_of kvs k)"
  by (cases "map_of kvs k" rule: there.cases) (simp_all add: valueOf_def)

lemma valueOf_flds: "distinct (map fst fs) \<Longrightarrow> valueOf (flds fs) k = there (fieldOf fs k)"
  by (simp add: valueOf_there map_of_flds)

lemma there_simps [simp]:
  "there (optStr s) = optStr s" "there (optBool b) = optBool b" "there (optInt i) = optInt i"
  "there (optSlice f xs) = optSlice f xs" "there (Some (jsonInt i)) = Some (jsonInt i)"
  by (simp_all add: optStr_def optBool_def optInt_def optSlice_def jsonInt_def)

text \<open>A property of a filled object.\<close>

definition fillField :: "schema \<Rightarrow> json option \<Rightarrow> json option \<Rightarrow> json option" where
  "fillField s d v = (case there v of None \<Rightarrow> d | Some j \<Rightarrow> Some (fill s j))"

lemma fillField_simps [simp]:
  "fillField (StringS p) None (optStr s) = optStr s"
  "fillField (StringS p) (Some (JStr [])) (optStr s) = Some (JStr s)"
  "fillField (StringS p) d (Some (JStr s)) = Some (JStr s)"
  "fillField (IntegerS q) None (optInt i) = optInt i"
  "fillField (IntegerS q) (Some (jsonInt n)) (optInt i) = Some (jsonInt (if i = 0 then n else i))"
  "fillField (IntegerS q) d (Some (jsonInt i)) = Some (jsonInt i)"
  "fillField BooleanS None (optBool b) = optBool b"
  "fillField BooleanS (Some (JBool True)) (optBool b) = Some (JBool True)"
  "fillField BooleanS d (Some (JBool b)) = Some (JBool b)"
  "fillField sc None None = None"
  "fillField (ObjectS ps req) d (Some (JObj kvs)) = Some (fill (ObjectS ps req) (JObj kvs))"
  by (simp_all add: fillField_def optStr_def optInt_def optBool_def jsonInt_def)

lemma fillField_array: "fillField (ArrayS s key) None (optSlice f xs) = optSlice (\<lambda>x. fill s (f x)) xs"
  by (simp add: fillField_def optSlice_def)

lemma fillField_there: "j \<noteq> JNull \<Longrightarrow> fillField s d (Some j) = Some (fill s j)"
  by (cases j) (simp_all add: fillField_def)

lemma fillField_option:
  "(\<And>x. f x \<noteq> JNull) \<Longrightarrow> fillField s None (map_option f p) = map_option (\<lambda>x. fill s (f x)) p"
  by (cases p) (simp_all add: fillField_there)

lemma fillField_ptr:
  "(\<And>x. f x \<noteq> JNull) \<Longrightarrow> fillField s None (Some (jsonPtr f p)) = map_option (\<lambda>x. fill s (f x)) p"
  by (cases p) (simp_all add: fillField_there jsonPtr_def, simp add: fillField_def)

lemma fillField_slice:
  "fillField (ArrayS (StringS p) key) None (optSlice JStr xs) = optSlice JStr xs"
  "fillField (ArrayS (StringS p) key) d (Some (JArr (map JStr ss))) = Some (JArr (map JStr ss))"
  by (simp_all add: fillField_def optSlice_def comp_def)

lemma fill_object:
  "distinct (map fst fs) \<Longrightarrow> fill (ObjectS ps req) (JObj (flds fs)) =
     JObj (flds (map (\<lambda>(k, s, d). (k, fillField s d (fieldOf fs k))) ps))"
  by (auto simp: valueOf_flds fillField_def split: option.split intro!: arg_cong [of _ _ flds])

definition admitsField :: "schema \<Rightarrow> json option \<Rightarrow> bool" where
  "admitsField s v = (case there v of None \<Rightarrow> True | Some j \<Rightarrow> admits s j)"

lemma admits_int: "admits (IntegerS q) (jsonInt i) = q (sint i)"
  by (simp add: jsonInt_def parseInt_show_goint)

lemma admitsField_simps [simp]:
  "admitsField (StringS p) (optStr s) = (s = [] \<or> p s)"
  "admitsField (StringS p) (Some (JStr s)) = p s"
  "admitsField (IntegerS q) (optInt i) = (i = 0 \<or> q (sint i))"
  "admitsField (IntegerS q) (Some (jsonInt i)) = q (sint i)"
  "admitsField BooleanS (optBool b) = True"
  "admitsField BooleanS (Some (JBool b)) = True"
  "admitsField sc None = True"
  "admitsField (ObjectS ps req) (Some (JObj kvs)) = admits (ObjectS ps req) (JObj kvs)"
  by (simp_all add: admitsField_def optStr_def optInt_def optBool_def admits_int [unfolded jsonInt_def] jsonInt_def
      del: admits.simps(2))

lemma there_Some: "j \<noteq> JNull \<Longrightarrow> there (Some j) = Some j"
  by (cases j) simp_all

lemma there_option [simp]: "(\<And>x. f x \<noteq> JNull) \<Longrightarrow> there (map_option f p) = map_option f p"
  by (cases p) (simp_all add: there_Some)

lemma admitsField_option:
  "(\<And>x. f x \<noteq> JNull) \<Longrightarrow> admitsField s (map_option f p) = (case p of None \<Rightarrow> True | Some x \<Rightarrow> admits s (f x))"
  "j \<noteq> JNull \<Longrightarrow> admitsField s (Some j) = admits s j"
  by (cases p) (simp_all add: admitsField_def there_Some)

lemma admitsField_slice:
  "admitsField (ArrayS s None) (optSlice f xs) = list_all (\<lambda>x. admits s (f x)) (elems xs)"
  "admitsField (ArrayS s (Some k)) (optSlice f xs) =
     (list_all (\<lambda>x. admits s (f x)) (elems xs) \<and> distinct (map (\<lambda>x. keyOf k (f x)) (elems xs)))"
  by (auto simp: admitsField_def optSlice_def list_all_iff comp_def)

lemma admits_object:
  "distinct (map fst fs) \<Longrightarrow> admits (ObjectS ps req) (JObj (flds fs)) =
     (list_all (\<lambda>k. there (fieldOf fs k) \<noteq> None) req
      \<and> list_all (\<lambda>(k, s, d). admitsField s (fieldOf fs k)) ps)"
  by (simp add: valueOf_flds admitsField_def)

end
