(* ===== verification/StoredSpec.thy ===== *)
theory StoredSpec
  imports Schema Client ApiTypes
begin

text \<open>
  How the spec of a service provider travels: the JSON of its Go types (their tags), the schema of the
  CRD with its defaults, and the decoding. A field that Go leaves out when it has its zero value and
  that has another default in the schema does not survive an update of the object.
\<close>

section \<open>The JSON of a spec\<close>

definition json_V1_Claim :: "V1_Claim \<Rightarrow> json" where
  "json_V1_Claim c = JObj (flds [(''uri'', Some (JStr (v1c_URI c))), (''mandatory'', Some (JBool (v1c_Mandatory c)))])"

definition json_V1_OAuth2Config :: "V1_OAuth2Config \<Rightarrow> json" where
  "json_V1_OAuth2Config c = JObj (flds
     [(''callbackURL'', Some (JStr (v1o_CallbackURL c))),
      (''grantTypes'', Some (jsonSlice JStr (v1o_GrantTypes c))),
      (''pkceMandatory'', optBool (v1o_PKCEMandatory c)),
      (''pkcePlain'', optBool (v1o_PKCEPlain c)),
      (''publicClient'', optBool (v1o_PublicClient c)),
      (''tokenBinding'', optStr (v1o_TokenBinding c)),
      (''audiences'', optSlice JStr (v1o_Audiences c)),
      (''scopeValidators'', optSlice JStr (v1o_ScopeValidators c)),
      (''refreshTokenExpiry'', optInt (v1o_RefreshTokenExpiry c)),
      (''accessTokenExpiry'', optInt (v1o_AccessTokenExpiry c))])"

definition json_V1_SAMLConfig :: "V1_SAMLConfig \<Rightarrow> json" where
  "json_V1_SAMLConfig c = JObj (flds
     [(''metadataURL'', optStr (v1s_MetadataURL c)),
      (''enableAttributeProfile'', optBool (v1s_EnableAttributeProfile c)),
      (''includeAttributesByDefault'', optBool (v1s_IncludeAttributesByDefault c))])"

definition json_V1_AuthenticationStep :: "V1_AuthenticationStep \<Rightarrow> json" where
  "json_V1_AuthenticationStep c = JObj (flds
     [(''step'', Some (jsonInt (v1a_Step c))),
      (''localAuthenticators'', optSlice JStr (v1a_LocalAuthenticators c)),
      (''federatedIDP'', optStr (v1a_FederatedIDP c)),
      (''federatedAuthenticator'', optStr (v1a_FederatedAuthenticator c))])"

text \<open>A reference of \<^verbatim>\<open>corev1\<close>: the name, left out when empty.\<close>

definition json_LocalObjectReference :: "LocalObjectReference \<Rightarrow> json" where
  "json_LocalObjectReference r = JObj (flds [(''name'', optStr (ref_Name r))])"

definition json_WSO2SPSpec :: "WSO2SPSpec \<Rightarrow> json" where
  "json_WSO2SPSpec s = JObj (flds
     [(''instanceRef'', Some (jsonPtr json_LocalObjectReference (spec_InstanceRef s))),
      (''name'', Some (JStr (spec_Name s))),
      (''claims'', optSlice json_V1_Claim (spec_Claims s)),
      (''description'', optStr (spec_Description s)),
      (''subjectURI'', Some (JStr (spec_SubjectClaimURI s))),
      (''saml'', map_option json_V1_SAMLConfig (spec_SAML s)),
      (''oauth2'', map_option json_V1_OAuth2Config (spec_OAuth2 s)),
      (''authenticationSteps'', optSlice json_V1_AuthenticationStep (spec_AuthenticationSteps s)),
      (''authenticationScript'', map_option json_LocalObjectReference (spec_AuthenticationScript s)),
      (''alwaysSendBackAuthenticatedListOfIDPs'', optBool (spec_AlwaysSendBackAuthenticatedListOfIDPs s)),
      (''enableAuthorization'', optBool (spec_EnableAuthorization s)),
      (''skipConsent'', optBool (spec_SkipConsent s)),
      (''skipLogoutConsent'', optBool (spec_SkipLogoutConsent s)),
      (''useTenantInSub'', optBool (spec_UseTenantInSub s)),
      (''useUserstoreInSub'', optBool (spec_UseUserstoreInSub s)),
      (''useUserstoreInRoles'', optBool (spec_UseUserstoreInRoles s)),
      (''stepForSubject'', optInt (spec_StepForSubject s)),
      (''stepForAttr'', optInt (spec_StepForAttributes s))])"

section \<open>The schema of a spec\<close>

abbreviation stringS :: schema where "stringS \<equiv> StringS (\<lambda>s. True)"

abbreviation integerS :: schema where "integerS \<equiv> IntegerS (\<lambda>i. True)"

definition referenceS :: schema where
  "referenceS = ObjectS [(''name'', stringS, Some (JStr []))] []"

definition oauth2S :: schema where
  "oauth2S = ObjectS
     [(''accessTokenExpiry'', integerS, Some (jsonInt 3600)),
      (''audiences'', ArrayS stringS None, None),
      (''callbackURL'', stringS, None),
      (''grantTypes'', ArrayS stringS None, None),
      (''pkceMandatory'', BooleanS, None),
      (''pkcePlain'', BooleanS, Some (JBool True)),
      (''publicClient'', BooleanS, None),
      (''refreshTokenExpiry'', integerS, Some (jsonInt 86400)),
      (''scopeValidators'', ArrayS stringS None, None),
      (''tokenBinding'', StringS (\<lambda>s. s \<in> {''session'', ''cookie''}), None)]
     [''callbackURL'', ''grantTypes'']"

definition samlS :: schema where
  "samlS = ObjectS
     [(''enableAttributeProfile'', BooleanS, None),
      (''includeAttributesByDefault'', BooleanS, None),
      (''metadataURL'', stringS, None)] []"

definition stepS :: schema where
  "stepS = ObjectS
     [(''federatedAuthenticator'', stringS, None),
      (''federatedIDP'', stringS, None),
      (''localAuthenticators'', ArrayS stringS None, None),
      (''step'', integerS, None)]
     [''step'']"

definition claimS :: schema where
  "claimS = ObjectS [(''mandatory'', BooleanS, None), (''uri'', stringS, None)] [''uri'']"

definition specS :: schema where
  "specS = ObjectS
     [(''alwaysSendBackAuthenticatedListOfIDPs'', BooleanS, None),
      (''authenticationScript'', referenceS, None),
      (''authenticationSteps'', ArrayS stepS None, None),
      (''claims'', ArrayS claimS None, None),
      (''description'', stringS, None),
      (''enableAuthorization'', BooleanS, None),
      (''instanceRef'', referenceS, None),
      (''name'', stringS, None),
      (''oauth2'', oauth2S, None),
      (''saml'', samlS, None),
      (''skipConsent'', BooleanS, None),
      (''skipLogoutConsent'', BooleanS, None),
      (''stepForAttr'', integerS, Some (jsonInt 1)),
      (''stepForSubject'', integerS, Some (jsonInt 1)),
      (''subjectURI'', stringS, None),
      (''useTenantInSub'', BooleanS, None),
      (''useUserstoreInRoles'', BooleanS, None),
      (''useUserstoreInSub'', BooleanS, None)]
     [''instanceRef'', ''name'', ''subjectURI'']"

section \<open>Decoding a spec\<close>

definition jBool :: "'w env \<Rightarrow> string \<Rightarrow> ((bool \<Rightarrow> bool) \<Rightarrow> 'a \<Rightarrow> 'a) \<Rightarrow> 'a jfield" where
  "jBool K n upd = (n, \<lambda>j a. case j of JBool b \<Rightarrow> Inr (upd (\<lambda>_. b) a) | JNull \<Rightarrow> Inr a
     | _ \<Rightarrow> Inl (env_JsonTypeError K ''bool'' j))"

text \<open>A pointer to a struct: null makes it nil.\<close>

definition jStruct :: "string \<Rightarrow> (json \<Rightarrow> 'b result) \<Rightarrow> (('b option \<Rightarrow> 'b option) \<Rightarrow> 'a \<Rightarrow> 'a) \<Rightarrow> 'a jfield" where
  "jStruct n f upd = (n, \<lambda>j a. if j = JNull then Inr (upd (\<lambda>_. None) a)
     else (case f j of Inl e \<Rightarrow> Inl e | Inr b \<Rightarrow> Inr (upd (\<lambda>_. Some b) a)))"

definition dec_string :: "'w env \<Rightarrow> json \<Rightarrow> string result" where
  "dec_string K j = (case j of JStr s \<Rightarrow> Inr s | JNull \<Rightarrow> Inr [] | _ \<Rightarrow> Inl (env_JsonTypeError K ''string'' j))"

definition dec_V1_Claim :: "'w env \<Rightarrow> json \<Rightarrow> V1_Claim result" where
  "dec_V1_Claim K j = decodeObject K ''Claim''
     [jStr K ''uri'' v1c_URI_update, jBool K ''mandatory'' v1c_Mandatory_update]
     j \<lparr>v1c_URI = [], v1c_Mandatory = False\<rparr>"

definition oauth2Fields :: "'w env \<Rightarrow> V1_OAuth2Config jfield list" where
  "oauth2Fields K =
     [jStr K ''callbackURL'' v1o_CallbackURL_update,
      jSlice K ''grantTypes'' (dec_string K) v1o_GrantTypes_update,
      jBool K ''pkceMandatory'' v1o_PKCEMandatory_update,
      jBool K ''pkcePlain'' v1o_PKCEPlain_update,
      jBool K ''publicClient'' v1o_PublicClient_update,
      jStr K ''tokenBinding'' v1o_TokenBinding_update,
      jSlice K ''audiences'' (dec_string K) v1o_Audiences_update,
      jSlice K ''scopeValidators'' (dec_string K) v1o_ScopeValidators_update,
      jInt K ''refreshTokenExpiry'' v1o_RefreshTokenExpiry_update,
      jInt K ''accessTokenExpiry'' v1o_AccessTokenExpiry_update]"

definition dec_V1_OAuth2Config :: "'w env \<Rightarrow> json \<Rightarrow> V1_OAuth2Config result" where
  "dec_V1_OAuth2Config K j = decodeObject K ''OAuth2Config'' (oauth2Fields K)
     j \<lparr>v1o_CallbackURL = [], v1o_GrantTypes = None, v1o_PKCEMandatory = False, v1o_PKCEPlain = False,
        v1o_PublicClient = False, v1o_TokenBinding = [], v1o_Audiences = None, v1o_ScopeValidators = None,
        v1o_RefreshTokenExpiry = 0, v1o_AccessTokenExpiry = 0\<rparr>"

definition dec_V1_SAMLConfig :: "'w env \<Rightarrow> json \<Rightarrow> V1_SAMLConfig result" where
  "dec_V1_SAMLConfig K j = decodeObject K ''SAMLConfig''
     [jStr K ''metadataURL'' v1s_MetadataURL_update,
      jBool K ''enableAttributeProfile'' v1s_EnableAttributeProfile_update,
      jBool K ''includeAttributesByDefault'' v1s_IncludeAttributesByDefault_update]
     j \<lparr>v1s_MetadataURL = [], v1s_EnableAttributeProfile = False, v1s_IncludeAttributesByDefault = False\<rparr>"

definition dec_V1_AuthenticationStep :: "'w env \<Rightarrow> json \<Rightarrow> V1_AuthenticationStep result" where
  "dec_V1_AuthenticationStep K j = decodeObject K ''AuthenticationStep''
     [jInt K ''step'' v1a_Step_update,
      jSlice K ''localAuthenticators'' (dec_string K) v1a_LocalAuthenticators_update,
      jStr K ''federatedIDP'' v1a_FederatedIDP_update,
      jStr K ''federatedAuthenticator'' v1a_FederatedAuthenticator_update]
     j \<lparr>v1a_Step = 0, v1a_LocalAuthenticators = None, v1a_FederatedIDP = [], v1a_FederatedAuthenticator = []\<rparr>"

definition dec_LocalObjectReference :: "'w env \<Rightarrow> json \<Rightarrow> LocalObjectReference result" where
  "dec_LocalObjectReference K j = decodeObject K ''LocalObjectReference'' [jStr K ''name'' ref_Name_update] j \<lparr>ref_Name = []\<rparr>"

definition specFields :: "'w env \<Rightarrow> WSO2SPSpec jfield list" where
  "specFields K =
     [jStruct ''instanceRef'' (dec_LocalObjectReference K) spec_InstanceRef_update,
      jStr K ''name'' spec_Name_update,
      jSlice K ''claims'' (dec_V1_Claim K) spec_Claims_update,
      jStr K ''description'' spec_Description_update,
      jStr K ''subjectURI'' spec_SubjectClaimURI_update,
      jStruct ''saml'' (dec_V1_SAMLConfig K) spec_SAML_update,
      jStruct ''oauth2'' (dec_V1_OAuth2Config K) spec_OAuth2_update,
      jSlice K ''authenticationSteps'' (dec_V1_AuthenticationStep K) spec_AuthenticationSteps_update,
      jStruct ''authenticationScript'' (dec_LocalObjectReference K) spec_AuthenticationScript_update,
      jBool K ''alwaysSendBackAuthenticatedListOfIDPs'' spec_AlwaysSendBackAuthenticatedListOfIDPs_update,
      jBool K ''enableAuthorization'' spec_EnableAuthorization_update,
      jBool K ''skipConsent'' spec_SkipConsent_update,
      jBool K ''skipLogoutConsent'' spec_SkipLogoutConsent_update,
      jBool K ''useTenantInSub'' spec_UseTenantInSub_update,
      jBool K ''useUserstoreInSub'' spec_UseUserstoreInSub_update,
      jBool K ''useUserstoreInRoles'' spec_UseUserstoreInRoles_update,
      jInt K ''stepForSubject'' spec_StepForSubject_update,
      jInt K ''stepForAttr'' spec_StepForAttributes_update]"

definition dec_WSO2SPSpec :: "'w env \<Rightarrow> json \<Rightarrow> WSO2SPSpec result" where
  "dec_WSO2SPSpec K j = decodeObject K ''WSO2SPSpec'' (specFields K)
     j \<lparr>spec_InstanceRef = None, spec_Name = [], spec_Claims = None, spec_Description = [], spec_SubjectClaimURI = [],
        spec_SAML = None, spec_OAuth2 = None, spec_AuthenticationSteps = None, spec_AuthenticationScript = None,
        spec_AlwaysSendBackAuthenticatedListOfIDPs = False, spec_EnableAuthorization = False, spec_SkipConsent = False,
        spec_SkipLogoutConsent = False, spec_UseTenantInSub = False, spec_UseUserstoreInSub = False,
        spec_UseUserstoreInRoles = False, spec_StepForSubject = 0, spec_StepForAttributes = 0\<rparr>"

text \<open>What a client reads after an update with a spec, if the update is accepted.\<close>

definition storeSpec :: "'w env \<Rightarrow> WSO2SPSpec \<Rightarrow> WSO2SPSpec option" where
  "storeSpec K s = (case stored specS (json_WSO2SPSpec s) of
     None \<Rightarrow> None
   | Some j \<Rightarrow> (case dec_WSO2SPSpec K j of Inl e \<Rightarrow> None | Inr x \<Rightarrow> Some x))"

section \<open>What survives\<close>

definition filledOAuth2 :: "V1_OAuth2Config \<Rightarrow> V1_OAuth2Config" where
  "filledOAuth2 c = c\<lparr>v1o_PKCEPlain := True, v1o_Audiences := appended (elems (v1o_Audiences c)),
     v1o_ScopeValidators := appended (elems (v1o_ScopeValidators c)),
     v1o_RefreshTokenExpiry := (if v1o_RefreshTokenExpiry c = 0 then 86400 else v1o_RefreshTokenExpiry c),
     v1o_AccessTokenExpiry := (if v1o_AccessTokenExpiry c = 0 then 3600 else v1o_AccessTokenExpiry c)\<rparr>"

definition filledStep :: "V1_AuthenticationStep \<Rightarrow> V1_AuthenticationStep" where
  "filledStep c = c\<lparr>v1a_LocalAuthenticators := appended (elems (v1a_LocalAuthenticators c))\<rparr>"

definition filledSpec :: "WSO2SPSpec \<Rightarrow> WSO2SPSpec" where
  "filledSpec s = s\<lparr>spec_Claims := appended (elems (spec_Claims s)), spec_OAuth2 := map_option filledOAuth2 (spec_OAuth2 s),
     spec_AuthenticationSteps := appended (map filledStep (elems (spec_AuthenticationSteps s))),
     spec_StepForSubject := (if spec_StepForSubject s = 0 then 1 else spec_StepForSubject s),
     spec_StepForAttributes := (if spec_StepForAttributes s = 0 then 1 else spec_StepForAttributes s)\<rparr>"

definition refusedSpec :: "WSO2SPSpec \<Rightarrow> bool" where
  "refusedSpec s \<longleftrightarrow> spec_InstanceRef s = None
     \<or> (case spec_OAuth2 s of None \<Rightarrow> False
        | Some c \<Rightarrow> v1o_GrantTypes c = None \<or> v1o_TokenBinding c \<notin> {[], ''session'', ''cookie''})"

text \<open>One field after the other; \<open>sliceJson\<close> is the value of a slice that is left out when empty.\<close>

definition sliceJson :: "json list \<Rightarrow> json" where
  "sliceJson js = (if js = [] then JNull else JArr js)"

lemma decode_opt:
  assumes "findField fs k \<noteq> None"
  shows "(s = [] \<Longrightarrow> the (findField fs k) (JStr s) a = Inr a) \<Longrightarrow>
      decodeFields fs (flds ((k, optStr s) # ps)) a =
        (case the (findField fs k) (JStr s) a of Inl e \<Rightarrow> Inl e | Inr b \<Rightarrow> decodeFields fs (flds ps) b)"
    "(\<not> v \<Longrightarrow> the (findField fs k) (JBool v) a = Inr a) \<Longrightarrow>
      decodeFields fs (flds ((k, optBool v) # ps)) a =
        (case the (findField fs k) (JBool v) a of Inl e \<Rightarrow> Inl e | Inr b \<Rightarrow> decodeFields fs (flds ps) b)"
    "(i = 0 \<Longrightarrow> the (findField fs k) (jsonInt i) a = Inr a) \<Longrightarrow>
      decodeFields fs (flds ((k, optInt i) # ps)) a =
        (case the (findField fs k) (jsonInt i) a of Inl e \<Rightarrow> Inl e | Inr b \<Rightarrow> decodeFields fs (flds ps) b)"
    "the (findField fs k) JNull a = Inr a \<Longrightarrow>
      decodeFields fs (flds ((k, optSlice g xs) # ps)) a =
        (case the (findField fs k) (sliceJson (map g (elems xs))) a of
           Inl e \<Rightarrow> Inl e | Inr b \<Rightarrow> decodeFields fs (flds ps) b)"
    "the (findField fs k) JNull a = Inr a \<Longrightarrow>
      decodeFields fs (flds ((k, map_option h p) # ps)) a =
        (case the (findField fs k) (jsonPtr h p) a of Inl e \<Rightarrow> Inl e | Inr b \<Rightarrow> decodeFields fs (flds ps) b)"
    "decodeFields fs (flds ((k, Some j) # ps)) a =
        (case the (findField fs k) j a of Inl e \<Rightarrow> Inl e | Inr b \<Rightarrow> decodeFields fs (flds ps) b)"
  using assms
  by (auto simp: optStr_def optBool_def optInt_def optSlice_def sliceJson_def jsonPtr_def split: option.split)

lemma field_names:
  "fst (jStr K n u) = n" "fst (jBool K n v) = n" "fst (jInt K n w) = n" "fst (jSlice K n f x) = n" "fst (jStruct n g y) = n"
  by (simp_all add: jStr_def jBool_def jInt_def jSlice_def jStruct_def)

lemma decodeItems_map: "(\<And>x. x \<in> set xs \<Longrightarrow> f (g x) = Inr (h x)) \<Longrightarrow> decodeItems f (map g xs) = Inr (map h xs)"
  by (induction xs) simp_all

lemma decodeItems_strings: "decodeItems (dec_string K) (map JStr xs) = Inr xs"
  by (induction xs) (simp_all add: dec_string_def)

text \<open>The value of a field, as its decoder reads it.\<close>

lemma field_decoders:
  "snd (jStr K n u) (JStr s) a = Inr (u (\<lambda>_. s) a)"
  "snd (jBool K n v) (JBool b) a = Inr (v (\<lambda>_. b) a)"
  "snd (jInt K n w) (jsonInt i) a = Inr (w (\<lambda>_. i) a)"
  "snd (jSlice K n (dec_string K) x) (JArr (map JStr ss)) a = Inr (x (\<lambda>_. Some ss) a)"
  "snd (jSlice K n (dec_string K) x) (sliceJson (map JStr ss)) a = Inr (x (\<lambda>_. appended ss) a)"
  "snd (jSlice K n f' x') JNull a = Inr (x' (\<lambda>_. None) a)"
  "snd (jStruct n g y) JNull a = Inr (y (\<lambda>_. None) a)"
  by (simp_all add: jStr_def jBool_def jInt_def jSlice_def jStruct_def jsonInt_def parseInt_show_goint
      decodeItems_strings sliceJson_def appended_def)

lemma struct_decoders:
  "(\<And>c. c \<in> set xs \<Longrightarrow> f (g c) = Inr (h c)) \<Longrightarrow>
     snd (jSlice K n f x) (sliceJson (map g xs)) a = Inr (x (\<lambda>_. appended (map h xs)) a)"
  "f' j = Inr b \<Longrightarrow> j \<noteq> JNull \<Longrightarrow> snd (jStruct n f' y) j a' = Inr (y (\<lambda>_. Some b) a')"
  "(\<And>c. p = Some c \<Longrightarrow> f' (g' c) = Inr (h' c)) \<Longrightarrow> (\<And>c. g' c \<noteq> JNull) \<Longrightarrow>
     snd (jStruct n f' y) (jsonPtr g' p) a' = Inr (y (\<lambda>_. map_option h' p) a')"
  by (auto simp: jSlice_def jStruct_def sliceJson_def appended_def decodeItems_map jsonPtr_def split: option.split)

lemmas read_back_spec = decodeObject_def flds.simps(1) decode_opt field_decoders

lemmas read_back = read_back_spec fill_object fillField_slice findField_def field_names

lemma find_oauth2Fields:
  "findField (oauth2Fields K) ''callbackURL'' = Some (snd (jStr K ''callbackURL'' v1o_CallbackURL_update))"
  "findField (oauth2Fields K) ''grantTypes'' = Some (snd (jSlice K ''grantTypes'' (dec_string K) v1o_GrantTypes_update))"
  "findField (oauth2Fields K) ''pkceMandatory'' = Some (snd (jBool K ''pkceMandatory'' v1o_PKCEMandatory_update))"
  "findField (oauth2Fields K) ''pkcePlain'' = Some (snd (jBool K ''pkcePlain'' v1o_PKCEPlain_update))"
  "findField (oauth2Fields K) ''publicClient'' = Some (snd (jBool K ''publicClient'' v1o_PublicClient_update))"
  "findField (oauth2Fields K) ''tokenBinding'' = Some (snd (jStr K ''tokenBinding'' v1o_TokenBinding_update))"
  "findField (oauth2Fields K) ''audiences'' = Some (snd (jSlice K ''audiences'' (dec_string K) v1o_Audiences_update))"
  "findField (oauth2Fields K) ''scopeValidators'' = Some (snd (jSlice K ''scopeValidators'' (dec_string K) v1o_ScopeValidators_update))"
  "findField (oauth2Fields K) ''refreshTokenExpiry'' = Some (snd (jInt K ''refreshTokenExpiry'' v1o_RefreshTokenExpiry_update))"
  "findField (oauth2Fields K) ''accessTokenExpiry'' = Some (snd (jInt K ''accessTokenExpiry'' v1o_AccessTokenExpiry_update))"
  by (simp_all add: oauth2Fields_def findField_def field_names)

lemma find_specFields:
  "findField (specFields K) ''instanceRef'' = Some (snd (jStruct ''instanceRef'' (dec_LocalObjectReference K) spec_InstanceRef_update))"
  "findField (specFields K) ''name'' = Some (snd (jStr K ''name'' spec_Name_update))"
  "findField (specFields K) ''claims'' = Some (snd (jSlice K ''claims'' (dec_V1_Claim K) spec_Claims_update))"
  "findField (specFields K) ''description'' = Some (snd (jStr K ''description'' spec_Description_update))"
  "findField (specFields K) ''subjectURI'' = Some (snd (jStr K ''subjectURI'' spec_SubjectClaimURI_update))"
  "findField (specFields K) ''saml'' = Some (snd (jStruct ''saml'' (dec_V1_SAMLConfig K) spec_SAML_update))"
  "findField (specFields K) ''oauth2'' = Some (snd (jStruct ''oauth2'' (dec_V1_OAuth2Config K) spec_OAuth2_update))"
  "findField (specFields K) ''authenticationSteps'' = Some (snd (jSlice K ''authenticationSteps'' (dec_V1_AuthenticationStep K) spec_AuthenticationSteps_update))"
  "findField (specFields K) ''authenticationScript'' = Some (snd (jStruct ''authenticationScript'' (dec_LocalObjectReference K) spec_AuthenticationScript_update))"
  "findField (specFields K) ''alwaysSendBackAuthenticatedListOfIDPs'' = Some (snd (jBool K ''alwaysSendBackAuthenticatedListOfIDPs'' spec_AlwaysSendBackAuthenticatedListOfIDPs_update))"
  "findField (specFields K) ''enableAuthorization'' = Some (snd (jBool K ''enableAuthorization'' spec_EnableAuthorization_update))"
  "findField (specFields K) ''skipConsent'' = Some (snd (jBool K ''skipConsent'' spec_SkipConsent_update))"
  "findField (specFields K) ''skipLogoutConsent'' = Some (snd (jBool K ''skipLogoutConsent'' spec_SkipLogoutConsent_update))"
  "findField (specFields K) ''useTenantInSub'' = Some (snd (jBool K ''useTenantInSub'' spec_UseTenantInSub_update))"
  "findField (specFields K) ''useUserstoreInSub'' = Some (snd (jBool K ''useUserstoreInSub'' spec_UseUserstoreInSub_update))"
  "findField (specFields K) ''useUserstoreInRoles'' = Some (snd (jBool K ''useUserstoreInRoles'' spec_UseUserstoreInRoles_update))"
  "findField (specFields K) ''stepForSubject'' = Some (snd (jInt K ''stepForSubject'' spec_StepForSubject_update))"
  "findField (specFields K) ''stepForAttr'' = Some (snd (jInt K ''stepForAttr'' spec_StepForAttributes_update))"
  by (simp_all add: specFields_def findField_def field_names)

lemma dec_claim: "dec_V1_Claim K (fill claimS (json_V1_Claim c)) = Inr c"
  unfolding claimS_def json_V1_Claim_def dec_V1_Claim_def
  by (simp add: read_back del: flds.simps(3) fill.simps split del: if_split)

lemma dec_reference: "dec_LocalObjectReference K (fill referenceS (json_LocalObjectReference r)) = Inr r"
  unfolding referenceS_def json_LocalObjectReference_def dec_LocalObjectReference_def
  by (cases r) (simp add: read_back del: flds.simps(3) fill.simps split del: if_split)

lemma dec_step: "dec_V1_AuthenticationStep K (fill stepS (json_V1_AuthenticationStep c)) = Inr (filledStep c)"
  unfolding stepS_def json_V1_AuthenticationStep_def dec_V1_AuthenticationStep_def filledStep_def
  by (cases c) (simp add: read_back del: flds.simps(3) fill.simps split del: if_split)

lemma dec_saml: "dec_V1_SAMLConfig K (fill samlS (json_V1_SAMLConfig c)) = Inr c"
  unfolding samlS_def json_V1_SAMLConfig_def dec_V1_SAMLConfig_def
  by (cases c) (simp add: read_back del: flds.simps(3) fill.simps split del: if_split)

lemma dec_oauth2:
  assumes "v1o_GrantTypes c \<noteq> None"
  shows "dec_V1_OAuth2Config K (fill oauth2S (json_V1_OAuth2Config c)) = Inr (filledOAuth2 c)"
proof -
  obtain gs where gs: "v1o_GrantTypes c = Some gs" using assms by blast
  show ?thesis
    unfolding oauth2S_def json_V1_OAuth2Config_def dec_V1_OAuth2Config_def filledOAuth2_def
    by (cases c) (use gs in \<open>simp add: read_back_spec fill_object fillField_slice find_oauth2Fields jsonSlice_def
        del: flds.simps(3) fill.simps split del: if_split cong: if_cong\<close>)
qed

lemma objects:
  "json_V1_Claim c \<noteq> JNull" "json_V1_OAuth2Config o2 \<noteq> JNull" "json_V1_SAMLConfig sm \<noteq> JNull"
  "json_V1_AuthenticationStep st \<noteq> JNull" "json_LocalObjectReference r \<noteq> JNull"
  "fill referenceS (json_LocalObjectReference r) \<noteq> JNull" "fill samlS (json_V1_SAMLConfig sm) \<noteq> JNull"
  "fill oauth2S (json_V1_OAuth2Config o2) \<noteq> JNull"
  by (simp_all add: json_V1_Claim_def json_V1_OAuth2Config_def json_V1_SAMLConfig_def json_V1_AuthenticationStep_def
      json_LocalObjectReference_def referenceS_def samlS_def oauth2S_def)

text \<open>The object as it is stored, and what is read from it.\<close>

lemma fill_spec:
  "fill specS (json_WSO2SPSpec s) = JObj (flds
     [(''alwaysSendBackAuthenticatedListOfIDPs'', optBool (spec_AlwaysSendBackAuthenticatedListOfIDPs s)),
      (''authenticationScript'', map_option (\<lambda>x. fill referenceS (json_LocalObjectReference x)) (spec_AuthenticationScript s)),
      (''authenticationSteps'', optSlice (\<lambda>x. fill stepS (json_V1_AuthenticationStep x)) (spec_AuthenticationSteps s)),
      (''claims'', optSlice (\<lambda>x. fill claimS (json_V1_Claim x)) (spec_Claims s)),
      (''description'', optStr (spec_Description s)),
      (''enableAuthorization'', optBool (spec_EnableAuthorization s)),
      (''instanceRef'', map_option (\<lambda>x. fill referenceS (json_LocalObjectReference x)) (spec_InstanceRef s)),
      (''name'', Some (JStr (spec_Name s))),
      (''oauth2'', map_option (\<lambda>x. fill oauth2S (json_V1_OAuth2Config x)) (spec_OAuth2 s)),
      (''saml'', map_option (\<lambda>x. fill samlS (json_V1_SAMLConfig x)) (spec_SAML s)),
      (''skipConsent'', optBool (spec_SkipConsent s)),
      (''skipLogoutConsent'', optBool (spec_SkipLogoutConsent s)),
      (''stepForAttr'', Some (jsonInt (if spec_StepForAttributes s = 0 then 1 else spec_StepForAttributes s))),
      (''stepForSubject'', Some (jsonInt (if spec_StepForSubject s = 0 then 1 else spec_StepForSubject s))),
      (''subjectURI'', Some (JStr (spec_SubjectClaimURI s))),
      (''useTenantInSub'', optBool (spec_UseTenantInSub s)),
      (''useUserstoreInRoles'', optBool (spec_UseUserstoreInRoles s)),
      (''useUserstoreInSub'', optBool (spec_UseUserstoreInSub s))])"
  unfolding specS_def json_WSO2SPSpec_def
  by (simp add: fill_object fillField_array fillField_option fillField_ptr objects
      del: flds.simps fill.simps(4,5) split del: if_split)

lemma dec_spec:
  assumes "\<And>c. spec_OAuth2 s = Some c \<Longrightarrow> v1o_GrantTypes c \<noteq> None"
  shows "dec_WSO2SPSpec K (fill specS (json_WSO2SPSpec s)) = Inr (filledSpec s)"
proof -
  have "dec_V1_OAuth2Config K (fill oauth2S (json_V1_OAuth2Config c)) = Inr (filledOAuth2 c)" if "spec_OAuth2 s = Some c" for c
    by (rule dec_oauth2) (rule assms [OF that])
  note nested = struct_decoders(3) [where f' = "dec_V1_OAuth2Config K" and g' = "\<lambda>x. fill oauth2S (json_V1_OAuth2Config x)"
      and p = "spec_OAuth2 s", OF this objects(8)]
    struct_decoders(1) [where f = "dec_V1_Claim K" and g = "\<lambda>x. fill claimS (json_V1_Claim x)" and h = "\<lambda>x. x", OF dec_claim]
    struct_decoders(1) [where f = "dec_V1_AuthenticationStep K" and g = "\<lambda>x. fill stepS (json_V1_AuthenticationStep x)"
      and h = filledStep, OF dec_step]
    struct_decoders(3) [where f' = "dec_LocalObjectReference K" and g' = "\<lambda>x. fill referenceS (json_LocalObjectReference x)"
      and h' = "\<lambda>x. x", OF dec_reference objects(6)]
    struct_decoders(3) [where f' = "dec_V1_SAMLConfig K" and g' = "\<lambda>x. fill samlS (json_V1_SAMLConfig x)"
      and h' = "\<lambda>x. x", OF dec_saml objects(7)]
  show ?thesis
    unfolding fill_spec dec_WSO2SPSpec_def
    by (simp add: read_back_spec find_specFields nested filledSpec_def option.map_ident
        del: flds.simps(3) fill.simps split del: if_split cong: if_cong)
qed

text \<open>Whether it may be stored.\<close>

lemma admits_parts:
  "admits claimS (fill claimS (json_V1_Claim c))" "admits referenceS (fill referenceS (json_LocalObjectReference r))"
  "admits samlS (fill samlS (json_V1_SAMLConfig sm))" "admits stepS (fill stepS (json_V1_AuthenticationStep st))"
  unfolding claimS_def json_V1_Claim_def referenceS_def json_LocalObjectReference_def samlS_def json_V1_SAMLConfig_def
    stepS_def json_V1_AuthenticationStep_def
  by (simp_all add: fill_object admits_object fillField_slice admitsField_slice list_all_iff
      del: flds.simps fill.simps(4,5) admits.simps(4,5))

lemma admits_oauth2:
  "admits oauth2S (fill oauth2S (json_V1_OAuth2Config c)) \<longleftrightarrow>
     v1o_GrantTypes c \<noteq> None \<and> v1o_TokenBinding c \<in> {[], ''session'', ''cookie''}"
proof (cases "v1o_GrantTypes c")
  case None
  then show ?thesis
    unfolding oauth2S_def json_V1_OAuth2Config_def
    by (simp add: fill_object admits_object jsonSlice_def fillField_def [of "ArrayS stringS None" _ "Some JNull"]
        del: flds.simps fill.simps(4,5) admits.simps(4,5))
next
  case (Some gs)
  have "admitsField (ArrayS stringS None) (Some (JArr (map JStr gs)))" by (simp add: admitsField_def list_all_iff)
  with Some show ?thesis
    unfolding oauth2S_def json_V1_OAuth2Config_def
    by (simp add: fill_object admits_object jsonSlice_def fillField_slice admitsField_slice list_all_iff
        del: flds.simps fill.simps(4,5) admits.simps(4,5))
qed

lemma admits_spec: "admits specS (fill specS (json_WSO2SPSpec s)) \<longleftrightarrow> \<not> refusedSpec s"
  unfolding fill_spec unfolding specS_def refusedSpec_def
  by (simp add: admits_object admitsField_option admitsField_slice objects admits_parts admits_oauth2 list_all_iff
      del: flds.simps fill.simps(4,5) admits.simps(4,5) split: option.split)

lemma storeSpec_eq: "storeSpec K s = (if refusedSpec s then None else Some (filledSpec s))"
proof (cases "refusedSpec s")
  case True
  then show ?thesis by (simp add: storeSpec_def stored_def admits_spec)
next
  case False
  then have "dec_WSO2SPSpec K (fill specS (json_WSO2SPSpec s)) = Inr (filledSpec s)"
    by (intro dec_spec) (auto simp: refusedSpec_def)
  then show ?thesis using False by (simp add: storeSpec_def stored_def admits_spec)
qed

end
