(* ===== verification/Simulation.thy ===== *)
theory Simulation
  imports Demo Operator StoredSpec
begin

text \<open>
  A simulated cluster and server with memory, for a service provider with any protocol settings: the
  cluster stores the object, its inbound secret and the status of its instance; the server stores
  whether the application, the OAuth2 application and the SAML service provider exist and whether the
  admin is a member, and answers each request by its method, URL and SOAP action. What is registered
  is answered with the elements of the request that registered it. It is cooperative for both
  controllers, so the theorems on repeated reconciliation apply to it.
\<close>

section \<open>The world\<close>

record sim =
  sim_obj :: WSO2SP
  sim_app :: bool
  sim_member :: bool
  sim_oauth :: bool
  sim_saml :: bool
  sim_inbound :: "Secret option"
  sim_status :: WSO2ISInstanceStatus

definition simInstance :: "sim \<Rightarrow> WSO2ISInstance" where
  "simInstance w = demoInstance\<lparr>inst_Status := sim_status w\<rparr>"

definition simRemote :: "sim \<Rightarrow> Application option" where
  "simRemote w = (if sim_app w then Some (echoApplication demoApplication) else None)"

text \<open>Settings the schema of the CRD accepts and fills nothing into; any others are made such.\<close>

definition simSettings :: "V1_OAuth2Config \<Rightarrow> V1_OAuth2Config" where
  "simSettings c = filledOAuth2 (c\<lparr>v1o_TokenBinding := filterTokenBindings (v1o_TokenBinding c),
     v1o_GrantTypes := Some (elems (v1o_GrantTypes c))\<rparr>)"

definition simSpec :: "V1_OAuth2Config option \<Rightarrow> V1_SAMLConfig option \<Rightarrow> WSO2SPSpec" where
  "simSpec o2 sm = demoSpec\<lparr>spec_OAuth2 := map_option simSettings o2, spec_SAML := sm\<rparr>"

lemma filled_twice: "filledOAuth2 (filledOAuth2 c) = filledOAuth2 c"
  by (simp add: filledOAuth2_def appended_def)

lemma simSpec_survives: "storeSpec K (simSpec o2 sm) = Some (simSpec o2 sm)"
  by (cases o2) (simp_all add: storeSpec_eq refusedSpec_def filledSpec_def simSpec_def demoSpec_def simSettings_def
      filled_twice appended_def, simp add: filledOAuth2_def filterTokenBindings_def)

text \<open>The metadata of the service provider, and the configuration derived from it.\<close>

definition simDescriptor :: SPSSODescriptor where
  "simDescriptor = zero_SPSSODescriptor\<lparr>spd_AssertionConsumerServices :=
     Some [\<lparr>acs_Binding = [], acs_Location = ''https://app/acs'', acs_Index = 0, acs_IsDefault = False\<rparr>]\<rparr>"

definition simMetadata :: SAMLConfig where
  "simMetadata = spConfigFromDescriptor ''https://app'' simDescriptor"

definition metadataTree :: xtree where
  "metadataTree = XElem ''md'' ''EntityDescriptor'' [([], ''entityID'', ''https://app'')]
     [XElem ''md'' ''SPSSODescriptor'' [] [XElem ''md'' ''AssertionConsumerService'' [([], ''Location'', ''https://app/acs'')] []]]"

text \<open>What the server has registered, once it has.\<close>

definition simConfig :: "WSO2SPSpec \<Rightarrow> OAuth2Config" where
  "simConfig spec = (case oauth2FromSpec (demoSP\<lparr>sp_Spec := spec\<rparr>) of
     Returned d \<Rightarrow> withCredentials ''ck'' ''cs'' d | Panicked p \<Rightarrow> zeroOAuth2Config)"

definition simOAuth :: "WSO2SPSpec \<Rightarrow> sim \<Rightarrow> OAuth2Config option" where
  "simOAuth spec w = (if sim_oauth w then Some (mapOAuthApplication (oauthAnswer
     (oauthApplication (spec_Name spec) (simConfig spec)))) else None)"

definition simService :: "WSO2SPSpec \<Rightarrow> SAMLConfig" where
  "simService spec = (case spec_SAML spec of None \<Rightarrow> simMetadata | Some sm \<Rightarrow> samlDesired sm simMetadata)"

definition simSAML :: "WSO2SPSpec \<Rightarrow> sim \<Rightarrow> SAMLConfig option" where
  "simSAML spec w = (if sim_saml w then Some (mapSAMLServiceProvider (samlAnswer (samlDTO (simService spec)))) else None)"

definition soapAnswer :: "string \<Rightarrow> xtree list \<Rightarrow> xtree" where
  "soapAnswer name kids = XElem soapEnvNS ''Envelope'' [] [XElem soapEnvNS ''Body'' []
     [XElem axisNS name [] [XElem axisNS ''return'' [] kids]]]"

definition simXml :: "WSO2SPSpec \<Rightarrow> string \<Rightarrow> xtree" where
  "simXml spec t =
     (if t = ''oauth'' then soapAnswer ''getOAuthApplicationDataByAppNameResponse''
        (map (answer oAuthNS) (xml_OAuthApplication (oauthApplication (spec_Name spec) (simConfig spec))))
      else if t = ''saml'' then soapAnswer ''getServiceProviderResponse''
        (map (answer samlNS) (xml_SAMLSSOServiceProviderDTORequest (samlDTO (simService spec))))
      else if t = ''nosaml'' then soapAnswer ''getServiceProviderResponse'' []
      else if t = ''metadata'' then metadataTree
      else demoTree)"

definition answers :: "string \<Rightarrow> HttpAnswer" where
  "answers text = demoAnswer 200 text"

definition groupSearchURL :: string where
  "groupSearchURL = ''https://is/t/carbon.super/scim2/Groups/.search''"

definition oauthURL :: string where
  "oauthURL = cl_BaseURL demoClient @ oAuthEndpoint"

definition simHttp :: "HttpRequest \<Rightarrow> sim \<Rightarrow> (string + HttpAnswer) \<times> sim" where
  "simHttp q w =
     (case soapActionOf q of
        Some a \<Rightarrow>
          (if a = createApplication then (Inr (answers []), w\<lparr>sim_app := True\<rparr>)
           else if a = getApplication then (Inr (answers ''app''), w)
           else if a = getOAuthApplication
           then (Inr (if sim_oauth w then answers ''oauth'' else demoAnswer 500 ''no such application''), w)
           else if a = getSAMLApplication then (Inr (answers (if sim_saml w then ''saml'' else ''nosaml'')), w)
           else if a = createSAMLApplication then (Inr (answers []), w\<lparr>sim_saml := True\<rparr>)
           else if hr_URL q = oauthURL then (Inr (answers []), w\<lparr>sim_oauth := True\<rparr>)
           else (Inr (answers []), w))
      | None \<Rightarrow>
          (if hr_BasicAuth q = None then (Inr (answers ''metadata''), w)
           else if hr_Method q = ''GET'' then (Inr (answers (if sim_app w then ''listed'' else ''none'')), w)
           else if hr_Method q = ''PATCH'' then (Inr (answers []), w\<lparr>sim_member := True\<rparr>)
           else if hr_URL q = groupSearchURL
           then (Inr (answers (if sim_member w then ''members'' else ''nobody'')), w)
           else (Inr (answers ''user''), w)))"

definition simGroup :: "json list \<Rightarrow> json" where
  "simGroup ms = JObj [(''Resources'', JArr [JObj [(''id'', JStr ''g1''), (''displayName'', JStr ''portal''),
     (''members'', JArr ms)]])]"

definition simJson :: "string \<Rightarrow> string + json" where
  "simJson t = Inr
     (if t = ''none'' then JObj [(''applications'', JArr [])]
      else if t = ''listed'' then JObj [(''applications'', JArr [JNull])]
      else if t = ''members'' then simGroup [JObj [(''display'', JStr ''admin''), (''value'', JStr ''u1'')]]
      else if t = ''nobody'' then simGroup []
      else JObj [(''Resources'', JArr [JObj [(''id'', JStr ''u1''), (''userName'', JStr ''admin'')]])])"

definition demoScript :: ConfigMap where
  "demoScript = \<lparr>cm_Name = ''script'', cm_Namespace = ''apps'', cm_Data = Some (Map.empty(''script'' \<mapsto> ''onLoginRequest''))\<rparr>"

definition simEnv :: "WSO2SPSpec \<Rightarrow> sim env" where
  "simEnv spec =
     \<lparr>env_GetSP = \<lambda>n w. (Inr (sim_obj w), w), env_GetInstance = \<lambda>n w. (Inr (simInstance w), w),
      env_GetSecret = \<lambda>n w. (if n = credentialsKey demoInstance then Inr demoSecret
         else case sim_inbound w of None \<Rightarrow> Inl (KNotFound ''no'') | Some x \<Rightarrow> Inr x, w),
      env_GetConfigMap = \<lambda>n w. (Inr demoScript, w),
      env_CreateSecret = \<lambda>x w. (Inr x, w\<lparr>sim_inbound := Some x\<rparr>),
      env_UpdateSecret = \<lambda>x w. (Inr x, w\<lparr>sim_inbound := Some x\<rparr>),
      env_UpdateSP = \<lambda>x w. (case storeSpec (demoEnv demoSP (answers [])) (sp_Spec x) of
          None \<Rightarrow> (Inl (KOther ''invalid''), w)
        | Some sp \<Rightarrow> (Inr (x\<lparr>sp_Spec := sp\<rparr>), w\<lparr>sim_obj := x\<lparr>sp_Spec := sp, sp_Status := sp_Status (sim_obj w)\<rparr>\<rparr>)),
      env_StatusUpdateSP = \<lambda>x w. (Inr x, w\<lparr>sim_obj := (sim_obj w)\<lparr>sp_Status := sp_Status x\<rparr>\<rparr>),
      env_StatusPatchSP = \<lambda>b x w. (Inr x, w\<lparr>sim_obj := (sim_obj w)
         \<lparr>sp_Status := mergeStatus (sp_Status b) (sp_Status x) (sp_Status (sim_obj w))\<rparr>\<rparr>),
      env_StatusUpdateInstance = \<lambda>x w. (Inr x, w\<lparr>sim_status := inst_Status x\<rparr>),
      env_Http = simHttp, env_Now = \<lambda>w. 100, env_UrlError = \<lambda>u. None,
      env_XmlParse = \<lambda>t. Inr (simXml spec t), env_JsonParse = simJson,
      env_JsonTypeError = \<lambda>t j. ''bad'', env_JsonAnyError = \<lambda>j. None,
      env_ContainsFinalizer = \<lambda>sp f. f \<in> set (elems (om_Finalizers (sp_Meta sp))),
      env_AddFinalizer = \<lambda>sp f. withFinalizers (\<lambda>fs. if f \<in> set fs then fs else fs @ [f]) sp,
      env_RemoveFinalizer = \<lambda>sp f. withFinalizers (filter (\<lambda>x. x \<noteq> f)) sp,
      env_SetControllerReference = \<lambda>sp x. Inr (x\<lparr>sec_OwnerReferences := [om_Name (sp_Meta sp)]\<rparr>)\<rparr>"

section \<open>It is cooperative\<close>

lemma simEnv_laws: "finalizer_laws (simEnv spec)"
  using demoEnv_laws [of demoSP "answers []"] by (simp add: finalizer_laws_def simEnv_def demoEnv_def)

lemma simEnv_simps [simp]:
  "env_GetSP (simEnv spec) n w = (Inr (sim_obj w), w)"
  "env_GetInstance (simEnv spec) n w = (Inr (simInstance w), w)"
  "credentialsKey (simInstance w) = credentialsKey demoInstance"
  "env_GetSecret (simEnv spec) (credentialsKey demoInstance) w = (Inr demoSecret, w)"
  "env_Http (simEnv spec) q w = simHttp q w"
  "env_UrlError (simEnv spec) u = None"
  "env_XmlParse (simEnv spec) t = Inr (simXml spec t)"
  "env_JsonParse (simEnv spec) t = simJson t"
  "env_JsonAnyError (simEnv spec) j = None"
  by (simp_all add: simEnv_def simInstance_def credentialsKey_def Let_def)

lemma answerTo_sim: "answerTo (simEnv spec) q w = (case fst (simHttp q w) of Inl e \<Rightarrow> Inl e | Inr a \<Rightarrow> readAnswer a)"
  by (simp add: answerTo_def)

lemma afterCall_sim: "afterCall (simEnv spec) q s = \<lparr>world = snd (simHttp q (world s)), log = log s @ [Http q]\<rparr>"
  by (simp add: afterCall_def)

lemma readAnswer_sim:
  "readAnswer (answers text) = Inr \<lparr>resp_Body = text, resp_StatusCode = 200, resp_Location = []\<rparr>"
  "readAnswer (demoAnswer n text) = Inr \<lparr>resp_Body = text, resp_StatusCode = n, resp_Location = []\<rparr>"
  by (simp_all add: answers_def readAnswer_def demoAnswer_def)

lemma simHttp_requests:
  "simHttp (listRequest c n) w = (Inr (answers (if sim_app w then ''listed'' else ''none'')), w)"
  "simHttp (getRequest c n) w = (Inr (answers ''app''), w)"
  "simHttp (createRequest c a) w = (Inr (answers []), w\<lparr>sim_app := True\<rparr>)"
  "simHttp (updateRequest demoClient a) w = (Inr (answers []), w)"
  "simHttp (getOAuthRequest c n) w = (Inr (if sim_oauth w then answers ''oauth'' else demoAnswer 500 ''no such application''), w)"
  "simHttp (createOAuthRequest demoClient n cfg) w = (Inr (answers []), w\<lparr>sim_oauth := True\<rparr>)"
  "simHttp (updateOAuthRequest demoClient n cfg) w = (Inr (answers []), w\<lparr>sim_oauth := True\<rparr>)"
  "simHttp (getSAMLRequest c n) w = (Inr (answers (if sim_saml w then ''saml'' else ''nosaml'')), w)"
  "simHttp (createSAMLRequest c m) w = (Inr (answers []), w\<lparr>sim_saml := True\<rparr>)"
  "simHttp (metadataRequest url) w = (Inr (answers ''metadata''), w)"
  by (simp_all add: simHttp_def soap_actions)
    (simp_all add: soap_requests listRequest_def jsonCall_def soapCall_def request_def oauthURL_def demoClient_def NewClient_def
      applicationEndpoint_def oAuthEndpoint_def metadataRequest_def soapActionOf_def)

lemma isSuccess_codes: "isSuccess 200" "\<not> isSuccess 500"
  by (simp_all add: isSuccess_def)

text \<open>Decoding the answers.\<close>

lemma dec_soapAnswer:
  "dec_ResponseEnvelope zero dec (soapAnswer name kids) =
     (case dec (XElem soapEnvNS ''Body'' [] [XElem axisNS name [] [XElem axisNS ''return'' [] kids]]) zero of
        Inl e \<Rightarrow> Inl e | Inr v \<Rightarrow> Inr \<lparr>rse_Body = v\<rparr>)"
  by (simp add: dec_ResponseEnvelope_def soapAnswer_def checkRoot.simps decodeElem_def f_defs split: sum.split)

lemma dec_oauthAnswer:
  "dec_ResponseEnvelope zero_GetOAuthApplicationDataByAppNameResponseBody dec_GetOAuthApplicationDataByAppNameResponseBody
     (soapAnswer ''getOAuthApplicationDataByAppNameResponse'' (map (answer oAuthNS) (xml_OAuthApplication x)))
   = Inr \<lparr>rse_Body = \<lparr>goarb_GetOAuthApplicationDataByAppNameResponse = \<lparr>goares_OAuthApplication = oauthAnswer x\<rparr>\<rparr>\<rparr>"
  by (simp add: dec_soapAnswer dec_GetOAuthApplicationDataByAppNameResponseBody_def
      dec_GetOAuthApplicationDataByAppNameResponse_def decodeElem_def field_simps oauth_wire
      zero_GetOAuthApplicationDataByAppNameResponseBody_def zero_GetOAuthApplicationDataByAppNameResponse_def)

lemma dec_samlAnswer:
  "dec_ResponseEnvelope zero_GetSAMLSPResponseBody dec_GetSAMLSPResponseBody
     (soapAnswer ''getServiceProviderResponse'' (map (answer samlNS) (xml_SAMLSSOServiceProviderDTORequest x)))
   = Inr \<lparr>rse_Body = \<lparr>gsrb_Response = \<lparr>gsres_Return = Some (samlAnswer x)\<rparr>\<rparr>\<rparr>"
  "dec_ResponseEnvelope zero_GetSAMLSPResponseBody dec_GetSAMLSPResponseBody
     (soapAnswer ''getServiceProviderResponse'' [])
   = Inr \<lparr>rse_Body = \<lparr>gsrb_Response = \<lparr>gsres_Return = Some zero_SAMLSSOServiceProviderDTOResponse\<rparr>\<rparr>\<rparr>"
  by (simp_all add: dec_soapAnswer dec_GetSAMLSPResponseBody_def dec_GetSAMLSPResponse_def decodeElem_def field_simps
      saml_wire zero_GetSAMLSPResponseBody_def zero_GetSAMLSPResponse_def)
    (simp add: dec_SAMLSSOServiceProviderDTOResponse_def decodeElem_def)

lemma simXml_answers:
  "simXml spec ''oauth'' = soapAnswer ''getOAuthApplicationDataByAppNameResponse''
     (map (answer oAuthNS) (xml_OAuthApplication (oauthApplication (spec_Name spec) (simConfig spec))))"
  "simXml spec ''saml'' = soapAnswer ''getServiceProviderResponse''
     (map (answer samlNS) (xml_SAMLSSOServiceProviderDTORequest (samlDTO (simService spec))))"
  "simXml spec ''nosaml'' = soapAnswer ''getServiceProviderResponse'' []"
  "simXml spec ''metadata'' = metadataTree"
  "simXml spec ''app'' = demoTree"
  by (simp_all add: simXml_def)

lemma sim_found:
  "found (simEnv spec) (Inr \<lparr>resp_Body = ''app'', resp_StatusCode = 200, resp_Location = []\<rparr>) =
     found (demoEnv demoSP (demoAnswer 200 ''x'')) (Inr \<lparr>resp_Body = ''x'', resp_StatusCode = 200, resp_Location = []\<rparr>)"
  by (simp add: found_def isSuccess_codes simXml_answers)

lemma sim_lookup:
  "GetApplicationByName (simEnv spec) c n s = (Returned (Inr (simRemote (world s))), \<lparr>world = world s,
     log = log s @ (if sim_app (world s) then [Http (listRequest c n), Http (getRequest c n)] else [Http (listRequest c n)])\<rparr>)"
  by (simp add: GetApplicationByName_run Let_def answerTo_sim afterCall_sim simHttp_requests readAnswer_sim listed_def
      isSuccess_codes simJson_def dec_anyMap_def assertArray_def sim_found demo_found demo_mapped simRemote_def)

lemmas sim_calls = bind_def doSOAPnil_run answerTo_sim afterCall_sim simHttp_requests readAnswer_sim checkReply_def
  isSuccess_codes errorOf_def

lemma sim_create:
  "CreateApplication (simEnv spec) c a s = (Returned (Inr zeroApplication),
     \<lparr>world = (world s)\<lparr>sim_app := True\<rparr>, log = log s @ [Http (createRequest c a)]\<rparr>)"
  unfolding CreateApplication_def bind_def doSOAPnil_run createRequest_def [symmetric]
  by (simp add: sim_calls)

lemma sim_update:
  "UpdateApplication (simEnv spec) demoClient a s = (Returned (Inr ()),
     \<lparr>world = world s, log = log s @ [Http (updateRequest demoClient a)]\<rparr>)"
  unfolding UpdateApplication_def bind_def doSOAPnil_run updateRequest_def [symmetric]
  by (simp add: sim_calls)

lemma sim_oauth_lookup:
  "GetApplicationOAuth2Config (simEnv spec) c rid n s =
     (Returned (Inr (simOAuth spec (world s))), \<lparr>world = world s, log = log s @ [Http (getOAuthRequest c n)]\<rparr>)"
  by (simp add: GetApplicationOAuth2Config_run Let_def sim_calls simXml_answers dec_oauthAnswer deref_def simOAuth_def
      mapGetOAuthApplication_def)

lemma sim_oauth_create:
  "CreateApplicationOAuth2Config (simEnv spec) demoClient n d s = (Returned (Inr ()),
     \<lparr>world = (world s)\<lparr>sim_oauth := True\<rparr>, log = log s @ [Http (createOAuthRequest demoClient n d)]\<rparr>)"
  unfolding CreateApplicationOAuth2Config_def bind_def doSOAPnil_run createOAuthRequest_def [symmetric]
  by (simp add: sim_calls)

lemma sim_oauth_update:
  "UpdateApplicationOAuth2Config (simEnv spec) demoClient n d s = (Returned (Inr ()),
     \<lparr>world = (world s)\<lparr>sim_oauth := True\<rparr>, log = log s @ [Http (updateOAuthRequest demoClient n d)]\<rparr>)"
  unfolding UpdateApplicationOAuth2Config_def bind_def doSOAPnil_run updateOAuthRequest_def [symmetric]
  by (simp add: sim_calls)

lemma sim_saml_lookup:
  "GetApplicationSAMLConfig (simEnv spec) c n s = (Returned (Inr (Some (case simSAML spec (world s) of
       None \<Rightarrow> mapSAMLServiceProvider zero_SAMLSSOServiceProviderDTOResponse | Some e \<Rightarrow> e))),
     \<lparr>world = world s, log = log s @ [Http (getSAMLRequest c n)]\<rparr>)"
  by (simp add: GetApplicationSAMLConfig_run Let_def sim_calls simXml_answers dec_samlAnswer simSAML_def)

lemma sim_saml_create:
  "CreateSAMLApplication (simEnv spec) demoClient d s = (Returned (Inr ()),
     \<lparr>world = (world s)\<lparr>sim_saml := True\<rparr>, log = log s @ [Http (createSAMLRequest demoClient d)]\<rparr>)"
  unfolding CreateSAMLApplication_def bind_def doSOAPnil_run createSAMLRequest_def [symmetric]
  by (simp add: sim_calls)

lemma sim_ping:
  "Ping (simEnv spec) demoClient s = (Returned (Inr ()), \<lparr>world = world s, log = log s @ [Http (pingRequest demoClient)]\<rparr>)"
proof -
  have "simHttp (pingRequest demoClient) w = (Inr (answers (if sim_app w then ''listed'' else ''none'')), w)" for w
    by (simp add: simHttp_def) (simp add: pingRequest_def jsonCall_def request_def)
  then show ?thesis by (simp add: Ping_run answerTo_sim afterCall_sim readAnswer_sim)
qed

lemma metadata_decoded:
  "dec_EntityDescriptor metadataTree =
     Inr \<lparr>ed_EntityID = ''https://app'', ed_IDPSSODescriptor = None, ed_SPSSODescriptor = Some simDescriptor\<rparr>"
  by (simp add: dec_EntityDescriptor_def metadataTree_def checkRoot.simps decodeStruct_def aStr_def aXmlBool_def aInt_def
      dec_SPSSODescriptor_def dec_AssertionConsumerService_def decodeElem_def f_defs zero_EntityDescriptor_def
      zero_SPSSODescriptor_def simDescriptor_def)

lemma sim_fetch:
  "Fetch (simEnv spec) url s =
     (Returned (Inr simMetadata), \<lparr>world = world s, log = log s @ [Http (metadataRequest url)]\<rparr>)"
  by (simp add: Fetch_def fetchAndParse_def httpDo_def call_def bind_def simHttp_requests answers_def demoAnswer_def
      metadataAnswer_def readLimited_def parseXML_def simXml_answers metadata_decoded spMetadata_def simMetadata_def)

lemmas scim_evals = dec_SCIMListResponse_def dec_SCIMGroup_def dec_SCIMGroupMember_def dec_SCIMUser_def
  decodeObject_def findField_def jStr_def jInt_def jSlice_def zero_SCIMListResponse_def

definition groupSearch :: "string \<Rightarrow> HttpRequest" where
  "groupSearch n = jsonCall demoClient ''POST'' (''/t/'' @ cl_Tenant demoClient @ ''/scim2/Groups/.search'')
     (Some (JsonBody (json_SCIMGroupSearch (buildGroupSearch n))))"

lemma simHttp_group: "simHttp (groupSearch n) w = (Inr (answers (if sim_member w then ''members'' else ''nobody'')), w)"
  by (simp add: simHttp_def groupSearch_def) (simp add: jsonCall_def request_def demoClient_def NewClient_def groupSearchURL_def)

lemma sim_membership:
  "GetAdminGroupMembership (simEnv spec) demoClient n s = (Returned (Inr (sim_member (world s), ''g1'')),
     \<lparr>world = world s, log = log s @ [Http (groupSearch n)]\<rparr>)"
  unfolding GetAdminGroupMembership_def getGroupInfo_def bind_def doJSON_run groupSearch_def [symmetric]
  by (simp add: answerTo_sim afterCall_sim simHttp_group readAnswer_sim checkReply_def isSuccess_def simJson_def
      simGroup_def scim_evals getUserGroupMembership_def)

lemma sim_join: "\<exists>es. JoinAdminToGroup (simEnv spec) demoClient g s =
    (Returned (Inr ()), \<lparr>world = (world s)\<lparr>sim_member := True\<rparr>, log = log s @ es\<rparr>)"
proof -
  have user: "simHttp (jsonCall demoClient ''POST'' (''/t/'' @ cl_Tenant demoClient @ ''/scim2/Users/.search'') b) w =
      (Inr (answers ''user''), w)" for b w
    by (simp add: simHttp_def) (simp add: jsonCall_def request_def demoClient_def NewClient_def groupSearchURL_def)
  have patch: "simHttp (jsonCall demoClient ''PATCH'' p b) w = (Inr (answers []), w\<lparr>sim_member := True\<rparr>)" for p b w
    by (simp add: simHttp_def) (simp add: jsonCall_def request_def)
  have info: "\<exists>es. getUserInfo (simEnv spec) demoClient n t = (Returned (Inr (''admin'', ''u1'')), \<lparr>world = world t, log = log t @ es\<rparr>)"
    for n t
    unfolding getUserInfo_def bind_def doJSON_run answerTo_sim afterCall_sim user
    by (simp add: readAnswer_sim checkReply_def isSuccess_def simJson_def scim_evals)
  obtain es where es: "getUserInfo (simEnv spec) demoClient ''admin'' s =
      (Returned (Inr (''admin'', ''u1'')), \<lparr>world = world s, log = log s @ es\<rparr>)" using info by blast
  show ?thesis
    unfolding JoinAdminToGroup_def joinUserToGroup_def bind_def es
    unfolding doJSONnil_run answerTo_sim afterCall_sim patch
    by (simp add: doJSONnil_run answerTo_sim afterCall_sim patch readAnswer_sim checkReply_def isSuccess_def)
qed

text \<open>The two configurations are what a server that stores what it is sent reads back.\<close>

lemma sim_reads_back:
  "readBackOAuth2 n cfg = Inr (mapOAuthApplication (oauthAnswer (oauthApplication n cfg)))"
  "readBackSAML m = Inr (mapSAMLServiceProvider (samlAnswer (samlDTO m)))"
  by (simp_all add: readBackOAuth2_def oauth_wire readBackSAML_def saml_wire)

lemma simConfig_desired: "sp_Spec sp = spec \<Longrightarrow> oauth2FromSpec sp = Returned d \<Longrightarrow> simConfig spec = withCredentials ''ck'' ''cs'' d"
  by (simp add: simConfig_def oauth2FromSpec_def)

lemma zero_issuer: "saml_Issuer (mapSAMLServiceProvider zero_SAMLSSOServiceProviderDTOResponse) = []"
  by (simp add: mapSAMLServiceProvider_def zero_SAMLSSOServiceProviderDTOResponse_def)

lemmas sim_frames = unmoved_def simRemote_def simOAuth_def simSAML_def simInstance_def

interpretation sim: cooperative_operator "simEnv (simSpec o2 sm)" demoKey demoClient "simSpec o2 sm" sim_obj simRemote sim_member
    "simOAuth (simSpec o2 sm)" "simSAML (simSpec o2 sm)" simInstance "''ck''" "''cs''" simMetadata
    "\<lparr>nn_Name = ''is'', nn_Namespace = ''apps''\<rparr>" for o2 sm
proof unfold_locales
  let ?spec = "simSpec o2 sm"
  let ?K = "simEnv ?spec"
  let ?same = "unmoved sim_obj simRemote sim_member (\<lambda>w. (simOAuth ?spec w, simSAML ?spec w, simInstance w))"
  show "finalizer_laws ?K" by (rule simEnv_laws)
  show "env_GetSP ?K demoKey w = (Inr (sim_obj w), w)" for w by simp
  show "\<exists>r sec. spec_InstanceRef ?spec = Some r
      \<and> env_GetInstance ?K \<lparr>nn_Name = ref_Name r, nn_Namespace = om_Namespace (sp_Meta (sim_obj w))\<rparr> w
          = (Inr (snd (snd (simOAuth ?spec w, simSAML ?spec w, simInstance w))), w)
      \<and> env_GetSecret ?K (credentialsKey (snd (snd (simOAuth ?spec w, simSAML ?spec w, simInstance w)))) w = (Inr sec, w)
      \<and> demoClient = instanceClient (snd (snd (simOAuth ?spec w, simSAML ?spec w, simInstance w))) sec" for w
    by (rule exI [of _ "\<lparr>ref_Name = ''is''\<rparr>"], rule exI [of _ demoSecret])
      (simp add: simSpec_def demoSpec_def, simp add: simInstance_def demoInstance_def demoSecret_def demoClient_def
        tenantOf_def instanceClient_def)
  show "\<exists>r w'. env_GetSecret ?K n w = (r, w') \<and> (\<forall>e. r = Inl e \<longrightarrow> isNotFound e) \<and> ?same w w'" for n w
    by (auto simp: simEnv_def split: option.splits)
  show "\<exists>y w'. env_CreateSecret ?K x w = (Inr y, w') \<and> ?same w w'" for x w
    by (simp add: simEnv_def sim_frames)
  show "\<exists>y w'. env_UpdateSecret ?K x w = (Inr y, w') \<and> ?same w w'" for x w
    by (simp add: simEnv_def sim_frames)
  show "\<exists>y. env_SetControllerReference ?K sp x = Inr y" for sp x by (simp add: simEnv_def)
  show "\<exists>cm w'. env_GetConfigMap ?K n w = (Inr cm, w') \<and> ?same w w'" for n w by (simp add: simEnv_def)
  show "\<exists>y w'. env_UpdateSP ?K x w = (Inr y, w') \<and> storedAs x (sim_obj w') \<and> simRemote w' = simRemote w
      \<and> sim_member w' = sim_member w \<and> (simOAuth ?spec w', simSAML ?spec w', simInstance w') = (simOAuth ?spec w, simSAML ?spec w, simInstance w)"
    if "sp_Spec x = ?spec" "sp_Status x = sp_Status (sim_obj w)" for x w
    using that simSpec_survives [of "demoEnv demoSP (answers [])" o2 sm]
    by (auto simp: simEnv_def storedAs_def sim_frames intro!: exI [of _ "om_ResourceVersion (sp_Meta x)"])
  show "\<exists>y w'. env_StatusPatchSP ?K (sim_obj w) x w = (Inr y, w') \<and> storedAs x (sim_obj w') \<and> simRemote w' = simRemote w
      \<and> sim_member w' = sim_member w \<and> (simOAuth ?spec w', simSAML ?spec w', simInstance w') = (simOAuth ?spec w, simSAML ?spec w, simInstance w)"
    if "sp_Spec x = sp_Spec (sim_obj w)" "sp_Meta x = sp_Meta (sim_obj w)" for x w
    using that by (auto simp: simEnv_def storedAs_def sim_frames mergeStatus_def merged_def
        intro!: exI [of _ "om_ResourceVersion (sp_Meta x)"])
  show "\<exists>t. GetApplicationByName ?K demoClient (spec_Name ?spec) s = (Returned (Inr (simRemote (world s))), t)
      \<and> ?same (world s) (world t)" for s by (simp add: sim_lookup)
  show "\<exists>t b. CreateApplication ?K demoClient a s = (Returned (Inr b), t) \<and> sim_obj (world t) = sim_obj (world s)
      \<and> simRemote (world t) \<noteq> None
      \<and> (simOAuth ?spec (world t), simSAML ?spec (world t), simInstance (world t))
          = (simOAuth ?spec (world s), simSAML ?spec (world s), simInstance (world s))" for a s
    by (simp add: sim_create sim_frames)
  show "\<exists>t. UpdateApplication ?K demoClient a s = (Returned (Inr ()), t) \<and> sim_obj (world t) = sim_obj (world s)
      \<and> simRemote (world t) \<noteq> None \<and> sim_member (world t) = sim_member (world s)
      \<and> (simOAuth ?spec (world t), simSAML ?spec (world t), simInstance (world t))
          = (simOAuth ?spec (world s), simSAML ?spec (world s), simInstance (world s))"
    if "simRemote (world s) \<noteq> None" for a s using that by (simp add: sim_update)
  show "\<exists>g t. GetAdminGroupMembership ?K demoClient (spec_Name ?spec) s = (Returned (Inr (sim_member (world s), g)), t)
      \<and> ?same (world s) (world t)" for s by (simp add: sim_membership)
  show "\<exists>t. JoinAdminToGroup ?K demoClient g s = (Returned (Inr ()), t) \<and> sim_obj (world t) = sim_obj (world s)
      \<and> simRemote (world t) = simRemote (world s) \<and> sim_member (world t)
      \<and> (simOAuth ?spec (world t), simSAML ?spec (world t), simInstance (world t))
          = (simOAuth ?spec (world s), simSAML ?spec (world s), simInstance (world s))" for g s
    using sim_join [of ?spec g s] by (elim exE, intro exI conjI) (assumption | simp add: sim_frames)+
  show "\<exists>t. GetApplicationOAuth2Config ?K demoClient rid (spec_Name ?spec) s =
      (Returned (Inr (simOAuth ?spec (world s))), t) \<and> ?same (world s) (world t)" for rid s
    by (simp add: sim_oauth_lookup)
  show "\<exists>t. CreateApplicationOAuth2Config ?K demoClient (spec_Name ?spec) d s = (Returned (Inr ()), t)
      \<and> readBackOAuth2 (spec_Name ?spec) (withCredentials ''ck'' ''cs'' d) = Inr (the (simOAuth ?spec (world t)))
      \<and> simOAuth ?spec (world t) \<noteq> None \<and> simSAML ?spec (world t) = simSAML ?spec (world s)
      \<and> sim_obj (world t) = sim_obj (world s) \<and> simRemote (world t) = simRemote (world s)
      \<and> sim_member (world t) = sim_member (world s) \<and> simInstance (world t) = simInstance (world s)"
    if "sp_Spec (sim_obj (world s)) = ?spec" "oauth2FromSpec (sim_obj (world s)) = Returned d" for d s
    using simConfig_desired [OF that] by (simp add: sim_oauth_create sim_reads_back sim_frames)
  show "\<exists>t. UpdateApplicationOAuth2Config ?K demoClient (spec_Name ?spec)
        (withCredentials (oauth_OAuthConsumerKey e) (oauth_OAuthConsumerSecret e) d) s = (Returned (Inr ()), t)
      \<and> readBackOAuth2 (spec_Name ?spec) (withCredentials (oauth_OAuthConsumerKey e) (oauth_OAuthConsumerSecret e) d)
          = Inr (the (simOAuth ?spec (world t)))
      \<and> simOAuth ?spec (world t) \<noteq> None \<and> simSAML ?spec (world t) = simSAML ?spec (world s)
      \<and> sim_obj (world t) = sim_obj (world s) \<and> simRemote (world t) = simRemote (world s)
      \<and> sim_member (world t) = sim_member (world s) \<and> simInstance (world t) = simInstance (world s)"
    if "simOAuth ?spec (world s) = Some e" "sp_Spec (sim_obj (world s)) = ?spec"
      "oauth2FromSpec (sim_obj (world s)) = Returned d" for s e d
  proof -
    have c: "simConfig ?spec = withCredentials ''ck'' ''cs'' d" by (rule simConfig_desired [OF that(2,3)])
    have "readBackOAuth2 (spec_Name ?spec) (withCredentials ''ck'' ''cs'' d) = Inr e"
      using that(1) by (simp add: simOAuth_def c sim_reads_back split: if_splits)
    then have "oauth_OAuthConsumerKey e = ''ck''" "oauth_OAuthConsumerSecret e = ''cs''"
      using readBack_credentials by blast+
    then show ?thesis by (simp add: sim_oauth_update sim_frames sim_reads_back c)
  qed
  show "\<exists>t. Fetch ?K (v1s_MetadataURL m) s = (Returned (Inr simMetadata), t) \<and> ?same (world s) (world t)" for m s
    by (simp add: sim_fetch)
  show "\<exists>t x. GetApplicationSAMLConfig ?K demoClient (saml_Issuer simMetadata) s = (Returned (Inr (Some x)), t)
      \<and> (case simSAML ?spec (world s) of None \<Rightarrow> saml_Issuer x = [] | Some e \<Rightarrow> x = e) \<and> ?same (world s) (world t)" for s
    by (simp add: sim_saml_lookup zero_issuer split: option.split)
  show "\<exists>t. CreateSAMLApplication ?K demoClient (samlDesired m simMetadata) s = (Returned (Inr ()), t)
      \<and> readBackSAML (samlDesired m simMetadata) = Inr (the (simSAML ?spec (world t))) \<and> simSAML ?spec (world t) \<noteq> None
      \<and> simOAuth ?spec (world t) = simOAuth ?spec (world s) \<and> sim_obj (world t) = sim_obj (world s)
      \<and> simRemote (world t) = simRemote (world s) \<and> sim_member (world t) = sim_member (world s) \<and> simInstance (world t) = simInstance (world s)"
    if "spec_SAML ?spec = Some m" for m s
    using that by (simp add: sim_saml_create sim_reads_back sim_frames simService_def)
  show "env_GetInstance ?K \<lparr>nn_Name = ''is'', nn_Namespace = ''apps''\<rparr> w = (Inr (simInstance w), w)" for w by simp
  show "hasCredentials sec" if "env_GetSecret ?K (credentialsKey (simInstance w)) w = (Inr sec, w')" for w w' sec
    using that by (auto simp: hasCredentials_def demoSecret_def)
  show "\<exists>t. Ping ?K demoClient s = (Returned (Inr ()), t) \<and> ?same (world s) (world t)" for s
    by (simp add: sim_ping)
  show "\<exists>y w'. env_StatusUpdateInstance ?K i w = (Inr y, w') \<and> inst_Status (simInstance w') = inst_Status i
      \<and> unmoved sim_obj simRemote sim_member (\<lambda>w. (simOAuth ?spec w, simSAML ?spec w)) w w'" for i w
    by (simp add: simEnv_def sim_frames)
  show "\<exists>y w'. env_StatusUpdateSP ?K x w = (Inr y, w') \<and> storedAs x (sim_obj w') \<and> simRemote w' = simRemote w
      \<and> sim_member w' = sim_member w \<and> simOAuth ?spec w' = simOAuth ?spec w \<and> simSAML ?spec w' = simSAML ?spec w
      \<and> simInstance w' = simInstance w"
    if "sp_Spec x = sp_Spec (sim_obj w)" "sp_Meta x = sp_Meta (sim_obj w)" for x w
    using that by (auto simp: simEnv_def storedAs_def sim_frames intro!: exI [of _ "om_ResourceVersion (sp_Meta x)"])
qed

end
