(* ===== verification/Registration.thy ===== *)
theory Registration
  imports Prelude
begin

text \<open>
  \<^verbatim>\<open>api/v1alpha1/groupversion_info.go\<close> and the \<^verbatim>\<open>init\<close> functions: the two kinds of the API group are
  registered with a builder, which the entry point adds to its scheme before \<^verbatim>\<open>main\<close> runs. The
  scheme, its builder and the types client-go registers are parameters; what is relied on of them
  is \<^verbatim>\<open>schemeLaws\<close>.
\<close>

section \<open>Names\<close>

record GroupVersion =
  gv_Group :: string
  gv_Version :: string

record GVK =
  gvk_Group :: string
  gvk_Version :: string
  gvk_Kind :: string

definition withKind :: "GroupVersion \<Rightarrow> string \<Rightarrow> GVK" where
  "withKind gv k = \<lparr>gvk_Group = gv_Group gv, gvk_Version = gv_Version gv, gvk_Kind = k\<rparr>"

text \<open>A Go type: objects are registered and looked up by their type.\<close>

record goType =
  gt_Package :: string
  gt_Name :: string

definition apiPackage :: string where
  "apiPackage = ''github.com/lamprosfasoulas/wso2is-operator/api/v1alpha1''"

definition apiType :: "string \<Rightarrow> goType" where
  "apiType n = \<lparr>gt_Package = apiPackage, gt_Name = n\<rparr>"

section \<open>The scheme\<close>

text \<open>The packages \<^verbatim>\<open>runtime\<close>, \<^verbatim>\<open>controller-runtime/pkg/scheme\<close> and \<^verbatim>\<open>client-go/kubernetes/scheme\<close>.\<close>

record ('b, 's) schemeLib =
  sl_Builder :: "GroupVersion \<Rightarrow> 'b"
  sl_Register :: "goType list \<Rightarrow> 'b \<Rightarrow> 'b"
  sl_AddToScheme :: "'b \<Rightarrow> 's \<Rightarrow> string option \<times> 's"
  sl_NewScheme :: 's
  sl_ClientGo :: "'s \<Rightarrow> string option \<times> 's"
  sl_ObjectKinds :: "'s \<Rightarrow> goType \<Rightarrow> GVK list result"

definition SchemeGroupVersion :: GroupVersion where
  "SchemeGroupVersion = \<lparr>gv_Group = ''wso2.it.auth.gr'', gv_Version = ''v1alpha1''\<rparr>"

text \<open>The two \<^verbatim>\<open>init\<close> functions of the package, in the order of their files.\<close>

definition registerInstance :: "('b, 's) schemeLib \<Rightarrow> 'b \<Rightarrow> 'b" where
  "registerInstance L = sl_Register L [apiType ''WSO2ISInstance'', apiType ''WSO2ISInstanceList'']"

definition registerSP :: "('b, 's) schemeLib \<Rightarrow> 'b \<Rightarrow> 'b" where
  "registerSP L = sl_Register L [apiType ''WSO2SP'', apiType ''WSO2SPList'']"

definition SchemeBuilder :: "('b, 's) schemeLib \<Rightarrow> 'b" where
  "SchemeBuilder L = registerSP L (registerInstance L (sl_Builder L SchemeGroupVersion))"

definition AddToScheme :: "('b, 's) schemeLib \<Rightarrow> 's \<Rightarrow> string option \<times> 's" where
  "AddToScheme L = sl_AddToScheme L (SchemeBuilder L)"

text \<open>\<^verbatim>\<open>utilruntime.Must\<close>, and \<^verbatim>\<open>init\<close> of the entry point.\<close>

definition must :: "string option \<times> 's \<Rightarrow> 's outcome" where
  "must r = (case fst r of None \<Rightarrow> Returned (snd r) | Some e \<Rightarrow> Panicked e)"

definition initScheme :: "('b, 's) schemeLib \<Rightarrow> 's outcome" where
  "initScheme L = (case must (sl_ClientGo L (sl_NewScheme L)) of
     Panicked e \<Rightarrow> Panicked e
   | Returned s \<Rightarrow> must (AddToScheme L s))"

section \<open>The kinds of the operator's types\<close>

text \<open>
  What the packages document: a new scheme knows no type; adding a builder makes each type registered
  with it known under the group and version of the builder and the name of the type; client-go
  registers none of the operator's types.
\<close>

definition schemeLaws :: "('b, 's) schemeLib \<Rightarrow> bool" where
  "schemeLaws L \<longleftrightarrow>
     (\<forall>t. \<exists>e. sl_ObjectKinds L (sl_NewScheme L) t = Inl e)
   \<and> (\<forall>s t. gt_Package t = apiPackage \<longrightarrow> sl_ObjectKinds L (snd (sl_ClientGo L s)) t = sl_ObjectKinds L s t)
   \<and> (\<forall>gv tss s s' t e. sl_AddToScheme L (fold (sl_Register L) tss (sl_Builder L gv)) s = (None, s') \<longrightarrow>
        t \<in> set (concat tss) \<longrightarrow> sl_ObjectKinds L s t = Inl e \<longrightarrow>
        sl_ObjectKinds L s' t = Inr [withKind gv (gt_Name t)])"

definition crdKind :: "string \<Rightarrow> GVK" where
  "crdKind = withKind SchemeGroupVersion"

lemma must_Returned [simp]: "must r = Returned s \<longleftrightarrow> r = (None, s)"
  by (cases r) (auto simp: must_def split: option.split)

lemma initScheme_kinds:
  assumes "schemeLaws L" "initScheme L = Returned s"
    and "k \<in> {''WSO2ISInstance'', ''WSO2ISInstanceList'', ''WSO2SP'', ''WSO2SPList''}"
  shows "sl_ObjectKinds L s (apiType k) = Inr [crdKind k]"
proof -
  let ?tss = "[map apiType [''WSO2ISInstance'', ''WSO2ISInstanceList''], map apiType [''WSO2SP'', ''WSO2SPList'']]"
  obtain s0 where s0: "sl_ClientGo L (sl_NewScheme L) = (None, s0)" "AddToScheme L s0 = (None, s)"
    using assms(2) by (auto simp: initScheme_def split: outcome.splits)
  obtain e where e: "sl_ObjectKinds L (sl_NewScheme L) (apiType k) = Inl e"
    using assms(1) unfolding schemeLaws_def by blast
  have pkg: "gt_Package (apiType k) = apiPackage" by (simp add: apiType_def)
  have "sl_ObjectKinds L s0 (apiType k) = Inl e"
    using assms(1) pkg e s0(1) unfolding schemeLaws_def by (metis snd_conv)
  moreover have "sl_AddToScheme L (fold (sl_Register L) ?tss (sl_Builder L SchemeGroupVersion)) s0 = (None, s)"
    using s0(2) by (simp add: AddToScheme_def SchemeBuilder_def registerInstance_def registerSP_def)
  moreover have "apiType k \<in> set (concat ?tss)" using assms(3) by auto
  ultimately have "sl_ObjectKinds L s (apiType k) = Inr [withKind SchemeGroupVersion (gt_Name (apiType k))]"
    using assms(1) unfolding schemeLaws_def by blast
  then show ?thesis by (simp add: crdKind_def apiType_def)
qed

end
