(* ===== verification/Startup.thy ===== *)
theory Startup
  imports GoXml Registration
begin

text \<open>
  \<^verbatim>\<open>cmd/main.go\<close>: the command line, the options it is turned into, and the start of the manager with
  its exit code. \<^verbatim>\<open>flag.Parse\<close> is modelled as the standard library documents it. The manager, the
  scheme and the REST mapper of controller-runtime are parameters; flags that other packages register
  (\<^verbatim>\<open>zap\<close>, \<^verbatim>\<open>kubeconfig\<close>) are too.
\<close>

section \<open>Flags\<close>

record Flags =
  fl_metricsAddr :: string
  fl_probeAddr :: string
  fl_enableLeaderElection :: bool
  fl_secureMetrics :: bool
  fl_webhookCertPath :: string
  fl_webhookCertName :: string
  fl_webhookCertKey :: string
  fl_metricsCertPath :: string
  fl_metricsCertName :: string
  fl_metricsCertKey :: string
  fl_enableHTTP2 :: bool
  fl_others :: "(string \<times> string) list"

definition defaultFlags :: Flags where
  "defaultFlags = \<lparr>fl_metricsAddr = ''0'', fl_probeAddr = '':8081'', fl_enableLeaderElection = False,
     fl_secureMetrics = True, fl_webhookCertPath = [], fl_webhookCertName = ''tls.crt'',
     fl_webhookCertKey = ''tls.key'', fl_metricsCertPath = [], fl_metricsCertName = ''tls.crt'',
     fl_metricsCertKey = ''tls.key'', fl_enableHTTP2 = False, fl_others = []\<rparr>"

text \<open>A flag of another package: whether it is boolean, and the error of setting it to a text.\<close>

record foreignFlag =
  ff_IsBool :: bool
  ff_Set :: "string \<Rightarrow> string option"

datatype flag =
    StringVar "(string \<Rightarrow> string) \<Rightarrow> Flags \<Rightarrow> Flags"
  | BoolVar "(bool \<Rightarrow> bool) \<Rightarrow> Flags \<Rightarrow> Flags"
  | Foreign string foreignFlag

definition ownFlags :: "(string \<times> flag) list" where
  "ownFlags =
     [(''metrics-bind-address'', StringVar fl_metricsAddr_update),
      (''health-probe-bind-address'', StringVar fl_probeAddr_update),
      (''leader-elect'', BoolVar fl_enableLeaderElection_update),
      (''metrics-secure'', BoolVar fl_secureMetrics_update),
      (''webhook-cert-path'', StringVar fl_webhookCertPath_update),
      (''webhook-cert-name'', StringVar fl_webhookCertName_update),
      (''webhook-cert-key'', StringVar fl_webhookCertKey_update),
      (''metrics-cert-path'', StringVar fl_metricsCertPath_update),
      (''metrics-cert-name'', StringVar fl_metricsCertName_update),
      (''metrics-cert-key'', StringVar fl_metricsCertKey_update),
      (''enable-http2'', BoolVar fl_enableHTTP2_update)]"

definition lookupFlag :: "(string \<Rightarrow> foreignFlag option) \<Rightarrow> string \<Rightarrow> flag option" where
  "lookupFlag others n =
     (case map_of ownFlags n of Some f \<Rightarrow> Some f | None \<Rightarrow> map_option (Foreign n) (others n))"

primrec isBoolFlag :: "flag \<Rightarrow> bool" where
  "isBoolFlag (StringVar u) = False"
| "isBoolFlag (BoolVar u) = True"
| "isBoolFlag (Foreign n f) = ff_IsBool f"

primrec setFlag :: "flag \<Rightarrow> string \<Rightarrow> Flags \<Rightarrow> Flags result" where
  "setFlag (StringVar u) v fl = Inr (u (\<lambda>_. v) fl)"
| "setFlag (BoolVar u) v fl = (case parseBool v of Inl e \<Rightarrow> Inl ''parse error'' | Inr b \<Rightarrow> Inr (u (\<lambda>_. b) fl))"
| "setFlag (Foreign n f) v fl =
     (case ff_Set f v of Some e \<Rightarrow> Inl e | None \<Rightarrow> Inr (fl\<lparr>fl_others := fl_others fl @ [(n, v)]\<rparr>))"

text \<open>One argument: the text before and after the first equals sign.\<close>

fun cutEquals :: "string \<Rightarrow> string \<times> string option" where
  "cutEquals [] = ([], None)"
| "cutEquals (c # cs) =
     (if c = CHR ''='' then ([], Some cs) else (case cutEquals cs of (n, v) \<Rightarrow> (c # n, v)))"

datatype flagStep = FlagsDone | FlagNext Flags "string list" | FlagHelp | FlagError string

definition storeFlag :: "flag \<Rightarrow> string \<Rightarrow> Flags \<Rightarrow> string list \<Rightarrow> flagStep" where
  "storeFlag f v fl rest = (case setFlag f v fl of Inl e \<Rightarrow> FlagError e | Inr fl' \<Rightarrow> FlagNext fl' rest)"

definition parseOne :: "(string \<Rightarrow> foreignFlag option) \<Rightarrow> Flags \<Rightarrow> string list \<Rightarrow> flagStep" where
  "parseOne others fl args =
     (case args of [] \<Rightarrow> FlagsDone
      | s # rest \<Rightarrow>
          if length s < 2 \<or> hd s \<noteq> CHR ''-'' \<or> s = ''--'' then FlagsDone
          else
            let name = (if s ! 1 = CHR ''-'' then drop 2 s else drop 1 s) in
            if name = [] \<or> hd name = CHR ''-'' \<or> hd name = CHR ''='' then FlagError (''bad flag syntax: '' @ s)
            else
              (case cutEquals name of (n, v) \<Rightarrow>
                case lookupFlag others n of
                  None \<Rightarrow> if n = ''help'' \<or> n = ''h'' then FlagHelp
                          else FlagError (''flag provided but not defined: -'' @ n)
                | Some f \<Rightarrow>
                    if isBoolFlag f then storeFlag f (case v of None \<Rightarrow> ''true'' | Some x \<Rightarrow> x) fl rest
                    else (case v of
                        Some x \<Rightarrow> storeFlag f x fl rest
                      | None \<Rightarrow> (case rest of
                            [] \<Rightarrow> FlagError (''flag needs an argument: -'' @ n)
                          | x # rest' \<Rightarrow> storeFlag f x fl rest'))))"

lemma parseOne_shorter: "parseOne others fl args = FlagNext fl' rest \<Longrightarrow> length rest < length args"
  by (auto simp: parseOne_def storeFlag_def Let_def split: list.splits if_splits prod.splits option.splits sum.splits)

text \<open>\<^verbatim>\<open>flag.Parse\<close>: the flags, or the code the process exits with.\<close>

function parseFlags :: "(string \<Rightarrow> foreignFlag option) \<Rightarrow> Flags \<Rightarrow> string list \<Rightarrow> nat + Flags" where
  "parseFlags others fl args =
     (case parseOne others fl args of
        FlagsDone \<Rightarrow> Inr fl
      | FlagNext fl' rest \<Rightarrow> parseFlags others fl' rest
      | FlagHelp \<Rightarrow> Inl 0
      | FlagError e \<Rightarrow> Inl 2)"
  by pat_completeness auto
termination
  by (relation "measure (\<lambda>(others, fl, args). length args)") (auto dest: parseOne_shorter)

declare parseFlags.simps [simp del]

section \<open>Options\<close>

record TLSConfig =
  tls_NextProtos :: "string list"

type_synonym TLSOpts = "(TLSConfig \<Rightarrow> TLSConfig) list"

definition disableHTTP2 :: "TLSConfig \<Rightarrow> TLSConfig" where
  "disableHTTP2 c = c\<lparr>tls_NextProtos := [''http/1.1'']\<rparr>"

definition tlsOpts :: "Flags \<Rightarrow> TLSOpts" where
  "tlsOpts fl = (if \<not> fl_enableHTTP2 fl then [disableHTTP2] else [])"

text \<open>The configuration a server gets: the options are applied in order.\<close>

definition applyTLS :: "TLSOpts \<Rightarrow> TLSConfig \<Rightarrow> TLSConfig" where
  "applyTLS opts c = fold (\<lambda>f c. f c) opts c"

record WebhookOptions =
  wo_TLSOpts :: TLSOpts
  wo_CertDir :: string
  wo_CertName :: string
  wo_KeyName :: string

record MetricsOptions =
  mo_BindAddress :: string
  mo_SecureServing :: bool
  mo_TLSOpts :: TLSOpts
  mo_AuthenticationFilter :: bool
  mo_CertDir :: string
  mo_CertName :: string
  mo_KeyName :: string

record ManagerOptions =
  mg_Metrics :: MetricsOptions
  mg_WebhookServer :: WebhookOptions
  mg_HealthProbeBindAddress :: string
  mg_LeaderElection :: bool
  mg_LeaderElectionID :: string

definition webhookServerOptions :: "Flags \<Rightarrow> WebhookOptions" where
  "webhookServerOptions fl =
     (let o1 = \<lparr>wo_TLSOpts = tlsOpts fl, wo_CertDir = [], wo_CertName = [], wo_KeyName = []\<rparr> in
      if fl_webhookCertPath fl \<noteq> []
      then o1\<lparr>wo_CertDir := fl_webhookCertPath fl, wo_CertName := fl_webhookCertName fl,
             wo_KeyName := fl_webhookCertKey fl\<rparr>
      else o1)"

definition metricsServerOptions :: "Flags \<Rightarrow> MetricsOptions" where
  "metricsServerOptions fl =
     (let o1 = \<lparr>mo_BindAddress = fl_metricsAddr fl, mo_SecureServing = fl_secureMetrics fl, mo_TLSOpts = tlsOpts fl,
            mo_AuthenticationFilter = False, mo_CertDir = [], mo_CertName = [], mo_KeyName = []\<rparr>;
          o2 = (if fl_secureMetrics fl then o1\<lparr>mo_AuthenticationFilter := True\<rparr> else o1) in
      if fl_metricsCertPath fl \<noteq> []
      then o2\<lparr>mo_CertDir := fl_metricsCertPath fl, mo_CertName := fl_metricsCertName fl,
             mo_KeyName := fl_metricsCertKey fl\<rparr>
      else o2)"

definition managerOptions :: "Flags \<Rightarrow> ManagerOptions" where
  "managerOptions fl =
     \<lparr>mg_Metrics = metricsServerOptions fl, mg_WebhookServer = webhookServerOptions fl,
      mg_HealthProbeBindAddress = fl_probeAddr fl, mg_LeaderElection = fl_enableLeaderElection fl,
      mg_LeaderElectionID = ''03db9004.it.auth.gr''\<rparr>"

section \<open>The start\<close>

text \<open>
  A controller as it is registered: the type whose objects it watches, its name, and the reconciler
  with what the manager provides for it.
\<close>

datatype provided = GetClient | GetScheme | GetEventRecorder string

record Reconciler =
  rc_Client :: provided
  rc_Scheme :: provided
  rc_Recorder :: provided

record Controller =
  ct_For :: goType
  ct_Named :: string
  ct_Complete :: Reconciler

definition newReconciler :: "string \<Rightarrow> Reconciler" where
  "newReconciler recorder = \<lparr>rc_Client = GetClient, rc_Scheme = GetScheme, rc_Recorder = GetEventRecorder recorder\<rparr>"

definition WSO2ISInstanceReconciler_SetupWithManager :: "Reconciler \<Rightarrow> Controller" where
  "WSO2ISInstanceReconciler_SetupWithManager r =
     \<lparr>ct_For = apiType ''WSO2ISInstance'', ct_Named = ''wso2isinstance'', ct_Complete = r\<rparr>"

definition WSO2SPReconciler_SetupWithManager :: "Reconciler \<Rightarrow> Controller" where
  "WSO2SPReconciler_SetupWithManager r = \<lparr>ct_For = apiType ''WSO2SP'', ct_Named = ''wso2sp'', ct_Complete = r\<rparr>"

definition instanceController :: Controller where
  "instanceController = WSO2ISInstanceReconciler_SetupWithManager (newReconciler ''wso2isinstancereconciler-controller'')"

definition spController :: Controller where
  "spController = WSO2SPReconciler_SetupWithManager (newReconciler ''wso2spreconciler-controller'')"

text \<open>What controller-runtime answers: an error or a value.\<close>

record startEnv =
  se_Flags :: "string \<Rightarrow> foreignFlag option"
  se_GetConfig :: "unit result"
  se_NewManager :: "ManagerOptions \<Rightarrow> unit result"
  se_RESTMapping :: "GVK \<Rightarrow> unit result"
  se_SetupController :: "Controller \<Rightarrow> unit result"
  se_AddHealthzCheck :: "string \<Rightarrow> unit result"
  se_AddReadyzCheck :: "string \<Rightarrow> unit result"
  se_Start :: "unit result"

datatype action =
    GetConfigOrDie
  | NewManager ManagerOptions
  | ObjectKinds goType
  | RESTMapping GVK
  | SetupWithManager Controller
  | AddHealthzCheck string
  | AddReadyzCheck string
  | StartManager

text \<open>A program that acts and may exit with a code.\<close>

type_synonym 'a startup = "action list \<Rightarrow> (nat + 'a) \<times> action list"

definition orExit :: "action \<Rightarrow> 'a result \<Rightarrow> 'a startup" where
  "orExit a r l = (case r of Inl e \<Rightarrow> Inl 1 | Inr x \<Rightarrow> Inr x, l @ [a])"

definition andThen :: "'a startup \<Rightarrow> ('a \<Rightarrow> 'b startup) \<Rightarrow> 'b startup" where
  "andThen m f l = (case m l of (Inl n, l') \<Rightarrow> (Inl n, l') | (Inr x, l') \<Rightarrow> f x l')"

text \<open>The check that the CRD of a type is installed.\<close>

definition requireCRD :: "('b, 's) schemeLib \<Rightarrow> 's \<Rightarrow> startEnv \<Rightarrow> goType \<Rightarrow> unit startup" where
  "requireCRD L scheme E obj =
     andThen (orExit (ObjectKinds obj) (sl_ObjectKinds L scheme obj)) (\<lambda>gvks.
       case gvks of
         [] \<Rightarrow> (\<lambda>l. (Inl 1, l))
       | gvk # _ \<Rightarrow> orExit (RESTMapping gvk) (se_RESTMapping E gvk))"

definition startManager :: "('b, 's) schemeLib \<Rightarrow> 's \<Rightarrow> startEnv \<Rightarrow> Flags \<Rightarrow> unit startup" where
  "startManager L scheme E fl =
     andThen (orExit GetConfigOrDie (se_GetConfig E)) (\<lambda>_.
     andThen (orExit (NewManager (managerOptions fl)) (se_NewManager E (managerOptions fl))) (\<lambda>_.
     andThen (requireCRD L scheme E (apiType ''WSO2ISInstance'')) (\<lambda>_.
     andThen (requireCRD L scheme E (apiType ''WSO2SP'')) (\<lambda>_.
     andThen (orExit (SetupWithManager instanceController) (se_SetupController E instanceController)) (\<lambda>_.
     andThen (orExit (SetupWithManager spController) (se_SetupController E spController)) (\<lambda>_.
     andThen (orExit (AddHealthzCheck ''healthz'') (se_AddHealthzCheck E ''healthz'')) (\<lambda>_.
     andThen (orExit (AddReadyzCheck ''readyz'') (se_AddReadyzCheck E ''readyz'')) (\<lambda>_.
       orExit StartManager (se_Start E)))))))))"

text \<open>The exit code of the process and what it did; a panic before \<^verbatim>\<open>main\<close> is code 2.\<close>

definition main :: "('b, 's) schemeLib \<Rightarrow> 's \<Rightarrow> startEnv \<Rightarrow> string list \<Rightarrow> nat \<times> action list" where
  "main L scheme E args =
     (case parseFlags (se_Flags E) defaultFlags args of
        Inl n \<Rightarrow> (n, [])
      | Inr fl \<Rightarrow> (case startManager L scheme E fl [] of (Inl n, l) \<Rightarrow> (n, l) | (Inr _, l) \<Rightarrow> (0, l)))"

definition process :: "('b, 's) schemeLib \<Rightarrow> startEnv \<Rightarrow> string list \<Rightarrow> nat \<times> action list" where
  "process L E args = (case initScheme L of Panicked e \<Rightarrow> (2, []) | Returned scheme \<Rightarrow> main L scheme E args)"

section \<open>HTTP/2\<close>

text \<open>An argument that sets \<^verbatim>\<open>-enable-http2\<close>.\<close>

definition asksHTTP2 :: "string \<Rightarrow> bool" where
  "asksHTTP2 s \<longleftrightarrow> (\<exists>d \<in> {''-'', ''--''}. s = d @ ''enable-http2'' \<or> (\<exists>v. s = d @ ''enable-http2'' @ ''='' @ v))"

lemma cutEquals_join: "cutEquals s = (n, v) \<Longrightarrow> s = n @ (case v of None \<Rightarrow> [] | Some x \<Rightarrow> CHR ''='' # x)"
  by (induction s arbitrary: n v) (auto split: if_splits prod.splits option.splits)

lemma setFlag_keeps_HTTP2:
  assumes "lookupFlag others n = Some f" "n \<noteq> ''enable-http2''" "setFlag f v fl = Inr fl'"
  shows "fl_enableHTTP2 fl' = fl_enableHTTP2 fl"
proof (cases "map_of ownFlags n")
  case None
  with assms show ?thesis by (auto simp: lookupFlag_def split: option.splits)
next
  case (Some g)
  then have "g = f" using assms(1) by (simp add: lookupFlag_def)
  with Some assms(2,3) show ?thesis
    by (auto simp: ownFlags_def split: if_splits sum.splits)
qed

lemma parseOne_HTTP2:
  assumes "parseOne others fl (s # rest) = FlagNext fl' rest'" "\<not> asksHTTP2 s"
  shows "fl_enableHTTP2 fl' = fl_enableHTTP2 fl"
proof -
  let ?name = "if s ! 1 = CHR ''-'' then drop 2 s else drop 1 s"
  have s: "2 \<le> length s" "hd s = CHR ''-''" using assms(1) by (auto simp: parseOne_def split: if_splits)
  obtain n v where nv: "cutEquals ?name = (n, v)" by fastforce
  have f: "\<exists>f x. lookupFlag others n = Some f \<and> setFlag f x fl = Inr fl'"
    using assms(1) nv
    by (fastforce simp: parseOne_def storeFlag_def Let_def split: if_splits option.splits list.splits sum.splits)
  have "n \<noteq> ''enable-http2''"
  proof
    assume n: "n = ''enable-http2''"
    obtain a b t where t: "s = a # b # t" using s(1) by (cases s rule: list.exhaust [case_product]) (auto simp: Suc_le_length_iff numeral_2_eq_2)
    have "s = (if b = CHR ''-'' then ''--'' else ''-'') @ ?name" using s(2) t by simp
    also have "?name = n @ (case v of None \<Rightarrow> [] | Some x \<Rightarrow> CHR ''='' # x)" by (rule cutEquals_join [OF nv])
    finally show False using assms(2) n by (auto simp: asksHTTP2_def split: if_splits option.splits)
  qed
  with f setFlag_keeps_HTTP2 show ?thesis by blast
qed

lemma parseFlags_HTTP2:
  "parseFlags others fl args = Inr fl' \<Longrightarrow> \<forall>a \<in> set args. \<not> asksHTTP2 a \<Longrightarrow> fl_enableHTTP2 fl' = fl_enableHTTP2 fl"
proof (induction others fl args rule: parseFlags.induct)
  case (1 others fl args)
  show ?case
  proof (cases "parseOne others fl args")
    case (FlagNext fl1 rest)
    then obtain s ss where args: "args = s # ss" by (cases args) (auto simp: parseOne_def)
    have "set rest \<subseteq> set ss"
      using FlagNext unfolding args parseOne_def storeFlag_def Let_def
      by (auto split: if_splits prod.splits option.splits list.splits sum.splits)
    then have rest: "\<forall>a \<in> set rest. \<not> asksHTTP2 a" using 1(3) args by auto
    have "parseFlags others fl1 rest = Inr fl'" using 1(2) FlagNext by (simp add: parseFlags.simps [of others fl args])
    from 1(1) [OF FlagNext this rest] parseOne_HTTP2 [of others fl s ss fl1 rest] FlagNext 1(3) args
    show ?thesis by simp
  qed (use 1(2) in \<open>simp_all add: parseFlags.simps [of others fl args]\<close>)
qed

section \<open>The order of the start\<close>

text \<open>The whole start, in order, and what has to go well for it.\<close>

definition startSequence :: "Flags \<Rightarrow> GVK \<Rightarrow> GVK \<Rightarrow> action list" where
  "startSequence fl g1 g2 =
     [GetConfigOrDie, NewManager (managerOptions fl), ObjectKinds (apiType ''WSO2ISInstance''), RESTMapping g1,
      ObjectKinds (apiType ''WSO2SP''), RESTMapping g2, SetupWithManager instanceController, SetupWithManager spController,
      AddHealthzCheck ''healthz'', AddReadyzCheck ''readyz'', StartManager]"

definition prepared :: "('b, 's) schemeLib \<Rightarrow> 's \<Rightarrow> startEnv \<Rightarrow> Flags \<Rightarrow> GVK \<Rightarrow> GVK \<Rightarrow> bool" where
  "prepared L scheme E fl g1 g2 \<longleftrightarrow>
     se_GetConfig E = Inr () \<and> se_NewManager E (managerOptions fl) = Inr ()
   \<and> (\<exists>gs. sl_ObjectKinds L scheme (apiType ''WSO2ISInstance'') = Inr (g1 # gs)) \<and> se_RESTMapping E g1 = Inr ()
   \<and> (\<exists>gs. sl_ObjectKinds L scheme (apiType ''WSO2SP'') = Inr (g2 # gs)) \<and> se_RESTMapping E g2 = Inr ()
   \<and> se_SetupController E instanceController = Inr () \<and> se_SetupController E spController = Inr ()
   \<and> se_AddHealthzCheck E ''healthz'' = Inr () \<and> se_AddReadyzCheck E ''readyz'' = Inr ()"

text \<open>A step that goes wrong ends the start with code 1; the rest is not reached.\<close>

lemma parseFlags_codes: "parseFlags others fl args = Inl n \<Longrightarrow> n \<in> {0, 2}"
proof (induction others fl args rule: parseFlags.induct)
  case (1 others fl args)
  then show ?case by (cases "parseOne others fl args") (simp_all add: parseFlags.simps [of others fl args])
qed

lemma andThen_orExit:
  "andThen (orExit a r) f l = (case r of Inl e \<Rightarrow> (Inl 1, l @ [a]) | Inr x \<Rightarrow> f x (l @ [a]))"
  by (simp add: andThen_def orExit_def split: sum.split)

lemma andThen_requireCRD:
  "andThen (requireCRD L scheme E k) f l =
     (case sl_ObjectKinds L scheme k of
        Inl e \<Rightarrow> (Inl 1, l @ [ObjectKinds k])
      | Inr [] \<Rightarrow> (Inl 1, l @ [ObjectKinds k])
      | Inr (g # gs) \<Rightarrow> (case se_RESTMapping E g of
            Inl e \<Rightarrow> (Inl 1, l @ [ObjectKinds k, RESTMapping g])
          | Inr u \<Rightarrow> f u (l @ [ObjectKinds k, RESTMapping g])))"
  by (simp add: requireCRD_def andThen_def orExit_def split: sum.split list.split)

lemma startManager_cases:
  obtains (stopped) "fst (startManager L scheme E fl []) = Inl 1" "StartManager \<notin> set (snd (startManager L scheme E fl []))"
    "\<And>g1 g2. \<not> prepared L scheme E fl g1 g2"
  | (started) g1 g2 where "prepared L scheme E fl g1 g2"
    "startManager L scheme E fl [] = (case se_Start E of Inl e \<Rightarrow> Inl 1 | Inr u \<Rightarrow> Inr u, startSequence fl g1 g2)"
proof (cases "\<exists>g1 g2. prepared L scheme E fl g1 g2")
  case True
  then obtain g1 g2 where p: "prepared L scheme E fl g1 g2" by blast
  then have "startManager L scheme E fl [] = (case se_Start E of Inl e \<Rightarrow> Inl 1 | Inr u \<Rightarrow> Inr u, startSequence fl g1 g2)"
    by (auto simp: startManager_def andThen_orExit andThen_requireCRD prepared_def startSequence_def orExit_def)
  with p show ?thesis by (rule started)
next
  case False
  then have "fst (startManager L scheme E fl []) = Inl 1 \<and> StartManager \<notin> set (snd (startManager L scheme E fl []))"
    by (simp add: startManager_def andThen_orExit andThen_requireCRD prepared_def orExit_def
        split: sum.split list.split) blast
  with False show ?thesis using stopped by blast
qed

lemma startManager_options: "NewManager opts \<in> set (snd (startManager L scheme E fl [])) \<Longrightarrow> opts = managerOptions fl"
  by (simp add: startManager_def andThen_orExit andThen_requireCRD orExit_def split: sum.splits list.splits)

lemma process_actions:
  assumes "a \<in> set (snd (process L E args))"
  shows "\<exists>scheme fl. parseFlags (se_Flags E) defaultFlags args = Inr fl \<and> a \<in> set (snd (startManager L scheme E fl []))"
proof -
  obtain scheme where s: "a \<in> set (snd (main L scheme E args))"
    using assms by (auto simp: process_def split: outcome.splits)
  then obtain fl where fl: "parseFlags (se_Flags E) defaultFlags args = Inr fl"
    by (cases "parseFlags (se_Flags E) defaultFlags args") (simp_all add: main_def)
  then have "a \<in> set (snd (startManager L scheme E fl []))"
    using s by (simp add: main_def split: prod.splits sum.splits)
  with fl show ?thesis by blast
qed

text \<open>
  HTTP/2 is off unless it is asked for: if no command line argument sets \<^verbatim>\<open>-enable-http2\<close>, the TLS
  configurations of the metrics server and of the webhook server offer HTTP/1.1 only, whatever the
  servers had put there. And the metrics endpoint is never served securely without the filter that
  checks who asks.
\<close>

theorem http2_off_unless_asked:
  assumes "\<forall>a \<in> set args. \<not> asksHTTP2 a" "NewManager opts \<in> set (snd (process L E args))"
  shows "tls_NextProtos (applyTLS (mo_TLSOpts (mg_Metrics opts)) c) = [''http/1.1'']
    \<and> tls_NextProtos (applyTLS (wo_TLSOpts (mg_WebhookServer opts)) c) = [''http/1.1'']
    \<and> (mo_SecureServing (mg_Metrics opts) = mo_AuthenticationFilter (mg_Metrics opts))"
proof -
  obtain scheme fl where fl: "parseFlags (se_Flags E) defaultFlags args = Inr fl"
    "NewManager opts \<in> set (snd (startManager L scheme E fl []))"
    using process_actions [OF assms(2)] by blast
  have "fl_enableHTTP2 fl = False"
    using parseFlags_HTTP2 [OF fl(1) assms(1)] by (simp add: defaultFlags_def)
  then show ?thesis
    using startManager_options [OF fl(2)]
    by (simp add: managerOptions_def metricsServerOptions_def webhookServerOptions_def tlsOpts_def applyTLS_def
        disableHTTP2_def Let_def)
qed

lemma main_outcome:
  "(StartManager \<in> set (snd (main L scheme E args)) \<longrightarrow>
      (\<exists>fl g1 g2. parseFlags (se_Flags E) defaultFlags args = Inr fl \<and> prepared L scheme E fl g1 g2
        \<and> snd (main L scheme E args) = startSequence fl g1 g2))
    \<and> (fst (main L scheme E args) = 0 \<longleftrightarrow> parseFlags (se_Flags E) defaultFlags args = Inl 0
        \<or> StartManager \<in> set (snd (main L scheme E args)) \<and> se_Start E = Inr ())
    \<and> fst (main L scheme E args) \<in> {0, 1, 2}"
proof (cases "parseFlags (se_Flags E) defaultFlags args")
  case (Inl n)
  then show ?thesis using parseFlags_codes [OF Inl] by (auto simp: main_def)
next
  case (Inr fl)
  show ?thesis
  proof (cases rule: startManager_cases [of L scheme E fl])
    case stopped
    then show ?thesis using Inr by (auto simp: main_def split: prod.split sum.split)
  next
    case (started g1 g2)
    have "StartManager \<in> set (startSequence fl g1 g2)" by (simp add: startSequence_def)
    then show ?thesis using Inr started by (auto simp: main_def split: sum.split)
  qed
qed

text \<open>
  C40. The manager is started last: not before the types were registered, the cluster configuration
  was found, the manager made, the CRDs of \<^verbatim>\<open>WSO2ISInstance\<close> and \<^verbatim>\<open>WSO2SP\<close> in \<^verbatim>\<open>wso2.it.auth.gr/v1alpha1\<close>
  found in the cluster (those two, and no others), both controllers registered and both probes
  added. The process exits with code 0 exactly if the scheme was set up and the manager was started
  and ended without an error, or help was asked for; 2 is a panic of the set-up or a command line
  that does not parse, 1 everything else.
\<close>

theorem manager_starts_last:
  assumes "schemeLaws L"
  shows "(StartManager \<in> set (snd (process L E args)) \<longrightarrow>
      (\<exists>scheme fl. initScheme L = Returned scheme \<and> parseFlags (se_Flags E) defaultFlags args = Inr fl
        \<and> prepared L scheme E fl (crdKind ''WSO2ISInstance'') (crdKind ''WSO2SP'')
        \<and> snd (process L E args) = startSequence fl (crdKind ''WSO2ISInstance'') (crdKind ''WSO2SP'')))
    \<and> (fst (process L E args) = 0 \<longleftrightarrow> (\<exists>scheme. initScheme L = Returned scheme)
        \<and> (parseFlags (se_Flags E) defaultFlags args = Inl 0
          \<or> StartManager \<in> set (snd (process L E args)) \<and> se_Start E = Inr ()))
    \<and> fst (process L E args) \<in> {0, 1, 2}"
proof (cases "initScheme L")
  case (Panicked e)
  then show ?thesis by (simp add: process_def)
next
  case (Returned scheme)
  have kinds: "g1 = crdKind ''WSO2ISInstance'' \<and> g2 = crdKind ''WSO2SP''" if "prepared L scheme E fl g1 g2" for fl g1 g2
    using that initScheme_kinds [OF assms Returned, of "''WSO2ISInstance''"] initScheme_kinds [OF assms Returned, of "''WSO2SP''"]
    by (auto simp: prepared_def)
  show ?thesis
    using main_outcome [of L scheme E args] kinds Returned by (auto simp: process_def)
qed

end
