(* ===== verification/Robustness.thy ===== *)
theory Robustness
  imports SpTheorems
begin

text \<open>
  How a reconciliation of a service provider can go wrong, and how much it can do. The source indexes
  and dereferences what servers answer without checks, so it can panic: every step meets a contract that says where
  it can, and what it has done by then. And every step sends a bounded number of requests.
\<close>

section \<open>Where a reconciliation can panic\<close>

text \<open>The queries of the operator, and what it may have done before a query whose answer makes it panic.\<close>

definition lookupRequest :: "Client \<Rightarrow> HttpRequest \<Rightarrow> bool" where
  "lookupRequest c q \<longleftrightarrow>
     (\<exists>n. q = listRequest c n \<or> q = getRequest c n \<or> q = getOAuthRequest c n \<or> q = getSAMLRequest c n)"

primrec preparatory :: "Client \<Rightarrow> event \<Rightarrow> bool" where
  "preparatory c (GetSP n) = True"
| "preparatory c (GetInstance n) = True"
| "preparatory c (GetSecret n) = True"
| "preparatory c (GetConfigMap n) = True"
| "preparatory c (CreateSecret x) = True"
| "preparatory c (UpdateSecret x) = True"
| "preparatory c (UpdateSP x) = False"
| "preparatory c (StatusUpdateSP x) = (status_Phase (sp_Status x) = phaseFailed)"
| "preparatory c (StatusPatchSP b x) = False"
| "preparatory c (StatusUpdateInstance x) = False"
| "preparatory c (Http q) = (lookupRequest c q \<or> (\<exists>url. q = metadataRequest url)
     \<or> (\<exists>n o2. q = createOAuthRequest c n o2 \<or> q = updateOAuthRequest c n o2)
     \<or> (\<exists>cfg. q = deleteRequest c (saml_Issuer cfg) \<or> q = createSAMLRequest c cfg))"
| "preparatory c (Recorded e) = True"

definition panicSite :: "'w env \<Rightarrow> Client \<Rightarrow> event list \<Rightarrow> bool" where
  "panicSite K c es \<longleftrightarrow>
     (\<exists>pre q. es = pre @ attempt K q \<and> lookupRequest c q \<and> (\<forall>e \<in> set pre. preparatory c e))"

definition panicsLate :: "'w env \<Rightarrow> Client \<Rightarrow> event list \<Rightarrow> 'a outcome \<Rightarrow> bool" where
  "panicsLate K c es r \<longleftrightarrow> (\<forall>p. r = Panicked p \<longrightarrow> panicSite K c es)"

definition careful :: "'w env \<Rightarrow> Client \<Rightarrow> event list \<Rightarrow> (WSO2SP \<times> goresult) outcome \<Rightarrow> bool" where
  "careful K c es r \<longleftrightarrow> panicsLate K c es r
     \<and> (\<forall>sp' res. r = Returned (sp', res) \<and> \<not> stops res \<longrightarrow> (\<forall>e \<in> set es. preparatory c e))"

lemma careful_simps [simp]:
  "panicsLate K c es (Returned a)" "panicsLate K c es (Panicked p) \<longleftrightarrow> panicSite K c es"
  "careful K c es (Returned (sp', res)) \<longleftrightarrow> (\<not> stops res \<longrightarrow> (\<forall>e \<in> set es. preparatory c e))"
  "careful K c es (Panicked p) \<longleftrightarrow> panicSite K c es"
  by (auto simp: panicsLate_def careful_def simp del: split_paired_All)

lemma lookupRequest_simps [simp]:
  "lookupRequest c (listRequest c n)" "lookupRequest c (getRequest c n)"
  "lookupRequest c (getOAuthRequest c n)" "lookupRequest c (getSAMLRequest c n)"
  by (auto simp: lookupRequest_def)

lemma panicSite_attempt [simp]: "lookupRequest c q \<Longrightarrow> panicSite K c (attempt K q)"
  unfolding panicSite_def by (rule exI [where x = "[]"]) auto

lemma panicSite_append: "\<forall>e \<in> set es. preparatory c e \<Longrightarrow> panicSite K c es' \<Longrightarrow> panicSite K c (es @ es')"
  unfolding panicSite_def by (metis Un_iff append.assoc set_append)

lemma panicsLate_append:
  "\<forall>e \<in> set es. preparatory c e \<Longrightarrow> panicsLate K c es' r \<Longrightarrow> panicsLate K c (es @ es') r"
  by (simp add: panicsLate_def panicSite_append)

lemma preparatory_attempts [simp]:
  "\<forall>e \<in> set (attempt K (listRequest c n)). preparatory c e"
  "\<forall>e \<in> set (attempt K (getRequest c n)). preparatory c e"
  "\<forall>e \<in> set (attempt K (getOAuthRequest c n)). preparatory c e"
  "\<forall>e \<in> set (attempt K (getSAMLRequest c n)). preparatory c e"
  "\<forall>e \<in> set (attempt K (createOAuthRequest c n o2)). preparatory c e"
  "\<forall>e \<in> set (attempt K (updateOAuthRequest c n o2)). preparatory c e"
  "\<forall>e \<in> set (attempt K (deleteRequest c (saml_Issuer cfg))). preparatory c e"
  "\<forall>e \<in> set (attempt K (createSAMLRequest c cfg)). preparatory c e"
  "\<forall>e \<in> set (fetchEvents K url). preparatory c e"
  by (auto simp: attempt_def fetchEvents_def)

lemma yields_bind_secret:
  assumes "\<And>es a. (\<forall>e \<in> set es. preparatory c e) \<Longrightarrow> yields (f a) (\<lambda>es'. Q (es @ es'))"
  shows "yields (bind (upsertApplicationSecret K sp kv) f) Q"
proof (rule yields_bind_some [where P = "preparatory c"])
  show "yields (upsertApplicationSecret K sp kv) (\<lambda>es r. (\<forall>e \<in> set es. preparatory c e) \<and> returns r)"
    unfolding upsertApplicationSecret_def Let_def by (intro effect_intros) auto
qed (fact assms)

text \<open>A step that panics only like this, and has only prepared things where it lets the next one go on.\<close>

locale careful_step =
  fixes step :: "'w env \<Rightarrow> WSO2SP \<Rightarrow> Client \<Rightarrow> 'w step" and wanted :: "WSO2SP \<Rightarrow> bool"
  assumes careful: "wanted sp \<Longrightarrow> yields (step K sp c) (careful K c)"
begin

lemma before:
  assumes "enabled \<Longrightarrow> wanted sp" "\<And>sp'. yields (rest sp') (panicsLate K c)"
  shows "yields (substep enabled (\<lambda>sp. step K sp c) sp rest) (panicsLate K c)"
proof (cases enabled)
  case True
  have "yields (case a of (sp', res) \<Rightarrow> if stops res then ret (sp', res) else rest sp') (\<lambda>es'. panicsLate K c (es @ es'))"
    if c: "careful K c es (Returned a)" for es a
  proof -
    obtain sp' res where a: "a = (sp', res)" by (cases a)
    show ?thesis unfolding a prod.case
    proof (rule yields_if)
      show "yields (ret (sp', res)) (\<lambda>es'. panicsLate K c (es @ es'))" by (rule yields_ret) simp
      show "\<not> stops res \<Longrightarrow> yields (rest sp') (\<lambda>es'. panicsLate K c (es @ es'))"
        using c by (auto simp: a intro: yields_weaken [OF assms(2)] panicsLate_append)
    qed
  qed
  with True show ?thesis
    unfolding substep_def if_P [OF True] by (intro yields_bind [OF careful [OF assms(1)]]) auto
qed (simp add: substep_def assms(2))

end

lemma OAuth2_careful: "spec_OAuth2 (sp_Spec sp) \<noteq> None \<Longrightarrow> yields (reconcileApplicationOAuth2 K sp c) (careful K c)"
  unfolding reconcileApplicationOAuth2_def Let_def
  by (intro effect_intros yields_bind_secret [where c = c]) (auto simp: oauth2FromSpec_def deref_def ball_Un)

interpretation oauth2_careful: careful_step reconcileApplicationOAuth2 "\<lambda>sp. spec_OAuth2 (sp_Spec sp) \<noteq> None"
  by unfold_locales (rule OAuth2_careful)

lemma SAML_careful: "spec_SAML (sp_Spec sp) \<noteq> None \<Longrightarrow> yields (reconcileSAMLApplication K sp c) (careful K c)"
  unfolding reconcileSAMLApplication_def Let_def
  by (intro effect_intros yields_bind_secret [where c = c]) (auto simp: deref_def ball_Un panicSite_append)

interpretation saml_careful: careful_step reconcileSAMLApplication "\<lambda>sp. spec_SAML (sp_Spec sp) \<noteq> None"
  by unfold_locales (rule SAML_careful)

text \<open>The parts that never panic.\<close>

lemma createRemote_returns: "yields (createRemote K b sp c desired) (\<lambda>es r. returns r)"
  unfolding createRemote_def by (intro effect_intros) simp_all

lemma AdminAccess_returns: "yields (reconcileAdminAccess K sp c) (\<lambda>es r. returns r)"
  unfolding reconcileAdminAccess_def by (intro effect_intros) simp_all

lemma yields_bind_returns:
  "yields m (\<lambda>es r. returns r) \<Longrightarrow> (\<And>a. yields (f a) (\<lambda>es r. returns r)) \<Longrightarrow> yields (bind m f) (\<lambda>es r. returns r)"
  by (rule yields_bind [where P = "\<lambda>es r. returns r"]) simp_all

lemma updateRemote_returns: "yields (updateRemote K sp c existing desired) (\<lambda>es r. returns r)"
  by (rule yields_weaken [OF updateRemote_spec]) (erule conjunct2)

lemma withScript_returns: "yields (withScript K sp desired) (\<lambda>es r. returns r)"
  by (rule yields_weaken [OF withScript_spec]) (erule conjunct2)

lemma syncRemote_returns: "yields (syncRemote K b sp c existing desired) (\<lambda>es r. returns r)"
  unfolding syncRemote_def Let_def
  by (intro yields_bind_returns withScript_returns updateRemote_returns AdminAccess_returns yields_sum yields_pair
      yields_if yields_setPhase yields_patchStatus yields_ret) simp_all

lemma pausedStep_returns: "yields (pausedStep K sp) (\<lambda>es r. returns r)"
  unfolding pausedStep_def Let_def by (intro effect_intros) simp_all

lemma notReady_returns:
  "yields (bind (eventf warning ''InstanceNotReady'' ''Reconciling'' e) (\<lambda>_. setPhase K sp phasePending e (second 15)))
     (\<lambda>es r. returns r)"
  by (intro effect_intros) simp_all

lemma addFinalizer_returns: "yields (addFinalizerStep K sp) (\<lambda>es r. returns r)"
  unfolding addFinalizerStep_def Let_def by (intro effect_intros) simp_all

lemma handleDelete_returns: "yields (handleDelete K sp c) (\<lambda>es r. returns r)"
  unfolding handleDelete_def Let_def by (intro effect_intros) simp_all

lemma buildClient_panic:
  "yields (buildClient K sp) (\<lambda>es r. \<forall>p. r = Panicked p \<longrightarrow> es = [] \<and> spec_InstanceRef (sp_Spec sp) = None)"
  unfolding buildClient_def by (intro effect_intros) (auto simp: deref_def split: option.splits)

lemma returns_panicsLate: "returns r \<Longrightarrow> panicsLate K c es r"
  by (cases r) simp_all

lemma reconcileRemote_panicsLate: "yields (reconcileRemote K c sp) (panicsLate K c)"
proof -
  have tail: "yields (case x of
        Inl e \<Rightarrow> bind (eventf warning ''GetFailed'' ''Reconciling'' (''Failed to query WSO2IS: '' @ e))
          (\<lambda>_. setPhase K sp phaseFailed e (second 30))
      | Inr y \<Rightarrow> (case y of None \<Rightarrow> createRemote K sp sp c (applicationFromSpec sp)
          | Some existing \<Rightarrow> syncRemote K sp sp c existing (applicationFromSpec sp))) (\<lambda>es. panicsLate K c (es0 @ es))"
    for x es0
    by (rule yields_weaken [where P = "\<lambda>es r. returns r"])
      (auto intro!: yields_sum yields_option createRemote_returns syncRemote_returns yields_bind_eventf yields_setPhase
        simp: returns_panicsLate)
  show ?thesis
    unfolding reconcileRemote_def Let_def
    by (rule yields_bind_GetApplicationByName)
      (use tail tail [of _ "attempt K (listRequest c (spec_Name (sp_Spec sp)))
          @ attempt K (getRequest c (spec_Name (sp_Spec sp)))"] in \<open>simp_all add: panicSite_append\<close>)
qed

lemma reconcileApplication_panicsLate: "yields (reconcileApplication K sp c) (panicsLate K c)"
  unfolding reconcileApplication_def
  by (intro oauth2_careful.before saml_careful.before reconcileRemote_panicsLate)
    (auto simp: wantsSAML_def split: option.splits)

lemma readsOnly_preparatory: "readsOnly e \<Longrightarrow> preparatory c e"
  by (cases e) simp_all


section \<open>How many requests\<close>

primrec isHttp :: "event \<Rightarrow> bool" where
  "isHttp (GetSP n) = False"
| "isHttp (GetInstance n) = False"
| "isHttp (GetSecret n) = False"
| "isHttp (GetConfigMap n) = False"
| "isHttp (CreateSecret x) = False"
| "isHttp (UpdateSecret x) = False"
| "isHttp (UpdateSP x) = False"
| "isHttp (StatusUpdateSP x) = False"
| "isHttp (StatusPatchSP b x) = False"
| "isHttp (StatusUpdateInstance x) = False"
| "isHttp (Http q) = True"
| "isHttp (Recorded e) = False"

definition requests :: "event list \<Rightarrow> nat" where
  "requests es = length (filter isHttp es)"

definition atMost :: "nat \<Rightarrow> event list \<Rightarrow> 'a outcome \<Rightarrow> bool" where
  "atMost n es r \<longleftrightarrow> requests es \<le> n"

lemma requests_simps [simp]:
  "requests [] = 0" "requests (e # es) = (if isHttp e then Suc (requests es) else requests es)"
  "requests (es @ es') = requests es + requests es'"
  by (simp_all add: requests_def)

lemma requests_attempt [simp]:
  "requests (attempt K q) = of_bool (env_UrlError K (hr_URL q) = None)"
  "requests (fetchEvents K url) = of_bool (env_UrlError K url = None)"
  by (simp_all add: attempt_def fetchEvents_def)

lemma atMost_bind:
  fixes m :: "('w run, 'a) prog"
  assumes "yields m (atMost a)" "\<And>x. yields (f x) (atMost b)"
  shows "yields (bind m f) (atMost (a + b))"
proof (rule yields_bind [OF assms(1)])
  fix es and x :: 'a
  assume "atMost a es (Returned x)"
  then show "yields (f x) (\<lambda>es'. atMost (a + b) (es @ es'))"
    by (intro yields_weaken [OF assms(2)]) (simp add: atMost_def)
qed (simp add: atMost_def)

lemma atMost_mono: "yields m (atMost a) \<Longrightarrow> a \<le> b \<Longrightarrow> yields m (atMost b)"
  by (auto simp: atMost_def intro: yields_weaken)

lemma requests_none [simp]: "\<forall>e \<in> set es. \<not> isHttp e \<Longrightarrow> requests es = 0"
  by (simp add: requests_def filter_empty_conv)

lemma yields_bind_quiet:
  assumes "\<And>es a. requests es = 0 \<Longrightarrow> yields (f a) (\<lambda>es'. Q (es @ es'))"
  shows "yields (bind (upsertApplicationSecret K sp kv) f) Q"
proof (rule yields_bind_some [where P = "\<lambda>e. \<not> isHttp e"])
  show "yields (upsertApplicationSecret K sp kv) (\<lambda>es r. (\<forall>e \<in> set es. \<not> isHttp e) \<and> returns r)"
    unfolding upsertApplicationSecret_def Let_def by (intro effect_intros) auto
qed (simp add: assms)

lemma OAuth2_atMost: "yields (reconcileApplicationOAuth2 K sp c) (atMost 2)"
  unfolding reconcileApplicationOAuth2_def Let_def
  by (intro effect_intros yields_bind_quiet) (simp_all add: atMost_def)

lemma SAML_atMost: "yields (reconcileSAMLApplication K sp c) (atMost 4)"
  unfolding reconcileSAMLApplication_def Let_def
  by (intro effect_intros yields_bind_quiet) (simp_all add: atMost_def)

lemma populate_atMost: "yields (populateInboundSecrets K sp desired) (atMost 0)"
  unfolding populateInboundSecrets_def by (intro effect_intros) (simp_all add: atMost_def)

lemma yields_bind_atMost:
  assumes "yields m (atMost a)" "\<And>es x. requests es \<le> a \<Longrightarrow> yields (f x) (\<lambda>es'. Q (es @ es'))"
    and "\<And>es p. requests es \<le> a \<Longrightarrow> Q es (Panicked p)"
  shows "yields (bind m f) Q"
  by (rule yields_bind [OF assms(1)]) (auto simp: atMost_def intro: assms(2,3))

lemma updateRemote_atMost: "yields (updateRemote K sp c existing desired) (atMost 1)"
  unfolding updateRemote_def
  by (intro yields_pair yields_if yields_bind_atMost [OF populate_atMost] effect_intros) (simp_all add: atMost_def)

lemma withScript_atMost: "yields (withScript K sp desired) (atMost 0)"
  unfolding withScript_def by (intro effect_intros) (simp_all add: atMost_def)

lemma AdminAccess_atMost: "yields (reconcileAdminAccess K sp c) (atMost 3)"
proof -
  have search: "yields (GetAdminGroupMembership K c n) (atMost 1)" for n
    unfolding GetAdminGroupMembership_def getGroupInfo_def bind_assoc bind_ret
    by (intro effect_intros) (simp_all add: atMost_def)
  have join: "yields (JoinAdminToGroup K c g) (atMost 2)" for g
    unfolding JoinAdminToGroup_def joinUserToGroup_def getUserInfo_def bind_assoc bind_ret
    by (intro effect_intros) (simp_all add: atMost_def)
  show ?thesis
    unfolding reconcileAdminAccess_def
    by (intro yields_if yields_sum yields_pair yields_ret yields_bind_eventf yields_setPhase
        yields_bind_atMost [OF search] yields_bind_atMost [OF join]) (simp_all add: atMost_def)
qed

lemma syncRemote_atMost: "yields (syncRemote K base sp c existing desired) (atMost 4)"
  unfolding syncRemote_def Let_def
  by (intro yields_if yields_sum yields_pair yields_ret yields_setPhase yields_patchStatus
      yields_bind_atMost [OF withScript_atMost] yields_bind_atMost [OF updateRemote_atMost]
      yields_bind_atMost [OF AdminAccess_atMost]) (simp_all add: atMost_def)

lemma createRemote_atMost: "yields (createRemote K base sp c desired) (atMost 4)"
  unfolding createRemote_def by (intro effect_intros) (simp_all add: atMost_def)

lemma reconcileRemote_atMost: "yields (reconcileRemote K c sp) (atMost 6)"
proof -
  have find: "yields (GetApplicationByName K c n) (atMost 2)" for n
    by (rule yields_weaken [OF GetApplicationByName_spec]) (auto simp: atMost_def)
  have fail: "yields (bind (eventf warning ''GetFailed'' ''Reconciling'' (''Failed to query WSO2IS: '' @ e))
      (\<lambda>_. setPhase K sp phaseFailed e (second 30))) (atMost 4)" for e
    by (intro effect_intros) (simp_all add: atMost_def)
  have "yields (reconcileRemote K c sp) (atMost (2 + 4))"
    unfolding reconcileRemote_def Let_def
    by (intro atMost_bind find yields_sum yields_option fail createRemote_atMost syncRemote_atMost)
  then show ?thesis by simp
qed

lemma substep_atMost:
  assumes "yields (m sp) (atMost a)" "\<And>sp'. yields (rest sp') (atMost b)"
  shows "yields (substep enabled m sp rest) (atMost (a + b))"
proof -
  have "yields (case x of (sp', res) \<Rightarrow> if stops res then ret (sp', res) else rest sp') (atMost b)" for x
    by (intro yields_pair yields_if yields_ret assms(2)) (simp add: atMost_def)
  moreover have "yields (rest sp) (atMost (a + b))" by (rule atMost_mono [OF assms(2)]) simp
  ultimately show ?thesis unfolding substep_def by (intro yields_if atMost_bind assms(1))
qed

lemma reconcileApplication_atMost: "yields (reconcileApplication K sp c) (atMost 12)"
proof -
  have "yields (reconcileApplication K sp c) (atMost (2 + (4 + 6)))"
    unfolding reconcileApplication_def
    by (intro substep_atMost OAuth2_atMost SAML_atMost reconcileRemote_atMost)
  then show ?thesis by simp
qed

lemma reconcileSP_atMost: "yields (reconcileSP K sp) (atMost 12)"
proof -
  have build: "yields (buildClient K sp) (atMost 0)"
    unfolding buildClient_def by (intro effect_intros) (simp_all add: atMost_def)
  have delete: "yields (handleDelete K sp c) (atMost 12)" for c
    unfolding handleDelete_def Let_def by (intro effect_intros) (simp_all add: atMost_def)
  have add: "yields (addFinalizerStep K sp) (atMost 12)"
    unfolding addFinalizerStep_def Let_def by (intro effect_intros) (simp_all add: atMost_def)
  have wait: "yields (bind (eventf warning ''InstanceNotReady'' ''Reconciling'' e)
      (\<lambda>_. setPhase K sp phasePending e (second 15))) (atMost 12)" for e
    by (intro effect_intros) (simp_all add: atMost_def)
  have rest: "yields (afterClient K sp r) (atMost 12)" for r
    unfolding afterClient_def proceed_def
    by (intro yields_sum yields_if reconcileApplication_atMost delete add wait)
  have "yields (bind (buildClient K sp) (afterClient K sp)) (atMost 12)"
    using atMost_bind [OF build rest] by simp
  moreover have "yields (pausedStep K sp) (atMost 12)"
    by (rule yields_weaken [OF pausedStep_spec]) (simp add: atMost_def)
  ultimately show ?thesis unfolding reconcileSP_alt by (intro yields_if)
qed

text \<open>
  C15. A reconciliation is bounded: it sends at most twelve requests, whatever the servers answer, and
  it asks to be repeated after 0, 5, 15 or 30 seconds or 5 minutes, never together with an error (an
  error leaves the delay to the queue's back-off).
\<close>

theorem reconcile_is_bounded:
  "requests (events (Reconcile K req) s) \<le> 12
   \<and> (\<forall>res. fst (Reconcile K req s) = Returned res \<longrightarrow>
        RequeueAfter (fst res) \<in> {0, second 5, second 15, second 30, minute 5}
        \<and> (snd res = None \<or> RequeueAfter (fst res) = 0))"
proof (intro conjI allI impI)
  obtain r w where r: "env_GetSP K req (world s) = (r, w)" by (cases "env_GetSP K req (world s)")
  show "requests (events (Reconcile K req) s) \<le> 12"
  proof (cases r)
    case (Inr sp)
    then show ?thesis
      using events_Reconcile_found [of K req s sp w] r
        yields_events [OF reconcileSP_atMost [of K sp], of "afterGet req w s"] by (simp add: atMost_def)
  qed (use r in \<open>simp add: events_Reconcile\<close>)
next
  fix res assume "fst (Reconcile K req s) = Returned res"
  then have legal: "legalResult res" by (rule Reconcile_legalResult)
  then show "RequeueAfter (fst res) \<in> {0, second 5, second 15, second 30, minute 5}"
    by (simp add: legalResult_def)
  from legal show "snd res = None \<or> RequeueAfter (fst res) = 0"
    by (auto simp: legalResult_def noRequeue_def)
qed

end
