(* ===== verification/Wakeups.thy ===== *)
theory Wakeups
  imports Lifecycle
begin

text \<open>
  When a service provider is reconciled again. Each controller watches the objects of its own kind
  only, so a reconciliation that asks for no repetition and reports no error is the last one until
  somebody writes the object: nothing else, not even its instance or a secret, wakes it.
\<close>

section \<open>The end of a reconciliation\<close>

text \<open>
  The last write of a run that ends for good: an accepted update of the object, which causes the next
  reconciliation itself, or a refused status update, which nobody hears of.
\<close>

definition endsWith :: "'w env \<Rightarrow> event list \<Rightarrow> bool" where
  "endsWith K es \<longleftrightarrow> es \<noteq> [] \<and>
     (\<exists>w. (\<exists>x y. last es = UpdateSP x \<and> fst (env_UpdateSP K x w) = Inr y)
        \<or> (\<exists>x e. last es = StatusUpdateSP x \<and> fst (env_StatusUpdateSP K x w) = Inl e))"

definition wakes :: "'w env \<Rightarrow> event list \<Rightarrow> (WSO2SP \<times> goresult) outcome \<Rightarrow> bool" where
  "wakes K es r \<longleftrightarrow> (\<forall>sp'. r = Returned (sp', ok noRequeue) \<longrightarrow> endsWith K es)"

lemma endsWith_append: "endsWith K es' \<Longrightarrow> endsWith K (es @ es')"
  by (simp add: endsWith_def)

lemma wakes_simps [simp]:
  "wakes K es (Panicked p)" "wakes K es (Returned (sp, failed e))"
  "wakes K es (Returned (sp, ok (requeue d))) \<longleftrightarrow> d \<noteq> 0 \<or> endsWith K es"
  by (auto simp: wakes_def ok_def failed_def noRequeue_def requeue_def)

lemma wakes_stops: "stops res \<Longrightarrow> wakes K es (Returned (sp, res))"
  by (auto simp: wakes_def)

lemma wakes_bind:
  assumes "grows m" "\<And>a. yields (f a) (wakes K)"
  shows "yields (bind m f) (wakes K)"
  by (rule yields_bind [OF assms(1) [unfolded grows_def]])
    (auto intro!: yields_weaken [OF assms(2)] simp: wakes_def dest: endsWith_append)

lemma wakes_ret: "wakes K [] (Returned a) \<Longrightarrow> yields (ret a) (wakes K)"
  by (rule yields_ret)

lemma wakes_setPhase:
  assumes "d \<noteq> 0"
  shows "yields (setPhase K sp ph msg d) (wakes K)"
proof (rule yieldsI)
  fix s r t assume run: "setPhase K sp ph msg d s = (r, t)"
  show "\<exists>es. log t = log s @ es \<and> wakes K es r"
  proof (cases "status_Phase (sp_Status sp) = ph \<and> status_Message (sp_Status sp) = msg")
    case True
    with run assms show ?thesis by (auto simp: setPhase_def)
  next
    case False
    let ?x = "withPhase ph msg sp"
    obtain a w where w: "env_StatusUpdateSP K ?x (world s) = (a, w)" by (cases "env_StatusUpdateSP K ?x (world s)")
    have "endsWith K [StatusUpdateSP ?x]" if "a = Inl e" for e
      using that w by (auto simp: endsWith_def intro!: exI [of _ "world s"])
    with run False w assms show ?thesis
      unfolding setPhase_def kStatusUpdateSP_def call_def bind_def by (auto simp: wakes_def requeue_def noRequeue_def ok_def split: sum.splits)
  qed
qed

lemma wakes_report: "d \<noteq> 0 \<Longrightarrow> yields (bind (eventf t reason a m) (\<lambda>_. setPhase K sp ph msg d)) (wakes K)"
  by (rule wakes_bind [OF yields_grows [where Q = "\<lambda>es r. True"]]) (auto intro!: effect_intros wakes_setPhase)

section \<open>The steps\<close>

lemma wakes_patch: "yields (patchStatus K base sp (minute 5)) (wakes K)" "yields (patchStatus K base sp (second 5)) (wakes K)"
  by (intro effect_intros; simp)+

lemma wakes_update:
  "yields (bind (kUpdateSP K x) (\<lambda>r. ret (case r of Inl e \<Rightarrow> (x, failed (kerrText e)) | Inr y \<Rightarrow> (y, ok noRequeue)))) (wakes K)"
proof (rule yieldsI)
  fix s r t
  assume run: "bind (kUpdateSP K x) (\<lambda>r. ret (case r of Inl e \<Rightarrow> (x, failed (kerrText e)) | Inr y \<Rightarrow> (y, ok noRequeue))) s = (r, t)"
  obtain a w where w: "env_UpdateSP K x (world s) = (a, w)" by (cases "env_UpdateSP K x (world s)")
  have "endsWith K [UpdateSP x]" if "a = Inr y" for y
    using that w by (auto simp: endsWith_def intro!: exI [of _ "world s"])
  with run w show "\<exists>es. log t = log s @ es \<and> wakes K es r"
    unfolding kUpdateSP_def call_def bind_def by (auto simp: wakes_def ok_def failed_def noRequeue_def split: sum.splits)
qed

lemma wakes_delete: "yields (handleDelete K sp c) (wakes K)"
  unfolding handleDelete_def Let_def
proof (rule wakes_bind)
  show "grows (if status_ResourceID (sp_Status sp) \<noteq> []
      then bind (DeleteApplication K c (spec_Name (sp_Spec sp))) (\<lambda>r. case r of
          Inl e \<Rightarrow> eventf warning ''DeleteFailed'' ''Deleting'' (''Could not delete application from WSO2IS (may be orphaned): '' @ e)
        | Inr _ \<Rightarrow> eventf normal ''Deleted'' ''Deleting'' (''Application '' @ quote (spec_Name (sp_Spec sp)) @ '' deleted from WSO2IS''))
      else ret ())"
    unfolding grows_def by (intro effect_intros) simp_all
qed (rule wakes_update)

lemma wakes_finalizer: "yields (addFinalizerStep K sp) (wakes K)"
  unfolding addFinalizerStep_def Let_def by (rule wakes_update)

lemma grows_calls:
  "grows (CreateApplication K c a)" "grows (GetApplicationByName K c n)" "grows (withScript K sp d)"
  "grows (updateRemote K sp c e d)" "grows (reconcileAdminAccess K sp c)" "grows (reconcileApplicationOAuth2 K sp c)"
  "grows (reconcileSAMLApplication K sp c)" "grows (buildClient K sp)"
proof -
  show "grows (CreateApplication K c a)" by (rule yields_grows [OF write_specs(3)])
  show "grows (GetApplicationByName K c n)" by (rule yields_grows [OF GetApplicationByName_spec])
  show "grows (withScript K sp d)" by (rule yields_grows [OF withScript_spec])
  show "grows (updateRemote K sp c e d)" by (rule yields_grows [OF updateRemote_spec])
  show "grows (reconcileAdminAccess K sp c)" by (rule yields_grows [OF AdminAccess_contract])
  show "grows (reconcileApplicationOAuth2 K sp c)" by (rule yields_grows [OF OAuth2_contract])
  show "grows (reconcileSAMLApplication K sp c)" by (rule yields_grows [OF SAML_contract])
  show "grows (buildClient K sp)" by (rule yields_grows [OF buildClient_spec])
qed

lemma wakes_create: "yields (createRemote K base sp c d) (wakes K)"
  unfolding createRemote_def
  by (rule wakes_bind [OF grows_calls(1)])
    (auto intro!: yields_sum wakes_report wakes_bind [OF yields_grows [OF yields_eventf]] wakes_patch)

lemma wakes_sync: "yields (syncRemote K base sp c e d) (wakes K)"
  unfolding syncRemote_def Let_def
  by (rule wakes_bind [OF grows_calls(3)], rule yields_sum, rule wakes_setPhase, simp,
      rule wakes_bind [OF grows_calls(4)], rule yields_sum, rule wakes_setPhase, simp,
      rule wakes_bind [OF grows_calls(5)]) (auto intro!: yields_pair yields_if wakes_ret wakes_stops wakes_patch)

lemma wakes_remote: "yields (reconcileRemote K c sp) (wakes K)"
  unfolding reconcileRemote_def Let_def
  by (rule wakes_bind [OF grows_calls(2)])
    (auto intro!: yields_sum yields_option wakes_report wakes_create wakes_sync)

lemma wakes_substep:
  assumes "grows (m sp)" "\<And>x. yields (rest x) (wakes K)"
  shows "yields (substep enabled m sp rest) (wakes K)"
  unfolding substep_def
  by (rule yields_if, rule wakes_bind [OF assms(1)]) (auto intro!: yields_pair yields_if wakes_ret wakes_stops assms(2))

lemma wakes_application: "yields (reconcileApplication K sp c) (wakes K)"
  unfolding reconcileApplication_def
  by (intro wakes_substep wakes_remote grows_calls)

lemma wakes_reconcile: "\<not> skipReconcile APP sp \<Longrightarrow> yields (reconcileSP K sp) (wakes K)"
  unfolding reconcileSP_def
  by simp (rule wakes_bind [OF grows_calls(8)], auto intro!: yields_sum yields_if wakes_report wakes_delete wakes_finalizer
      wakes_application)

section \<open>The theorem\<close>

text \<open>
  C10. A reconciliation after which nothing is scheduled -- it asks for no repetition, and reports no
  error, for which the queue would repeat it -- found no object, or a paused one, or its last act was an update of the object that was accepted,
  whose event causes the next reconciliation, or was a status update that was refused. The last case
  is the only one in which an object that is neither absent nor paused is forgotten.
\<close>

theorem only_refused_status_is_forgotten:
  assumes "fst (Reconcile K req s) = Returned (ok noRequeue)"
  shows "(\<exists>e. fst (env_GetSP K req (world s)) = Inl e \<and> isNotFound e)
    \<or> (\<exists>sp. fst (env_GetSP K req (world s)) = Inr sp \<and> skipReconcile APP sp)
    \<or> (\<exists>w x y. last (events (Reconcile K req) s) = UpdateSP x \<and> fst (env_UpdateSP K x w) = Inr y)
    \<or> (\<exists>w x e. last (events (Reconcile K req) s) = StatusUpdateSP x \<and> fst (env_StatusUpdateSP K x w) = Inl e)"
proof -
  obtain g w where g: "env_GetSP K req (world s) = (g, w)" by (cases "env_GetSP K req (world s)")
  show ?thesis
  proof (cases g)
    case (Inl e)
    with g assms show ?thesis
      by (auto simp: Reconcile_def kGetSP_def call_def bind_def ok_def failed_def split: if_splits)
  next
    case (Inr sp)
    show ?thesis
    proof (cases "skipReconcile APP sp")
      case False
      let ?s = "afterGet req w s"
      obtain sp' where "fst (reconcileSP K sp ?s) = Returned (sp', ok noRequeue)"
        using assms g Inr
        by (auto simp: Reconcile_def kGetSP_def call_def bind_def afterGet_def split: prod.splits outcome.splits)
      then have "endsWith K (events (reconcileSP K sp) ?s)"
        using yields_events [OF wakes_reconcile [OF False, of K], of ?s] by (simp add: wakes_def)
      then show ?thesis
        using events_Reconcile_found [OF g [unfolded Inr]] by (auto simp: endsWith_def)
    qed (use g Inr in auto)
  qed
qed

end
