(* ===== verification/Conformance.thy ===== *)
theory Conformance
  imports StoredSpec InstanceFacts Lifecycle
begin

text \<open>
  What the controllers write against the schemas of the CRDs: the statuses against the enums, lengths,
  patterns and keys of their schemas, and the spec against the defaults of its own.
\<close>

section \<open>Statuses and their schemas\<close>

primrec conditionText :: "ConditionStatus \<Rightarrow> string" where
  "conditionText ConditionTrue = ''True''"
| "conditionText ConditionFalse = ''False''"
| "conditionText ConditionUnknown = ''Unknown''"

text \<open>A time is a text, the zero time null; \<open>T\<close> formats it.\<close>

definition json_Time :: "(int \<Rightarrow> string) \<Rightarrow> int \<Rightarrow> json" where
  "json_Time T t = (if t = 0 then JNull else JStr (T t))"

definition json_Condition :: "(int \<Rightarrow> string) \<Rightarrow> Condition \<Rightarrow> json" where
  "json_Condition T c = JObj (flds
     [(''type'', Some (JStr (cond_Type c))),
      (''status'', Some (JStr (conditionText (cond_Status c)))),
      (''observedGeneration'', optInt (cond_ObservedGeneration c)),
      (''lastTransitionTime'', Some (json_Time T (cond_LastTransitionTime c))),
      (''reason'', Some (JStr (cond_Reason c))),
      (''message'', Some (JStr (cond_Message c)))])"

definition json_WSO2ISInstanceStatus :: "(int \<Rightarrow> string) \<Rightarrow> WSO2ISInstanceStatus \<Rightarrow> json" where
  "json_WSO2ISInstanceStatus T s = JObj (flds
     [(''ready'', optBool (istatus_Ready s)),
      (''message'', optStr (istatus_Message s)),
      (''phase'', optStr (istatus_Phase s)),
      (''conditions'', optSlice (json_Condition T) (istatus_Conditions s))])"

definition json_WSO2SPStatus :: "(int \<Rightarrow> string) \<Rightarrow> WSO2SPStatus \<Rightarrow> json" where
  "json_WSO2SPStatus T s = JObj (flds
     [(''id'', optInt (status_ID s)),
      (''resourceID'', optStr (status_ResourceID s)),
      (''phase'', optStr (status_Phase s)),
      (''adminCanView'', optBool (status_AdminCanView s)),
      (''message'', optStr (status_Message s)),
      (''conditions'', optSlice (json_Condition T) (status_Conditions s))])"

text \<open>The patterns of a reason and of the type of a condition.\<close>

definition isLetter :: "char \<Rightarrow> bool" where
  "isLetter c \<longleftrightarrow> 65 \<le> byte c \<and> byte c \<le> 90 \<or> 97 \<le> byte c \<and> byte c \<le> 122"

definition isLowerAlnum :: "char \<Rightarrow> bool" where
  "isLowerAlnum c \<longleftrightarrow> 97 \<le> byte c \<and> byte c \<le> 122 \<or> 48 \<le> byte c \<and> byte c \<le> 57"

definition isAlnum :: "char \<Rightarrow> bool" where
  "isAlnum c \<longleftrightarrow> isLetter c \<or> 48 \<le> byte c \<and> byte c \<le> 57"

definition reasonOk :: "string \<Rightarrow> bool" where
  "reasonOk s \<longleftrightarrow> s \<noteq> [] \<and> length s \<le> 1024 \<and> isLetter (hd s)
     \<and> list_all (\<lambda>c. isAlnum c \<or> c \<in> set ''_,:'') (tl s)
     \<and> (isAlnum (last s) \<or> last s = CHR ''_'')"

definition labelOk :: "string \<Rightarrow> bool" where
  "labelOk s \<longleftrightarrow> s \<noteq> [] \<and> isLowerAlnum (hd s) \<and> isLowerAlnum (last s) \<and> list_all (\<lambda>c. isLowerAlnum c \<or> c = CHR ''-'') s"

definition nameOk :: "string \<Rightarrow> bool" where
  "nameOk s \<longleftrightarrow> s \<noteq> [] \<and> isAlnum (hd s) \<and> isAlnum (last s) \<and> list_all (\<lambda>c. isAlnum c \<or> c \<in> set ''-_.'') s"

definition typeOk :: "string \<Rightarrow> bool" where
  "typeOk s \<longleftrightarrow> length s \<le> 316 \<and> (case split_byte (CHR ''/'') s of
     [n] \<Rightarrow> nameOk n
   | [p, n] \<Rightarrow> list_all labelOk (split_byte (CHR ''.'') p) \<and> nameOk n
   | _ \<Rightarrow> False)"

definition maxMessage :: nat where
  "maxMessage = 32768"

definition conditionS :: schema where
  "conditionS = ObjectS
     [(''lastTransitionTime'', stringS, None),
      (''message'', StringS (\<lambda>s. length (runes s) \<le> maxMessage), None),
      (''observedGeneration'', IntegerS (\<lambda>i. 0 \<le> i), None),
      (''reason'', StringS reasonOk, None),
      (''status'', StringS (\<lambda>s. s \<in> {''True'', ''False'', ''Unknown''}), None),
      (''type'', StringS typeOk, None)]
     [''lastTransitionTime'', ''message'', ''reason'', ''status'', ''type'']"

definition instanceStatusS :: schema where
  "instanceStatusS = ObjectS
     [(''conditions'', ArrayS conditionS (Some ''type''), None),
      (''message'', stringS, None),
      (''phase'', StringS (\<lambda>s. s \<in> {''Pending'', ''Ready'', ''Failed''}), None),
      (''ready'', BooleanS, None)] []"

definition spStatusS :: schema where
  "spStatusS = ObjectS
     [(''adminCanView'', BooleanS, None),
      (''conditions'', ArrayS conditionS (Some ''type''), None),
      (''id'', integerS, None),
      (''message'', stringS, None),
      (''phase'', StringS (\<lambda>s. s \<in> {''Pending'', ''Ready'', ''Failed'', ''Paused''}), None),
      (''resourceID'', stringS, None)] []"

section \<open>When a status conforms\<close>

definition conditionOk :: "Condition \<Rightarrow> bool" where
  "conditionOk c \<longleftrightarrow> cond_LastTransitionTime c \<noteq> 0 \<and> length (runes (cond_Message c)) \<le> maxMessage
     \<and> 0 \<le> sint (cond_ObservedGeneration c) \<and> reasonOk (cond_Reason c) \<and> typeOk (cond_Type c)"

definition conditionsOk :: "Condition slice \<Rightarrow> bool" where
  "conditionsOk cs \<longleftrightarrow> list_all conditionOk (elems cs) \<and> distinct (map cond_Type (elems cs))"

lemma admits_condition: "admits conditionS (json_Condition T c) = conditionOk c"
  unfolding conditionS_def json_Condition_def conditionOk_def
  by (cases "cond_Status c")
    (auto simp: admits_object json_Time_def admitsField_def [of stringS "Some JNull"] simp del: admits.simps(4,5) flds.simps)

lemma key_condition: "keyOf ''type'' (json_Condition T c) = Some (JStr (cond_Type c))"
  by (simp add: json_Condition_def keyOf_def valueOf_flds del: flds.simps)

lemma admits_conditions:
  "admitsField (ArrayS conditionS (Some ''type'')) (optSlice (json_Condition T) cs) = conditionsOk cs"
proof -
  have "distinct (map (\<lambda>c. Some (JStr (cond_Type c))) xs) = distinct (map cond_Type xs)" for xs
    by (induction xs) auto
  from this [of "elems cs"] show ?thesis
    by (simp add: admitsField_slice admits_condition key_condition conditionsOk_def)
qed

lemma admits_instanceStatus:
  "admits instanceStatusS (json_WSO2ISInstanceStatus T s) \<longleftrightarrow>
     conditionsOk (istatus_Conditions s) \<and> istatus_Phase s \<in> {[], ''Pending'', ''Ready'', ''Failed''}"
  unfolding instanceStatusS_def json_WSO2ISInstanceStatus_def
  by (auto simp: admits_object admits_conditions simp del: admits.simps(4,5) flds.simps)

lemma admits_spStatus:
  "admits spStatusS (json_WSO2SPStatus T s) \<longleftrightarrow>
     conditionsOk (status_Conditions s) \<and> status_Phase s \<in> {[], ''Pending'', ''Ready'', ''Failed'', ''Paused''}"
  unfolding spStatusS_def json_WSO2SPStatus_def
  by (auto simp: admits_object admits_conditions simp del: admits.simps(4,5) flds.simps)

section \<open>The controllers keep them\<close>

text \<open>Setting a condition keeps a list of conditions in order exactly if the new one is.\<close>

lemma conditionOk_time: "conditionOk (c\<lparr>cond_LastTransitionTime := t\<rparr>) \<longleftrightarrow> t \<noteq> 0 \<and> (t \<noteq> 0 \<longrightarrow> conditionOk (c\<lparr>cond_LastTransitionTime := 1\<rparr>))"
  by (auto simp: conditionOk_def)

lemma setCondition_conforms:
  assumes "conditionsOk cs" "now \<noteq> 0"
  shows "conditionsOk (setCondition now cs new) \<longleftrightarrow> conditionOk (new\<lparr>cond_LastTransitionTime := 1\<rparr>)"
proof -
  let ?new = "new\<lparr>cond_LastTransitionTime := now\<rparr>"
  have distinct: "distinct (map cond_Type (elems (setCondition now cs new)))"
    using assms(1) setCondition_map [of "[]" now cs new] by (simp add: conditionsOk_def)
  have "list_all conditionOk (elems (setCondition now cs new)) \<longleftrightarrow> conditionOk (new\<lparr>cond_LastTransitionTime := 1\<rparr>)"
  proof (cases "replaceCondition ?new (elems cs)")
    case None
    then show ?thesis
      using assms by (simp add: setCondition_def conditionsOk_def) (simp add: conditionOk_def)
  next
    case (Some cs')
    from replaceCondition_Some [OF this] obtain pre old post where
      c: "elems cs = pre @ old # post"
      "cs' = pre @ (if cond_Status old = cond_Status new
          then new\<lparr>cond_LastTransitionTime := cond_LastTransitionTime old\<rparr> else ?new) # post"
      by auto
    have "list_all conditionOk pre" "list_all conditionOk post" "cond_LastTransitionTime old \<noteq> 0"
      using assms(1) c(1) by (simp_all add: conditionsOk_def conditionOk_def)
    then show ?thesis
      using assms(2) c(2) Some by (auto simp: setCondition_def conditionOk_def)
  qed
  with distinct show ?thesis by (simp add: conditionsOk_def)
qed

lemma phase_texts: "reasonOk ''Ready''" "reasonOk ''Failed''" "typeOk ''Available''"
  by (simp_all add: reasonOk_def typeOk_def nameOk_def isLetter_def isAlnum_def byte_def)

lemma withInstancePhase_conforms:
  assumes "admits instanceStatusS (json_WSO2ISInstanceStatus T (inst_Status inst))"
    and "0 \<le> sint (om_Generation (inst_Meta inst))" "now \<noteq> 0" "phase \<in> {''Ready'', ''Failed''}"
  shows "admits instanceStatusS (json_WSO2ISInstanceStatus T (inst_Status (withInstancePhase now phase msg inst)))
    \<longleftrightarrow> length (runes msg) \<le> maxMessage"
proof -
  have "conditionOk ((availableCondition inst phase msg)\<lparr>cond_LastTransitionTime := 1\<rparr>) \<longleftrightarrow> length (runes msg) \<le> maxMessage"
    using assms(2,4) phase_texts by (auto simp: conditionOk_def availableCondition_def)
  moreover have "conditionsOk (istatus_Conditions (inst_Status inst))" using assms(1) by (simp add: admits_instanceStatus)
  ultimately show ?thesis
    using assms(3,4) by (auto simp: admits_instanceStatus withInstancePhase_def setCondition_conforms)
qed

text \<open>
  C9. The statuses conform to their schemas. If the status an instance controller has read conforms,
  the one it writes does too exactly if its message has at most 32768 characters: enum of the phase,
  pattern of the reason, one condition for each type. The status a service provider controller
  writes conforms whenever the one it has read does.
\<close>

theorem statuses_conform:
  assumes "finalizer_laws K" "\<And>w. env_Now K w \<noteq> 0"
  shows "(fst (env_GetInstance K req (world s)) = Inr inst \<and> 0 \<le> sint (om_Generation (inst_Meta inst))
      \<and> admits instanceStatusS (json_WSO2ISInstanceStatus T (inst_Status inst))
      \<and> StatusUpdateInstance x \<in> set (events (reconcileInstance K req) s)
      \<longrightarrow> (admits instanceStatusS (json_WSO2ISInstanceStatus T (inst_Status x))
        \<longleftrightarrow> length (runes (istatus_Message (inst_Status x))) \<le> maxMessage))
    \<and> (fst (env_GetSP K req (world s)) = Inr sp \<and> admits spStatusS (json_WSO2SPStatus T (sp_Status sp))
      \<and> (StatusUpdateSP y \<in> set (events (Reconcile K req) s) \<or> StatusPatchSP b y \<in> set (events (Reconcile K req) s))
      \<longrightarrow> admits spStatusS (json_WSO2SPStatus T (sp_Status y)))"
proof (intro conjI impI; elim conjE)
  assume inst: "fst (env_GetInstance K req (world s)) = Inr inst" "0 \<le> sint (om_Generation (inst_Meta inst))"
    "admits instanceStatusS (json_WSO2ISInstanceStatus T (inst_Status inst))"
    "StatusUpdateInstance x \<in> set (events (reconcileInstance K req) s)"
  obtain w where g: "env_GetInstance K req (world s) = (Inr inst, w)" using inst(1) by (metis prod.collapse)
  obtain r w' where r: "env_GetSecret K (credentialsKey inst) w = (r, w')"
    by (cases "env_GetSecret K (credentialsKey inst) w")
  obtain es res where es: "events (reconcileInstance K req) s =
      [GetInstance req, GetSecret (credentialsKey inst)] @
      (case pings K inst r of None \<Rightarrow> [] | Some c \<Rightarrow> attempt K (pingRequest c)) @ es"
    "concludes K inst (if reachable K inst r w' then ''Ready'' else ''Failed'') es res"
    using reconcileInstance_concludes [OF g r] by blast
  have "StatusUpdateInstance x \<in> set (instanceWrites es)"
    using inst(4) unfolding es(1) by (auto simp: instanceWrites_def attempt_def split: option.splits)
  then obtain v phase msg where x: "x = withInstancePhase (env_Now K v) phase msg inst" "phase \<in> {''Ready'', ''Failed''}"
    using es(2) by (auto simp: concludes_def split: if_splits)
  have "istatus_Message (inst_Status x) = msg" by (simp add: x(1) withInstancePhase_def)
  with withInstancePhase_conforms [OF inst(3,2) assms(2) x(2)] x(1)
  show "admits instanceStatusS (json_WSO2ISInstanceStatus T (inst_Status x))
      \<longleftrightarrow> length (runes (istatus_Message (inst_Status x))) \<le> maxMessage" by simp
next
  assume sp: "fst (env_GetSP K req (world s)) = Inr sp" "admits spStatusS (json_WSO2SPStatus T (sp_Status sp))"
    "StatusUpdateSP y \<in> set (events (Reconcile K req) s) \<or> StatusPatchSP b y \<in> set (events (Reconcile K req) s)"
  obtain w where g: "env_GetSP K req (world s) = (Inr sp, w)" using sp(1) by (metis prod.collapse)
  from sp(3) have "sameSpec y sp \<and> status_Phase (sp_Status y) \<in> legalPhases"
    using reconcile_runWrite [OF assms(1) g] by fastforce
  then show "admits spStatusS (json_WSO2SPStatus T (sp_Status y))"
    using sp(2) by (auto simp: admits_spStatus sameSpec_def legalPhases_def phases)
qed

section \<open>The spec after an update\<close>

text \<open>
  C8. When the operator updates a service provider to add or remove its finalizer, it sends the spec
  it has read, and what is stored is not what was read: the server refuses a spec without a reference
  to an instance or with OAuth2 settings without a list of grant types or with an unknown token
  binding, and fills in every default for a field that Go leaves out because it is zero. In
  particular a user's \<^verbatim>\<open>pkcePlain: false\<close> becomes \<^verbatim>\<open>true\<close>, and every later reconciliation
  asks for plain PKCE challenges to be allowed.
\<close>

theorem update_fills_defaults:
  assumes "finalizer_laws K" "fst (env_GetSP K req (world s)) = Inr sp"
    and "UpdateSP x \<in> set (events (Reconcile K req) s)"
  shows "storeSpec K (sp_Spec x) = (if refusedSpec (sp_Spec sp) then None else Some (filledSpec (sp_Spec sp)))
    \<and> (\<forall>y d. storeSpec K (sp_Spec x) = Some (sp_Spec y) \<longrightarrow> oauth2FromSpec y = Returned d \<longrightarrow> oauth_PKCEPlain d)"
proof -
  obtain w where g: "env_GetSP K req (world s) = (Inr sp, w)" using assms(2) by (metis prod.collapse)
  have "UpdateSP x \<in> set (events (reconcileSP K sp) (afterGet req w s))"
    using assms(3) events_Reconcile_found [OF g] by simp
  then have "ownWrite sp (UpdateSP x)"
    by (cases rule: reconcileSP_cases)
      (auto simp: finalizer_writes [OF assms(1)] simp del: ownWrite.simps(7) intro: readsOnly_ownWrite allowed_ownWrite)
  then have "sp_Spec x = sp_Spec sp" by simp
  moreover have "oauth_PKCEPlain d" if "sp_Spec y = filledSpec (sp_Spec sp)" "oauth2FromSpec y = Returned d" for y d
    using that by (cases "spec_OAuth2 (sp_Spec sp)")
      (auto simp: oauth2FromSpec_def deref_def filledSpec_def filledOAuth2_def)
  ultimately show ?thesis by (auto simp: storeSpec_eq)
qed

end
