(* ===== verification/Memory.thy ===== *)
theory Memory
  imports ApiTypes
begin

text \<open>
  Memory, for the generated deep copies: there the question is which objects share memory, so the
  values of the other theories do not do. Every Go type that is pointed to, or is the element of a
  slice, has its own store: a block address and an index into the block give a cell. A pointer is
  such a pair, a slice is a window of a block, and a struct in memory is a record whose pointers
  and slices are those. Blocks below \<open>lim\<close> are allocated.

  \<^verbatim>\<open>metav1\<close> is not part of the repository: object and list metadata are of type \<open>'m\<close> and \<open>'l\<close>, and
  what they point to is in the store \<open>foreign_at\<close>, with cells of type \<open>'f\<close>.
\<close>

section \<open>Structs in memory\<close>

type_synonym ptr = "nat \<times> nat"

datatype window = Window (win_block: nat) (win_off: nat) (win_len: nat)

record hStep =
  hs_Step :: goint
  hs_LocalAuthenticators :: "window option"
  hs_FederatedIDP :: string
  hs_FederatedAuthenticator :: string

record hOAuth2 =
  ho_CallbackURL :: string
  ho_GrantTypes :: "window option"
  ho_PKCEMandatory :: bool
  ho_PKCEPlain :: bool
  ho_PublicClient :: bool
  ho_TokenBinding :: string
  ho_Audiences :: "window option"
  ho_ScopeValidators :: "window option"
  ho_RefreshTokenExpiry :: goint
  ho_AccessTokenExpiry :: goint

record hSpec =
  hp_InstanceRef :: "ptr option"
  hp_Name :: string
  hp_Claims :: "window option"
  hp_Description :: string
  hp_SubjectClaimURI :: string
  hp_SAML :: "ptr option"
  hp_OAuth2 :: "ptr option"
  hp_AuthenticationSteps :: "window option"
  hp_AuthenticationScript :: "ptr option"
  hp_AlwaysSendBackAuthenticatedListOfIDPs :: bool
  hp_EnableAuthorization :: bool
  hp_SkipConsent :: bool
  hp_SkipLogoutConsent :: bool
  hp_UseTenantInSub :: bool
  hp_UseUserstoreInSub :: bool
  hp_UseUserstoreInRoles :: bool
  hp_StepForSubject :: goint
  hp_StepForAttributes :: goint

record hStatus =
  ht_ID :: goint
  ht_ResourceID :: string
  ht_Phase :: string
  ht_AdminCanView :: bool
  ht_Message :: string
  ht_Conditions :: "window option"

record hInstanceStatus =
  hi_Ready :: bool
  hi_Message :: string
  hi_Phase :: string
  hi_Conditions :: "window option"

record TypeMeta =
  tm_Kind :: string
  tm_APIVersion :: string

record 'm hSP =
  hsp_TypeMeta :: TypeMeta
  hsp_Meta :: 'm
  hsp_Spec :: hSpec
  hsp_Status :: hStatus

record 'm hInstance =
  hin_TypeMeta :: TypeMeta
  hin_Meta :: 'm
  hin_Spec :: WSO2ISInstanceSpec
  hin_Status :: hInstanceStatus

record 'l hList =
  hl_TypeMeta :: TypeMeta
  hl_Meta :: 'l
  hl_Items :: "window option"

section \<open>Memory\<close>

record ('m, 'l, 'f) mem =
  lim :: nat
  strings_at :: "nat \<Rightarrow> nat \<Rightarrow> string"
  claims_at :: "nat \<Rightarrow> nat \<Rightarrow> V1_Claim"
  refs_at :: "nat \<Rightarrow> nat \<Rightarrow> LocalObjectReference"
  samls_at :: "nat \<Rightarrow> nat \<Rightarrow> V1_SAMLConfig"
  conditions_at :: "nat \<Rightarrow> nat \<Rightarrow> Condition"
  steps_at :: "nat \<Rightarrow> nat \<Rightarrow> hStep"
  oauths_at :: "nat \<Rightarrow> nat \<Rightarrow> hOAuth2"
  specs_at :: "nat \<Rightarrow> nat \<Rightarrow> hSpec"
  statuses_at :: "nat \<Rightarrow> nat \<Rightarrow> hStatus"
  sps_at :: "nat \<Rightarrow> nat \<Rightarrow> 'm hSP"
  splists_at :: "nat \<Rightarrow> nat \<Rightarrow> 'l hList"
  ispecs_at :: "nat \<Rightarrow> nat \<Rightarrow> WSO2ISInstanceSpec"
  istatuses_at :: "nat \<Rightarrow> nat \<Rightarrow> hInstanceStatus"
  instances_at :: "nat \<Rightarrow> nat \<Rightarrow> 'm hInstance"
  instancelists_at :: "nat \<Rightarrow> nat \<Rightarrow> 'l hList"
  foreign_at :: "nat \<Rightarrow> 'f"

text \<open>The same contents at a block.\<close>

definition same_at :: "nat \<Rightarrow> ('m, 'l, 'f) mem \<Rightarrow> ('m, 'l, 'f) mem \<Rightarrow> bool" where
  "same_at b h h' \<longleftrightarrow>
     strings_at h b = strings_at h' b \<and> claims_at h b = claims_at h' b \<and> refs_at h b = refs_at h' b
   \<and> samls_at h b = samls_at h' b \<and> conditions_at h b = conditions_at h' b \<and> steps_at h b = steps_at h' b
   \<and> oauths_at h b = oauths_at h' b \<and> specs_at h b = specs_at h' b \<and> statuses_at h b = statuses_at h' b
   \<and> sps_at h b = sps_at h' b \<and> splists_at h b = splists_at h' b \<and> ispecs_at h b = ispecs_at h' b
   \<and> istatuses_at h b = istatuses_at h' b \<and> instances_at h b = instances_at h' b
   \<and> instancelists_at h b = instancelists_at h' b \<and> foreign_at h b = foreign_at h' b"

text \<open>Later memories: more is allocated, what was allocated is unchanged.\<close>

definition extends :: "('m, 'l, 'f) mem \<Rightarrow> ('m, 'l, 'f) mem \<Rightarrow> bool" where
  "extends h h' \<longleftrightarrow> lim h \<le> lim h' \<and> (\<forall>b < lim h. same_at b h h')"

lemma same_at_refl [simp]: "same_at b h h"
  by (simp add: same_at_def)

lemma same_at_sym: "same_at b h h' \<Longrightarrow> same_at b h' h"
  by (simp add: same_at_def)

lemma same_at_trans: "same_at b h h' \<Longrightarrow> same_at b h' h'' \<Longrightarrow> same_at b h h''"
  by (simp add: same_at_def)

lemma extends_refl [simp]: "extends h h"
  by (simp add: extends_def)

lemma extends_trans: "extends h h' \<Longrightarrow> extends h' h'' \<Longrightarrow> extends h h''"
  unfolding extends_def by (meson le_trans less_le_trans same_at_trans)

section \<open>Stores\<close>

text \<open>The interface of a store: reading and updating it, and what an update leaves alone.\<close>

locale store =
  fixes at :: "('m, 'l, 'f) mem \<Rightarrow> nat \<Rightarrow> nat \<Rightarrow> 'c"
    and upd :: "((nat \<Rightarrow> nat \<Rightarrow> 'c) \<Rightarrow> nat \<Rightarrow> nat \<Rightarrow> 'c) \<Rightarrow> ('m, 'l, 'f) mem \<Rightarrow> ('m, 'l, 'f) mem"
  assumes at_upd: "at (upd f h) = f (at h)"
    and lim_upd: "lim (upd f h) = lim h"
    and same_upd: "f (at h) b = at h b \<Longrightarrow> same_at b h (upd f h)"
    and at_same: "same_at b h h' \<Longrightarrow> at h b = at h' b"
    and at_lim: "at (h\<lparr>lim := n\<rparr>) = at h"

text \<open>\<^verbatim>\<open>new(T)\<close> and \<^verbatim>\<open>make([]T, n)\<close>: a block of zero values.\<close>

definition newBlock ::
    "(((nat \<Rightarrow> nat \<Rightarrow> 'c) \<Rightarrow> nat \<Rightarrow> nat \<Rightarrow> 'c) \<Rightarrow> ('m, 'l, 'f) mem \<Rightarrow> ('m, 'l, 'f) mem)
     \<Rightarrow> 'c \<Rightarrow> ('m, 'l, 'f) mem \<Rightarrow> nat \<times> ('m, 'l, 'f) mem" where
  "newBlock upd zero h = (lim h, upd (\<lambda>s. s(lim h := \<lambda>_. zero)) (h\<lparr>lim := lim h + 1\<rparr>))"

definition makeSlice ::
    "(((nat \<Rightarrow> nat \<Rightarrow> 'c) \<Rightarrow> nat \<Rightarrow> nat \<Rightarrow> 'c) \<Rightarrow> ('m, 'l, 'f) mem \<Rightarrow> ('m, 'l, 'f) mem)
     \<Rightarrow> 'c \<Rightarrow> nat \<Rightarrow> ('m, 'l, 'f) mem \<Rightarrow> window \<times> ('m, 'l, 'f) mem" where
  "makeSlice upd zero n h = (case newBlock upd zero h of (b, h') \<Rightarrow> (Window b 0 n, h'))"

definition load :: "(('m, 'l, 'f) mem \<Rightarrow> nat \<Rightarrow> nat \<Rightarrow> 'c) \<Rightarrow> ('m, 'l, 'f) mem \<Rightarrow> ptr \<Rightarrow> 'c" where
  "load at h p = at h (fst p) (snd p)"

definition save ::
    "(((nat \<Rightarrow> nat \<Rightarrow> 'c) \<Rightarrow> nat \<Rightarrow> nat \<Rightarrow> 'c) \<Rightarrow> ('m, 'l, 'f) mem \<Rightarrow> ('m, 'l, 'f) mem)
     \<Rightarrow> ptr \<Rightarrow> 'c \<Rightarrow> ('m, 'l, 'f) mem \<Rightarrow> ('m, 'l, 'f) mem" where
  "save upd p c h = upd (\<lambda>s. s(fst p := (s (fst p))(snd p := c))) h"

text \<open>The pointer \<^verbatim>\<open>&s[i]\<close>, and the elements of a slice.\<close>

definition elemPtr :: "window \<Rightarrow> nat \<Rightarrow> ptr" where
  "elemPtr w i = (win_block w, win_off w + i)"

definition contents :: "(('m, 'l, 'f) mem \<Rightarrow> nat \<Rightarrow> nat \<Rightarrow> 'c) \<Rightarrow> ('m, 'l, 'f) mem \<Rightarrow> window \<Rightarrow> 'c list" where
  "contents at h w = map (\<lambda>i. load at h (elemPtr w i)) [0..<win_len w]"

text \<open>\<^verbatim>\<open>copy(dst, src)\<close>: as many elements as both have, read before any is written.\<close>

definition goCopy ::
    "(((nat \<Rightarrow> nat \<Rightarrow> 'c) \<Rightarrow> nat \<Rightarrow> nat \<Rightarrow> 'c) \<Rightarrow> ('m, 'l, 'f) mem \<Rightarrow> ('m, 'l, 'f) mem)
     \<Rightarrow> window \<Rightarrow> window \<Rightarrow> ('m, 'l, 'f) mem \<Rightarrow> ('m, 'l, 'f) mem" where
  "goCopy upd dst src h = upd (\<lambda>s. s(win_block dst := (\<lambda>i.
     if win_off dst \<le> i \<and> i < win_off dst + min (win_len dst) (win_len src)
     then s (win_block src) (win_off src + (i - win_off dst)) else s (win_block dst) i))) h"

context store
begin

lemma newBlock_facts:
  assumes "newBlock upd zero h = (b, h')"
  shows "b = lim h" "lim h' = lim h + 1" "extends h h'"
proof -
  have h': "b = lim h" "h' = upd (\<lambda>s. s(lim h := \<lambda>_. zero)) (h\<lparr>lim := lim h + 1\<rparr>)"
    using assms by (auto simp: newBlock_def)
  then show "b = lim h" "lim h' = lim h + 1" by (simp_all add: lim_upd)
  have "same_at c h h'" if "c < lim h" for c
  proof -
    have "same_at c h (h\<lparr>lim := lim h + 1\<rparr>)" by (simp add: same_at_def)
    moreover have "same_at c (h\<lparr>lim := lim h + 1\<rparr>) h'"
      unfolding h' by (rule same_upd) (use that in simp)
    ultimately show ?thesis by (rule same_at_trans)
  qed
  then show "extends h h'" by (simp add: extends_def lim_upd h')
qed

text \<open>Writing to a block that was not allocated in \<open>h\<close> leaves an extension of \<open>h\<close>.\<close>

lemma extends_upd:
  assumes "extends h h'" "\<And>s c. c < lim h \<Longrightarrow> f s c = s c"
  shows "extends h (upd f h')"
  unfolding extends_def lim_upd
proof (intro conjI allI impI)
  show "lim h \<le> lim h'" using assms(1) by (simp add: extends_def)
  fix b assume b: "b < lim h"
  then have "same_at b h h'" using assms(1) by (simp add: extends_def)
  moreover have "same_at b h' (upd f h')" by (rule same_upd) (rule assms(2) [OF b])
  ultimately show "same_at b h (upd f h')" by (rule same_at_trans)
qed

lemma extends_save: "extends h h' \<Longrightarrow> lim h \<le> fst p \<Longrightarrow> extends h (save upd p c h')"
  unfolding save_def by (rule extends_upd) auto

lemma lim_save [simp]: "lim (save upd p c h) = lim h"
  by (simp add: save_def lim_upd)

lemma load_save: "load at (save upd p c h) q = (if p = q then c else load at h q)"
  by (cases p; cases q) (auto simp: load_def save_def at_upd)

lemma same_at_save: "b \<noteq> fst p \<Longrightarrow> same_at b h (save upd p c h)"
  unfolding save_def by (rule same_upd) simp

lemma load_same: "same_at (fst p) h h' \<Longrightarrow> load at h' p = load at h p"
  using at_same by (fastforce simp: load_def)

lemma contents_same: "same_at (win_block w) h h' \<Longrightarrow> contents at h' w = contents at h w"
  by (simp add: contents_def elemPtr_def load_same)

end

interpretation strings: store strings_at strings_at_update
  by unfold_locales (simp_all add: same_at_def)
interpretation claims: store claims_at claims_at_update
  by unfold_locales (simp_all add: same_at_def)
interpretation refs: store refs_at refs_at_update
  by unfold_locales (simp_all add: same_at_def)
interpretation samls: store samls_at samls_at_update
  by unfold_locales (simp_all add: same_at_def)
interpretation conditions: store conditions_at conditions_at_update
  by unfold_locales (simp_all add: same_at_def)
interpretation steps: store steps_at steps_at_update
  by unfold_locales (simp_all add: same_at_def)
interpretation oauths: store oauths_at oauths_at_update
  by unfold_locales (simp_all add: same_at_def)
interpretation specs: store specs_at specs_at_update
  by unfold_locales (simp_all add: same_at_def)
interpretation statuses: store statuses_at statuses_at_update
  by unfold_locales (simp_all add: same_at_def)
interpretation sps: store sps_at sps_at_update
  by unfold_locales (simp_all add: same_at_def)
interpretation splists: store splists_at splists_at_update
  by unfold_locales (simp_all add: same_at_def)
interpretation ispecs: store ispecs_at ispecs_at_update
  by unfold_locales (simp_all add: same_at_def)
interpretation istatuses: store istatuses_at istatuses_at_update
  by unfold_locales (simp_all add: same_at_def)
interpretation instances: store instances_at instances_at_update
  by unfold_locales (simp_all add: same_at_def)
interpretation instancelists: store instancelists_at instancelists_at_update
  by unfold_locales (simp_all add: same_at_def)

end
