(* ===== verification/Copying.thy ===== *)
theory Copying
  imports Memory
begin

text \<open>
  Copies in general: what it means that a copy is deep, the ways the generated code copies a pointer
  or a slice, and why each of them gives a deep copy when the copies of its elements are deep.
\<close>

section \<open>Deep copies\<close>

text \<open>
  A representation in memory is read by a function \<open>val\<close>; \<open>refs\<close> are the blocks it reaches, and the
  contents of those determine both.
\<close>

definition framed :: "(('m, 'l, 'f) mem \<Rightarrow> 'h \<Rightarrow> 'v) \<Rightarrow> (('m, 'l, 'f) mem \<Rightarrow> 'h \<Rightarrow> nat set) \<Rightarrow> bool" where
  "framed val refs \<longleftrightarrow> (\<forall>h h' x. (\<forall>b \<in> refs h x. same_at b h h') \<longrightarrow> val h' x = val h x \<and> refs h' x = refs h x)"

definition allocated :: "(('m, 'l, 'f) mem \<Rightarrow> 'h \<Rightarrow> nat set) \<Rightarrow> ('m, 'l, 'f) mem \<Rightarrow> 'h \<Rightarrow> bool" where
  "allocated refs h x \<longleftrightarrow> refs h x \<subseteq> {..<lim h}"

text \<open>\<open>y\<close> has the value of \<open>x\<close> and reaches only blocks that were allocated since \<open>h\<close>.\<close>

definition copied :: "(('m, 'l, 'f) mem \<Rightarrow> 'h \<Rightarrow> 'v) \<Rightarrow> (('m, 'l, 'f) mem \<Rightarrow> 'h \<Rightarrow> nat set)
    \<Rightarrow> ('m, 'l, 'f) mem \<Rightarrow> 'h \<Rightarrow> ('m, 'l, 'f) mem \<Rightarrow> 'h \<Rightarrow> bool" where
  "copied val refs h x h' y \<longleftrightarrow> extends h h' \<and> refs h' y \<subseteq> {lim h..<lim h'} \<and> val h' y = val h x"

definition deep_copying :: "(('m, 'l, 'f) mem \<Rightarrow> 'h \<Rightarrow> 'v) \<Rightarrow> (('m, 'l, 'f) mem \<Rightarrow> 'h \<Rightarrow> nat set)
    \<Rightarrow> ('h \<Rightarrow> ('m, 'l, 'f) mem \<Rightarrow> 'h \<times> ('m, 'l, 'f) mem) \<Rightarrow> bool" where
  "deep_copying val refs cp \<longleftrightarrow> framed val refs
     \<and> (\<forall>x h y h'. allocated refs h x \<longrightarrow> cp x h = (y, h') \<longrightarrow> copied val refs h x h' y)"

lemma framedD:
  assumes "framed val refs" "\<And>b. b \<in> refs h x \<Longrightarrow> same_at b h h'"
  shows "val h' x = val h x" "refs h' x = refs h x"
  using assms unfolding framed_def by blast+

lemma framed_extends:
  assumes "framed val refs" "allocated refs h x" "extends h h'"
  shows "val h' x = val h x" "refs h' x = refs h x" "allocated refs h' x"
proof -
  have same: "same_at b h h'" if "b \<in> refs h x" for b
    using that assms(2,3) by (auto simp: allocated_def extends_def)
  show v: "val h' x = val h x" "refs h' x = refs h x"
    by (rule framedD [OF assms(1)]; erule same)+
  show "allocated refs h' x"
    using assms(2,3) by (auto simp: allocated_def extends_def v)
qed

lemma copied_later:
  assumes "framed val refs" "copied val refs h x h' y" "extends h' h''"
  shows "copied val refs h x h'' y"
proof -
  have "allocated refs h' y" using assms(2) by (auto simp: copied_def allocated_def)
  from framed_extends [OF assms(1) this assms(3)] assms(2,3) show ?thesis
    by (auto simp: copied_def extends_def intro: extends_trans [unfolded extends_def] same_at_trans)
qed

lemma copied_earlier:
  assumes "framed val refs" "allocated refs h x" "extends h h1" "copied val refs h1 x h' y"
  shows "copied val refs h x h' y"
proof -
  have "val h1 x = val h x" by (rule framed_extends [OF assms(1,2,3)])
  moreover have "lim h \<le> lim h1" using assms(3) by (simp add: extends_def)
  ultimately show ?thesis
    using assms(3,4) extends_trans [OF assms(3)] by (fastforce simp: copied_def)
qed

text \<open>The next field of a struct: copied in a later memory, read from there as well.\<close>

lemma copy_field:
  assumes "deep_copying val refs cp" "cp x h1 = (y, h')" "allocated refs h x" "extends h h1"
  shows "copied val refs h x h' y" "extends h h'" "extends h1 h'"
proof -
  have f: "framed val refs" using assms(1) by (simp add: deep_copying_def)
  have c: "copied val refs h1 x h' y"
    using assms framed_extends(3) [OF f assms(3,4)] unfolding deep_copying_def by blast
  show d: "copied val refs h x h' y" by (rule copied_earlier [OF f assms(3,4) c])
  from c show "extends h1 h'" by (simp add: copied_def)
  from d show "extends h h'" by (simp add: copied_def)
qed

lemma deep_copying_framed: "deep_copying val refs cp \<Longrightarrow> framed val refs"
  by (simp add: deep_copying_def)

section \<open>Copies of values, pointers and slices\<close>

text \<open>\<^verbatim>\<open>*out = *in\<close> for a struct without pointers.\<close>

definition copyValue :: "'h \<Rightarrow> ('m, 'l, 'f) mem \<Rightarrow> 'h \<times> ('m, 'l, 'f) mem" where
  "copyValue x h = (x, h)"

lemma deep_copyValue: "deep_copying (\<lambda>h x. x) (\<lambda>h x. {}) copyValue"
  by (simp add: deep_copying_def framed_def copied_def copyValue_def)

text \<open>
  \<^verbatim>\<open>if in == nil { return nil }; out := new(T); in.DeepCopyInto(out); return out\<close>, which is also
  the code for a pointer inside a struct.
\<close>

definition copyPointer ::
    "(('m, 'l, 'f) mem \<Rightarrow> nat \<Rightarrow> nat \<Rightarrow> 'c)
     \<Rightarrow> (((nat \<Rightarrow> nat \<Rightarrow> 'c) \<Rightarrow> nat \<Rightarrow> nat \<Rightarrow> 'c) \<Rightarrow> ('m, 'l, 'f) mem \<Rightarrow> ('m, 'l, 'f) mem)
     \<Rightarrow> 'c \<Rightarrow> ('c \<Rightarrow> ('m, 'l, 'f) mem \<Rightarrow> 'c \<times> ('m, 'l, 'f) mem)
     \<Rightarrow> ptr option \<Rightarrow> ('m, 'l, 'f) mem \<Rightarrow> ptr option \<times> ('m, 'l, 'f) mem" where
  "copyPointer at upd zero into p h =
     (case p of None \<Rightarrow> (None, h)
      | Some q \<Rightarrow> (case newBlock upd zero h of (b, h1) \<Rightarrow>
          case into (load at h1 q) h1 of (y, h2) \<Rightarrow> (Some (b, 0), save upd (b, 0) y h2)))"

text \<open>\<^verbatim>\<open>if in.F != nil { out.F = make([]T, len(in.F)); copy(out.F, in.F) }\<close>\<close>

definition copySlice ::
    "(((nat \<Rightarrow> nat \<Rightarrow> 'c) \<Rightarrow> nat \<Rightarrow> nat \<Rightarrow> 'c) \<Rightarrow> ('m, 'l, 'f) mem \<Rightarrow> ('m, 'l, 'f) mem)
     \<Rightarrow> 'c \<Rightarrow> window option \<Rightarrow> ('m, 'l, 'f) mem \<Rightarrow> window option \<times> ('m, 'l, 'f) mem" where
  "copySlice upd zero s h =
     (case s of None \<Rightarrow> (None, h)
      | Some w \<Rightarrow> (case makeSlice upd zero (win_len w) h of (d, h1) \<Rightarrow> (Some d, goCopy upd d w h1)))"

text \<open>\<^verbatim>\<open>for i := range *in { (*in)[i].DeepCopyInto(&(*out)[i]) }\<close> after the same \<^verbatim>\<open>make\<close>.\<close>

fun copyEach ::
    "(('m, 'l, 'f) mem \<Rightarrow> nat \<Rightarrow> nat \<Rightarrow> 'c)
     \<Rightarrow> (((nat \<Rightarrow> nat \<Rightarrow> 'c) \<Rightarrow> nat \<Rightarrow> nat \<Rightarrow> 'c) \<Rightarrow> ('m, 'l, 'f) mem \<Rightarrow> ('m, 'l, 'f) mem)
     \<Rightarrow> ('c \<Rightarrow> ('m, 'l, 'f) mem \<Rightarrow> 'c \<times> ('m, 'l, 'f) mem)
     \<Rightarrow> window \<Rightarrow> window \<Rightarrow> nat list \<Rightarrow> ('m, 'l, 'f) mem \<Rightarrow> ('m, 'l, 'f) mem" where
  "copyEach at upd into src dst [] h = h"
| "copyEach at upd into src dst (i # is) h =
     (case into (load at h (elemPtr src i)) h of (y, h') \<Rightarrow>
        copyEach at upd into src dst is (save upd (elemPtr dst i) y h'))"

definition copyStructs ::
    "(('m, 'l, 'f) mem \<Rightarrow> nat \<Rightarrow> nat \<Rightarrow> 'c)
     \<Rightarrow> (((nat \<Rightarrow> nat \<Rightarrow> 'c) \<Rightarrow> nat \<Rightarrow> nat \<Rightarrow> 'c) \<Rightarrow> ('m, 'l, 'f) mem \<Rightarrow> ('m, 'l, 'f) mem)
     \<Rightarrow> 'c \<Rightarrow> ('c \<Rightarrow> ('m, 'l, 'f) mem \<Rightarrow> 'c \<times> ('m, 'l, 'f) mem)
     \<Rightarrow> window option \<Rightarrow> ('m, 'l, 'f) mem \<Rightarrow> window option \<times> ('m, 'l, 'f) mem" where
  "copyStructs at upd zero into s h =
     (case s of None \<Rightarrow> (None, h)
      | Some w \<Rightarrow> (case makeSlice upd zero (win_len w) h of (d, h1) \<Rightarrow>
          (Some d, copyEach at upd into w d [0..<win_len w] h1)))"

section \<open>What they read and reach\<close>

definition ptrVal :: "(('m, 'l, 'f) mem \<Rightarrow> nat \<Rightarrow> nat \<Rightarrow> 'c) \<Rightarrow> (('m, 'l, 'f) mem \<Rightarrow> 'c \<Rightarrow> 'v)
    \<Rightarrow> ('m, 'l, 'f) mem \<Rightarrow> ptr option \<Rightarrow> 'v option" where
  "ptrVal at val h p = map_option (\<lambda>q. val h (load at h q)) p"

definition ptrRefs :: "(('m, 'l, 'f) mem \<Rightarrow> nat \<Rightarrow> nat \<Rightarrow> 'c) \<Rightarrow> (('m, 'l, 'f) mem \<Rightarrow> 'c \<Rightarrow> nat set)
    \<Rightarrow> ('m, 'l, 'f) mem \<Rightarrow> ptr option \<Rightarrow> nat set" where
  "ptrRefs at refs h p = (case p of None \<Rightarrow> {} | Some q \<Rightarrow> insert (fst q) (refs h (load at h q)))"

definition sliceVal :: "(('m, 'l, 'f) mem \<Rightarrow> nat \<Rightarrow> nat \<Rightarrow> 'c) \<Rightarrow> (('m, 'l, 'f) mem \<Rightarrow> 'c \<Rightarrow> 'v)
    \<Rightarrow> ('m, 'l, 'f) mem \<Rightarrow> window option \<Rightarrow> 'v slice" where
  "sliceVal at val h s = map_option (\<lambda>w. map (val h) (contents at h w)) s"

definition sliceRefs :: "(('m, 'l, 'f) mem \<Rightarrow> nat \<Rightarrow> nat \<Rightarrow> 'c) \<Rightarrow> (('m, 'l, 'f) mem \<Rightarrow> 'c \<Rightarrow> nat set)
    \<Rightarrow> ('m, 'l, 'f) mem \<Rightarrow> window option \<Rightarrow> nat set" where
  "sliceRefs at refs h s =
     (case s of None \<Rightarrow> {} | Some w \<Rightarrow> insert (win_block w) (\<Union>c \<in> set (contents at h w). refs h c))"

lemma contents_nth: "i < win_len w \<Longrightarrow> contents at h w ! i = load at h (elemPtr w i)"
  by (simp add: contents_def)

lemma length_contents [simp]: "length (contents at h w) = win_len w"
  by (simp add: contents_def)

context store
begin

lemma framed_ptr:
  assumes "framed val refs"
  shows "framed (ptrVal at val) (ptrRefs at refs)"
  unfolding framed_def
proof (intro allI impI)
  fix h h' :: "('m, 'l, 'f) mem" and p
  assume same: "\<forall>b \<in> ptrRefs at refs h p. same_at b h h'"
  show "ptrVal at val h' p = ptrVal at val h p \<and> ptrRefs at refs h' p = ptrRefs at refs h p"
  proof (cases p)
    case (Some q)
    have "load at h' q = load at h q" using same Some by (simp add: ptrRefs_def load_same)
    moreover have "val h' (load at h q) = val h (load at h q)" "refs h' (load at h q) = refs h (load at h q)"
      by (rule framedD [OF assms]; use same Some in \<open>simp add: ptrRefs_def\<close>)+
    ultimately show ?thesis using Some by (simp add: ptrVal_def ptrRefs_def)
  qed (simp add: ptrVal_def ptrRefs_def)
qed

lemma framed_slice:
  assumes "framed val refs"
  shows "framed (sliceVal at val) (sliceRefs at refs)"
  unfolding framed_def
proof (intro allI impI)
  fix h h' :: "('m, 'l, 'f) mem" and s
  assume same: "\<forall>b \<in> sliceRefs at refs h s. same_at b h h'"
  show "sliceVal at val h' s = sliceVal at val h s \<and> sliceRefs at refs h' s = sliceRefs at refs h s"
  proof (cases s)
    case (Some w)
    have "contents at h' w = contents at h w" using same Some by (simp add: sliceRefs_def contents_same)
    moreover have "val h' c = val h c" "refs h' c = refs h c" if "c \<in> set (contents at h w)" for c
      by (rule framedD [OF assms]; use same Some that in \<open>auto simp: sliceRefs_def\<close>)+
    ultimately show ?thesis using Some by (simp add: sliceVal_def sliceRefs_def)
  qed (simp add: sliceVal_def sliceRefs_def)
qed

text \<open>A pointer to a deep copy of what it pointed to.\<close>

lemma deep_copyPointer:
  assumes "deep_copying val refs into"
  shows "deep_copying (ptrVal at val) (ptrRefs at refs) (copyPointer at upd zero into)"
proof -
  have f: "framed val refs" by (rule deep_copying_framed [OF assms])
  have "copied (ptrVal at val) (ptrRefs at refs) h p h' p'"
    if v: "allocated (ptrRefs at refs) h p" and c: "copyPointer at upd zero into p h = (p', h')" for p p' h h'
  proof (cases p)
    case None
    with c show ?thesis by (simp add: copyPointer_def copied_def ptrVal_def ptrRefs_def)
  next
    case (Some q)
    obtain b h1 where b: "newBlock upd zero h = (b, h1)" by fastforce
    obtain y h2 where y: "into (load at h1 q) h1 = (y, h2)" by fastforce
    have c: "p' = Some (b, 0)" "h' = save upd (b, 0) y h2"
      using c Some b y by (simp_all add: copyPointer_def)
    note new = newBlock_facts [OF b]
    have q: "fst q < lim h" "allocated refs h (load at h q)"
      using v Some by (auto simp: allocated_def ptrRefs_def)
    have l: "load at h1 q = load at h q"
      by (rule load_same) (use new(3) q(1) in \<open>simp add: extends_def\<close>)
    have k: "copied val refs h1 (load at h q) h2 y" "extends h h2"
      using copy_field [OF assms y [unfolded l] framed_extends(3) [OF f q(2) new(3)] extends_refl]
        extends_trans [OF new(3)] by blast+
    have e: "extends h h'" unfolding c by (rule extends_save) (use k(2) new in simp_all)
    have fresh: "refs h2 y \<subseteq> {lim h + 1..<lim h2}" "lim h + 1 \<le> lim h2"
      using k(1) new(2) by (auto simp: copied_def extends_def)
    have "val h' y = val h2 y" "refs h' y = refs h2 y"
      unfolding c by (rule framedD [OF f]; rule same_at_save; use fresh new(1) in force)+
    moreover have "val h2 y = val h (load at h q)"
      using k(1) framed_extends(1) [OF f q(2) new(3)] by (simp add: copied_def)
    moreover have "load at h' (b, 0) = y" "lim h' = lim h2" by (simp_all add: c load_save)
    ultimately show ?thesis
      using e fresh new(1) Some c(1) by (auto simp: copied_def ptrVal_def ptrRefs_def)
  qed
  with framed_ptr [OF f] show ?thesis by (simp add: deep_copying_def)
qed

text \<open>A slice of values.\<close>

lemma makeSlice_facts:
  assumes "makeSlice upd zero n h = (d, h1)"
  shows "d = Window (lim h) 0 n" "lim h1 = lim h + 1" "extends h h1"
proof -
  obtain c where c: "newBlock upd zero h = (c, h1)" "d = Window c 0 n"
    using assms by (auto simp: makeSlice_def split: prod.splits)
  from newBlock_facts [OF c(1)] c(2) show "d = Window (lim h) 0 n" "lim h1 = lim h + 1" "extends h h1" by simp_all
qed

lemma deep_copySlice: "deep_copying (sliceVal at (\<lambda>h c. c)) (sliceRefs at (\<lambda>h c. {})) (copySlice upd zero)"
proof -
  have "copied (sliceVal at (\<lambda>h c. c)) (sliceRefs at (\<lambda>h c. {})) h s h' s'"
    if v: "allocated (sliceRefs at (\<lambda>h c. {})) h s" and c: "copySlice upd zero s h = (s', h')" for s s' h h'
  proof (cases s)
    case None
    with c show ?thesis by (simp add: copySlice_def copied_def sliceVal_def sliceRefs_def)
  next
    case (Some w)
    obtain d h1 where d: "makeSlice upd zero (win_len w) h = (d, h1)" by fastforce
    note new = makeSlice_facts [OF d]
    have c: "s' = Some d" "h' = goCopy upd d w h1" using c Some d by (simp_all add: copySlice_def)
    have w: "win_block w < lim h" using v Some by (simp add: allocated_def sliceRefs_def)
    have "at h' (lim h) i = at h (win_block w) (win_off w + i)" if "i < win_len w" for i
      using that w new at_same [of "win_block w" h h1] by (simp add: c goCopy_def at_upd extends_def)
    then have "contents at h' d = contents at h w"
      by (simp add: contents_def load_def elemPtr_def new(1))
    moreover have "extends h h'"
      unfolding c goCopy_def by (rule extends_upd [OF new(3)]) (simp add: new(1))
    moreover have "lim h' = lim h + 1" by (simp add: c goCopy_def lim_upd new(2))
    ultimately show ?thesis using Some new(1) c(1) by (simp add: copied_def sliceVal_def sliceRefs_def)
  qed
  moreover have "framed (sliceVal at (\<lambda>h c. c)) (sliceRefs at (\<lambda>h c. {}))"
    by (rule framed_slice) (simp add: framed_def)
  ultimately show ?thesis by (simp add: deep_copying_def)
qed

text \<open>A slice of structs: the loop invariant, for the indices still to be copied.\<close>

lemma copyEach_facts:
  assumes "deep_copying val refs into" "win_block w < lim h0" "distinct is"
    and "\<And>i. i \<in> set is \<Longrightarrow> allocated refs h0 (load at h0 (elemPtr w i))"
    and "extends h0 h" "lim h0 \<le> b" "b < lim h"
    and "h' = copyEach at upd into w (Window b 0 n) is h"
  shows "lim h \<le> lim h' \<and> (\<forall>c < lim h. c \<noteq> b \<longrightarrow> same_at c h h')
    \<and> (\<forall>j. j \<notin> set is \<longrightarrow> load at h' (b, j) = load at h (b, j))
    \<and> (\<forall>i \<in> set is. val h' (load at h' (b, i)) = val h0 (load at h0 (elemPtr w i))
          \<and> refs h' (load at h' (b, i)) \<subseteq> {Suc b..<lim h'})"
  using assms(3-8)
proof (induction "is" arbitrary: h h')
  case Nil
  then show ?case by simp
next
  case (Cons i "is")
  have f: "framed val refs" by (rule deep_copying_framed [OF assms(1)])
  let ?x = "load at h0 (elemPtr w i)"
  have x: "load at h (elemPtr w i) = ?x"
    by (rule load_same) (use Cons.prems(3) assms(2) in \<open>simp add: extends_def elemPtr_def\<close>)
  have ax: "allocated refs h0 ?x" using Cons.prems(2) by simp
  obtain y h1 where y: "into ?x h = (y, h1)" by fastforce
  define h2 where "h2 = save upd (b, i) y h1"
  have h': "h' = copyEach at upd into w (Window b 0 n) is h2"
    using Cons.prems(6) y x by (simp add: h2_def elemPtr_def)
  have c: "copied val refs h ?x h1 y" "extends h0 h1" "extends h h1"
    using copy_field [OF assms(1) y ax Cons.prems(3)] y framed_extends(3) [OF f ax Cons.prems(3)] assms(1)
    by (auto simp: deep_copying_def)
  have e2: "extends h0 h2" unfolding h2_def by (rule extends_save [OF c(2)]) (simp add: Cons.prems(4))
  have lims: "lim h \<le> lim h1" "lim h2 = lim h1" using c(3) by (simp_all add: extends_def h2_def)
  then have b2: "b < lim h2" using Cons.prems(5) by simp
  have IH: "lim h2 \<le> lim h'" "\<And>c. c < lim h2 \<Longrightarrow> c \<noteq> b \<Longrightarrow> same_at c h2 h'"
    "\<And>j. j \<notin> set is \<Longrightarrow> load at h' (b, j) = load at h2 (b, j)"
    "\<And>j. j \<in> set is \<Longrightarrow> val h' (load at h' (b, j)) = val h0 (load at h0 (elemPtr w j))
        \<and> refs h' (load at h' (b, j)) \<subseteq> {Suc b..<lim h'}"
    using Cons.IH [OF _ _ e2 Cons.prems(4) b2 h'] Cons.prems(1,2) by auto
  have same: "same_at c h h'" if "c < lim h" "c \<noteq> b" for c
  proof -
    have "same_at c h h1" using c(3) that(1) by (simp add: extends_def)
    moreover have "same_at c h1 h2" unfolding h2_def by (rule same_at_save) (simp add: that(2))
    moreover have "same_at c h2 h'" by (rule IH(2)) (use that lims in simp_all)
    ultimately show ?thesis by (blast intro: same_at_trans)
  qed
  have fresh: "refs h1 y \<subseteq> {lim h..<lim h1}" using c(1) by (simp add: copied_def)
  have y2: "val h2 y = val h1 y" "refs h2 y = refs h1 y"
    unfolding h2_def by (rule framedD [OF f]; rule same_at_save; use fresh Cons.prems(5) in force)+
  have y': "val h' y = val h2 y" "refs h' y = refs h2 y"
    by (rule framedD [OF f]; rule IH(2); use fresh y2 lims Cons.prems(5) in force)+
  have li: "load at h' (b, i) = y"
    using IH(3) [of i] Cons.prems(1) by (simp add: h2_def load_save)
  have "val h' y = val h0 ?x"
    using y' y2 c(1) framed_extends(1) [OF f ax Cons.prems(3)] by (simp add: copied_def)
  moreover have "refs h' y \<subseteq> {Suc b..<lim h'}"
    using y' y2 fresh lims IH(1) Cons.prems(5) by auto
  moreover have "load at h' (b, j) = load at h (b, j)" if "j \<notin> set (i # is)" for j
  proof -
    have "load at h' (b, j) = load at h2 (b, j)" using that by (simp add: IH(3))
    also have "\<dots> = load at h1 (b, j)" using that by (simp add: h2_def load_save)
    also have "\<dots> = load at h (b, j)"
      by (rule load_same) (use c(3) Cons.prems(5) in \<open>simp add: extends_def\<close>)
    finally show ?thesis .
  qed
  ultimately show ?case using li IH(1,4) lims same by auto
qed

lemma deep_copyStructs:
  assumes "deep_copying val refs into"
  shows "deep_copying (sliceVal at val) (sliceRefs at refs) (copyStructs at upd zero into)"
proof -
  have f: "framed val refs" by (rule deep_copying_framed [OF assms])
  have "copied (sliceVal at val) (sliceRefs at refs) h s h' s'"
    if v: "allocated (sliceRefs at refs) h s" and c: "copyStructs at upd zero into s h = (s', h')" for s s' h h'
  proof (cases s)
    case None
    with c show ?thesis by (simp add: copyStructs_def copied_def sliceVal_def sliceRefs_def)
  next
    case (Some w)
    obtain d h1 where d: "makeSlice upd zero (win_len w) h = (d, h1)" by fastforce
    note new = makeSlice_facts [OF d]
    have c: "s' = Some d" "h' = copyEach at upd into w d [0..<win_len w] h1"
      using c Some d by (simp_all add: copyStructs_def)
    have w: "win_block w < lim h" using v Some by (simp add: allocated_def sliceRefs_def)
    have el: "allocated refs h (load at h (elemPtr w i))" if "i \<in> set [0..<win_len w]" for i
      using v Some that unfolding allocated_def sliceRefs_def contents_def by fastforce
    have facts: "lim h1 \<le> lim h'" "\<And>c. c < lim h1 \<Longrightarrow> c \<noteq> lim h \<Longrightarrow> same_at c h1 h'"
      "\<And>i. i < win_len w \<Longrightarrow> val h' (load at h' (lim h, i)) = val h (load at h (elemPtr w i))
        \<and> refs h' (load at h' (lim h, i)) \<subseteq> {Suc (lim h)..<lim h'}"
      using copyEach_facts [OF assms w distinct_upt el new(3) le_refl _ c(2) [unfolded new(1)]] new(2)
      by simp_all
    have "extends h h'"
      using new facts(1,2) by (auto simp: extends_def intro: same_at_trans)
    moreover have "contents at h' d = map (\<lambda>i. load at h' (lim h, i)) [0..<win_len w]"
      by (simp add: contents_def elemPtr_def new(1))
    ultimately show ?thesis
      using Some c(1) facts new by (fastforce simp: copied_def sliceVal_def sliceRefs_def contents_def)
  qed
  with framed_slice [OF f] show ?thesis by (simp add: deep_copying_def)
qed

end

end
