(* ===== verification/DeepCopy.thy ===== *)
theory DeepCopy
  imports Copying
begin

text \<open>
  \<^verbatim>\<open>api/v1alpha1/zz_generated.deepcopy.go\<close>: the deep copies of the custom resources, function by
  function. \<^verbatim>\<open>DeepCopyInto(out)\<close> is a function from \<^verbatim>\<open>*in\<close> to \<^verbatim>\<open>*out\<close> and the memory it leaves; every
  caller in the repository passes a fresh \<^verbatim>\<open>out\<close>. The copies of the types of \<^verbatim>\<open>metav1\<close> are parameters.
\<close>

section \<open>The types of \<^verbatim>\<open>metav1\<close>\<close>

record ('m, 'l, 'f) metav1 =
  mv_Meta_DeepCopyInto :: "'m \<Rightarrow> ('m, 'l, 'f) mem \<Rightarrow> 'm \<times> ('m, 'l, 'f) mem"
  mv_ListMeta_DeepCopyInto :: "'l \<Rightarrow> ('m, 'l, 'f) mem \<Rightarrow> 'l \<times> ('m, 'l, 'f) mem"
  mv_Condition_DeepCopyInto :: "Condition \<Rightarrow> ('m, 'l, 'f) mem \<Rightarrow> Condition \<times> ('m, 'l, 'f) mem"
  mv_zeroMeta :: 'm
  mv_zeroListMeta :: 'l

section \<open>Zero values\<close>

definition zeroCondition :: Condition where
  "zeroCondition = \<lparr>cond_Type = [], cond_Status = ConditionUnknown, cond_ObservedGeneration = 0,
     cond_LastTransitionTime = 0, cond_Reason = [], cond_Message = []\<rparr>"

definition zero_hStep :: hStep where
  "zero_hStep = \<lparr>hs_Step = 0, hs_LocalAuthenticators = None, hs_FederatedIDP = [], hs_FederatedAuthenticator = []\<rparr>"

definition zero_hOAuth2 :: hOAuth2 where
  "zero_hOAuth2 = \<lparr>ho_CallbackURL = [], ho_GrantTypes = None, ho_PKCEMandatory = False, ho_PKCEPlain = False,
     ho_PublicClient = False, ho_TokenBinding = [], ho_Audiences = None, ho_ScopeValidators = None,
     ho_RefreshTokenExpiry = 0, ho_AccessTokenExpiry = 0\<rparr>"

definition zero_V1_Claim :: V1_Claim where
  "zero_V1_Claim = \<lparr>v1c_URI = [], v1c_Mandatory = False\<rparr>"

definition zero_V1_SAMLConfig :: V1_SAMLConfig where
  "zero_V1_SAMLConfig = \<lparr>v1s_MetadataURL = [], v1s_EnableAttributeProfile = False, v1s_IncludeAttributesByDefault = False\<rparr>"

definition zero_LocalObjectReference :: LocalObjectReference where
  "zero_LocalObjectReference = \<lparr>ref_Name = []\<rparr>"

definition zero_hSpec :: hSpec where
  "zero_hSpec = \<lparr>hp_InstanceRef = None, hp_Name = [], hp_Claims = None, hp_Description = [], hp_SubjectClaimURI = [],
     hp_SAML = None, hp_OAuth2 = None, hp_AuthenticationSteps = None, hp_AuthenticationScript = None,
     hp_AlwaysSendBackAuthenticatedListOfIDPs = False, hp_EnableAuthorization = False, hp_SkipConsent = False,
     hp_SkipLogoutConsent = False, hp_UseTenantInSub = False, hp_UseUserstoreInSub = False,
     hp_UseUserstoreInRoles = False, hp_StepForSubject = 0, hp_StepForAttributes = 0\<rparr>"

definition zero_hStatus :: hStatus where
  "zero_hStatus = \<lparr>ht_ID = 0, ht_ResourceID = [], ht_Phase = [], ht_AdminCanView = False, ht_Message = [],
     ht_Conditions = None\<rparr>"

definition zero_hInstanceStatus :: hInstanceStatus where
  "zero_hInstanceStatus = \<lparr>hi_Ready = False, hi_Message = [], hi_Phase = [], hi_Conditions = None\<rparr>"

definition zero_WSO2ISInstanceSpec :: WSO2ISInstanceSpec where
  "zero_WSO2ISInstanceSpec = \<lparr>ispec_BaseURL = [], ispec_CredentialsSecret = \<lparr>sref_Name = [], sref_Namespace = []\<rparr>,
     ispec_InsecureSkipTLSVerify = False, ispec_TenantDomain = []\<rparr>"

definition zero_TypeMeta :: TypeMeta where
  "zero_TypeMeta = \<lparr>tm_Kind = [], tm_APIVersion = []\<rparr>"

definition zero_hSP :: "('m, 'l, 'f) metav1 \<Rightarrow> 'm hSP" where
  "zero_hSP A = \<lparr>hsp_TypeMeta = zero_TypeMeta, hsp_Meta = mv_zeroMeta A, hsp_Spec = zero_hSpec, hsp_Status = zero_hStatus\<rparr>"

definition zero_hInstance :: "('m, 'l, 'f) metav1 \<Rightarrow> 'm hInstance" where
  "zero_hInstance A = \<lparr>hin_TypeMeta = zero_TypeMeta, hin_Meta = mv_zeroMeta A, hin_Spec = zero_WSO2ISInstanceSpec,
     hin_Status = zero_hInstanceStatus\<rparr>"

definition zero_hList :: "('m, 'l, 'f) metav1 \<Rightarrow> 'l hList" where
  "zero_hList A = \<lparr>hl_TypeMeta = zero_TypeMeta, hl_Meta = mv_zeroListMeta A, hl_Items = None\<rparr>"

section \<open>Parts of the specs\<close>

abbreviation copyStrings :: "window option \<Rightarrow> ('m, 'l, 'f) mem \<Rightarrow> window option \<times> ('m, 'l, 'f) mem" where
  "copyStrings \<equiv> copySlice strings_at_update []"

definition AuthenticationStep_DeepCopyInto :: "hStep \<Rightarrow> ('m, 'l, 'f) mem \<Rightarrow> hStep \<times> ('m, 'l, 'f) mem" where
  "AuthenticationStep_DeepCopyInto x h =
     (case copyStrings (hs_LocalAuthenticators x) h of (la, h1) \<Rightarrow> (x\<lparr>hs_LocalAuthenticators := la\<rparr>, h1))"

definition AuthenticationStep_DeepCopy :: "ptr option \<Rightarrow> ('m, 'l, 'f) mem \<Rightarrow> ptr option \<times> ('m, 'l, 'f) mem" where
  "AuthenticationStep_DeepCopy = copyPointer steps_at steps_at_update zero_hStep AuthenticationStep_DeepCopyInto"

definition Claim_DeepCopyInto :: "V1_Claim \<Rightarrow> ('m, 'l, 'f) mem \<Rightarrow> V1_Claim \<times> ('m, 'l, 'f) mem" where
  "Claim_DeepCopyInto = copyValue"

definition Claim_DeepCopy :: "ptr option \<Rightarrow> ('m, 'l, 'f) mem \<Rightarrow> ptr option \<times> ('m, 'l, 'f) mem" where
  "Claim_DeepCopy = copyPointer claims_at claims_at_update zero_V1_Claim Claim_DeepCopyInto"

definition OAuth2Config_DeepCopyInto :: "hOAuth2 \<Rightarrow> ('m, 'l, 'f) mem \<Rightarrow> hOAuth2 \<times> ('m, 'l, 'f) mem" where
  "OAuth2Config_DeepCopyInto x h =
     (case copyStrings (ho_GrantTypes x) h of (gt, h1) \<Rightarrow>
      case copyStrings (ho_Audiences x) h1 of (au, h2) \<Rightarrow>
      case copyStrings (ho_ScopeValidators x) h2 of (sv, h3) \<Rightarrow>
        (x\<lparr>ho_GrantTypes := gt, ho_Audiences := au, ho_ScopeValidators := sv\<rparr>, h3))"

definition OAuth2Config_DeepCopy :: "ptr option \<Rightarrow> ('m, 'l, 'f) mem \<Rightarrow> ptr option \<times> ('m, 'l, 'f) mem" where
  "OAuth2Config_DeepCopy = copyPointer oauths_at oauths_at_update zero_hOAuth2 OAuth2Config_DeepCopyInto"

definition SAMLConfig_DeepCopyInto :: "V1_SAMLConfig \<Rightarrow> ('m, 'l, 'f) mem \<Rightarrow> V1_SAMLConfig \<times> ('m, 'l, 'f) mem" where
  "SAMLConfig_DeepCopyInto = copyValue"

definition SAMLConfig_DeepCopy :: "ptr option \<Rightarrow> ('m, 'l, 'f) mem \<Rightarrow> ptr option \<times> ('m, 'l, 'f) mem" where
  "SAMLConfig_DeepCopy = copyPointer samls_at samls_at_update zero_V1_SAMLConfig SAMLConfig_DeepCopyInto"

section \<open>Service providers\<close>

text \<open>\<^verbatim>\<open>*out = new(corev1.LocalObjectReference); **out = **in\<close>\<close>

abbreviation copyReference :: "ptr option \<Rightarrow> ('m, 'l, 'f) mem \<Rightarrow> ptr option \<times> ('m, 'l, 'f) mem" where
  "copyReference \<equiv> copyPointer refs_at refs_at_update zero_LocalObjectReference copyValue"

definition WSO2SPSpec_DeepCopyInto :: "hSpec \<Rightarrow> ('m, 'l, 'f) mem \<Rightarrow> hSpec \<times> ('m, 'l, 'f) mem" where
  "WSO2SPSpec_DeepCopyInto x h =
     (case copyReference (hp_InstanceRef x) h of (ir, h1) \<Rightarrow>
      case copySlice claims_at_update zero_V1_Claim (hp_Claims x) h1 of (cl, h2) \<Rightarrow>
      case copyPointer samls_at samls_at_update zero_V1_SAMLConfig copyValue (hp_SAML x) h2 of (sa, h3) \<Rightarrow>
      case copyPointer oauths_at oauths_at_update zero_hOAuth2 OAuth2Config_DeepCopyInto (hp_OAuth2 x) h3 of (oa, h4) \<Rightarrow>
      case copyStructs steps_at steps_at_update zero_hStep AuthenticationStep_DeepCopyInto
             (hp_AuthenticationSteps x) h4 of (st, h5) \<Rightarrow>
      case copyReference (hp_AuthenticationScript x) h5 of (sc, h6) \<Rightarrow>
        (x\<lparr>hp_InstanceRef := ir, hp_Claims := cl, hp_SAML := sa, hp_OAuth2 := oa, hp_AuthenticationSteps := st,
           hp_AuthenticationScript := sc\<rparr>, h6))"

definition WSO2SPSpec_DeepCopy :: "ptr option \<Rightarrow> ('m, 'l, 'f) mem \<Rightarrow> ptr option \<times> ('m, 'l, 'f) mem" where
  "WSO2SPSpec_DeepCopy = copyPointer specs_at specs_at_update zero_hSpec WSO2SPSpec_DeepCopyInto"

definition WSO2SPStatus_DeepCopyInto ::
    "('m, 'l, 'f) metav1 \<Rightarrow> hStatus \<Rightarrow> ('m, 'l, 'f) mem \<Rightarrow> hStatus \<times> ('m, 'l, 'f) mem" where
  "WSO2SPStatus_DeepCopyInto A x h =
     (case copyStructs conditions_at conditions_at_update zeroCondition (mv_Condition_DeepCopyInto A)
             (ht_Conditions x) h of (co, h1) \<Rightarrow> (x\<lparr>ht_Conditions := co\<rparr>, h1))"

definition WSO2SPStatus_DeepCopy ::
    "('m, 'l, 'f) metav1 \<Rightarrow> ptr option \<Rightarrow> ('m, 'l, 'f) mem \<Rightarrow> ptr option \<times> ('m, 'l, 'f) mem" where
  "WSO2SPStatus_DeepCopy A = copyPointer statuses_at statuses_at_update zero_hStatus (WSO2SPStatus_DeepCopyInto A)"

definition WSO2SP_DeepCopyInto ::
    "('m, 'l, 'f) metav1 \<Rightarrow> 'm hSP \<Rightarrow> ('m, 'l, 'f) mem \<Rightarrow> 'm hSP \<times> ('m, 'l, 'f) mem" where
  "WSO2SP_DeepCopyInto A x h =
     (case mv_Meta_DeepCopyInto A (hsp_Meta x) h of (me, h1) \<Rightarrow>
      case WSO2SPSpec_DeepCopyInto (hsp_Spec x) h1 of (sp, h2) \<Rightarrow>
      case WSO2SPStatus_DeepCopyInto A (hsp_Status x) h2 of (st, h3) \<Rightarrow>
        (x\<lparr>hsp_TypeMeta := hsp_TypeMeta x, hsp_Meta := me, hsp_Spec := sp, hsp_Status := st\<rparr>, h3))"

definition WSO2SP_DeepCopy ::
    "('m, 'l, 'f) metav1 \<Rightarrow> ptr option \<Rightarrow> ('m, 'l, 'f) mem \<Rightarrow> ptr option \<times> ('m, 'l, 'f) mem" where
  "WSO2SP_DeepCopy A = copyPointer sps_at sps_at_update (zero_hSP A) (WSO2SP_DeepCopyInto A)"

definition WSO2SPList_DeepCopyInto ::
    "('m, 'l, 'f) metav1 \<Rightarrow> 'l hList \<Rightarrow> ('m, 'l, 'f) mem \<Rightarrow> 'l hList \<times> ('m, 'l, 'f) mem" where
  "WSO2SPList_DeepCopyInto A x h =
     (case mv_ListMeta_DeepCopyInto A (hl_Meta x) h of (me, h1) \<Rightarrow>
      case copyStructs sps_at sps_at_update (zero_hSP A) (WSO2SP_DeepCopyInto A) (hl_Items x) h1 of (it, h2) \<Rightarrow>
        (x\<lparr>hl_TypeMeta := hl_TypeMeta x, hl_Meta := me, hl_Items := it\<rparr>, h2))"

definition WSO2SPList_DeepCopy ::
    "('m, 'l, 'f) metav1 \<Rightarrow> ptr option \<Rightarrow> ('m, 'l, 'f) mem \<Rightarrow> ptr option \<times> ('m, 'l, 'f) mem" where
  "WSO2SPList_DeepCopy A = copyPointer splists_at splists_at_update (zero_hList A) (WSO2SPList_DeepCopyInto A)"

section \<open>Instances\<close>

definition WSO2ISInstanceSpec_DeepCopyInto ::
    "WSO2ISInstanceSpec \<Rightarrow> ('m, 'l, 'f) mem \<Rightarrow> WSO2ISInstanceSpec \<times> ('m, 'l, 'f) mem" where
  "WSO2ISInstanceSpec_DeepCopyInto x h = (x\<lparr>ispec_CredentialsSecret := ispec_CredentialsSecret x\<rparr>, h)"

definition WSO2ISInstanceSpec_DeepCopy :: "ptr option \<Rightarrow> ('m, 'l, 'f) mem \<Rightarrow> ptr option \<times> ('m, 'l, 'f) mem" where
  "WSO2ISInstanceSpec_DeepCopy =
     copyPointer ispecs_at ispecs_at_update zero_WSO2ISInstanceSpec WSO2ISInstanceSpec_DeepCopyInto"

definition WSO2ISInstanceStatus_DeepCopyInto ::
    "('m, 'l, 'f) metav1 \<Rightarrow> hInstanceStatus \<Rightarrow> ('m, 'l, 'f) mem \<Rightarrow> hInstanceStatus \<times> ('m, 'l, 'f) mem" where
  "WSO2ISInstanceStatus_DeepCopyInto A x h =
     (case copyStructs conditions_at conditions_at_update zeroCondition (mv_Condition_DeepCopyInto A)
             (hi_Conditions x) h of (co, h1) \<Rightarrow> (x\<lparr>hi_Conditions := co\<rparr>, h1))"

definition WSO2ISInstanceStatus_DeepCopy ::
    "('m, 'l, 'f) metav1 \<Rightarrow> ptr option \<Rightarrow> ('m, 'l, 'f) mem \<Rightarrow> ptr option \<times> ('m, 'l, 'f) mem" where
  "WSO2ISInstanceStatus_DeepCopy A =
     copyPointer istatuses_at istatuses_at_update zero_hInstanceStatus (WSO2ISInstanceStatus_DeepCopyInto A)"

definition WSO2ISInstance_DeepCopyInto ::
    "('m, 'l, 'f) metav1 \<Rightarrow> 'm hInstance \<Rightarrow> ('m, 'l, 'f) mem \<Rightarrow> 'm hInstance \<times> ('m, 'l, 'f) mem" where
  "WSO2ISInstance_DeepCopyInto A x h =
     (case mv_Meta_DeepCopyInto A (hin_Meta x) h of (me, h1) \<Rightarrow>
      case WSO2ISInstanceStatus_DeepCopyInto A (hin_Status x) h1 of (st, h2) \<Rightarrow>
        (x\<lparr>hin_TypeMeta := hin_TypeMeta x, hin_Meta := me, hin_Spec := hin_Spec x, hin_Status := st\<rparr>, h2))"

definition WSO2ISInstance_DeepCopy ::
    "('m, 'l, 'f) metav1 \<Rightarrow> ptr option \<Rightarrow> ('m, 'l, 'f) mem \<Rightarrow> ptr option \<times> ('m, 'l, 'f) mem" where
  "WSO2ISInstance_DeepCopy A =
     copyPointer instances_at instances_at_update (zero_hInstance A) (WSO2ISInstance_DeepCopyInto A)"

definition WSO2ISInstanceList_DeepCopyInto ::
    "('m, 'l, 'f) metav1 \<Rightarrow> 'l hList \<Rightarrow> ('m, 'l, 'f) mem \<Rightarrow> 'l hList \<times> ('m, 'l, 'f) mem" where
  "WSO2ISInstanceList_DeepCopyInto A x h =
     (case mv_ListMeta_DeepCopyInto A (hl_Meta x) h of (me, h1) \<Rightarrow>
      case copyStructs instances_at instances_at_update (zero_hInstance A) (WSO2ISInstance_DeepCopyInto A)
             (hl_Items x) h1 of (it, h2) \<Rightarrow>
        (x\<lparr>hl_TypeMeta := hl_TypeMeta x, hl_Meta := me, hl_Items := it\<rparr>, h2))"

definition WSO2ISInstanceList_DeepCopy ::
    "('m, 'l, 'f) metav1 \<Rightarrow> ptr option \<Rightarrow> ('m, 'l, 'f) mem \<Rightarrow> ptr option \<times> ('m, 'l, 'f) mem" where
  "WSO2ISInstanceList_DeepCopy A =
     copyPointer instancelists_at instancelists_at_update (zero_hList A) (WSO2ISInstanceList_DeepCopyInto A)"

section \<open>\<^verbatim>\<open>runtime.Object\<close>\<close>

text \<open>
  The interface value: its dynamic type and a pointer. \<open>None\<close> is the nil interface, which is not an
  interface that holds a nil pointer.
\<close>

datatype runtimeObject =
    ObjWSO2SP "ptr option"
  | ObjWSO2SPList "ptr option"
  | ObjWSO2ISInstance "ptr option"
  | ObjWSO2ISInstanceList "ptr option"

definition deepCopyObject ::
    "(ptr option \<Rightarrow> runtimeObject) \<Rightarrow> (ptr option \<Rightarrow> ('m, 'l, 'f) mem \<Rightarrow> ptr option \<times> ('m, 'l, 'f) mem)
     \<Rightarrow> ptr option \<Rightarrow> ('m, 'l, 'f) mem \<Rightarrow> runtimeObject option \<times> ('m, 'l, 'f) mem" where
  "deepCopyObject obj cp p h = (case cp p h of (c, h') \<Rightarrow> (if c \<noteq> None then Some (obj c) else None, h'))"

definition WSO2SP_DeepCopyObject ::
    "('m, 'l, 'f) metav1 \<Rightarrow> ptr option \<Rightarrow> ('m, 'l, 'f) mem \<Rightarrow> runtimeObject option \<times> ('m, 'l, 'f) mem" where
  "WSO2SP_DeepCopyObject A = deepCopyObject ObjWSO2SP (WSO2SP_DeepCopy A)"

definition WSO2SPList_DeepCopyObject ::
    "('m, 'l, 'f) metav1 \<Rightarrow> ptr option \<Rightarrow> ('m, 'l, 'f) mem \<Rightarrow> runtimeObject option \<times> ('m, 'l, 'f) mem" where
  "WSO2SPList_DeepCopyObject A = deepCopyObject ObjWSO2SPList (WSO2SPList_DeepCopy A)"

definition WSO2ISInstance_DeepCopyObject ::
    "('m, 'l, 'f) metav1 \<Rightarrow> ptr option \<Rightarrow> ('m, 'l, 'f) mem \<Rightarrow> runtimeObject option \<times> ('m, 'l, 'f) mem" where
  "WSO2ISInstance_DeepCopyObject A = deepCopyObject ObjWSO2ISInstance (WSO2ISInstance_DeepCopy A)"

definition WSO2ISInstanceList_DeepCopyObject ::
    "('m, 'l, 'f) metav1 \<Rightarrow> ptr option \<Rightarrow> ('m, 'l, 'f) mem \<Rightarrow> runtimeObject option \<times> ('m, 'l, 'f) mem" where
  "WSO2ISInstanceList_DeepCopyObject A = deepCopyObject ObjWSO2ISInstanceList (WSO2ISInstanceList_DeepCopy A)"

end
