(* ===== verification/DeepCopyFacts.thy ===== *)
theory DeepCopyFacts
  imports DeepCopy
begin

text \<open>
  The value a struct in memory stands for and the blocks it reaches, and the theorem on the generated
  deep copies: a copy has the value of the original and shares no memory with it.
\<close>

section \<open>Values and blocks of the structs\<close>

abbreviation strVal :: "('m, 'l, 'f) mem \<Rightarrow> window option \<Rightarrow> string slice" where
  "strVal \<equiv> sliceVal strings_at (\<lambda>h c. c)"

abbreviation strRefs :: "('m, 'l, 'f) mem \<Rightarrow> window option \<Rightarrow> nat set" where
  "strRefs \<equiv> sliceRefs strings_at (\<lambda>h c. {})"

abbreviation referenceVal :: "('m, 'l, 'f) mem \<Rightarrow> ptr option \<Rightarrow> LocalObjectReference option" where
  "referenceVal \<equiv> ptrVal refs_at (\<lambda>h c. c)"

abbreviation referenceRefs :: "('m, 'l, 'f) mem \<Rightarrow> ptr option \<Rightarrow> nat set" where
  "referenceRefs \<equiv> ptrRefs refs_at (\<lambda>h c. {})"

definition stepVal :: "('m, 'l, 'f) mem \<Rightarrow> hStep \<Rightarrow> V1_AuthenticationStep" where
  "stepVal h x = \<lparr>v1a_Step = hs_Step x, v1a_LocalAuthenticators = strVal h (hs_LocalAuthenticators x),
     v1a_FederatedIDP = hs_FederatedIDP x, v1a_FederatedAuthenticator = hs_FederatedAuthenticator x\<rparr>"

definition stepRefs :: "('m, 'l, 'f) mem \<Rightarrow> hStep \<Rightarrow> nat set" where
  "stepRefs h x = strRefs h (hs_LocalAuthenticators x)"

definition oauthVal :: "('m, 'l, 'f) mem \<Rightarrow> hOAuth2 \<Rightarrow> V1_OAuth2Config" where
  "oauthVal h x = \<lparr>v1o_CallbackURL = ho_CallbackURL x, v1o_GrantTypes = strVal h (ho_GrantTypes x),
     v1o_PKCEMandatory = ho_PKCEMandatory x, v1o_PKCEPlain = ho_PKCEPlain x, v1o_PublicClient = ho_PublicClient x,
     v1o_TokenBinding = ho_TokenBinding x, v1o_Audiences = strVal h (ho_Audiences x),
     v1o_ScopeValidators = strVal h (ho_ScopeValidators x), v1o_RefreshTokenExpiry = ho_RefreshTokenExpiry x,
     v1o_AccessTokenExpiry = ho_AccessTokenExpiry x\<rparr>"

definition oauthRefs :: "('m, 'l, 'f) mem \<Rightarrow> hOAuth2 \<Rightarrow> nat set" where
  "oauthRefs h x = strRefs h (ho_GrantTypes x) \<union> strRefs h (ho_Audiences x) \<union> strRefs h (ho_ScopeValidators x)"

definition specVal :: "('m, 'l, 'f) mem \<Rightarrow> hSpec \<Rightarrow> WSO2SPSpec" where
  "specVal h x = \<lparr>spec_InstanceRef = referenceVal h (hp_InstanceRef x), spec_Name = hp_Name x,
     spec_Claims = sliceVal claims_at (\<lambda>h c. c) h (hp_Claims x), spec_Description = hp_Description x,
     spec_SubjectClaimURI = hp_SubjectClaimURI x, spec_SAML = ptrVal samls_at (\<lambda>h c. c) h (hp_SAML x),
     spec_OAuth2 = ptrVal oauths_at oauthVal h (hp_OAuth2 x),
     spec_AuthenticationSteps = sliceVal steps_at stepVal h (hp_AuthenticationSteps x),
     spec_AuthenticationScript = referenceVal h (hp_AuthenticationScript x),
     spec_AlwaysSendBackAuthenticatedListOfIDPs = hp_AlwaysSendBackAuthenticatedListOfIDPs x,
     spec_EnableAuthorization = hp_EnableAuthorization x, spec_SkipConsent = hp_SkipConsent x,
     spec_SkipLogoutConsent = hp_SkipLogoutConsent x, spec_UseTenantInSub = hp_UseTenantInSub x,
     spec_UseUserstoreInSub = hp_UseUserstoreInSub x, spec_UseUserstoreInRoles = hp_UseUserstoreInRoles x,
     spec_StepForSubject = hp_StepForSubject x, spec_StepForAttributes = hp_StepForAttributes x\<rparr>"

definition specRefs :: "('m, 'l, 'f) mem \<Rightarrow> hSpec \<Rightarrow> nat set" where
  "specRefs h x = referenceRefs h (hp_InstanceRef x) \<union> sliceRefs claims_at (\<lambda>h c. {}) h (hp_Claims x)
     \<union> ptrRefs samls_at (\<lambda>h c. {}) h (hp_SAML x) \<union> ptrRefs oauths_at oauthRefs h (hp_OAuth2 x)
     \<union> sliceRefs steps_at stepRefs h (hp_AuthenticationSteps x) \<union> referenceRefs h (hp_AuthenticationScript x)"

definition statusVal :: "('m, 'l, 'f) mem \<Rightarrow> hStatus \<Rightarrow> WSO2SPStatus" where
  "statusVal h x = \<lparr>status_ID = ht_ID x, status_ResourceID = ht_ResourceID x, status_Phase = ht_Phase x,
     status_AdminCanView = ht_AdminCanView x, status_Message = ht_Message x,
     status_Conditions = sliceVal conditions_at (\<lambda>h c. c) h (ht_Conditions x)\<rparr>"

definition statusRefs :: "('m, 'l, 'f) mem \<Rightarrow> hStatus \<Rightarrow> nat set" where
  "statusRefs h x = sliceRefs conditions_at (\<lambda>h c. {}) h (ht_Conditions x)"

definition instanceStatusVal :: "('m, 'l, 'f) mem \<Rightarrow> hInstanceStatus \<Rightarrow> WSO2ISInstanceStatus" where
  "instanceStatusVal h x = \<lparr>istatus_Ready = hi_Ready x, istatus_Message = hi_Message x, istatus_Phase = hi_Phase x,
     istatus_Conditions = sliceVal conditions_at (\<lambda>h c. c) h (hi_Conditions x)\<rparr>"

definition instanceStatusRefs :: "('m, 'l, 'f) mem \<Rightarrow> hInstanceStatus \<Rightarrow> nat set" where
  "instanceStatusRefs h x = sliceRefs conditions_at (\<lambda>h c. {}) h (hi_Conditions x)"

definition spVal :: "(('m, 'l, 'f) mem \<Rightarrow> 'm \<Rightarrow> ObjectMeta) \<Rightarrow> ('m, 'l, 'f) mem \<Rightarrow> 'm hSP \<Rightarrow> TypeMeta \<times> WSO2SP" where
  "spVal valM h x = (hsp_TypeMeta x, \<lparr>sp_Meta = valM h (hsp_Meta x), sp_Spec = specVal h (hsp_Spec x),
     sp_Status = statusVal h (hsp_Status x)\<rparr>)"

definition spRefs :: "(('m, 'l, 'f) mem \<Rightarrow> 'm \<Rightarrow> nat set) \<Rightarrow> ('m, 'l, 'f) mem \<Rightarrow> 'm hSP \<Rightarrow> nat set" where
  "spRefs refsM h x = refsM h (hsp_Meta x) \<union> specRefs h (hsp_Spec x) \<union> statusRefs h (hsp_Status x)"

definition instanceVal ::
    "(('m, 'l, 'f) mem \<Rightarrow> 'm \<Rightarrow> ObjectMeta) \<Rightarrow> ('m, 'l, 'f) mem \<Rightarrow> 'm hInstance \<Rightarrow> TypeMeta \<times> WSO2ISInstance" where
  "instanceVal valM h x = (hin_TypeMeta x, \<lparr>inst_Meta = valM h (hin_Meta x), inst_Spec = hin_Spec x,
     inst_Status = instanceStatusVal h (hin_Status x)\<rparr>)"

definition instanceRefs :: "(('m, 'l, 'f) mem \<Rightarrow> 'm \<Rightarrow> nat set) \<Rightarrow> ('m, 'l, 'f) mem \<Rightarrow> 'm hInstance \<Rightarrow> nat set" where
  "instanceRefs refsM h x = refsM h (hin_Meta x) \<union> instanceStatusRefs h (hin_Status x)"

text \<open>A list of objects, whose elements are read by \<open>items\<close> and reach the blocks \<open>itemRefs\<close>.\<close>

definition listVal :: "(('m, 'l, 'f) mem \<Rightarrow> 'l \<Rightarrow> 'u) \<Rightarrow> (('m, 'l, 'f) mem \<Rightarrow> window option \<Rightarrow> 'v slice)
    \<Rightarrow> ('m, 'l, 'f) mem \<Rightarrow> 'l hList \<Rightarrow> TypeMeta \<times> 'u \<times> 'v slice" where
  "listVal valL items h x = (hl_TypeMeta x, valL h (hl_Meta x), items h (hl_Items x))"

definition listRefs :: "(('m, 'l, 'f) mem \<Rightarrow> 'l \<Rightarrow> nat set) \<Rightarrow> (('m, 'l, 'f) mem \<Rightarrow> window option \<Rightarrow> nat set)
    \<Rightarrow> ('m, 'l, 'f) mem \<Rightarrow> 'l hList \<Rightarrow> nat set" where
  "listRefs refsL itemRefs h x = refsL h (hl_Meta x) \<union> itemRefs h (hl_Items x)"

section \<open>The copies are deep\<close>

lemma framed_plain: "framed (\<lambda>h c. c) (\<lambda>h c. {})"
  by (simp add: framed_def)

lemma framed_eq:
  assumes "framed val refs" "\<forall>b \<in> refs h x. same_at b h h'"
  shows "val h' x = val h x" "refs h' x = refs h x"
  using assms unfolding framed_def by blast+

lemma framedI:
  "(\<And>h h' x. \<forall>b \<in> refs h x. same_at b h h' \<Longrightarrow> val h' x = val h x \<and> refs h' x = refs h x) \<Longrightarrow> framed val refs"
  unfolding framed_def by blast

lemma deep_copyingI:
  assumes "framed val refs"
    and "\<And>x h y h'. allocated refs h x \<Longrightarrow> cp x h = (y, h') \<Longrightarrow> copied val refs h x h' y"
  shows "deep_copying val refs cp"
  using assms by (simp add: deep_copying_def)

lemma allocated_Un: "A \<union> B \<subseteq> {..<n} \<longleftrightarrow> A \<subseteq> {..<n} \<and> B \<subseteq> {..<(n::nat)}"
  by blast

lemmas copy_strings = strings.deep_copySlice
lemmas copy_claims = claims.deep_copySlice
lemmas copy_reference = refs.deep_copyPointer [OF deep_copyValue]
lemmas copy_saml = samls.deep_copyPointer [OF deep_copyValue]
lemmas framed_strings = deep_copying_framed [OF copy_strings]

lemma deep_AuthenticationStep: "deep_copying stepVal stepRefs AuthenticationStep_DeepCopyInto"
proof (rule deep_copyingI)
  show "framed stepVal stepRefs"
  proof (rule framedI)
    fix h h' :: "('m, 'l, 'f) mem" and x
    assume "\<forall>b \<in> stepRefs h x. same_at b h h'"
    then show "stepVal h' x = stepVal h x \<and> stepRefs h' x = stepRefs h x"
      by (simp add: stepVal_def stepRefs_def framed_eq [OF framed_strings, of h _ h'])
  qed
next
  fix x y :: hStep and h h' :: "('m, 'l, 'f) mem"
  assume a: "allocated stepRefs h x" and c: "AuthenticationStep_DeepCopyInto x h = (y, h')"
  obtain la where la: "copyStrings (hs_LocalAuthenticators x) h = (la, h')" "y = x\<lparr>hs_LocalAuthenticators := la\<rparr>"
    using c by (auto simp: AuthenticationStep_DeepCopyInto_def split: prod.splits)
  have "copied strVal strRefs h (hs_LocalAuthenticators x) h' la"
    by (rule copy_field(1) [OF copy_strings la(1) _ extends_refl]) (use a in \<open>simp add: allocated_def stepRefs_def\<close>)
  then show "copied stepVal stepRefs h x h' y" by (simp add: copied_def stepVal_def stepRefs_def la(2))
qed

lemma deep_OAuth2Config: "deep_copying oauthVal oauthRefs OAuth2Config_DeepCopyInto"
proof (rule deep_copyingI)
  show "framed oauthVal oauthRefs"
  proof (rule framedI)
    fix h h' :: "('m, 'l, 'f) mem" and x
    assume "\<forall>b \<in> oauthRefs h x. same_at b h h'"
    then show "oauthVal h' x = oauthVal h x \<and> oauthRefs h' x = oauthRefs h x"
      by (simp add: oauthVal_def oauthRefs_def ball_Un framed_eq [OF framed_strings, of h _ h'])
  qed
next
  fix x y :: hOAuth2 and h h' :: "('m, 'l, 'f) mem"
  assume a: "allocated oauthRefs h x" and c: "OAuth2Config_DeepCopyInto x h = (y, h')"
  obtain gt h1 where gt: "copyStrings (ho_GrantTypes x) h = (gt, h1)" by fastforce
  obtain au h2 where au: "copyStrings (ho_Audiences x) h1 = (au, h2)" by fastforce
  obtain sv h3 where sv: "copyStrings (ho_ScopeValidators x) h2 = (sv, h3)" by fastforce
  have y: "y = x\<lparr>ho_GrantTypes := gt, ho_Audiences := au, ho_ScopeValidators := sv\<rparr>" "h' = h3"
    using c gt au sv by (auto simp: OAuth2Config_DeepCopyInto_def)
  have al: "allocated strRefs h (ho_GrantTypes x)" "allocated strRefs h (ho_Audiences x)"
    "allocated strRefs h (ho_ScopeValidators x)"
    using a by (simp_all add: allocated_def oauthRefs_def)
  note f1 = copy_field [OF copy_strings gt al(1) extends_refl]
  note f2 = copy_field [OF copy_strings au al(2) f1(2)]
  note f3 = copy_field [OF copy_strings sv al(3) f2(2)]
  note f1(1) [THEN copied_later [OF framed_strings, OF _ extends_trans [OF f2(3) f3(3)]]]
    f2(1) [THEN copied_later [OF framed_strings, OF _ f3(3)]] f3(1)
  then show "copied oauthVal oauthRefs h x h' y"
    by (simp add: copied_def oauthVal_def oauthRefs_def y)
qed

lemmas copy_oauth = oauths.deep_copyPointer [OF deep_OAuth2Config]
lemmas copy_steps = steps.deep_copyStructs [OF deep_AuthenticationStep]
lemmas spec_framed = deep_copying_framed [OF copy_reference] deep_copying_framed [OF copy_claims]
  deep_copying_framed [OF copy_saml] deep_copying_framed [OF copy_oauth] deep_copying_framed [OF copy_steps]

text \<open>The specification: six fields, one after the other.\<close>

lemma framed_spec: "framed specVal specRefs"
proof (rule framedI)
  fix h h' :: "('m, 'l, 'f) mem" and x
  assume "\<forall>b \<in> specRefs h x. same_at b h h'"
  then show "specVal h' x = specVal h x \<and> specRefs h' x = specRefs h x"
    by (simp add: specVal_def specRefs_def ball_Un framed_eq [OF spec_framed(1), of h _ h']
        framed_eq [OF spec_framed(2), of h _ h'] framed_eq [OF spec_framed(3), of h _ h']
        framed_eq [OF spec_framed(4), of h _ h'] framed_eq [OF spec_framed(5), of h _ h'])
qed

lemma deep_WSO2SPSpec: "deep_copying specVal specRefs WSO2SPSpec_DeepCopyInto"
proof (rule deep_copyingI [OF framed_spec])
  fix x y :: hSpec and h h' :: "('m, 'l, 'f) mem"
  assume a: "allocated specRefs h x" and c: "WSO2SPSpec_DeepCopyInto x h = (y, h')"
  obtain ir h1 where ir: "copyReference (hp_InstanceRef x) h = (ir, h1)" by fastforce
  obtain cl h2 where cl: "copySlice claims_at_update zero_V1_Claim (hp_Claims x) h1 = (cl, h2)" by fastforce
  obtain sa h3 where sa: "copyPointer samls_at samls_at_update zero_V1_SAMLConfig copyValue (hp_SAML x) h2 = (sa, h3)"
    by fastforce
  obtain oa h4 where oa: "copyPointer oauths_at oauths_at_update zero_hOAuth2 OAuth2Config_DeepCopyInto
    (hp_OAuth2 x) h3 = (oa, h4)" by fastforce
  obtain st h5 where st: "copyStructs steps_at steps_at_update zero_hStep AuthenticationStep_DeepCopyInto
    (hp_AuthenticationSteps x) h4 = (st, h5)" by fastforce
  obtain sc h6 where sc: "copyReference (hp_AuthenticationScript x) h5 = (sc, h6)" by fastforce
  have y: "y = x\<lparr>hp_InstanceRef := ir, hp_Claims := cl, hp_SAML := sa, hp_OAuth2 := oa, hp_AuthenticationSteps := st,
      hp_AuthenticationScript := sc\<rparr>" "h' = h6"
    using c ir cl sa oa st sc by (auto simp: WSO2SPSpec_DeepCopyInto_def)
  have al: "allocated referenceRefs h (hp_InstanceRef x)" "allocated (sliceRefs claims_at (\<lambda>h c. {})) h (hp_Claims x)"
    "allocated (ptrRefs samls_at (\<lambda>h c. {})) h (hp_SAML x)" "allocated (ptrRefs oauths_at oauthRefs) h (hp_OAuth2 x)"
    "allocated (sliceRefs steps_at stepRefs) h (hp_AuthenticationSteps x)"
    "allocated referenceRefs h (hp_AuthenticationScript x)"
    using a by (simp_all add: allocated_def specRefs_def)
  note f1 = copy_field [OF copy_reference ir al(1) extends_refl]
  note f2 = copy_field [OF copy_claims cl al(2) f1(2)]
  note f3 = copy_field [OF copy_saml sa al(3) f2(2)]
  note f4 = copy_field [OF copy_oauth oa al(4) f3(2)]
  note f5 = copy_field [OF copy_steps st al(5) f4(2)]
  note f6 = copy_field [OF copy_reference sc al(6) f5(2)]
  note e5 = f6(3) and e4 = extends_trans [OF f5(3) f6(3)]
  note e3 = extends_trans [OF f4(3) e4]
  note e2 = extends_trans [OF f3(3) e3]
  note e1 = extends_trans [OF f2(3) e2]
  note f1(1) [THEN copied_later [OF spec_framed(1), OF _ e1]] f2(1) [THEN copied_later [OF spec_framed(2), OF _ e2]]
    f3(1) [THEN copied_later [OF spec_framed(3), OF _ e3]] f4(1) [THEN copied_later [OF spec_framed(4), OF _ e4]]
    f5(1) [THEN copied_later [OF spec_framed(5), OF _ e5]] f6(1)
  then show "copied specVal specRefs h x h' y"
    by (simp add: copied_def specVal_def specRefs_def y)
qed

section \<open>Objects, given deep copies of metadata and conditions\<close>

lemma deep_WSO2SPStatus:
  assumes "deep_copying (\<lambda>h c. c) (\<lambda>h c. {}) (mv_Condition_DeepCopyInto A)"
  shows "deep_copying statusVal statusRefs (WSO2SPStatus_DeepCopyInto A)"
proof (rule deep_copyingI)
  note copy = conditions.deep_copyStructs [OF assms]
  show "framed statusVal statusRefs"
  proof (rule framedI)
    fix h h' :: "('m, 'l, 'f) mem" and x
    assume "\<forall>b \<in> statusRefs h x. same_at b h h'"
    then show "statusVal h' x = statusVal h x \<and> statusRefs h' x = statusRefs h x"
      by (simp add: statusVal_def statusRefs_def framed_eq [OF conditions.framed_slice [OF framed_plain], of h _ h'])
  qed
  fix x y :: hStatus and h h' :: "('a, 'b, 'c) mem"
  assume a: "allocated statusRefs h x" and c: "WSO2SPStatus_DeepCopyInto A x h = (y, h')"
  obtain co where co: "copyStructs conditions_at conditions_at_update zeroCondition (mv_Condition_DeepCopyInto A)
      (ht_Conditions x) h = (co, h')" "y = x\<lparr>ht_Conditions := co\<rparr>"
    using c by (auto simp: WSO2SPStatus_DeepCopyInto_def split: prod.splits)
  have "copied (sliceVal conditions_at (\<lambda>h c. c)) (sliceRefs conditions_at (\<lambda>h c. {})) h (ht_Conditions x) h' co"
    by (rule copy_field(1) [OF copy co(1) _ extends_refl]) (use a in \<open>simp add: allocated_def statusRefs_def\<close>)
  then show "copied statusVal statusRefs h x h' y" by (simp add: copied_def statusVal_def statusRefs_def co(2))
qed

lemma deep_WSO2ISInstanceStatus:
  assumes "deep_copying (\<lambda>h c. c) (\<lambda>h c. {}) (mv_Condition_DeepCopyInto A)"
  shows "deep_copying instanceStatusVal instanceStatusRefs (WSO2ISInstanceStatus_DeepCopyInto A)"
proof (rule deep_copyingI)
  note copy = conditions.deep_copyStructs [OF assms]
  show "framed instanceStatusVal instanceStatusRefs"
  proof (rule framedI)
    fix h h' :: "('m, 'l, 'f) mem" and x
    assume "\<forall>b \<in> instanceStatusRefs h x. same_at b h h'"
    then show "instanceStatusVal h' x = instanceStatusVal h x \<and> instanceStatusRefs h' x = instanceStatusRefs h x"
      by (simp add: instanceStatusVal_def instanceStatusRefs_def
          framed_eq [OF conditions.framed_slice [OF framed_plain], of h _ h'])
  qed
  fix x y :: hInstanceStatus and h h' :: "('a, 'b, 'c) mem"
  assume a: "allocated instanceStatusRefs h x" and c: "WSO2ISInstanceStatus_DeepCopyInto A x h = (y, h')"
  obtain co where co: "copyStructs conditions_at conditions_at_update zeroCondition (mv_Condition_DeepCopyInto A)
      (hi_Conditions x) h = (co, h')" "y = x\<lparr>hi_Conditions := co\<rparr>"
    using c by (auto simp: WSO2ISInstanceStatus_DeepCopyInto_def split: prod.splits)
  have "copied (sliceVal conditions_at (\<lambda>h c. c)) (sliceRefs conditions_at (\<lambda>h c. {})) h (hi_Conditions x) h' co"
    by (rule copy_field(1) [OF copy co(1) _ extends_refl]) (use a in \<open>simp add: allocated_def instanceStatusRefs_def\<close>)
  then show "copied instanceStatusVal instanceStatusRefs h x h' y"
    by (simp add: copied_def instanceStatusVal_def instanceStatusRefs_def co(2))
qed

lemma deep_WSO2SP:
  assumes "deep_copying valM refsM (mv_Meta_DeepCopyInto A)"
    and "deep_copying (\<lambda>h c. c) (\<lambda>h c. {}) (mv_Condition_DeepCopyInto A)"
  shows "deep_copying (spVal valM) (spRefs refsM) (WSO2SP_DeepCopyInto A)"
proof (rule deep_copyingI)
  note st_copy = deep_WSO2SPStatus [OF assms(2)]
  note fr = deep_copying_framed [OF assms(1)] deep_copying_framed [OF st_copy]
  show "framed (spVal valM) (spRefs refsM)"
  proof (rule framedI)
    fix h h' :: "('a, 'b, 'c) mem" and x
    assume "\<forall>b \<in> spRefs refsM h x. same_at b h h'"
    then show "spVal valM h' x = spVal valM h x \<and> spRefs refsM h' x = spRefs refsM h x"
      by (simp add: spVal_def spRefs_def ball_Un framed_eq [OF fr(1), of h _ h'] framed_eq [OF fr(2), of h _ h']
          framed_eq [OF framed_spec, of h _ h'])
  qed
  fix x y :: "'a hSP" and h h' :: "('a, 'b, 'c) mem"
  assume a: "allocated (spRefs refsM) h x" and c: "WSO2SP_DeepCopyInto A x h = (y, h')"
  obtain me h1 where me: "mv_Meta_DeepCopyInto A (hsp_Meta x) h = (me, h1)" by fastforce
  obtain sp h2 where sp: "WSO2SPSpec_DeepCopyInto (hsp_Spec x) h1 = (sp, h2)" by fastforce
  obtain st h3 where st: "WSO2SPStatus_DeepCopyInto A (hsp_Status x) h2 = (st, h3)" by fastforce
  have y: "y = x\<lparr>hsp_Meta := me, hsp_Spec := sp, hsp_Status := st\<rparr>" "h' = h3"
    using c me sp st by (auto simp: WSO2SP_DeepCopyInto_def)
  have al: "allocated refsM h (hsp_Meta x)" "allocated specRefs h (hsp_Spec x)" "allocated statusRefs h (hsp_Status x)"
    using a by (simp_all add: allocated_def spRefs_def)
  note f1 = copy_field [OF assms(1) me al(1) extends_refl]
  note f2 = copy_field [OF deep_WSO2SPSpec sp al(2) f1(2)]
  note f3 = copy_field [OF st_copy st al(3) f2(2)]
  note f1(1) [THEN copied_later [OF fr(1), OF _ extends_trans [OF f2(3) f3(3)]]]
    f2(1) [THEN copied_later [OF framed_spec, OF _ f3(3)]] f3(1)
  then show "copied (spVal valM) (spRefs refsM) h x h' y" by (simp add: copied_def spVal_def spRefs_def y)
qed

lemma deep_WSO2ISInstance:
  assumes "deep_copying valM refsM (mv_Meta_DeepCopyInto A)"
    and "deep_copying (\<lambda>h c. c) (\<lambda>h c. {}) (mv_Condition_DeepCopyInto A)"
  shows "deep_copying (instanceVal valM) (instanceRefs refsM) (WSO2ISInstance_DeepCopyInto A)"
proof (rule deep_copyingI)
  note st_copy = deep_WSO2ISInstanceStatus [OF assms(2)]
  note fr = deep_copying_framed [OF assms(1)] deep_copying_framed [OF st_copy]
  show "framed (instanceVal valM) (instanceRefs refsM)"
  proof (rule framedI)
    fix h h' :: "('a, 'b, 'c) mem" and x
    assume "\<forall>b \<in> instanceRefs refsM h x. same_at b h h'"
    then show "instanceVal valM h' x = instanceVal valM h x \<and> instanceRefs refsM h' x = instanceRefs refsM h x"
      by (simp add: instanceVal_def instanceRefs_def ball_Un framed_eq [OF fr(1), of h _ h']
          framed_eq [OF fr(2), of h _ h'])
  qed
  fix x y :: "'a hInstance" and h h' :: "('a, 'b, 'c) mem"
  assume a: "allocated (instanceRefs refsM) h x" and c: "WSO2ISInstance_DeepCopyInto A x h = (y, h')"
  obtain me h1 where me: "mv_Meta_DeepCopyInto A (hin_Meta x) h = (me, h1)" by fastforce
  obtain st h2 where st: "WSO2ISInstanceStatus_DeepCopyInto A (hin_Status x) h1 = (st, h2)" by fastforce
  have y: "y = x\<lparr>hin_Meta := me, hin_Status := st\<rparr>" "h' = h2"
    using c me st by (auto simp: WSO2ISInstance_DeepCopyInto_def)
  have al: "allocated refsM h (hin_Meta x)" "allocated instanceStatusRefs h (hin_Status x)"
    using a by (simp_all add: allocated_def instanceRefs_def)
  note f1 = copy_field [OF assms(1) me al(1) extends_refl]
  note f2 = copy_field [OF st_copy st al(2) f1(2)]
  note f1(1) [THEN copied_later [OF fr(1), OF _ f2(3)]] f2(1)
  then show "copied (instanceVal valM) (instanceRefs refsM) h x h' y"
    by (simp add: copied_def instanceVal_def instanceRefs_def y)
qed

text \<open>A list: its metadata, then its items.\<close>

lemma deep_list:
  assumes "deep_copying valL refsL cpM" "deep_copying items itemRefs cpI"
    and "\<And>x h. cp x h = (case cpM (hl_Meta x) h of (me, h1) \<Rightarrow> case cpI (hl_Items x) h1 of (it, h2) \<Rightarrow>
      (x\<lparr>hl_TypeMeta := hl_TypeMeta x, hl_Meta := me, hl_Items := it\<rparr>, h2))"
  shows "deep_copying (listVal valL items) (listRefs refsL itemRefs) cp"
proof (rule deep_copyingI)
  note fr = deep_copying_framed [OF assms(1)] deep_copying_framed [OF assms(2)]
  show "framed (listVal valL items) (listRefs refsL itemRefs)"
  proof (rule framedI)
    fix h h' :: "('a, 'b, 'c) mem" and x
    assume "\<forall>b \<in> listRefs refsL itemRefs h x. same_at b h h'"
    then show "listVal valL items h' x = listVal valL items h x
        \<and> listRefs refsL itemRefs h' x = listRefs refsL itemRefs h x"
      by (simp add: listVal_def listRefs_def ball_Un framed_eq [OF fr(1), of h _ h'] framed_eq [OF fr(2), of h _ h'])
  qed
  fix x y h h'
  assume a: "allocated (listRefs refsL itemRefs) h x" and c: "cp x h = (y, h')"
  obtain me h1 where me: "cpM (hl_Meta x) h = (me, h1)" by fastforce
  obtain it h2 where it: "cpI (hl_Items x) h1 = (it, h2)" by fastforce
  have y: "y = x\<lparr>hl_Meta := me, hl_Items := it\<rparr>" "h' = h2" using c me it by (auto simp: assms(3))
  have al: "allocated refsL h (hl_Meta x)" "allocated itemRefs h (hl_Items x)"
    using a by (simp_all add: allocated_def listRefs_def)
  note f1 = copy_field [OF assms(1) me al(1) extends_refl]
  note f2 = copy_field [OF assms(2) it al(2) f1(2)]
  note f1(1) [THEN copied_later [OF fr(1), OF _ f2(3)]] f2(1)
  then show "copied (listVal valL items) (listRefs refsL itemRefs) h x h' y"
    by (simp add: copied_def listVal_def listRefs_def y)
qed

section \<open>Independence\<close>

text \<open>
  A copy function with this property returns something of the same value that can be changed without
  changing the original, and the other way round: whatever later happens to the blocks that the one
  reaches, and to new blocks, the other keeps its value.
\<close>

definition independent :: "(('m, 'l, 'f) mem \<Rightarrow> 'h \<Rightarrow> 'v) \<Rightarrow> (('m, 'l, 'f) mem \<Rightarrow> 'h \<Rightarrow> nat set)
    \<Rightarrow> ('h \<Rightarrow> ('m, 'l, 'f) mem \<Rightarrow> 'h \<times> ('m, 'l, 'f) mem) \<Rightarrow> bool" where
  "independent val refs cp \<longleftrightarrow> (\<forall>x h y h'. allocated refs h x \<longrightarrow> cp x h = (y, h') \<longrightarrow>
     val h' y = val h x
   \<and> (\<forall>later. (\<forall>b < lim h'. b \<notin> refs h' y \<longrightarrow> same_at b h' later) \<longrightarrow> val later x = val h x)
   \<and> (\<forall>later. (\<forall>b < lim h'. b \<notin> refs h' x \<longrightarrow> same_at b h' later) \<longrightarrow> val later y = val h x))"

lemma deep_copying_independent:
  assumes "deep_copying val refs cp"
  shows "independent val refs cp"
  unfolding independent_def
proof (intro allI impI)
  fix x h y h'
  assume a: "allocated refs h x" and c: "cp x h = (y, h')"
  have f: "framed val refs" by (rule deep_copying_framed [OF assms])
  have co: "extends h h'" "refs h' y \<subseteq> {lim h..<lim h'}" "val h' y = val h x"
    using assms a c by (auto simp: deep_copying_def copied_def)
  note x' = framed_extends [OF f a co(1)]
  have less: "lim h \<le> lim h'" using co(1) by (simp add: extends_def)
  have xs: "b < lim h' \<and> b \<notin> refs h' y" if "b \<in> refs h' x" for b
    using that a x' co(2) less by (force simp: allocated_def)
  have ys: "b < lim h' \<and> b \<notin> refs h' x" if "b \<in> refs h' y" for b
    using that a x' co(2) by (force simp: allocated_def)
  show "val h' y = val h x
    \<and> (\<forall>later. (\<forall>b < lim h'. b \<notin> refs h' y \<longrightarrow> same_at b h' later) \<longrightarrow> val later x = val h x)
    \<and> (\<forall>later. (\<forall>b < lim h'. b \<notin> refs h' x \<longrightarrow> same_at b h' later) \<longrightarrow> val later y = val h x)"
    using framedD(1) [OF f, of h' x] framedD(1) [OF f, of h' y] xs ys co(3) x'(1) by metis
qed

text \<open>
  C18. The generated deep copies are deep. If \<^verbatim>\<open>metav1\<close> copies metadata and conditions as documented, the
  copy of a service provider, of an instance, or of a list of them has the value of the original and
  shares no memory with it: whatever is later written through the one leaves the other as it was. So
  the \<^verbatim>\<open>base\<close> a status patch is computed against keeps the status that was read.
\<close>

theorem deep_copies_are_independent:
  assumes "deep_copying valM refsM (mv_Meta_DeepCopyInto A)" "deep_copying valL refsL (mv_ListMeta_DeepCopyInto A)"
    and "deep_copying (\<lambda>h c. c) (\<lambda>h c. {}) (mv_Condition_DeepCopyInto A)"
  shows "independent (ptrVal sps_at (spVal valM)) (ptrRefs sps_at (spRefs refsM)) (WSO2SP_DeepCopy A)
    \<and> independent (ptrVal instances_at (instanceVal valM)) (ptrRefs instances_at (instanceRefs refsM))
         (WSO2ISInstance_DeepCopy A)
    \<and> independent (ptrVal splists_at (listVal valL (sliceVal sps_at (spVal valM))))
         (ptrRefs splists_at (listRefs refsL (sliceRefs sps_at (spRefs refsM)))) (WSO2SPList_DeepCopy A)
    \<and> independent (ptrVal instancelists_at (listVal valL (sliceVal instances_at (instanceVal valM))))
         (ptrRefs instancelists_at (listRefs refsL (sliceRefs instances_at (instanceRefs refsM))))
         (WSO2ISInstanceList_DeepCopy A)"
proof (intro conjI deep_copying_independent)
  note sp = deep_WSO2SP [OF assms(1,3)] and inst = deep_WSO2ISInstance [OF assms(1,3)]
  show "deep_copying (ptrVal sps_at (spVal valM)) (ptrRefs sps_at (spRefs refsM)) (WSO2SP_DeepCopy A)"
    unfolding WSO2SP_DeepCopy_def by (rule sps.deep_copyPointer [OF sp])
  show "deep_copying (ptrVal instances_at (instanceVal valM)) (ptrRefs instances_at (instanceRefs refsM))
      (WSO2ISInstance_DeepCopy A)"
    unfolding WSO2ISInstance_DeepCopy_def by (rule instances.deep_copyPointer [OF inst])
  show "deep_copying (ptrVal splists_at (listVal valL (sliceVal sps_at (spVal valM))))
      (ptrRefs splists_at (listRefs refsL (sliceRefs sps_at (spRefs refsM)))) (WSO2SPList_DeepCopy A)"
    unfolding WSO2SPList_DeepCopy_def
    by (rule splists.deep_copyPointer, rule deep_list [OF assms(2) sps.deep_copyStructs [OF sp]],
        rule WSO2SPList_DeepCopyInto_def)
  show "deep_copying (ptrVal instancelists_at (listVal valL (sliceVal instances_at (instanceVal valM))))
      (ptrRefs instancelists_at (listRefs refsL (sliceRefs instances_at (instanceRefs refsM))))
      (WSO2ISInstanceList_DeepCopy A)"
    unfolding WSO2ISInstanceList_DeepCopy_def
    by (rule instancelists.deep_copyPointer, rule deep_list [OF assms(2) instances.deep_copyStructs [OF inst]],
        rule WSO2ISInstanceList_DeepCopyInto_def)
qed

end
