(* ===== verification/Witnesses.thy ===== *)
theory Witnesses
  imports Simulation Startup Robustness Wakeups Conformance DeepCopyFacts
begin

text \<open>
  One instance of every theorem with hypotheses, at a concrete input where they hold.
\<close>

section \<open>Reconciliation of a service provider\<close>

lemma reconcile_writes_own_status_witness:
  "ownWrite deletingSP (UpdateSP (withFinalizers (\<lambda>_. []) deletingSP))"
  by (rule reconcile_writes_own_status [of "demoEnv deletingSP (demoAnswer 200 [])" demoKey demoRun _ "()"])
    (simp_all add: demoEnv_laws demo_deleting)

lemma finalizer_removed_after_delete_witness:
  "\<exists>c. fst (buildClient (demoEnv deletingSP (demoAnswer 200 [])) deletingSP (afterGet demoKey () demoRun)) = Returned (Inr c)
     \<and> Http (deleteRequest c ''portal'') \<in> set [GetSP demoKey, GetInstance \<lparr>nn_Name = ''is'', nn_Namespace = ''apps''\<rparr>,
         GetSecret (credentialsKey demoInstance), Http (deleteRequest demoClient ''portal''),
         Recorded \<lparr>rec_Type = normal, rec_Reason = ''Deleted'', rec_Action = ''Deleting'',
           rec_Note = ''Application '' @ quote ''portal'' @ '' deleted from WSO2IS''\<rparr>]"
proof -
  let ?pre = "[GetSP demoKey, GetInstance \<lparr>nn_Name = ''is'', nn_Namespace = ''apps''\<rparr>,
         GetSecret (credentialsKey demoInstance), Http (deleteRequest demoClient ''portal''),
         Recorded \<lparr>rec_Type = normal, rec_Reason = ''Deleted'', rec_Action = ''Deleting'',
           rec_Note = ''Application '' @ quote ''portal'' @ '' deleted from WSO2IS''\<rparr>]"
  have ev: "events (Reconcile (demoEnv deletingSP (demoAnswer 200 [])) demoKey) demoRun =
      ?pre @ UpdateSP (withFinalizers (\<lambda>_. []) deletingSP) # []"
    unfolding demo_deleting by simp
  have sp: "status_ResourceID (sp_Status deletingSP) = ''r3''" "spec_Name (sp_Spec deletingSP) = ''portal''"
    by (simp_all add: demo_objects)
  show ?thesis
    using finalizer_removed_after_delete [OF demoEnv_laws demoEnv_simps(1) ev] unfolding sp
    by (auto simp: withFinalizers_def)
qed

lemma credentials_stay_with_instance_witness:
  "\<exists>c path. fst (buildClient (demoEnv deletingSP (demoAnswer 200 [])) deletingSP (afterGet demoKey () demoRun)) = Returned (Inr c)
    \<and> (''u'', ''p'') = (cl_Username c, cl_Password c) \<and> hr_URL (deleteRequest demoClient ''portal'') = cl_BaseURL c @ path"
  by (rule credentials_stay_with_instance [where s = demoRun])
    (simp_all add: demo_deleting, simp add: deleteRequest_def soapCall_def request_def demoClient_def NewClient_def)

lemma ready_is_confirmed_witness: "status_AdminCanView (sp_Status syncedSP)"
  by (rule ready_is_confirmed [OF demo_sync]) (simp_all add: syncedSP_def)

lemma demo_fresh_facts:
  "skipReconcile APP freshSP = False" "timeIsZero (om_DeletionTimestamp (sp_Meta freshSP))"
  "\<not> env_ContainsFinalizer (demoEnv freshSP a) freshSP spFinalizer"
  "spec_InstanceRef (sp_Spec freshSP) = Some \<lparr>ref_Name = ''is''\<rparr>"
  by (simp_all add: demo_objects skipReconcile_def timeIsZero_def demoEnv_def)

lemma demo_fresh:
  "UpdateSP (env_AddFinalizer (demoEnv freshSP a) freshSP spFinalizer)
     \<in> set (events (Reconcile (demoEnv freshSP a) demoKey) demoRun)"
  using demo_fresh_facts(1,2,4) demo_fresh_facts(3) [of a]
  by (simp add: events_def Reconcile_def kGetSP_def call_def bind_def reconcileSP_def buildClient_demo
      addFinalizerStep_def kUpdateSP_def Let_def demoRun_def)


lemma paused_is_left_alone_witness:
  "events (Reconcile (demoEnv pausedDemo (demoAnswer 200 [])) demoKey) demoRun =
     [GetSP demoKey, StatusUpdateSP (pausedSP pausedDemo)]"
proof -
  have "skipReconcile APP pausedDemo" "status_Phase (sp_Status pausedDemo) \<noteq> phasePaused"
    by (simp_all add: demo_objects skipReconcile_def phases)
  then show ?thesis using paused_is_left_alone [OF demoEnv_simps(1)] by simp
qed

text \<open>A server that refuses connections.\<close>

definition refusedEnv :: "unit env" where
  "refusedEnv = (demoEnv oauthSP (demoAnswer 200 []))\<lparr>env_Http := \<lambda>q w. (Inl ''refused'', w)\<rparr>"

lemma refused_panics: "\<exists>p. fst (Reconcile refusedEnv demoKey demoRun) = Panicked p"
proof -
  have sp: "skipReconcile APP oauthSP = False" "skipReconcile OAuth oauthSP = False"
    "timeIsZero (om_DeletionTimestamp (sp_Meta oauthSP)) = True"
    "env_ContainsFinalizer refusedEnv oauthSP spFinalizer = True"
    "spec_OAuth2 (sp_Spec oauthSP) = Some demoOAuth2"
    by (simp_all add: oauthSP_def demo_objects skipReconcile_def timeIsZero_def refusedEnv_def demoEnv_def)
  have client: "buildClient refusedEnv oauthSP s = (Returned (Inr demoClient), \<lparr>world = (), log = log s @
      [GetInstance \<lparr>nn_Name = ''is'', nn_Namespace = om_Namespace (sp_Meta oauthSP)\<rparr>, GetSecret (credentialsKey demoInstance)]\<rparr>)" for s
    by (simp add: buildClient_def deref_def bind_def kGetInstance_def kGetSecret_def call_def demoInstance_def
        phaseReady_def demoSecret_def demoClient_def tenantOf_def refusedEnv_def oauthSP_def demo_objects)
  have "env_GetSP refusedEnv n w = (Inr oauthSP, w)" "answerTo refusedEnv q w = Inl ''refused''" for n q w
    by (simp_all add: refusedEnv_def answerTo_def)
  then show ?thesis
    by (simp add: Reconcile_def kGetSP_def call_def bind_def reconcileSP_def sp client reconcileApplication_def substep_def
        reconcileApplicationOAuth2_def oauth2FromSpec_def deref_def GetApplicationOAuth2Config_run checkReply_def Let_def)
qed


text \<open>An instance that is gone.\<close>

definition lonelyEnv :: "unit env" where
  "lonelyEnv = (demoEnv deletingSP (demoAnswer 200 []))\<lparr>env_GetInstance := \<lambda>n w. (Inl (KNotFound ''gone''), w)\<rparr>"


lemma reconcile_is_bounded_witness:
  "RequeueAfter (fst (ok noRequeue)) \<in> {0, second 5, second 15, second 30, minute 5}"
proof -
  let ?K = "(demoEnv demoSP (demoAnswer 200 []))\<lparr>env_GetSP := \<lambda>n w. (Inl (KNotFound ''gone''), w)\<rparr>"
  have "fst (Reconcile ?K demoKey demoRun) = Returned (ok noRequeue)"
    by (simp add: Reconcile_def kGetSP_def call_def bind_def)
  with reconcile_is_bounded [of ?K demoKey demoRun] show ?thesis by blast
qed


text \<open>A server without an OAuth2 application to show, and a cluster that refuses status updates.\<close>

definition refusingEnv :: "unit env" where
  "refusingEnv = (demoEnv oauthSP (demoAnswer 404 [])) \<lparr>env_StatusUpdateSP := \<lambda>x w. (Inl (KOther ''conflict''), w)\<rparr>"


section \<open>Comparison and convergence\<close>

text \<open>An application without steps, claims or protocols, and one with another name.\<close>

lemma demo_views_ok: "json_ok (appView zeroApplication)" "json_ok (appView demoApplication)"
  by (simp_all add: appView_def normalizeApplication_alt json_evals zeroApplication_def demoApplication_def valid_ascii
      byte_def sortClaims_def)

lemma app_change_is_detected_witness:
  "fst (appHasChanged zeroApplication demoApplication) \<or>
   sha256_collision (jsonText (appView zeroApplication)) (jsonText (appView demoApplication))"
proof -
  have "\<not> agree zeroApplication demoApplication"
    by (simp add: agree_def zeroApplication_def demoApplication_def norm_Application_def)
  with demo_views_ok show ?thesis by (rule app_change_is_detected)
qed

definition twoClaims :: "Claim list" where
  "twoClaims = [\<lparr>claim_URI = ''b'', claim_Mandatory = True\<rparr>, \<lparr>claim_URI = ''a'', claim_Mandatory = False\<rparr>]"

lemma app_agreement_is_quiet_witness:
  "\<not> fst (appHasChanged (demoApplication\<lparr>app_Claims := Some (rev twoClaims), app_ID := 9\<rparr>)
     (demoApplication\<lparr>app_Claims := Some twoClaims\<rparr>))"
  by (rule app_agreement_is_quiet) (simp_all add: agree_def twoClaims_def demoApplication_def add_mset_commute)


lemma oauth2_change_is_detected_witness:
  "oauth2HasChanged zeroOAuth2Config (zeroOAuth2Config\<lparr>oauth_PublicClient := True\<rparr>) \<or>
   sha256_collision (jsonText (json_OAuth2Config zeroOAuth2Config))
     (jsonText (json_OAuth2Config (zeroOAuth2Config\<lparr>oauth_PublicClient := True\<rparr>)))"
proof -
  let ?d = "zeroOAuth2Config\<lparr>oauth_PublicClient := True\<rparr>"
  have "json_ok (json_OAuth2Config zeroOAuth2Config)" "json_ok (json_OAuth2Config ?d)"
    by (simp_all add: json_OAuth2Config_def json_evals zeroOAuth2Config_def valid_ascii byte_def)
  moreover have "norm_OAuth2Config zeroOAuth2Config \<noteq> norm_OAuth2Config ?d"
    by (simp add: norm_OAuth2Config_def zeroOAuth2Config_def)
  ultimately show ?thesis using oauth2_change_is_detected [of zeroOAuth2Config ?d] by simp
qed

lemma saml_change_detection_witness:
  "samlSPHasChanged zeroSAMLConfig (zeroSAMLConfig\<lparr>saml_ACSURLs := Some [''https://app/acs'']\<rparr>) \<or>
   sha256_collision (jsonText (samlView zeroSAMLConfig))
     (jsonText (samlView (zeroSAMLConfig\<lparr>saml_ACSURLs := Some [''https://app/acs'']\<rparr>)))"
proof -
  let ?d = "zeroSAMLConfig\<lparr>saml_ACSURLs := Some [''https://app/acs'']\<rparr>"
  have "json_ok (samlView zeroSAMLConfig)" "json_ok (samlView ?d)"
    by (simp_all add: samlView_eq jsonSlice_def zeroSAMLConfig_def valid_ascii byte_def)
  then show ?thesis using saml_change_detection [of zeroSAMLConfig ?d] by (simp add: zeroSAMLConfig_def)
qed

text \<open>A spec with both protocols, which is settled.\<close>

definition fullSP :: WSO2SP where
  "fullSP = demoSP\<lparr>sp_Spec := demoSpec\<lparr>spec_OAuth2 := Some demoOAuth2,
     spec_SAML := Some \<lparr>v1s_MetadataURL = ''https://app/md'', v1s_EnableAttributeProfile = True,
       v1s_IncludeAttributesByDefault = False\<rparr>\<rparr>\<rparr>"






section \<open>Secrets\<close>


definition inboundDemoEnv :: "unit env" where
  "inboundDemoEnv = (demoEnv oauthSP (demoAnswer 200 []))\<lparr>env_GetSecret := \<lambda>n w. (Inr (demoSecret
     \<lparr>sec_Data := Some (Map.empty(''client_id'' \<mapsto> ''k'', ''client_secret'' \<mapsto> ''x''))\<rparr>), w)\<rparr>"


section \<open>Client, instance, metadata\<close>

lemma saml_update_deletes_application_witness:
  "soapActionOf (deleteRequest demoClient []) \<noteq> Some removeSAMLApplication"
proof -
  let ?K = "demoEnv demoSP (demoAnswer 200 [])"
  have cfg: "saml_Issuer zeroSAMLConfig = []" by (simp add: zeroSAMLConfig_def)
  have ev: "Http (deleteRequest demoClient []) \<in> set (events (UpdateSAMLApplication ?K demoClient zeroSAMLConfig) demoRun)"
    by (simp add: events_def UpdateSAMLApplication_def bind_def DeleteApplication_run errorOf_def checkReply_def
        isSuccess_def cfg CreateSAMLApplication_def doSOAPnil_run demoRun_def)
  show ?thesis
    using saml_update_deletes_application [of demoClient zeroSAMLConfig ?K demoRun] ev unfolding Let_def by blast
qed

lemma demo_credentials:
  "hasCredentials demoSecret" "instanceClient demoInstance demoSecret = demoClient"
  by (simp_all add: hasCredentials_def demoSecret_def instanceClient_def demoClient_def demoInstance_def tenantOf_def)

lemma instance_phase_is_probe_witness:
  "\<exists>now msg. instanceWrites (events (reconcileInstance (demoEnv demoSP (demoAnswer 200 [])) demoKey) demoRun) =
     [StatusUpdateInstance (withInstancePhase now ''Ready'' msg demoInstance)]"
proof -
  have "reachable (demoEnv demoSP (demoAnswer 200 [])) demoInstance (Inr demoSecret) ()"
    by (simp add: reachable_def pings_def demo_credentials)
  with instance_phase_is_probe [OF demoEnv_simps(2) [of demoSP "demoAnswer 200 []"]
    demoEnv_simps(3), where s = demoRun and req = demoKey]
  show ?thesis by simp
qed

lemma acs_urls_and_default_witness:
  "snd (collectACSURLs (Some
     [\<lparr>acs_Binding = [], acs_Location = ''a'', acs_Index = 0, acs_IsDefault = False\<rparr>,
      \<lparr>acs_Binding = [], acs_Location = ''b'', acs_Index = 1, acs_IsDefault = True\<rparr>])) = ''b''"
  using acs_urls_and_default [of "Some
     [\<lparr>acs_Binding = [], acs_Location = ''a'', acs_Index = 0, acs_IsDefault = False\<rparr>,
      \<lparr>acs_Binding = [], acs_Location = ''b'', acs_Index = 1, acs_IsDefault = True\<rparr>]"]
  by simp

section \<open>Lifecycle and liveness\<close>

text \<open>A service provider as its user creates it, on a server that does not know it.\<close>

definition newSP :: WSO2SP where
  "newSP = freshSP\<lparr>sp_Status := noStatus\<rparr>"

definition fullSpec :: WSO2SPSpec where
  "fullSpec = simSpec (Some demoOAuth2) (Some \<lparr>v1s_MetadataURL = ''https://app/md'', v1s_EnableAttributeProfile = True,
     v1s_IncludeAttributesByDefault = False\<rparr>)"

definition publicSpec :: WSO2SPSpec where
  "publicSpec = simSpec (Some (demoOAuth2\<lparr>v1o_PublicClient := True\<rparr>)) None"

definition simRun :: "WSO2SPSpec \<Rightarrow> sim run" where
  "simRun spec = \<lparr>world = \<lparr>sim_obj = newSP\<lparr>sp_Spec := spec\<rparr>, sim_app = False, sim_member = False, sim_oauth = False,
     sim_saml = False, sim_inbound = None, sim_status = inst_Status demoInstance\<rparr>, log = []\<rparr>"

lemma simRun_starts:
  "active spec (sim_obj (world (simRun spec)))" "\<not> announcedReady (sim_obj (world (simRun spec)))"
  "simOAuth sp (world (simRun spec)) = None" "simSAML sp (world (simRun spec)) = None"
  "instanceReady (simInstance (world (simRun spec)))"
  by (simp_all add: simRun_def newSP_def demo_objects simInstance_def demoInstance_def instanceReady_def active_def skipReconcile_def timeIsZero_def announcedReady_def
      noStatus_def phaseReady_def simOAuth_def simSAML_def)



text \<open>
  The instance has failed before, and the controllers have their turns in turn: the second turn of the
  instance comes when the service provider is half-way.
\<close>

definition failedRun :: "WSO2SPSpec \<Rightarrow> sim run" where
  "failedRun spec = \<lparr>world = (world (simRun spec))\<lparr>sim_status := (inst_Status demoInstance)\<lparr>istatus_Phase := ''Failed''\<rparr>\<rparr>, log = []\<rparr>"

definition someTurns :: "turn list" where
  "someTurns = [ProviderTurn, ProviderTurn, InstanceTurn, ProviderTurn, ProviderTurn, ProviderTurn, InstanceTurn,
     ProviderTurn, ProviderTurn, ProviderTurn]"

definition instanceKey :: NamespacedName where
  "instanceKey = \<lparr>nn_Name = ''is'', nn_Namespace = ''apps''\<rparr>"


text \<open>The user deletes the object right after a reconciliation has read it.\<close>

definition deletedInRun :: system where
  "deletedInRun = \<lparr>sys_obj = newSP\<lparr>sp_Meta := (sp_Meta newSP)\<lparr>om_DeletionTimestamp := Some 5\<rparr>\<rparr>, sys_gone = True,
     sys_run = Some (newSP, [GetSP demoKey], events (reconcileSP (simEnv demoSpec) newSP) (afterGet demoKey (world (simRun demoSpec)) (simRun demoSpec))),
     sys_log = [GetSP demoKey]\<rparr>"

lemma reached_deletedInRun: "reached (simEnv demoSpec) demoKey deletedInRun"
proof -
  let ?es = "events (reconcileSP (simEnv demoSpec) newSP) (afterGet demoKey (world (simRun demoSpec)) (simRun demoSpec))"
  let ?S1 = "(created newSP)\<lparr>sys_run := Some (newSP, [], GetSP demoKey # ?es)\<rparr>"
  let ?S2 = "?S1\<lparr>sys_run := Some (newSP, [GetSP demoKey], ?es), sys_log := [GetSP demoKey]\<rparr>"
  have get: "env_GetSP (simEnv demoSpec) demoKey (world (simRun demoSpec)) = (Inr newSP, world (simRun demoSpec))" by (simp add: simRun_def newSP_def demo_objects)
  have "sys_step (simEnv demoSpec) demoKey (created newSP) ?S1"
    using begin_run [of "created newSP" "simEnv demoSpec" demoKey "simRun demoSpec" newSP] get events_Reconcile_found [OF get]
    by (simp add: created_def newSP_def)
  then have "reached (simEnv demoSpec) demoKey ?S1" by (rule reached.step [OF reached.start])
  moreover have "sys_step (simEnv demoSpec) demoKey ?S1 ?S2"
    using refuse [of ?S1 newSP "[]" "GetSP demoKey" ?es "simEnv demoSpec" demoKey] by (simp add: created_def)
  ultimately have "reached (simEnv demoSpec) demoKey ?S2" by (rule reached.step)
  moreover have "sys_step (simEnv demoSpec) demoKey ?S2 deletedInRun"
    using delete [of ?S2 "sys_obj deletedInRun" 5 "simEnv demoSpec" demoKey]
    by (simp add: created_def deletedInRun_def newSP_def demo_objects collected_def)
  ultimately show ?thesis by (rule reached.step)
qed


section \<open>Schemas and wake-ups\<close>

text \<open>A service provider whose user does not want plain PKCE challenges, and its first reconciliation.\<close>

definition strictSP :: WSO2SP where
  "strictSP = freshSP\<lparr>sp_Spec := demoSpec\<lparr>spec_OAuth2 := Some (demoOAuth2\<lparr>v1o_PKCEPlain := False\<rparr>)\<rparr>\<rparr>"

definition strictEnv :: "unit env" where
  "strictEnv = demoEnv strictSP (demoAnswer 200 [])"

definition strictUpdate :: WSO2SP where
  "strictUpdate = env_AddFinalizer strictEnv strictSP spFinalizer"

lemma strict_facts:
  "\<not> skipReconcile APP strictSP" "timeIsZero (om_DeletionTimestamp (sp_Meta strictSP))"
  "\<not> env_ContainsFinalizer strictEnv strictSP spFinalizer"
  "spec_InstanceRef (sp_Spec strictSP) = Some \<lparr>ref_Name = ''is''\<rparr>"
  by (simp_all add: strictSP_def demo_objects skipReconcile_def timeIsZero_def demoEnv_def strictEnv_def)

lemma strict_run:
  "fst (Reconcile strictEnv demoKey demoRun) = Returned (ok noRequeue)"
  "UpdateSP strictUpdate \<in> set (events (Reconcile strictEnv demoKey) demoRun)"
  using strict_facts(1,2,4) strict_facts(3) [unfolded strictEnv_def]
  by (simp_all add: events_def Reconcile_def kGetSP_def call_def bind_def reconcileSP_def buildClient_demo
      addFinalizerStep_def kUpdateSP_def Let_def demoRun_def strictEnv_def strictUpdate_def)

lemma only_refused_status_is_forgotten_witness:
  "(\<exists>w x y. last (events (Reconcile strictEnv demoKey) demoRun) = UpdateSP x \<and> fst (env_UpdateSP strictEnv x w) = Inr y)
   \<or> (\<exists>w x e. last (events (Reconcile strictEnv demoKey) demoRun) = StatusUpdateSP x
        \<and> fst (env_StatusUpdateSP strictEnv x w) = Inl e)"
  using only_refused_status_is_forgotten [OF strict_run(1)] strict_facts(1) by (simp add: strictEnv_def)

lemma update_fills_defaults_witness:
  "\<exists>y d. storeSpec strictEnv (sp_Spec strictUpdate) = Some (sp_Spec y) \<and> oauth2FromSpec y = Returned d \<and> oauth_PKCEPlain d"
proof -
  let ?y = "strictSP\<lparr>sp_Spec := filledSpec (sp_Spec strictSP)\<rparr>"
  have get: "fst (env_GetSP strictEnv demoKey (world demoRun)) = Inr strictSP" by (simp add: strictEnv_def)
  have laws: "finalizer_laws strictEnv" unfolding strictEnv_def by (rule demoEnv_laws)
  have "\<not> refusedSpec (sp_Spec strictSP)"
    by (simp add: refusedSpec_def strictSP_def demo_objects demoOAuth2_def)
  moreover obtain d where "oauth2FromSpec ?y = Returned d"
    by (simp add: strictSP_def demo_objects filledSpec_def oauth2FromSpec_def deref_def)
  ultimately have "storeSpec strictEnv (sp_Spec strictUpdate) = Some (sp_Spec ?y)" "oauth2FromSpec ?y = Returned d"
    using update_fills_defaults [OF laws get strict_run(2)] by simp_all
  with update_fills_defaults [OF laws get strict_run(2)] show ?thesis by blast
qed

lemma statuses_conform_witness:
  "\<exists>x. StatusUpdateInstance x \<in> set (events (reconcileInstance (demoEnv demoSP (demoAnswer 200 [])) demoKey) demoRun)
     \<and> admits instanceStatusS (json_WSO2ISInstanceStatus (\<lambda>t. ''2026-01-01T00:00:00Z'') (inst_Status x))
       = (length (runes (istatus_Message (inst_Status x))) \<le> maxMessage)"
proof -
  let ?K = "demoEnv demoSP (demoAnswer 200 [])"
  obtain es where es: "events (reconcileInstance ?K demoKey) demoRun = [GetInstance demoKey, GetSecret (credentialsKey demoInstance)] @
      (case pings ?K demoInstance (Inr demoSecret) of None \<Rightarrow> [] | Some c \<Rightarrow> attempt ?K (pingRequest c)) @ es"
    "\<exists>x. instanceWrites es = [StatusUpdateInstance x]"
    using reconcileInstance_concludes [OF demoEnv_simps(2) [of demoSP "demoAnswer 200 []"] demoEnv_simps(3),
        where s = demoRun and req = demoKey] unfolding concludes_def by blast
  then obtain x where x: "StatusUpdateInstance x \<in> set (instanceWrites es)" by fastforce
  then have x: "StatusUpdateInstance x \<in> set (events (reconcileInstance ?K demoKey) demoRun)"
    unfolding es by (simp add: instanceWrites_def)
  have "fst (env_GetInstance ?K demoKey (world demoRun)) = Inr demoInstance" by simp
  moreover have "0 \<le> sint (om_Generation (inst_Meta demoInstance))"
    "admits instanceStatusS (json_WSO2ISInstanceStatus (\<lambda>t. ''2026-01-01T00:00:00Z'') (inst_Status demoInstance))"
    by (simp_all add: admits_instanceStatus conditionsOk_def demoInstance_def demoMeta_def)
  moreover have "\<And>w. env_Now ?K w \<noteq> 0" by (simp add: demoEnv_def)
  ultimately show ?thesis
    using statuses_conform [OF demoEnv_laws [of demoSP "demoAnswer 200 []"]] x by blast
qed

section \<open>Deep copies\<close>

text \<open>Metadata whose finalizers are a slice in memory, and its copy.\<close>

definition demoMetav1 :: "(ObjectMeta \<times> window option, unit, unit) metav1" where
  "demoMetav1 =
     \<lparr>mv_Meta_DeepCopyInto = \<lambda>m h. case copyStrings (snd m) h of (fs, h') \<Rightarrow> ((fst m, fs), h'),
      mv_ListMeta_DeepCopyInto = copyValue, mv_Condition_DeepCopyInto = copyValue,
      mv_zeroMeta = (demoMeta [], None), mv_zeroListMeta = ()\<rparr>"

definition demoMetaVal :: "(ObjectMeta \<times> window option, unit, unit) mem \<Rightarrow> ObjectMeta \<times> window option \<Rightarrow> ObjectMeta" where
  "demoMetaVal h m = (fst m)\<lparr>om_Finalizers := strVal h (snd m)\<rparr>"

definition demoMetaRefs :: "(ObjectMeta \<times> window option, unit, unit) mem \<Rightarrow> ObjectMeta \<times> window option \<Rightarrow> nat set" where
  "demoMetaRefs h m = strRefs h (snd m)"

lemma deep_demoMeta: "deep_copying demoMetaVal demoMetaRefs (mv_Meta_DeepCopyInto demoMetav1)"
proof (rule deep_copyingI)
  show "framed demoMetaVal demoMetaRefs"
  proof (rule framedI)
    fix h h' :: "(ObjectMeta \<times> window option, unit, unit) mem" and x
    assume "\<forall>b \<in> demoMetaRefs h x. same_at b h h'"
    then show "demoMetaVal h' x = demoMetaVal h x \<and> demoMetaRefs h' x = demoMetaRefs h x"
      by (simp add: demoMetaVal_def demoMetaRefs_def framed_eq [OF framed_strings, of h _ h'])
  qed
  fix x y :: "ObjectMeta \<times> window option" and h h' :: "(ObjectMeta \<times> window option, unit, unit) mem"
  assume a: "allocated demoMetaRefs h x" and c: "mv_Meta_DeepCopyInto demoMetav1 x h = (y, h')"
  obtain fs where fs: "copyStrings (snd x) h = (fs, h')" "y = (fst x, fs)"
    using c by (auto simp: demoMetav1_def split: prod.splits)
  have "copied strVal strRefs h (snd x) h' fs"
    by (rule copy_field(1) [OF copy_strings fs(1) _ extends_refl]) (use a in \<open>simp add: allocated_def demoMetaRefs_def\<close>)
  then show "copied demoMetaVal demoMetaRefs h x h' y"
    by (simp add: copied_def demoMetaVal_def demoMetaRefs_def fs(2))
qed

lemma deep_copies_are_independent_witness:
  "independent (ptrVal sps_at (spVal demoMetaVal)) (ptrRefs sps_at (spRefs demoMetaRefs)) (WSO2SP_DeepCopy demoMetav1)
   \<and> independent (ptrVal instances_at (instanceVal demoMetaVal)) (ptrRefs instances_at (instanceRefs demoMetaRefs))
        (WSO2ISInstance_DeepCopy demoMetav1)"
proof -
  have l: "deep_copying (\<lambda>h x. x) (\<lambda>h x. {}) (mv_ListMeta_DeepCopyInto demoMetav1)"
    and c: "deep_copying (\<lambda>h x. x) (\<lambda>h x. {}) (mv_Condition_DeepCopyInto demoMetav1)"
    unfolding demoMetav1_def metav1.select_convs by (rule deep_copyValue)+
  show ?thesis using deep_copies_are_independent [OF deep_demoMeta l c] by blast
qed

section \<open>The start\<close>

text \<open>A scheme that is the list of the types added to it.\<close>

definition demoScheme :: "(GroupVersion \<times> goType list, (goType \<times> GVK) list) schemeLib" where
  "demoScheme = \<lparr>sl_Builder = \<lambda>gv. (gv, []), sl_Register = \<lambda>ts (gv, us). (gv, us @ ts),
     sl_AddToScheme = \<lambda>(gv, ts) s. (None, s @ map (\<lambda>t. (t, withKind gv (gt_Name t))) (remdups ts)),
     sl_NewScheme = [], sl_ClientGo = \<lambda>s. (None, s @ [(\<lparr>gt_Package = ''k8s.io/api/core/v1'', gt_Name = ''Secret''\<rparr>,
       \<lparr>gvk_Group = [], gvk_Version = ''v1'', gvk_Kind = ''Secret''\<rparr>)]),
     sl_ObjectKinds = \<lambda>s t. case filter (\<lambda>(u, g). u = t) s of [] \<Rightarrow> Inl ''not registered'' | us \<Rightarrow> Inr (map snd us)\<rparr>"

lemma demoScheme_builds:
  "fold (sl_Register demoScheme) tss (gv, us) = (gv, us @ concat tss)"
  by (induction tss arbitrary: us) (simp_all add: demoScheme_def)

lemma filter_remdups_single: "t \<in> set ts \<Longrightarrow> filter (\<lambda>u. u = t) (remdups ts) = [t]"
  by (induction ts) (auto simp: filter_empty_conv)

lemma demoScheme_laws: "schemeLaws demoScheme"
proof -
  have "sl_ObjectKinds demoScheme s' t = Inr [withKind gv (gt_Name t)]"
    if "sl_AddToScheme demoScheme (fold (sl_Register demoScheme) tss (sl_Builder demoScheme gv)) s = (None, s')"
      "t \<in> set (concat tss)" "sl_ObjectKinds demoScheme s t = Inl e" for gv tss s s' t e
  proof -
    have s': "s' = s @ map (\<lambda>t. (t, withKind gv (gt_Name t))) (remdups (concat tss))"
      using that(1) demoScheme_builds [of tss gv "[]"] by (simp add: demoScheme_def)
    have "filter (\<lambda>(u, g). u = t) s = []"
      using that(3) by (simp add: demoScheme_def split: list.splits)
    then have "filter (\<lambda>(u, g). u = t) s' = [(t, withKind gv (gt_Name t))]"
      using filter_remdups_single [OF that(2)] by (simp add: s' filter_map comp_def)
    then show ?thesis by (simp add: demoScheme_def)
  qed
  then show ?thesis
    unfolding schemeLaws_def by (auto simp: demoScheme_def apiPackage_def)
qed

definition demoTypes :: "(goType \<times> GVK) list" where
  "demoTypes = snd (AddToScheme demoScheme (snd (sl_ClientGo demoScheme [])))"

lemma demo_init: "initScheme demoScheme = Returned demoTypes"
  by (simp add: initScheme_def demoTypes_def AddToScheme_def must_def demoScheme_def split: prod.split)

definition demoStart :: startEnv where
  "demoStart = \<lparr>se_Flags = \<lambda>n. None, se_GetConfig = Inr (), se_NewManager = \<lambda>o'. Inr (),
     se_RESTMapping = \<lambda>g. Inr (), se_SetupController = \<lambda>n. Inr (),
     se_AddHealthzCheck = \<lambda>n. Inr (), se_AddReadyzCheck = \<lambda>n. Inr (), se_Start = Inr ()\<rparr>"

lemma demoStart_simps [simp]:
  "se_GetConfig demoStart = Inr ()" "se_NewManager demoStart opts = Inr ()"
  "se_RESTMapping demoStart g = Inr ()" "se_SetupController demoStart n = Inr ()"
  "se_AddHealthzCheck demoStart n' = Inr ()" "se_AddReadyzCheck demoStart n' = Inr ()" "se_Start demoStart = Inr ()"
  by (simp_all add: demoStart_def)

text \<open>Started with leader election and a bind address.\<close>

definition demoArgs :: "string list" where
  "demoArgs = [''--leader-elect'', ''-metrics-bind-address=:8443'']"

definition demoFlags :: Flags where
  "demoFlags = defaultFlags\<lparr>fl_enableLeaderElection := True, fl_metricsAddr := '':8443''\<rparr>"

lemma demo_parse: "parseFlags (se_Flags demoStart) defaultFlags demoArgs = Inr demoFlags"
  by (simp add: demoArgs_def parseFlags.simps parseOne_def storeFlag_def lookupFlag_def ownFlags_def parseBool_def
      demoFlags_def)

lemma demo_process:
  "process demoScheme demoStart demoArgs = (0, startSequence demoFlags (crdKind ''WSO2ISInstance'') (crdKind ''WSO2SP''))"
  by (simp add: process_def demo_init main_def demo_parse startManager_def andThen_orExit andThen_requireCRD
      orExit_def [of StartManager] startSequence_def initScheme_kinds [OF demoScheme_laws demo_init])

lemma manager_starts_last_witness:
  "prepared demoScheme demoTypes demoStart demoFlags (crdKind ''WSO2ISInstance'') (crdKind ''WSO2SP'')"
proof -
  have "StartManager \<in> set (snd (process demoScheme demoStart demoArgs))" by (simp add: demo_process startSequence_def)
  then show ?thesis
    using manager_starts_last [OF demoScheme_laws, of demoStart demoArgs] by (auto simp: demo_init demo_parse)
qed

end
