(* ===== verification/XmlText.thy ===== *)
theory XmlText
  imports GoXml GoJson
begin

text \<open>
  The text of an XML document determines its tree. A reader of the part of XML that
  \<^verbatim>\<open>encoding/xml\<close> writes (start tags with quoted attributes, end tags, character data, the references
  of its escapes), independent of the writer: it cuts the text into markup, and assembles the tree with a stack of
  open elements. What is in the fields of a message is character data for it, never markup.
\<close>

section \<open>A reader\<close>

datatype markup = Open string "(string \<times> string) list" | Close string | Chars string

datatype xnode = Elem string "(string \<times> string) list" "xnode list" | Text string

definition references :: "(string \<times> string) list" where
  "references = [(''#34'', [CHR 0x22]), (''#39'', [CHR 0x27]), (''amp'', ''&''), (''lt'', ''<''), (''gt'', ''>''),
     (''quot'', [CHR 0x22]), (''apos'', [CHR 0x27]), (''#x9'', [CHR 0x09]), (''#xA'', [CHR 0x0A]), (''#xD'', [CHR 0x0D])]"

text \<open>A text up to a delimiter, and what follows the delimiter.\<close>

definition upTo :: "char \<Rightarrow> string \<Rightarrow> string" where
  "upTo d s = takeWhile (\<lambda>c. c \<noteq> d) s"

definition past :: "char \<Rightarrow> string \<Rightarrow> string" where
  "past d s = drop 1 (dropWhile (\<lambda>c. c \<noteq> d) s)"

lemma length_past: "length (past d s) \<le> length s"
  using length_dropWhile_le [of "\<lambda>c. c \<noteq> d" s] by (simp add: past_def)

lemma upTo_past [simp]:
  "d \<notin> set u \<Longrightarrow> upTo d (u @ d # s) = u" "d \<notin> set u \<Longrightarrow> past d (u @ d # s) = s"
  by (induction u) (auto simp: upTo_def past_def)

function unescape :: "string \<Rightarrow> string option" where
  "unescape [] = Some []"
| "unescape (c # cs) =
     (if c \<noteq> CHR ''&'' then map_option (Cons c) (unescape cs)
      else case map_of references (upTo (CHR '';'') cs) of
          None \<Rightarrow> None
        | Some t \<Rightarrow> map_option (append t) (unescape (past (CHR '';'') cs)))"
  by pat_completeness auto
termination
  by (relation "measure length") (auto simp: length_past le_imp_less_Suc)

text \<open>Attributes: a blank, a name, an equals sign, a quoted value.\<close>

function readAttrs :: "string \<Rightarrow> (string \<times> string) list option" where
  "readAttrs [] = Some []"
| "readAttrs (c # cs) =
     (let v = past (CHR ''='') cs in
      if c \<noteq> CHR '' '' \<or> v = [] \<or> hd v \<noteq> CHR 0x22 \<or> CHR 0x22 \<notin> set (tl v) then None
      else case (unescape (upTo (CHR 0x22) (tl v)), readAttrs (past (CHR 0x22) (tl (past (CHR ''='') cs)))) of
          (Some x, Some as) \<Rightarrow> Some ((upTo (CHR ''='') cs, x) # as)
        | _ \<Rightarrow> None)"
  by pat_completeness auto
termination
proof (relation "measure length")
  fix c :: char and cs v
  have "length (past (CHR 0x22) (tl (past (CHR ''='') cs))) \<le> length (tl (past (CHR ''='') cs))" by (rule length_past)
  also have "\<dots> \<le> length cs" using length_past [of "CHR ''=''" cs] by simp
  finally show "(past (CHR 0x22) (tl (past (CHR ''='') cs)), c # cs) \<in> measure length" by simp
qed simp

definition readTag :: "string \<Rightarrow> markup option" where
  "readTag s =
     (if s \<noteq> [] \<and> hd s = CHR ''/'' then Some (Close (tl s))
      else map_option (Open (takeWhile (\<lambda>c. c \<noteq> CHR '' '') s)) (readAttrs (dropWhile (\<lambda>c. c \<noteq> CHR '' '') s)))"

function lexXml :: "string \<Rightarrow> markup list option" where
  "lexXml [] = Some []"
| "lexXml (c # cs) =
     (if c = CHR ''<'' then
        (if CHR ''>'' \<notin> set cs then None
         else case (readTag (upTo (CHR ''>'') cs), lexXml (past (CHR ''>'') cs)) of
             (Some m, Some ms) \<Rightarrow> Some (m # ms)
           | _ \<Rightarrow> None)
      else
        (case (unescape (c # takeWhile (\<lambda>c. c \<noteq> CHR ''<'') cs), lexXml (dropWhile (\<lambda>c. c \<noteq> CHR ''<'') cs)) of
             (Some t, Some ms) \<Rightarrow> Some (Chars t # ms)
           | _ \<Rightarrow> None))"
  by pat_completeness auto
termination
  by (relation "measure length") (auto simp: length_past le_imp_less_Suc length_dropWhile_le)

text \<open>The open elements with what came before them, innermost first, and the nodes read so far, last first.\<close>

fun assemble :: "(string \<times> (string \<times> string) list \<times> xnode list) list \<Rightarrow> xnode list \<Rightarrow> markup list
    \<Rightarrow> xnode list option" where
  "assemble [] acc [] = Some (rev acc)"
| "assemble (e # st) acc [] = None"
| "assemble st acc (Chars t # ms) = assemble st (Text t # acc) ms"
| "assemble st acc (Open n as # ms) = assemble ((n, as, acc) # st) [] ms"
| "assemble [] acc (Close n # ms) = None"
| "assemble ((n, as, up) # st) acc (Close n' # ms) =
     (if n = n' then assemble st (Elem n as (rev acc) # up) ms else None)"

text \<open>A document: the XML declaration and one element.\<close>

definition readDoc :: "string \<Rightarrow> xnode option" where
  "readDoc s =
     (if take (length xmlHeader) s \<noteq> xmlHeader then None
      else case lexXml (drop (length xmlHeader) s) of
          None \<Rightarrow> None
        | Some ms \<Rightarrow> (case assemble [] [] ms of Some [x] \<Rightarrow> Some x | _ \<Rightarrow> None))"

section \<open>What it reads\<close>

text \<open>A text as XML can carry it: what is not a character of XML becomes U+FFFD.\<close>

definition cleanRune :: "nat \<times> string \<Rightarrow> string" where
  "cleanRune p = (if \<not> inXmlRange (fst p) \<or> bad_rune p then [CHR 0xEF, CHR 0xBF, CHR 0xBD] else snd p)"

definition xmlClean :: "string \<Rightarrow> string" where
  "xmlClean s = concat (map cleanRune (runes s))"

definition cleanAttrs :: "(string \<times> string) list \<Rightarrow> (string \<times> string) list" where
  "cleanAttrs as = map (\<lambda>a. (fst a, xmlClean (snd a))) as"

text \<open>The tree of a message, with the line breaks of the indentation.\<close>

fun node :: "nat \<Rightarrow> xout \<Rightarrow> xnode" where
  "node d (XLeaf n as t) = Elem n (cleanAttrs as) (if t = [] then [] else [Text (xmlClean t)])"
| "node d (XNode n as []) = Elem n (cleanAttrs as) []"
| "node d (XNode n as (k # ks)) = Elem n (cleanAttrs as)
     (concat (map (\<lambda>x. [Text (newline (Suc d)), node (Suc d) x]) (k # ks)) @ [Text (newline d)])"

definition plainName :: "string \<Rightarrow> bool" where
  "plainName n \<longleftrightarrow> n \<noteq> [] \<and> list_all (\<lambda>c. c \<notin> set '' />='') n"

fun plainNames :: "xout \<Rightarrow> bool" where
  "plainNames (XLeaf n as t) = (plainName n \<and> list_all (\<lambda>a. plainName (fst a)) as)"
| "plainNames (XNode n as ks) = (plainName n \<and> list_all (\<lambda>a. plainName (fst a)) as \<and> list_all plainNames ks)"

section \<open>Escapes\<close>

lemma bytes_high:
  assumes "decodeRune (c # s) = (r, n)" "(r, n) \<noteq> (rune_error, 1)" "128 \<le> byte c"
  shows "\<forall>d \<in> set (take n (c # s)). 128 \<le> byte d"
proof -
  note cont = second_range_bounds
  consider "194 \<le> byte c" "byte c < 224" | "224 \<le> byte c" "byte c < 240"
    | "240 \<le> byte c" "byte c < 245" | "128 \<le> byte c \<and> byte c < 194 \<or> 245 \<le> byte c"
    using assms(3) by linarith
  then show ?thesis
  proof cases
    case 1
    with decode_two [OF assms(1) 1] assms(2,3) cont show ?thesis by auto
  next
    case 2
    with decode_three [OF assms(1) 2] assms(2,3) cont show ?thesis by (auto simp: is_cont_def numeral_3_eq_3)
  next
    case 3
    with decode_four [OF assms(1) 3] assms(2,3) cont show ?thesis by (auto simp: is_cont_def)
  next
    case 4
    with decode_other [OF assms(1)] assms(2) show ?thesis by blast
  qed
qed

text \<open>A rune that is neither bad nor ASCII has no ASCII byte.\<close>

definition plainRune :: "nat \<times> string \<Rightarrow> bool" where
  "plainRune p \<longleftrightarrow> bad_rune p \<or> (\<exists>c. snd p = [c] \<and> byte c < 128 \<and> fst p = byte c)
     \<or> 128 \<le> fst p \<and> snd p \<noteq> [] \<and> (\<forall>d \<in> set (snd p). 128 \<le> byte d)"

lemma plainRune_runes: "p \<in> set (runes s) \<Longrightarrow> plainRune p"
proof (induction s rule: runes.induct)
  case 1
  then show ?case by simp
next
  case (2 c s)
  obtain r n where d: "decodeRune (c # s) = (r, n)" by force
  have "plainRune (r, take n (c # s))"
  proof (cases "byte c < 128 \<or> (r, n) = (rune_error, 1)")
    case True
    with decode_one [OF d] show ?thesis by (auto simp: plainRune_def bad_rune_def)
  next
    case False
    have "128 \<le> r" using seg_ok_decode [OF d] False
      by (auto simp: seg_ok_def bad_rune_def rune_error_def take_Cons' split: if_splits)
    with False bytes_high [OF d] decodeRune_pos [of "c # s"] d show ?thesis by (auto simp: plainRune_def take_Cons')
  qed
  with "2.prems" "2.IH" [OF d [symmetric] refl] d show ?case by auto
qed

definition delimiters :: string where
  "delimiters = [CHR ''<'', CHR ''>'', CHR 0x22]"

lemma byte_ascii: "c \<in> set (CHR ''&'' # delimiters) \<Longrightarrow> byte c < 128"
  by (auto simp: delimiters_def byte_def)

lemma unescape_plain: "CHR ''&'' \<notin> set w \<Longrightarrow> unescape (w @ t) = map_option (append w) (unescape t)"
  by (induction w) (auto simp: option.map_comp o_def option.map_id0 [unfolded id_def] cong: map_option_cong)

lemma unescape_reference:
  assumes "map_of references r = Some t" "CHR '';'' \<notin> set r"
  shows "unescape (CHR ''&'' # r @ CHR '';'' # s) = map_option (append t) (unescape s)"
  using assms by simp

lemma escaped_specials:
  "xmlEscRune (34, w) = ''&#34;''" "xmlEscRune (39, w) = ''&#39;''" "xmlEscRune (38, w) = ''&amp;''"
  "xmlEscRune (60, w) = ''&lt;''" "xmlEscRune (62, w) = ''&gt;''" "xmlEscRune (9, w) = ''&#x9;''"
  "xmlEscRune (10, w) = ''&#xA;''" "xmlEscRune (13, w) = ''&#xD;''"
  by (simp_all add: xmlEscRune_def)

lemma unescape_specials:
  "unescape (''&#34;'' @ s) = map_option (append [CHR 0x22]) (unescape s)"
  "unescape (''&#39;'' @ s) = map_option (append [CHR 0x27]) (unescape s)"
  "unescape (''&amp;'' @ s) = map_option (append ''&'') (unescape s)"
  "unescape (''&lt;'' @ s) = map_option (append ''<'') (unescape s)"
  "unescape (''&gt;'' @ s) = map_option (append ''>'') (unescape s)"
  "unescape (''&#x9;'' @ s) = map_option (append [CHR 0x09]) (unescape s)"
  "unescape (''&#xA;'' @ s) = map_option (append [CHR 0x0A]) (unescape s)"
  "unescape (''&#xD;'' @ s) = map_option (append [CHR 0x0D]) (unescape s)"
  using unescape_reference [of "''#34''"] unescape_reference [of "''#39''"] unescape_reference [of "''amp''"]
    unescape_reference [of "''lt''"] unescape_reference [of "''gt''"] unescape_reference [of "''#x9''"]
    unescape_reference [of "''#xA''"] unescape_reference [of "''#xD''"]
  by (simp_all add: references_def del: unescape.simps)

definition specials :: "nat set" where
  "specials = {34, 39, 38, 60, 62, 9, 10, 13}"

lemma plainRune_special:
  assumes "plainRune p" "fst p \<in> specials"
  obtains c where "p = (byte c, [c])" "byte c \<in> specials"
  using assms that by (cases p) (auto simp: plainRune_def bad_rune_def rune_error_def specials_def)

lemma char_specials:
  assumes "byte c \<in> specials"
  shows "c \<in> {CHR 0x22, CHR 0x27, CHR ''&'', CHR ''<'', CHR ''>'', CHR 0x09, CHR 0x0A, CHR 0x0D}"
proof -
  have "byte c \<in> byte ` {CHR 0x22, CHR 0x27, CHR ''&'', CHR ''<'', CHR ''>'', CHR 0x09, CHR 0x0A, CHR 0x0D}"
    using assms by (simp add: specials_def byte_def)
  then show ?thesis by (auto simp: byte_inject)
qed

lemma byte_specials:
  "byte CHR 0x22 = 34" "byte CHR 0x27 = 39" "byte CHR ''&'' = 38" "byte CHR ''<'' = 60" "byte CHR ''>'' = 62"
  "byte CHR 0x09 = 9" "byte CHR 0x0A = 10" "byte CHR 0x0D = 13"
  by (simp_all add: byte_def)

lemma unescape_rune:
  assumes "plainRune p"
  shows "unescape (xmlEscRune p @ t) = map_option (append (cleanRune p)) (unescape t)"
proof (cases "fst p \<in> specials")
  case True
  obtain c where c: "p = (byte c, [c])" "byte c \<in> specials" by (rule plainRune_special [OF assms True])
  have "cleanRune p = [c]" using c by (auto simp: cleanRune_def specials_def inXmlRange_def bad_rune_def rune_error_def)
  with char_specials [OF c(2)] show ?thesis
    unfolding c(1) by (elim insertE emptyE) (simp_all only: byte_specials escaped_specials unescape_specials)
next
  case False
  then have "xmlEscRune p = cleanRune p"
    by (auto simp: xmlEscRune_def cleanRune_def specials_def Let_def)
  moreover have "CHR ''&'' \<notin> set (cleanRune p)"
    using assms False by (auto simp: cleanRune_def plainRune_def specials_def byte_specials(3) dest: bspec)
  ultimately show ?thesis by (metis unescape_plain)
qed

lemma unescape_escape: "unescape (xmlEscape s) = Some (xmlClean s)"
proof -
  have "unescape (concat (map xmlEscRune ps)) = Some (concat (map cleanRune ps))" if "\<forall>p \<in> set ps. plainRune p" for ps
    using that by (induction ps) (simp_all add: unescape_rune)
  then show ?thesis
    using plainRune_runes by (simp add: xmlEscape_def xmlClean_def)
qed

lemma escaped_delimiters: "set (xmlEscape s) \<inter> set delimiters = {}"
proof -
  have "set (xmlEscRune p) \<inter> set delimiters = {}" if "plainRune p" for p
  proof (cases "fst p \<in> specials")
    case True
    then show ?thesis
      by (cases p) (auto simp: specials_def escaped_specials delimiters_def)
  next
    case False
    then have "xmlEscRune p = cleanRune p"
      by (auto simp: xmlEscRune_def cleanRune_def specials_def Let_def)
    with that False show ?thesis
      by (auto simp: cleanRune_def plainRune_def specials_def delimiters_def byte_specials dest: bspec)
  qed
  with plainRune_runes show ?thesis by (fastforce simp: xmlEscape_def)
qed

section \<open>Tags and texts\<close>

lemma clean_Nil [simp]: "xmlClean s = [] \<longleftrightarrow> s = []"
proof -
  have "cleanRune p \<noteq> []" if "plainRune p" for p
    using that by (auto simp: cleanRune_def plainRune_def)
  then have "xmlClean s = [] \<longleftrightarrow> runes s = []"
    using plainRune_runes [of _ s] by (cases "runes s") (auto simp: xmlClean_def)
  also have "\<dots> \<longleftrightarrow> s = []" by (cases s) (simp_all add: Let_def split: prod.split)
  finally show ?thesis .
qed

lemma escape_Nil [simp]: "xmlEscape s = [] \<longleftrightarrow> s = []"
proof
  assume "xmlEscape s = []"
  with unescape_escape [of s] have "xmlClean s = []" by simp
  then show "s = []" by simp
qed (simp add: xmlEscape_def)

lemma escape_empty [simp]: "xmlEscape [] = []"
  by simp

lemma plainName_avoids:
  "plainName n \<Longrightarrow> CHR ''='' \<notin> set n" "plainName n \<Longrightarrow> CHR ''>'' \<notin> set n" "plainName n \<Longrightarrow> CHR '' '' \<notin> set n"
  "plainName n \<Longrightarrow> CHR ''/'' \<notin> set n" "plainName n \<Longrightarrow> n \<noteq> []"
  by (auto simp: plainName_def list_all_iff)

lemma escape_avoids:
  "CHR ''<'' \<notin> set (xmlEscape s)" "CHR ''>'' \<notin> set (xmlEscape s)" "CHR 0x22 \<notin> set (xmlEscape s)"
  using escaped_delimiters [of s] by (auto simp: delimiters_def)

lemma readAttrs_xmlAttrs:
  "list_all (\<lambda>a. plainName (fst a)) as \<Longrightarrow> readAttrs (xmlAttrs as) = Some (cleanAttrs as)"
proof (induction as)
  case Nil
  then show ?case by (simp add: xmlAttrs_def cleanAttrs_def)
next
  case (Cons a as)
  obtain n v where a: "a = (n, v)" by (cases a)
  have n: "plainName n" and IH: "readAttrs (xmlAttrs as) = Some (cleanAttrs as)"
    using Cons by (simp_all add: a)
  let ?q = "CHR 0x22"
  have printed: "xmlAttrs (a # as) = CHR '' '' # n @ CHR ''='' # ?q # xmlEscape v @ ?q # xmlAttrs as"
    by (simp add: xmlAttrs_def a)
  show ?case
    unfolding printed using IH plainName_avoids(1) [OF n] escape_avoids(3) [of v]
    by (simp add: unescape_escape cleanAttrs_def a)
qed

lemma split_at:
  assumes "d \<notin> set u" "v = [] \<or> hd v = d"
  shows "takeWhile (\<lambda>c. c \<noteq> d) (u @ v) = u" "dropWhile (\<lambda>c. c \<noteq> d) (u @ v) = v"
  using assms by (induction u) (cases v; auto)+

lemma readTag_open:
  assumes "plainName n" "list_all (\<lambda>a. plainName (fst a)) as"
  shows "readTag (n @ xmlAttrs as) = Some (Open n (cleanAttrs as))"
proof -
  have hd: "hd (n @ xmlAttrs as) \<noteq> CHR ''/''" using plainName_avoids(4,5) [OF assms(1)] by (cases n) auto
  have attrs: "xmlAttrs as = [] \<or> hd (xmlAttrs as) = CHR '' ''" by (cases as) (simp_all add: xmlAttrs_def)
  note split_at [OF plainName_avoids(3) [OF assms(1)] attrs]
  with hd show ?thesis by (simp add: readTag_def readAttrs_xmlAttrs [OF assms(2)])
qed

lemma xmlAttrs_avoids: "list_all (\<lambda>a. plainName (fst a)) as \<Longrightarrow> CHR ''>'' \<notin> set (xmlAttrs as)"
  by (induction as) (auto simp: xmlAttrs_def plainName_avoids(2) escape_avoids)

lemma lex_tag:
  assumes "CHR ''>'' \<notin> set tag" "readTag tag = Some m"
  shows "lexXml (''<'' @ tag @ ''>'' @ s) = map_option (Cons m) (lexXml s)"
  using assms by (simp split: option.split)

lemma lex_openTag:
  assumes "plainName n" "list_all (\<lambda>a. plainName (fst a)) as"
  shows "lexXml (openTag n as @ s) = map_option (Cons (Open n (cleanAttrs as))) (lexXml s)"
  using lex_tag [of "n @ xmlAttrs as" _ s] readTag_open [OF assms] plainName_avoids(2) [OF assms(1)] xmlAttrs_avoids [OF assms(2)]
  by (simp add: openTag_def del: lexXml.simps)

lemma lex_closeTag:
  assumes "plainName n"
  shows "lexXml (closeTag n @ s) = map_option (Cons (Close n)) (lexXml s)"
  using lex_tag [of "CHR ''/'' # n" "Close n" s] plainName_avoids(2) [OF assms]
  by (simp add: closeTag_def readTag_def del: lexXml.simps)

lemma lex_chars:
  assumes "t \<noteq> []" "CHR ''<'' \<notin> set t" "unescape t = Some u"
  shows "lexXml (t @ CHR ''<'' # s) = map_option (Cons (Chars u)) (lexXml (CHR ''<'' # s))"
proof -
  obtain c cs where t: "t = c # cs" using assms(1) by (cases t) auto
  have "takeWhile (\<lambda>c. c \<noteq> CHR ''<'') (cs @ CHR ''<'' # s) = cs"
    "dropWhile (\<lambda>c. c \<noteq> CHR ''<'') (cs @ CHR ''<'' # s) = CHR ''<'' # s"
    using assms(2) unfolding t by (auto intro: split_at)
  moreover have "c \<noteq> CHR ''<''" using assms(2) t by auto
  ultimately show ?thesis
    using assms(3) unfolding t append_Cons lexXml.simps(2) [of c]
    by (simp del: lexXml.simps unescape.simps split: option.split)
qed

text \<open>The markup of a message.\<close>

fun markups :: "nat \<Rightarrow> xout \<Rightarrow> markup list" where
  "markups d (XLeaf n as t) = Open n (cleanAttrs as) # (if t = [] then [] else [Chars (xmlClean t)]) @ [Close n]"
| "markups d (XNode n as []) = [Open n (cleanAttrs as), Close n]"
| "markups d (XNode n as (k # ks)) = Open n (cleanAttrs as) #
     concat (map (\<lambda>x. Chars (newline (Suc d)) # markups (Suc d) x) (k # ks)) @ [Chars (newline d), Close n]"

lemma xmlText_opens: "\<exists>r. xmlText d x = CHR ''<'' # r"
  by (cases "(d, x)" rule: xmlText.cases) (simp_all add: openTag_def)

lemma lex_newline: "lexXml (newline d @ CHR ''<'' # s) = map_option (Cons (Chars (newline d))) (lexXml (CHR ''<'' # s))"
proof (rule lex_chars)
  show "unescape (newline d) = Some (newline d)"
    using unescape_plain [of "newline d" "[]"] by (simp add: newline_def)
qed (auto simp: newline_def)

lemma map_option_append: "map_option (append a) (map_option (append b) x) = map_option (append (a @ b)) x"
  "map_option (Cons m) (map_option (append b) x) = map_option (append (m # b)) x"
  by (cases x; simp)+

lemma lex_kids:
  assumes "\<And>x s. x \<in> set ks \<Longrightarrow> lexXml (xmlText d x @ s) = map_option (append (markups d x)) (lexXml s)"
  shows "lexXml (concat (map (\<lambda>x. newline d @ xmlText d x) ks) @ s) =
    map_option (append (concat (map (\<lambda>x. Chars (newline d) # markups d x) ks))) (lexXml s)"
  using assms
proof (induction ks)
  case Nil
  then show ?case by (cases "lexXml s") simp_all
next
  case (Cons k ks)
  obtain r where r: "xmlText d k = CHR ''<'' # r" using xmlText_opens by blast
  have "lexXml (newline d @ xmlText d k @ s') = map_option (Cons (Chars (newline d))) (lexXml (xmlText d k @ s'))" for s'
    using lex_newline [of d "r @ s'"] by (simp only: r append_Cons)
  with Cons show ?case by (simp del: lexXml.simps add: map_option_append) (cases "lexXml s"; simp)
qed

lemma lex_xmlText: "plainNames x \<Longrightarrow> lexXml (xmlText d x @ s) = map_option (append (markups d x)) (lexXml s)"
proof (induction d x arbitrary: s rule: xmlText.induct)
  case (1 d n as t)
  then have n: "plainName n" "list_all (\<lambda>a. plainName (fst a)) as" by simp_all
  show ?case
  proof (cases "t = []")
    case True
    then show ?thesis
      using lex_openTag [OF n] lex_closeTag [OF n(1)] by (simp add: map_option_append del: lexXml.simps option.map_comp)
        (cases "lexXml s"; simp)
  next
    case False
    have "lexXml (xmlEscape t @ closeTag n @ s) = map_option (Cons (Chars (xmlClean t))) (lexXml (closeTag n @ s))"
      using lex_chars [of "xmlEscape t" "xmlClean t"] False unescape_escape [of t] escape_avoids(1) [of t]
      by (simp add: closeTag_def del: lexXml.simps)
    then show ?thesis
      using lex_openTag [OF n] lex_closeTag [OF n(1)] False
      by (simp del: lexXml.simps option.map_comp) (cases "lexXml s"; simp)
  qed
next
  case (2 d n as)
  then have n: "plainName n" "list_all (\<lambda>a. plainName (fst a)) as" by simp_all
  then show ?case
    using lex_openTag [OF n] lex_closeTag [OF n(1)] by (simp del: lexXml.simps option.map_comp) (cases "lexXml s"; simp)
next
  case (3 d n as k ks)
  then have n: "plainName n" "list_all (\<lambda>a. plainName (fst a)) as" by simp_all
  have kids: "lexXml (xmlText (Suc d) x @ s) = map_option (append (markups (Suc d) x)) (lexXml s)"
    if "x \<in> set (k # ks)" for x s
    using 3 that by (auto simp: list_all_iff)
  have tail: "lexXml (newline d @ closeTag n @ s) = map_option (append [Chars (newline d), Close n]) (lexXml s)"
    using lex_newline [of d "''/'' @ n @ ''>'' @ s"] lex_closeTag [OF n(1), of s]
    by (simp add: closeTag_def del: lexXml.simps option.map_comp) (cases "lexXml s"; simp)
  have body: "lexXml (concat (map (\<lambda>x. newline (Suc d) @ xmlText (Suc d) x) (k # ks)) @ newline d @ closeTag n @ s) =
      map_option (append (concat (map (\<lambda>x. Chars (newline (Suc d)) # markups (Suc d) x) (k # ks))))
        (map_option (append [Chars (newline d), Close n]) (lexXml s))"
    using lex_kids [of "k # ks" "Suc d", OF kids] by (simp only: tail)
  show ?case
    unfolding xmlText.simps(3) markups.simps(3) append_assoc lex_openTag [OF n] body map_option_append by (rule refl)
qed

section \<open>Trees\<close>

lemma assemble_kids:
  assumes "\<And>x st acc ms. x \<in> set ks \<Longrightarrow> assemble st acc (markups d x @ ms) = assemble st (node d x # acc) ms"
  shows "assemble st acc (concat (map (\<lambda>x. Chars (newline d) # markups d x) ks) @ ms) =
    assemble st (rev (concat (map (\<lambda>x. [Text (newline d), node d x]) ks)) @ acc) ms"
  using assms by (induction ks arbitrary: acc) simp_all

lemma assemble_markups: "assemble st acc (markups d x @ ms) = assemble st (node d x # acc) ms"
proof (induction d x arbitrary: st acc ms rule: markups.induct)
  case (3 d n as k ks)
  then have "assemble st acc (markups (Suc d) x @ ms) = assemble st (node (Suc d) x # acc) ms"
    if "x \<in> set (k # ks)" for x st acc ms using that by blast
  note kids = assemble_kids [OF this]
  show ?case
    by (simp only: markups.simps(3) node.simps(3) append_Cons append_Nil append_assoc assemble.simps kids) simp
qed simp_all

text \<open>The text of a message is read as its tree.\<close>

lemma readDoc_xmlText:
  assumes "plainNames x"
  shows "readDoc (xmlHeader @ xmlText 0 x) = Some (node 0 x)"
  using lex_xmlText [OF assms, of 0 "[]"] assemble_markups [of "[]" "[]" 0 x "[]"] by (simp add: readDoc_def)

end
