(* ===== verification/SoapText.thy ===== *)
theory SoapText
  imports XmlText ClientFacts
begin

text \<open>
  The SOAP requests of \<^verbatim>\<open>internal/wso2/client.go\<close> as texts: their bodies are read back as the trees
  the builders made.
\<close>

section \<open>Names of elements\<close>

lemma plainName_literal:
  "plainName (c # cs) \<longleftrightarrow> list_all (\<lambda>c. c \<noteq> CHR '' '' \<and> c \<noteq> CHR ''/'' \<and> c \<noteq> CHR ''>'' \<and> c \<noteq> CHR ''='') (c # cs)"
  by (auto simp: plainName_def list_all_iff)

lemma plain_fields:
  "list_all plainNames (xStr n s) \<longleftrightarrow> plainName n"
  "list_all plainNames (xStrO n s) \<longleftrightarrow> s = [] \<or> plainName n"
  "list_all plainNames (xBool n b) \<longleftrightarrow> plainName n"
  "list_all plainNames (xBoolO n b) \<longleftrightarrow> \<not> b \<or> plainName n"
  "list_all plainNames (xInt n w) \<longleftrightarrow> plainName n"
  "list_all plainNames (xIntO n w) \<longleftrightarrow> w = 0 \<or> plainName n"
  "list_all plainNames (xStrs n ss) \<longleftrightarrow> elems ss = [] \<or> plainName n"
  "list_all plainNames (xStrsNS ns n ss) \<longleftrightarrow> elems ss = [] \<or> plainName n \<and> plainName ''xmlns''"
  "list_all plainNames (xStruct n kids) \<longleftrightarrow> plainName n \<and> list_all plainNames kids"
  by (auto simp: xStr_def xStrO_def xBool_def xBoolO_def xInt_def xIntO_def xStrs_def xStrsNS_def xStruct_def
      list_all_iff)

lemma plain_parts:
  "plainName n \<Longrightarrow> (\<And>v. list_all plainNames (f v)) \<Longrightarrow> list_all plainNames (xPtr n f p)"
  "plainName n \<Longrightarrow> (\<And>v. list_all plainNames (f v)) \<Longrightarrow> list_all plainNames (xSlice n f s)"
  "plainName n \<Longrightarrow> (\<And>v. list_all plainNames (f v)) \<Longrightarrow> list_all plainNames (xPtrSlice n f q)"
  by (auto simp: xPtr_def xSlice_def xPtrSlice_def list_all_iff split: option.split)

lemma plain_envelope:
  "list_all plainNames (f (re_Body x)) \<Longrightarrow> plainNames (xml_RequestEnvelope f x)"
  by (simp add: xml_RequestEnvelope_def plain_fields plainName_literal)

text \<open>The elements of every request struct.\<close>

lemma plain_ClaimRequest [simp]: "list_all plainNames (xml_ClaimRequest x)"
  by (simp add: xml_ClaimRequest_def plain_fields plain_parts plainName_literal)

lemma plain_ClaimMappingRequest [simp]: "list_all plainNames (xml_ClaimMappingRequest x)"
  by (simp add: xml_ClaimMappingRequest_def plain_fields plain_parts plainName_literal)

lemma plain_ClaimConfigRequest [simp]: "list_all plainNames (xml_ClaimConfigRequest x)"
  by (simp add: xml_ClaimConfigRequest_def plain_fields plain_parts plainName_literal)

lemma plain_PropertyRequest [simp]: "list_all plainNames (xml_PropertyRequest x)"
  by (simp add: xml_PropertyRequest_def plain_fields plain_parts plainName_literal)

lemma plain_InboundAuthenticationRequestConfigRequest [simp]: "list_all plainNames (xml_InboundAuthenticationRequestConfigRequest x)"
  by (simp add: xml_InboundAuthenticationRequestConfigRequest_def plain_fields plain_parts plainName_literal)

lemma plain_InboundAuthenticationConfigRequest [simp]: "list_all plainNames (xml_InboundAuthenticationConfigRequest x)"
  by (simp add: xml_InboundAuthenticationConfigRequest_def plain_fields plain_parts plainName_literal)

lemma plain_AuthenticationScriptConfigRequest [simp]: "list_all plainNames (xml_AuthenticationScriptConfigRequest x)"
  by (simp add: xml_AuthenticationScriptConfigRequest_def plain_fields plain_parts plainName_literal)

lemma plain_FederatedAuthenticatiorConfigRequest [simp]: "list_all plainNames (xml_FederatedAuthenticatiorConfigRequest x)"
  by (simp add: xml_FederatedAuthenticatiorConfigRequest_def plain_fields plain_parts plainName_literal)

lemma plain_FederatedIdentityProvidersRequest [simp]: "list_all plainNames (xml_FederatedIdentityProvidersRequest x)"
  by (simp add: xml_FederatedIdentityProvidersRequest_def plain_fields plain_parts plainName_literal)

lemma plain_LocalAuthenticatorConfigRequest [simp]: "list_all plainNames (xml_LocalAuthenticatorConfigRequest x)"
  by (simp add: xml_LocalAuthenticatorConfigRequest_def plain_fields plain_parts plainName_literal)

lemma plain_AuthenticationStepRequest [simp]: "list_all plainNames (xml_AuthenticationStepRequest x)"
  by (simp add: xml_AuthenticationStepRequest_def plain_fields plain_parts plainName_literal)

lemma plain_LocalAndOutboundAuthenticationConfigRequest [simp]: "list_all plainNames (xml_LocalAndOutboundAuthenticationConfigRequest x)"
  by (simp add: xml_LocalAndOutboundAuthenticationConfigRequest_def plain_fields plain_parts plainName_literal)

lemma plain_ServiceProviderRequest [simp]: "list_all plainNames (xml_ServiceProviderRequest x)"
  by (simp add: xml_ServiceProviderRequest_def plain_fields plain_parts plainName_literal)

lemma plain_CreateApplicationRequest [simp]: "list_all plainNames (xml_CreateApplicationRequest x)"
  by (simp add: xml_CreateApplicationRequest_def plain_fields plain_parts plainName_literal)

lemma plain_CreateApplicationBody [simp]: "list_all plainNames (xml_CreateApplicationBody x)"
  by (simp add: xml_CreateApplicationBody_def plain_fields plain_parts plainName_literal)

lemma plain_GetApplicationRequest [simp]: "list_all plainNames (xml_GetApplicationRequest x)"
  by (simp add: xml_GetApplicationRequest_def plain_fields plain_parts plainName_literal)

lemma plain_GetApplicationBody [simp]: "list_all plainNames (xml_GetApplicationBody x)"
  by (simp add: xml_GetApplicationBody_def plain_fields plain_parts plainName_literal)

lemma plain_UpdateApplicationRequest [simp]: "list_all plainNames (xml_UpdateApplicationRequest x)"
  by (simp add: xml_UpdateApplicationRequest_def plain_fields plain_parts plainName_literal)

lemma plain_UpdateApplicationBody [simp]: "list_all plainNames (xml_UpdateApplicationBody x)"
  by (simp add: xml_UpdateApplicationBody_def plain_fields plain_parts plainName_literal)

lemma plain_DeleteApplicationRequest [simp]: "list_all plainNames (xml_DeleteApplicationRequest x)"
  by (simp add: xml_DeleteApplicationRequest_def plain_fields plain_parts plainName_literal)

lemma plain_DeleteApplicationBody [simp]: "list_all plainNames (xml_DeleteApplicationBody x)"
  by (simp add: xml_DeleteApplicationBody_def plain_fields plain_parts plainName_literal)

lemma plain_OAuthApplication [simp]: "list_all plainNames (xml_OAuthApplication x)"
  by (simp add: xml_OAuthApplication_def plain_fields plain_parts plainName_literal)

lemma plain_RegisterOAuthApplicationDataRequest [simp]: "list_all plainNames (xml_RegisterOAuthApplicationDataRequest x)"
  by (simp add: xml_RegisterOAuthApplicationDataRequest_def plain_fields plain_parts plainName_literal)

lemma plain_RegisterOAuthBody [simp]: "list_all plainNames (xml_RegisterOAuthBody x)"
  by (simp add: xml_RegisterOAuthBody_def plain_fields plain_parts plainName_literal)

lemma plain_GetOAuthApplicationDataByAppNameRequest [simp]: "list_all plainNames (xml_GetOAuthApplicationDataByAppNameRequest x)"
  by (simp add: xml_GetOAuthApplicationDataByAppNameRequest_def plain_fields plain_parts plainName_literal)

lemma plain_GetOAuthBody [simp]: "list_all plainNames (xml_GetOAuthBody x)"
  by (simp add: xml_GetOAuthBody_def plain_fields plain_parts plainName_literal)

lemma plain_UpdateConsumerApplicationRequest [simp]: "list_all plainNames (xml_UpdateConsumerApplicationRequest x)"
  by (simp add: xml_UpdateConsumerApplicationRequest_def plain_fields plain_parts plainName_literal)

lemma plain_UpdateOAuthBody [simp]: "list_all plainNames (xml_UpdateOAuthBody x)"
  by (simp add: xml_UpdateOAuthBody_def plain_fields plain_parts plainName_literal)

lemma plain_SAMLSSOServiceProviderDTORequest [simp]: "list_all plainNames (xml_SAMLSSOServiceProviderDTORequest x)"
  by (simp add: xml_SAMLSSOServiceProviderDTORequest_def plain_fields plain_parts plainName_literal)

lemma plain_CreateSAMLApplicationRequest [simp]: "list_all plainNames (xml_CreateSAMLApplicationRequest x)"
  by (simp add: xml_CreateSAMLApplicationRequest_def plain_fields plain_parts plainName_literal)

lemma plain_CreateSAMLApplicationBody [simp]: "list_all plainNames (xml_CreateSAMLApplicationBody x)"
  by (simp add: xml_CreateSAMLApplicationBody_def plain_fields plain_parts plainName_literal)

lemma plain_UpdateRPServiceProviderRequest [simp]: "list_all plainNames (xml_UpdateRPServiceProviderRequest x)"
  by (simp add: xml_UpdateRPServiceProviderRequest_def plain_fields plain_parts plainName_literal)

lemma plain_UpdateSAMLSPBody [simp]: "list_all plainNames (xml_UpdateSAMLSPBody x)"
  by (simp add: xml_UpdateSAMLSPBody_def plain_fields plain_parts plainName_literal)

lemma plain_GetServiceProviderRequest [simp]: "list_all plainNames (xml_GetServiceProviderRequest x)"
  by (simp add: xml_GetServiceProviderRequest_def plain_fields plain_parts plainName_literal)

lemma plain_GetServiceProviderBody [simp]: "list_all plainNames (xml_GetServiceProviderBody x)"
  by (simp add: xml_GetServiceProviderBody_def plain_fields plain_parts plainName_literal)

lemma plain_RemoveServiceProviderRequest [simp]: "list_all plainNames (xml_RemoveServiceProviderRequest x)"
  by (simp add: xml_RemoveServiceProviderRequest_def plain_fields plain_parts plainName_literal)

lemma plain_RemoveSAMLSPBody [simp]: "list_all plainNames (xml_RemoveSAMLSPBody x)"
  by (simp add: xml_RemoveSAMLSPBody_def plain_fields plain_parts plainName_literal)

section \<open>Requests\<close>

text \<open>The request has a body, and the body is read as the tree.\<close>

definition carries :: "HttpRequest \<Rightarrow> xout \<Rightarrow> bool" where
  "carries q x \<longleftrightarrow> (\<exists>b. hr_Body q = Some b \<and> readDoc b = Some (node 0 x))"

lemma carries_soapCall:
  "list_all plainNames (f (re_Body x)) \<Longrightarrow> carries (soapCall c act path (xml_RequestEnvelope f x)) (xml_RequestEnvelope f x)"
  by (simp add: carries_def soapCall_def request_def readDoc_xmlText plain_envelope)

text \<open>A text of characters that XML can carry is carried as it is.\<close>

lemma clean_valid: "\<forall>p \<in> set (runes s). inXmlRange (fst p) \<and> \<not> bad_rune p \<Longrightarrow> xmlClean s = s"
proof -
  assume "\<forall>p \<in> set (runes s). inXmlRange (fst p) \<and> \<not> bad_rune p"
  then have "xmlClean s = concat (map snd (runes s))"
    unfolding xmlClean_def by (intro arg_cong [where f = concat] map_cong) (auto simp: cleanRune_def)
  then show ?thesis by (simp add: concat_runes)
qed

text \<open>
  C17. Nothing in a spec, in metadata or in an answer of the server can change the structure of a SOAP
  request: whatever texts the fields have, a reader of XML finds in the body of every request of the
  client exactly the tree that the builder made, with the texts of the fields as character data
  (where a character that XML cannot carry became U+FFFD). In particular the body is well-formed.
\<close>

theorem soap_bodies_read_back:
  "carries (createRequest c a) (xml_RequestEnvelope xml_CreateApplicationBody (buildCreateApplication a))
   \<and> carries (updateRequest c a) (xml_RequestEnvelope xml_UpdateApplicationBody (buildUpdateApplication a))
   \<and> carries (getRequest c name) (xml_RequestEnvelope xml_GetApplicationBody (buildGetApplication name))
   \<and> carries (deleteRequest c name) (xml_RequestEnvelope xml_DeleteApplicationBody (buildDeleteApplication name))
   \<and> carries (createOAuthRequest c name o2) (xml_RequestEnvelope xml_RegisterOAuthBody (buildCreateOAuthApplicaiton name o2))
   \<and> carries (updateOAuthRequest c name o2) (xml_RequestEnvelope xml_UpdateOAuthBody (buildUpdateOAuthApplication name o2))
   \<and> carries (getOAuthRequest c name) (xml_RequestEnvelope xml_GetOAuthBody (buildGetOAuthApplication name))
   \<and> carries (createSAMLRequest c cfg) (xml_RequestEnvelope xml_CreateSAMLApplicationBody (buildCreateSAMLApplication cfg))
   \<and> carries (getSAMLRequest c name) (xml_RequestEnvelope xml_GetServiceProviderBody (buildGetSAMLApplication name))
   \<and> carries (removeSAMLRequest c name) (xml_RequestEnvelope xml_RemoveSAMLSPBody (buildRemoveSAMLAPplication name))"
  unfolding soap_requests by (intro conjI carries_soapCall) simp_all

end
