(* ===== verification/Spec2Isabelle.thy ===== *)
theory Spec2Isabelle
  imports Witnesses SoapText
begin

text \<open>
  A model of wso2is-operator, a Kubernetes operator that registers applications on a WSO2 Identity
  Server, and theorems about it.

  \<^bold>\<open>The program.\<close> Two custom resources (\<^verbatim>\<open>api/v1alpha1\<close>): \<^verbatim>\<open>WSO2ISInstance\<close> names a server and the
  secret with its credentials; \<^verbatim>\<open>WSO2SP\<close> describes an application on it, with OAuth2 and SAML
  settings. Two controllers (\<^verbatim>\<open>internal/controller\<close>) reconcile them: the one probes the server and
  records the outcome in the status, the other makes the remote application agree with the spec.
  They talk to the server through a client (\<^verbatim>\<open>internal/wso2/client.go\<close>) that sends SOAP and JSON
  requests, with builders (\<^verbatim>\<open>builder.go\<close>) from the domain types (\<^verbatim>\<open>application.go\<close>, \<^verbatim>\<open>scim.go\<close>) to
  messages (\<^verbatim>\<open>soap.go\<close>) and mappers (\<^verbatim>\<open>mapper.go\<close>) back; SAML settings are derived from metadata
  (\<^verbatim>\<open>saml.go\<close>).

  \<^bold>\<open>The model.\<close> One theory per part:

  \<^item> \<^verbatim>\<open>Prelude\<close>: Go values (slices and maps that may be nil, 64-bit integers), outcomes with panics,
    programs over a state.
  \<^item> \<^verbatim>\<open>GoStrings\<close>, \<^verbatim>\<open>GoJson\<close>, \<^verbatim>\<open>GoXml\<close>, \<^verbatim>\<open>GoHash\<close>: what the code uses of Go's standard library --
    UTF-8 and \<^verbatim>\<open>strings\<close>, the output of \<^verbatim>\<open>encoding/json\<close>, output and field decoding of
    \<^verbatim>\<open>encoding/xml\<close>, SHA-256.
  \<^item> \<^verbatim>\<open>ApiTypes\<close>: the custom resources. \<^verbatim>\<open>Wso2Types\<close>, \<^verbatim>\<open>JsonViews\<close>: the domain types and their JSON.
  \<^item> \<^verbatim>\<open>SoapTypes\<close>, \<^verbatim>\<open>SoapCodec\<close>, \<^verbatim>\<open>SoapFields\<close>: the SOAP messages with their encoders and decoders.
  \<^item> \<^verbatim>\<open>Builder\<close>, \<^verbatim>\<open>Mapper\<close>: \<^verbatim>\<open>builder.go\<close> and \<^verbatim>\<open>mapper.go\<close>, function by function, with the panics.
  \<^item> \<^verbatim>\<open>Runtime\<close>: the environment (API server, HTTP, clock, the text parsers of the library) as a record
    of functions over an unspecified world; every call is logged as an event, and \<open>yields\<close> is the
    logic of what a program may log and return.
  \<^item> \<^verbatim>\<open>Client\<close>, \<^verbatim>\<open>Saml\<close>, \<^verbatim>\<open>Helpers\<close>, \<^verbatim>\<open>InstanceController\<close>, \<^verbatim>\<open>SpController\<close>: \<^verbatim>\<open>client.go\<close>,
    \<^verbatim>\<open>saml.go\<close>, \<^verbatim>\<open>helpers.go\<close> and the two controllers. A pointer that is nil is \<open>None\<close>, an error an
    \<open>Inl\<close>; the object a step has modified through its pointer is part of the step's result.
  \<^item> \<^verbatim>\<open>Memory\<close>, \<^verbatim>\<open>Copying\<close>, \<^verbatim>\<open>DeepCopy\<close>: \<^verbatim>\<open>zz_generated.deepcopy.go\<close> over a memory with one store of
    blocks for each type, with pointers and slices into them; \<^verbatim>\<open>store\<close> is the interface of a store.
    The controllers' model needs no memory: its values are immutable, and \<^verbatim>\<open>DeepCopyFacts\<close> says why a
    deep copy can stand for the value it copies.
  \<^item> \<^verbatim>\<open>Lifecycle\<close>: the stored object of one service provider, its users, and the operator event by
    event, as a step relation. \<^verbatim>\<open>Liveness\<close>, \<^verbatim>\<open>Protocols\<close>: repeated reconciliation in an environment
    that does what it is asked (the interfaces \<^verbatim>\<open>cooperative\<close> and, with OAuth2 and SAML,
    \<^verbatim>\<open>cooperative_protocols\<close>); \<^verbatim>\<open>Operator\<close>: the two controllers side by side, as any sequence of
    their turns (\<^verbatim>\<open>cooperative_operator\<close>). They interact through the status of the instance, which
    the one writes and the other reads first. \<^verbatim>\<open>Simulation\<close> is such an environment, in which the
    operator's own requests and their decoded answers are executed.
  \<^item> \<^verbatim>\<open>Schema\<close>, \<^verbatim>\<open>StoredSpec\<close>, \<^verbatim>\<open>Conformance\<close>: the schemas of the CRDs (\<^verbatim>\<open>config/crd/bases\<close>), what
    they admit and what they fill in, and the JSON of the Go types on its way through them.
  \<^item> \<^verbatim>\<open>Registration\<close>: \<^verbatim>\<open>groupversion_info.go\<close> and the \<^verbatim>\<open>init\<close> functions that fill the scheme.
    \<^verbatim>\<open>Startup\<close>: \<^verbatim>\<open>cmd/main.go\<close>, from the command line to the exit code.

  \<^bold>\<open>The theorems.\<close>

  \<^item> \<^verbatim>\<open>SpFacts\<close>, \<^verbatim>\<open>SpTheorems\<close>: every step of the service-provider controller meets one contract
    (\<open>step_contract\<close>); hence what a reconciliation may write, with whose credentials it talks to whom,
    when the finalizer goes, what paused and not-ready objects cause.
  \<^item> \<^verbatim>\<open>Lifecycle\<close>: what holds of a stored object in every reachable state, with users, refused writes
    and interrupted reconciliations. \<^verbatim>\<open>Liveness\<close>, \<^verbatim>\<open>Protocols\<close>: an object is Ready after four
    reconciliations and one more for each protocol, by a distance to that state that every
    reconciliation reduces, if the operator can come to rest on its OAuth2 settings, and never
    otherwise: the loop that waits for Ready terminates exactly in the first case. \<^verbatim>\<open>Operator\<close>: the
    same for every interleaving with the controller of the instances, and nothing without it.
  \<^item> \<^verbatim>\<open>Wakeups\<close>: after which reconciliations nothing more is scheduled.
  \<^item> \<^verbatim>\<open>StoredSpec\<close>, \<^verbatim>\<open>Conformance\<close>: which spec is stored when the operator updates an object, and which
    statuses the API server accepts.
  \<^item> \<^verbatim>\<open>Robustness\<close>: where a reconciliation can panic and what it has done by then (\<open>careful_step\<close>), and
    how many requests it can send.
  \<^item> \<^verbatim>\<open>HelpersFacts\<close>: what change detection by hashes detects (\<open>detector\<close>, \<open>slice_sorter\<close>).
  \<^item> \<^verbatim>\<open>Wire\<close>, \<^verbatim>\<open>Convergence\<close>, \<^verbatim>\<open>SamlWire\<close>: round trips through a server that answers with what it was
    sent, and for which specs the operator then comes to rest.
  \<^item> \<^verbatim>\<open>XmlText\<close>, \<^verbatim>\<open>SoapText\<close>: a reader of XML texts, and that it finds in every request body the tree
    the builders made, whatever the fields contain.
  \<^item> \<^verbatim>\<open>ClientFacts\<close>, \<^verbatim>\<open>ClientTheorems\<close>: the requests of each operation and what it returns on every answer.
  \<^item> \<^verbatim>\<open>InstanceFacts\<close>: conditions, phases and requests of the instance controller.
  \<^item> \<^verbatim>\<open>SamlFacts\<close>: consumer URLs, logout endpoints and aliases. \<^verbatim>\<open>SecretFacts\<close>: the inbound secret.
  \<^item> \<^verbatim>\<open>DeepCopyFacts\<close>: copies have the value of the original and share no memory with it. \<^verbatim>\<open>Startup\<close>:
    when HTTP/2 is on, and what has happened when the manager starts (\<^verbatim>\<open>Registration\<close>: with which CRDs).
  \<^item> \<^verbatim>\<open>Demo\<close>, \<^verbatim>\<open>Witnesses\<close>: a concrete cluster and server, and one instance of every theorem that has
    hypotheses.

  \<^bold>\<open>Bounds.\<close> No fuel is used: all recursion is structural or has a measure; the loop that waits for
  Ready is a \<open>while_option\<close>, and when it ends is a theorem. Integers are 64-bit words,
  durations 64-bit nanoseconds; at most 4 MB of metadata are read, as in the source. Times are
  integers.

  \<^bold>\<open>Assumptions.\<close> The finalizer functions of \<^verbatim>\<open>controllerutil\<close> do what they document
  (\<open>finalizer_laws\<close>), and so does the scheme (\<open>schemeLaws\<close>). The API server treats a CRD's schema as
  OpenAPI and Kubernetes document it. \<^verbatim>\<open>sort.Slice\<close> is modelled as a stable sort. A server object is unspecified; only
  the round trips assume one, which stores what it was sent, and the three interfaces of cooperation,
  which also say that no call fails. Statements about hashes say \<open>sha256_collision\<close> where they need that there is none. The
  deep copies that \<^verbatim>\<open>metav1\<close> provides are taken to be deep. In \<^verbatim>\<open>Lifecycle\<close> the API server refuses
  outdated updates, a status write changes the status only, an update stores the spec it is sent (the
  defaults the server fills in count as an edit that follows), one object is reconciled by one worker at
  a time which has seen the status and the finalizer it wrote before, and users leave that finalizer
  and the status alone.

  \<^bold>\<open>Not modelled.\<close> The set-up of the logger, log calls, closing of response bodies, and the tests: they
  call libraries and have no logic of their own. Of the schemas, the format of times and the spec of
  \<^verbatim>\<open>WSO2ISInstance\<close>, which no controller writes. The tokenizer of \<^verbatim>\<open>encoding/xml\<close>, the scanner of
  \<^verbatim>\<open>encoding/json\<close>, the parser of \<^verbatim>\<open>net/url\<close>, and controller-runtime's scheme, manager and REST mapper
  are parameters.
\<close>

end
